(* ===== verification/Go_Prelude.thy ===== *)
theory Go_Prelude
  imports Main "HOL-Library.Word"
begin

text \<open>
  The vocabulary every component shares: Go error values (sentinel values, formatted errors,
  wrapping with the \<^verbatim>\<open>%w\<close> verb), functions that return a value and an error, functions that may
  panic, 64-bit integers with their wrap-around, durations, the process environment, and the
  string operations of the standard library the code uses. A Go string is a sequence of bytes,
  here a list of \<^typ>\<open>char\<close>.
\<close>

named_theorems go_error "equations that evaluate error values"
named_theorems go_string "characteristic facts of the string operations"

section \<open>Errors\<close>

text \<open>
  The package level \<^verbatim>\<open>errors.New\<close> values the code compares against. Two calls of
  \<^verbatim>\<open>errors.New\<close> give distinct values, so these are distinct constructors.
\<close>

datatype sentinel = ErrNotFound | ErrEmptyKey | ErrConflict | ErrAlreadyRegistered | ErrUnauthorized

text \<open>
  \<open>Errorf\<close> is an error built on the spot without \<^verbatim>\<open>%w\<close>; \<open>Wrapf p e\<close> is
  \<^verbatim>\<open>fmt.Errorf("p%w", e)\<close> (every \<^verbatim>\<open>%w\<close> of the code stands at the end of its format);
  \<open>Foreign n t\<close> is an error made by code outside the repository: \<open>n\<close> is the name of
  the package level value it is, if any, and \<open>t\<close> its text.
\<close>

datatype goerr =
    Sentinel sentinel
  | Errorf string
  | Wrapf string goerr
  | Foreign string string

fun sentinel_text :: "sentinel \<Rightarrow> string" where
  "sentinel_text ErrNotFound = ''error: not found''"
| "sentinel_text ErrEmptyKey = ''error: empty key''"
| "sentinel_text ErrConflict = ''error: conflict''"
| "sentinel_text ErrAlreadyRegistered = ''registration failed: already registered''"
| "sentinel_text ErrUnauthorized = ''unauthorized''"

text \<open>The text an error prints: the \<^verbatim>\<open>Error\<close> method.\<close>

fun err_text :: "goerr \<Rightarrow> string" where
  "err_text (Sentinel s) = sentinel_text s"
| "err_text (Errorf t) = t"
| "err_text (Wrapf p e) = p @ err_text e"
| "err_text (Foreign n t) = t"

text \<open>\<^verbatim>\<open>errors.Is\<close>: the target is looked for along the chain of wrapped errors.\<close>

fun errors_Is :: "goerr \<Rightarrow> sentinel \<Rightarrow> bool" where
  "errors_Is (Sentinel s) t = (s = t)"
| "errors_Is (Errorf u) t = False"
| "errors_Is (Wrapf p e) t = errors_Is e t"
| "errors_Is (Foreign n u) t = False"

fun errors_Is_foreign :: "goerr \<Rightarrow> string \<Rightarrow> bool" where
  "errors_Is_foreign (Sentinel s) t = False"
| "errors_Is_foreign (Errorf u) t = False"
| "errors_Is_foreign (Wrapf p e) t = errors_Is_foreign e t"
| "errors_Is_foreign (Foreign n u) t = (n = t)"

type_synonym 'a res = "goerr + 'a"

text \<open>
  A call that may panic. The panic of a request's goroutine ends that request only; the value
  is kept apart from the errors the code returns.
\<close>

datatype 'a outcome = Panic string | Done 'a

fun is_ok :: "'a res \<Rightarrow> bool" where
  "is_ok (Inl e) = False"
| "is_ok (Inr x) = True"

lemma is_ok_iff: "is_ok r \<longleftrightarrow> (\<exists>x. r = Inr x)"
  by (cases r) auto

lemma not_is_ok_iff: "\<not> is_ok r \<longleftrightarrow> (\<exists>e. r = Inl e)"
  by (cases r) auto

lemma errors_Is_unique [go_error]: "errors_Is e s \<Longrightarrow> errors_Is e t \<longleftrightarrow> s = t"
  by (induction e) auto

section \<open>64-bit integers and durations\<close>

text \<open>
  Go's \<^verbatim>\<open>int\<close> (on the 64-bit platforms the service is built for) and \<^verbatim>\<open>int64\<close> wrap around in two's
  complement. A value is kept as an \<^typ>\<open>int\<close>, and every operation that can leave the range
  goes through \<open>wrap64\<close>; \<open>wrap64_word\<close> says that this is the signed reading of
  64-bit word arithmetic.
\<close>

definition wrap64 :: "int \<Rightarrow> int" where
  "wrap64 x = (x + 2 ^ 63) mod 2 ^ 64 - 2 ^ 63"

definition int64_range :: "int \<Rightarrow> bool" where
  "int64_range x \<longleftrightarrow> - (2 ^ 63) \<le> x \<and> x < 2 ^ 63"

lemma wrap64_range [simp]: "int64_range (wrap64 x)"
  by (simp add: wrap64_def int64_range_def)

lemma wrap64_id [simp]: "int64_range x \<Longrightarrow> wrap64 x = x"
  by (simp add: wrap64_def int64_range_def)

lemma wrap64_word: "wrap64 x = sint (word_of_int x :: 64 word)"
  by (simp add: wrap64_def sint_sbintrunc' signed_take_bit_eq_take_bit_shift take_bit_eq_mod)

definition mul64 :: "int \<Rightarrow> int \<Rightarrow> int" where
  "mul64 a b = wrap64 (a * b)"

definition add64 :: "int \<Rightarrow> int \<Rightarrow> int" where
  "add64 a b = wrap64 (a + b)"

lemma mul64_range [simp]: "int64_range (mul64 a b)" and add64_range [simp]: "int64_range (add64 a b)"
  by (simp_all add: mul64_def add64_def)

text \<open>Go's integer division truncates towards zero.\<close>

definition quot :: "int \<Rightarrow> int \<Rightarrow> int" where
  "quot a b = sgn a * sgn b * (\<bar>a\<bar> div \<bar>b\<bar>)"

lemma quot_nonneg: "0 \<le> a \<Longrightarrow> 0 < b \<Longrightarrow> quot a b = a div b"
  by (cases "a = 0") (simp_all add: quot_def)

text \<open>\<^verbatim>\<open>time.Duration\<close> counts nanoseconds in an \<^verbatim>\<open>int64\<close>; a \<^verbatim>\<open>time.Time\<close> is a number of nanoseconds.\<close>

type_synonym duration = int
type_synonym instant = int

abbreviation time_Second :: duration where "time_Second \<equiv> 1000000000"
abbreviation time_Minute :: duration where "time_Minute \<equiv> 60000000000"
abbreviation time_Hour :: duration where "time_Hour \<equiv> 3600000000000"

section \<open>The environment and strings\<close>

text \<open>\<^verbatim>\<open>os.Getenv\<close>: an unset variable reads as the empty string.\<close>

type_synonym environ = "string \<Rightarrow> string"

abbreviation devMode :: "environ \<Rightarrow> bool" where
  "devMode env \<equiv> env ''DEV_MODE'' = ''true''"

fun HasPrefix :: "string \<Rightarrow> string \<Rightarrow> bool" where
  "HasPrefix s [] = True"
| "HasPrefix [] (p # ps) = False"
| "HasPrefix (c # s) (p # ps) = (c = p \<and> HasPrefix s ps)"

lemma HasPrefix_iff [go_string]: "HasPrefix s p \<longleftrightarrow> (\<exists>t. s = p @ t)"
  by (induction s p rule: HasPrefix.induct) auto

text \<open>
  Case mapping. \<^verbatim>\<open>strings.ToUpper\<close> and \<^verbatim>\<open>strings.ToLower\<close> are modelled on ASCII; other bytes are left
  alone (the Unicode case tables are not modelled).
\<close>

definition is_lower :: "char \<Rightarrow> bool" where
  "is_lower c \<longleftrightarrow> 97 \<le> (of_char c :: nat) \<and> (of_char c :: nat) \<le> 122"

definition is_upper :: "char \<Rightarrow> bool" where
  "is_upper c \<longleftrightarrow> 65 \<le> (of_char c :: nat) \<and> (of_char c :: nat) \<le> 90"

definition is_digit :: "char \<Rightarrow> bool" where
  "is_digit c \<longleftrightarrow> 48 \<le> (of_char c :: nat) \<and> (of_char c :: nat) \<le> 57"

definition upper_char :: "char \<Rightarrow> char" where
  "upper_char c = (if is_lower c then char_of ((of_char c :: nat) - 32) else c)"

definition lower_char :: "char \<Rightarrow> char" where
  "lower_char c = (if is_upper c then char_of ((of_char c :: nat) + 32) else c)"

definition ToUpper :: "string \<Rightarrow> string" where
  "ToUpper s = map upper_char s"

definition ToLower :: "string \<Rightarrow> string" where
  "ToLower s = map lower_char s"

text \<open>\<^verbatim>\<open>strings.EqualFold\<close>, on ASCII.\<close>

definition EqualFold :: "string \<Rightarrow> string \<Rightarrow> bool" where
  "EqualFold s t \<longleftrightarrow> ToLower s = ToLower t"

lemma ToUpper_append [simp]: "ToUpper (s @ t) = ToUpper s @ ToUpper t"
  by (simp add: ToUpper_def)

lemma length_ToUpper [simp]: "length (ToUpper s) = length s"
  by (simp add: ToUpper_def)

lemma EqualFold_refl [simp]: "EqualFold s s"
  by (simp add: EqualFold_def)

text \<open>\<^verbatim>\<open>strings.Split\<close> with a separator of one byte: always at least one part.\<close>

fun Split :: "string \<Rightarrow> char \<Rightarrow> string list" where
  "Split [] d = [[]]"
| "Split (c # s) d =
     (if c = d then [] # Split s d
      else (case Split s d of [] \<Rightarrow> [[c]] | p # ps \<Rightarrow> (c # p) # ps))"

lemma Split_not_Nil [simp]: "Split s d \<noteq> []"
  by (induction s) (auto split: list.splits)

fun Join :: "string list \<Rightarrow> char \<Rightarrow> string" where
  "Join [] d = []"
| "Join [p] d = p"
| "Join (p # q # ps) d = p @ d # Join (q # ps) d"

lemma Join_Cons: "ps \<noteq> [] \<Longrightarrow> Join (p # ps) d = p @ d # Join ps d"
  by (cases ps) auto

lemma Join_Split [go_string]: "Join (Split s d) d = s"
proof (induction s)
  case Nil
  then show ?case by simp
next
  case (Cons c s)
  obtain p ps where ps: "Split s d = p # ps" by (cases "Split s d") auto
  with Cons show ?case
    by (cases ps) (auto simp: Join_Cons)
qed

lemma Split_parts [go_string]: "p \<in> set (Split s d) \<Longrightarrow> d \<notin> set p"
  by (induction s arbitrary: p) (auto split: if_splits list.splits)

lemma Split_single [go_string]: "d \<notin> set p \<Longrightarrow> Split p d = [p]"
  by (induction p) auto

lemma Split_append [go_string]: "d \<notin> set p \<Longrightarrow> Split (p @ d # s) d = p # Split s d"
  by (induction p) auto

lemma length_Split [go_string]: "length (Split s d) = Suc (count_list s d)"
  by (induction s) (auto split: list.splits)

section \<open>Decimal numbers\<close>

definition digit_val :: "char \<Rightarrow> nat" where
  "digit_val c = of_char c - 48"

definition digit_char :: "nat \<Rightarrow> char" where
  "digit_char n = char_of (48 + n)"

fun dec_acc :: "nat \<Rightarrow> string \<Rightarrow> nat" where
  "dec_acc n [] = n"
| "dec_acc n (c # s) = dec_acc (10 * n + digit_val c) s"

definition dec_val :: "string \<Rightarrow> nat" where
  "dec_val s = dec_acc 0 s"

fun nat_dec :: "nat \<Rightarrow> string" where
  "nat_dec n = (if n < 10 then [digit_char n] else nat_dec (n div 10) @ [digit_char (n mod 10)])"

declare nat_dec.simps [simp del]

text \<open>\<^verbatim>\<open>%d\<close> of an integer.\<close>

definition int_dec :: "int \<Rightarrow> string" where
  "int_dec i = (if i < 0 then CHR ''-'' # nat_dec (nat (- i)) else nat_dec (nat i))"

lemma of_char_digit_char [simp]: "n < 10 \<Longrightarrow> (of_char (digit_char n) :: nat) = 48 + n"
  by (simp add: digit_char_def)

lemma digit_char_eval [simp]:
  "digit_char 0 = CHR ''0''" "digit_char (Suc 0) = CHR ''1''" "digit_char 1 = CHR ''1''"
  "digit_char 2 = CHR ''2''" "digit_char 3 = CHR ''3''" "digit_char 4 = CHR ''4''"
  "digit_char 5 = CHR ''5''" "digit_char 6 = CHR ''6''" "digit_char 7 = CHR ''7''"
  "digit_char 8 = CHR ''8''" "digit_char 9 = CHR ''9''"
  by code_simp+

lemma digit_val_char [simp]: "n < 10 \<Longrightarrow> digit_val (digit_char n) = n"
  by (simp add: digit_val_def)

lemma is_digit_char [simp]: "n < 10 \<Longrightarrow> is_digit (digit_char n)"
  by (simp add: is_digit_def)

lemma dec_acc_append: "dec_acc n (s @ t) = dec_acc (dec_acc n s) t"
  by (induction n s rule: dec_acc.induct) auto

lemma dec_val_nat_dec [simp]: "dec_val (nat_dec n) = n"
proof (induction n rule: nat_dec.induct)
  case (1 n)
  show ?case
  proof (cases "n < 10")
    case True
    then show ?thesis by (simp add: dec_val_def nat_dec.simps [of n])
  next
    case False
    with 1 have "dec_val (nat_dec (n div 10)) = n div 10" by simp
    with False show ?thesis
      by (simp add: dec_val_def nat_dec.simps [of n] dec_acc_append)
  qed
qed

lemma nat_dec_digits: "c \<in> set (nat_dec n) \<Longrightarrow> is_digit c"
proof (induction n rule: nat_dec.induct)
  case (1 n)
  then show ?case
    by (cases "n < 10") (auto simp: nat_dec.simps [of n])
qed

lemma nat_dec_not_Nil [simp]: "nat_dec n \<noteq> []"
  by (simp add: nat_dec.simps [of n])

lemma nat_dec_inject [simp]: "nat_dec m = nat_dec n \<longleftrightarrow> m = n"
  by (metis dec_val_nat_dec)

end
