(* ===== verification/Kv_Store.thy ===== *)
theory Kv_Store
  imports Go_Prelude
begin

text \<open>
  The key-value store of \<^verbatim>\<open>service/store\<close>: the interface \<^verbatim>\<open>Store\<close> as a record of operations, its one
  implementation \<^verbatim>\<open>bitcaskStore\<close> over a database that is a parameter (the package
  \<^verbatim>\<open>git.mills.io/prologic/bitcask\<close> is not part of the repository), the contract of the interface as the
  locale \<open>kv_store\<close>, and the proof that \<^verbatim>\<open>bitcaskStore\<close> meets it. Each method holds the mutex
  for its whole body, so a call is one atomic step on the state of the database.
\<close>

section \<open>The database as a parameter\<close>

text \<open>
  The methods of \<^verbatim>\<open>*bitcask.Bitcask\<close> the code calls, on a database state of any type \<open>'d\<close>.
  An \<open>error\<close> result is \<open>None\<close> for nil.
\<close>

record 'd bitcask =
  db_Has :: "'d \<Rightarrow> string \<Rightarrow> bool"
  db_Get :: "'d \<Rightarrow> string \<Rightarrow> string res"
  db_Put :: "'d \<Rightarrow> string \<Rightarrow> string \<Rightarrow> goerr option \<times> 'd"
  db_Delete :: "'d \<Rightarrow> string \<Rightarrow> goerr option \<times> 'd"
  db_Sync :: "'d \<Rightarrow> goerr option \<times> 'd"
  db_Close :: "'d \<Rightarrow> goerr option \<times> 'd"

abbreviation bitcask_ErrKeyNotFound :: string where
  "bitcask_ErrKeyNotFound \<equiv> ''bitcask.ErrKeyNotFound''"

text \<open>
  What the code relies on: \<open>ct\<close> reads the contents of a database; a write that succeeds has its
  effect and a write that fails has none; an absent key is reported as such; errors of the package
  are not values of this repository.
\<close>

locale bitcask_db =
  fixes bc :: "'d bitcask"
    and ct :: "'d \<Rightarrow> string \<Rightarrow> string option"
  assumes db_has: "db_Has bc d k \<longleftrightarrow> ct d k \<noteq> None"
    and db_get_value: "db_Get bc d k = Inr v \<Longrightarrow> ct d k = Some v"
    and db_get_missing: "db_Get bc d k = Inl e \<Longrightarrow>
      errors_Is_foreign e bitcask_ErrKeyNotFound \<longleftrightarrow> ct d k = None"
    and db_put_ok: "db_Put bc d k v = (None, d') \<Longrightarrow> ct d' = (ct d)(k \<mapsto> v)"
    and db_put_err: "db_Put bc d k v = (Some e, d') \<Longrightarrow> ct d' = ct d"
    and db_delete_ok: "db_Delete bc d k = (None, d') \<Longrightarrow> ct d' = (ct d)(k := None)"
    and db_delete_err: "db_Delete bc d k = (Some e, d') \<Longrightarrow> ct d' = ct d"
    and db_sync: "db_Sync bc d = (r, d') \<Longrightarrow> ct d' = ct d"
    and db_put_foreign: "db_Put bc d k v = (Some e, d') \<Longrightarrow> \<not> errors_Is e s"
    and db_delete_foreign: "db_Delete bc d k = (Some e, d') \<Longrightarrow> \<not> errors_Is e s"
    and db_get_foreign: "db_Get bc d k = Inl e \<Longrightarrow> \<not> errors_Is e s"
    and db_sync_foreign: "db_Sync bc d = (Some e, d') \<Longrightarrow> \<not> errors_Is e s"

section \<open>The interface \<^verbatim>\<open>Store\<close> and its implementation\<close>

record 'd store_ops =
  st_Put :: "'d \<Rightarrow> string \<Rightarrow> string \<Rightarrow> goerr option \<times> 'd"
  st_Set :: "'d \<Rightarrow> string \<Rightarrow> string \<Rightarrow> goerr option \<times> 'd"
  st_Get :: "'d \<Rightarrow> string \<Rightarrow> string res"
  st_Delete :: "'d \<Rightarrow> string \<Rightarrow> goerr option \<times> 'd"
  st_Close :: "'d \<Rightarrow> goerr option \<times> 'd"

definition bitcaskStore_Set :: "'d bitcask \<Rightarrow> 'd \<Rightarrow> string \<Rightarrow> string \<Rightarrow> goerr option \<times> 'd" where
  "bitcaskStore_Set bc d key val =
     (if key = [] then (Some (Sentinel ErrEmptyKey), d)
      else (case db_Put bc d key val of
        (Some err, d1) \<Rightarrow> (Some (Wrapf ''failed to set key: '' err), d1)
      | (None, d1) \<Rightarrow> (case db_Sync bc d1 of
          (Some err, d2) \<Rightarrow> (Some (Wrapf ''failed to sync db: '' err), d2)
        | (None, d2) \<Rightarrow> (None, d2))))"

definition bitcaskStore_Put :: "'d bitcask \<Rightarrow> 'd \<Rightarrow> string \<Rightarrow> string \<Rightarrow> goerr option \<times> 'd" where
  "bitcaskStore_Put bc d key val =
     (if key = [] then (Some (Sentinel ErrEmptyKey), d)
      else if db_Has bc d key then (Some (Sentinel ErrConflict), d)
      else (case db_Put bc d key val of
        (Some err, d1) \<Rightarrow> (Some (Wrapf ''failed to set key: '' err), d1)
      | (None, d1) \<Rightarrow> (case db_Sync bc d1 of
          (Some err, d2) \<Rightarrow> (Some (Wrapf ''failed to sync db: '' err), d2)
        | (None, d2) \<Rightarrow> (None, d2))))"

definition bitcaskStore_Get :: "'d bitcask \<Rightarrow> 'd \<Rightarrow> string \<Rightarrow> string res" where
  "bitcaskStore_Get bc d key =
     (if key = [] then Inl (Sentinel ErrEmptyKey)
      else (case db_Get bc d key of
        Inl err \<Rightarrow>
          if errors_Is_foreign err bitcask_ErrKeyNotFound then Inl (Sentinel ErrNotFound)
          else Inl (Wrapf ''failed to get key: '' err)
      | Inr val \<Rightarrow> Inr val))"

definition bitcaskStore_Delete :: "'d bitcask \<Rightarrow> 'd \<Rightarrow> string \<Rightarrow> goerr option \<times> 'd" where
  "bitcaskStore_Delete bc d key =
     (if key = [] then (Some (Sentinel ErrEmptyKey), d)
      else (case db_Delete bc d key of
        (Some err, d1) \<Rightarrow> (Some (Wrapf ''failed to delete key: '' err), d1)
      | (None, d1) \<Rightarrow> (case db_Sync bc d1 of
          (Some err, d2) \<Rightarrow> (Some (Wrapf ''failed to sync db: '' err), d2)
        | (None, d2) \<Rightarrow> (None, d2))))"

definition bitcaskStore_Close :: "'d bitcask \<Rightarrow> 'd \<Rightarrow> goerr option \<times> 'd" where
  "bitcaskStore_Close bc d =
     (case db_Close bc d of
        (Some err, d1) \<Rightarrow> (Some (Wrapf ''failed to close store: '' err), d1)
      | (None, d1) \<Rightarrow> (None, d1))"

text \<open>The method table of \<^verbatim>\<open>*bitcaskStore\<close> as a value of the interface type.\<close>

definition bitcaskStore :: "'d bitcask \<Rightarrow> 'd store_ops" where
  "bitcaskStore bc =
     \<lparr>st_Put = bitcaskStore_Put bc, st_Set = bitcaskStore_Set bc, st_Get = bitcaskStore_Get bc,
      st_Delete = bitcaskStore_Delete bc, st_Close = bitcaskStore_Close bc\<rparr>"

text \<open>
  \<^verbatim>\<open>newBitcaskStore\<close> and \<^verbatim>\<open>New\<close>: \<open>open_db\<close> stands for \<^verbatim>\<open>bitcask.Open\<close> with the file modes of its two
  options.
\<close>

definition newBitcaskStore ::
  "(string \<Rightarrow> nat \<Rightarrow> nat \<Rightarrow> 'd res) \<Rightarrow> 'd bitcask \<Rightarrow> string \<Rightarrow> ('d store_ops \<times> 'd) res" where
  "newBitcaskStore open_db bc path =
     (case open_db path 448 384 of
        Inl err \<Rightarrow> Inl err
      | Inr d \<Rightarrow> Inr (bitcaskStore bc, d))"

definition store_New ::
  "(string \<Rightarrow> nat \<Rightarrow> nat \<Rightarrow> 'd res) \<Rightarrow> 'd bitcask \<Rightarrow> string \<Rightarrow> ('d store_ops \<times> 'd) res" where
  "store_New open_db bc dataSource = newBitcaskStore open_db bc dataSource"

lemmas bitcaskStore_defs =
  bitcaskStore_def bitcaskStore_Put_def bitcaskStore_Set_def bitcaskStore_Get_def
  bitcaskStore_Delete_def bitcaskStore_Close_def

section \<open>The contract of the interface\<close>

text \<open>
  What a client of \<^verbatim>\<open>Store\<close> may rely on. A successful write has its effect; a failed one never
  touches another key (it may have written its own key: \<^verbatim>\<open>Sync\<close> fails after the write). \<^verbatim>\<open>Put\<close>
  never replaces a value, and \<^verbatim>\<open>ErrConflict\<close> and \<^verbatim>\<open>ErrNotFound\<close> mean what their names say.
\<close>

locale kv_store =
  fixes S :: "'d store_ops"
    and ct :: "'d \<Rightarrow> string \<Rightarrow> string option"
  assumes get_value: "st_Get S d k = Inr v \<Longrightarrow> k \<noteq> [] \<and> ct d k = Some v"
    and get_missing: "st_Get S d k = Inl e \<Longrightarrow> errors_Is e ErrNotFound \<longleftrightarrow> k \<noteq> [] \<and> ct d k = None"
    and put_ok: "st_Put S d k v = (None, d') \<Longrightarrow> k \<noteq> [] \<and> ct d k = None \<and> ct d' = (ct d)(k \<mapsto> v)"
    and put_conflict: "st_Put S d k v = (Some e, d') \<Longrightarrow>
      errors_Is e ErrConflict \<longleftrightarrow> k \<noteq> [] \<and> ct d k \<noteq> None"
    and put_keeps: "st_Put S d k v = (r, d') \<Longrightarrow> ct d k \<noteq> None \<Longrightarrow> d' = d"
    and put_err: "st_Put S d k v = (Some e, d') \<Longrightarrow> ct d' = ct d \<or> ct d' = (ct d)(k \<mapsto> v)"
    and set_ok: "st_Set S d k v = (None, d') \<Longrightarrow> k \<noteq> [] \<and> ct d' = (ct d)(k \<mapsto> v)"
    and set_err: "st_Set S d k v = (Some e, d') \<Longrightarrow> ct d' = ct d \<or> ct d' = (ct d)(k \<mapsto> v)"
    and delete_ok: "st_Delete S d k = (None, d') \<Longrightarrow> k \<noteq> [] \<and> ct d' = (ct d)(k := None)"
    and delete_err: "st_Delete S d k = (Some e, d') \<Longrightarrow> ct d' = ct d \<or> ct d' = (ct d)(k := None)"
begin

lemma put_frame: "st_Put S d k v = (r, d') \<Longrightarrow> j \<noteq> k \<Longrightarrow> ct d' j = ct d j"
  by (cases r) (auto dest: put_ok put_err)

lemma set_frame: "st_Set S d k v = (r, d') \<Longrightarrow> j \<noteq> k \<Longrightarrow> ct d' j = ct d j"
  by (cases r) (auto dest: set_ok set_err)

lemma delete_frame: "st_Delete S d k = (r, d') \<Longrightarrow> j \<noteq> k \<Longrightarrow> ct d' j = ct d j"
  by (cases r) (auto dest: delete_ok delete_err)

text \<open>A write followed by a read of the same key, if the read succeeds, gives the value back.\<close>

lemma get_after_set: "st_Set S d k v = (None, d') \<Longrightarrow> st_Get S d' k = Inr w \<Longrightarrow> w = v"
  by (auto dest!: set_ok get_value)

lemma get_after_put: "st_Put S d k v = (None, d') \<Longrightarrow> st_Get S d' k = Inr w \<Longrightarrow> w = v"
  by (auto dest!: put_ok get_value)

lemma get_after_delete: "st_Delete S d k = (None, d') \<Longrightarrow> st_Get S d' k \<noteq> Inr w"
  by (auto dest!: delete_ok get_value)

end

text \<open>
  \<^verbatim>\<open>bitcaskStore\<close> meets the contract over every database that keeps its own: any lemma of
  \<open>kv_store\<close> is a lemma of \<open>bitcask_db\<close>.
\<close>

sublocale bitcask_db \<subseteq> kv_store "bitcaskStore bc" ct
proof unfold_locales
  fix d k v
  assume "st_Get (bitcaskStore bc) d k = Inr v"
  then show "k \<noteq> [] \<and> ct d k = Some v"
    by (auto simp: bitcaskStore_defs dest: db_get_value split: if_splits sum.splits)
next
  fix d k e
  assume "st_Get (bitcaskStore bc) d k = Inl e"
  then show "errors_Is e ErrNotFound \<longleftrightarrow> k \<noteq> [] \<and> ct d k = None"
    by (auto simp: bitcaskStore_defs db_get_missing db_get_foreign split: if_splits sum.splits)
next
  fix d k v d'
  assume "st_Put (bitcaskStore bc) d k v = (None, d')"
  then show "k \<noteq> [] \<and> ct d k = None \<and> ct d' = (ct d)(k \<mapsto> v)"
    by (auto simp: bitcaskStore_defs db_has db_put_ok db_sync
      split: if_splits option.splits prod.splits)
next
  fix d k v e d'
  assume "st_Put (bitcaskStore bc) d k v = (Some e, d')"
  then show "errors_Is e ErrConflict \<longleftrightarrow> k \<noteq> [] \<and> ct d k \<noteq> None"
    by (auto simp: bitcaskStore_defs db_has db_put_foreign db_sync_foreign
      split: if_splits option.splits prod.splits)
next
  fix d k v r d'
  assume "st_Put (bitcaskStore bc) d k v = (r, d')" and "ct d k \<noteq> None"
  then show "d' = d"
    by (auto simp: bitcaskStore_defs db_has split: if_splits)
next
  fix d k v e d'
  assume "st_Put (bitcaskStore bc) d k v = (Some e, d')"
  then show "ct d' = ct d \<or> ct d' = (ct d)(k \<mapsto> v)"
    by (auto simp: bitcaskStore_defs db_put_ok db_put_err db_sync
      split: if_splits option.splits prod.splits)
next
  fix d k v d'
  assume "st_Set (bitcaskStore bc) d k v = (None, d')"
  then show "k \<noteq> [] \<and> ct d' = (ct d)(k \<mapsto> v)"
    by (auto simp: bitcaskStore_defs db_put_ok db_sync
      split: if_splits option.splits prod.splits)
next
  fix d k v e d'
  assume "st_Set (bitcaskStore bc) d k v = (Some e, d')"
  then show "ct d' = ct d \<or> ct d' = (ct d)(k \<mapsto> v)"
    by (auto simp: bitcaskStore_defs db_put_ok db_put_err db_sync
      split: if_splits option.splits prod.splits)
next
  fix d k d'
  assume "st_Delete (bitcaskStore bc) d k = (None, d')"
  then show "k \<noteq> [] \<and> ct d' = (ct d)(k := None)"
    by (auto simp: bitcaskStore_defs db_delete_ok db_sync
      split: if_splits option.splits prod.splits)
next
  fix d k e d'
  assume "st_Delete (bitcaskStore bc) d k = (Some e, d')"
  then show "ct d' = ct d \<or> ct d' = (ct d)(k := None)"
    by (auto simp: bitcaskStore_defs db_delete_ok db_delete_err db_sync
      split: if_splits option.splits prod.splits)
qed

context bitcask_db
begin

lemma bitcaskStore_kv_store: "kv_store (bitcaskStore bc) ct"
  by (rule kv_store_axioms)

end

section \<open>A database in memory\<close>

text \<open>
  An instance of the parameter, used to evaluate the model on concrete inputs: a map with a
  schedule of faults. Each write or sync consumes the head of the schedule and fails if it is an
  error; an empty schedule never fails.
\<close>

record memdb =
  md_map :: "string \<rightharpoonup> string"
  md_faults :: "string option list"

fun memdb_fault :: "memdb \<Rightarrow> goerr option \<times> memdb" where
  "memdb_fault d =
     (case md_faults d of
        [] \<Rightarrow> (None, d)
      | None # fs \<Rightarrow> (None, d\<lparr>md_faults := fs\<rparr>)
      | Some t # fs \<Rightarrow> (Some (Foreign ''io'' t), d\<lparr>md_faults := fs\<rparr>))"

definition mem_bitcask :: "memdb bitcask" where
  "mem_bitcask =
     \<lparr>db_Has = (\<lambda>d k. md_map d k \<noteq> None),
      db_Get = (\<lambda>d k. case md_map d k of
          None \<Rightarrow> Inl (Foreign bitcask_ErrKeyNotFound ''error: key not found'')
        | Some v \<Rightarrow> Inr v),
      db_Put = (\<lambda>d k v. case memdb_fault d of
          (Some e, d') \<Rightarrow> (Some e, d')
        | (None, d') \<Rightarrow> (None, d'\<lparr>md_map := (md_map d')(k \<mapsto> v)\<rparr>)),
      db_Delete = (\<lambda>d k. case memdb_fault d of
          (Some e, d') \<Rightarrow> (Some e, d')
        | (None, d') \<Rightarrow> (None, d'\<lparr>md_map := (md_map d')(k := None)\<rparr>)),
      db_Sync = memdb_fault,
      db_Close = memdb_fault\<rparr>"

lemma memdb_fault_map: "memdb_fault d = (r, d') \<Longrightarrow> md_map d' = md_map d"
  by (auto split: list.splits option.splits)

lemma memdb_fault_foreign: "memdb_fault d = (Some e, d') \<Longrightarrow> \<not> errors_Is e s"
  by (auto split: list.splits option.splits)

lemma memdb_no_fault [simp]: "md_faults d = [] \<Longrightarrow> memdb_fault d = (None, d)"
  by simp

declare memdb_fault.simps [simp del]

interpretation mem: bitcask_db mem_bitcask md_map
  by unfold_locales
    (auto simp: mem_bitcask_def memdb_fault_map memdb_fault_foreign
      split: option.splits prod.splits)

lemma mem_bitcask_db: "bitcask_db mem_bitcask md_map"
  by (rule mem.bitcask_db_axioms)

section \<open>Properties\<close>

text \<open>
  C23: over every database that behaves as documented, \<^verbatim>\<open>bitcaskStore\<close> implements the interface
  \<^verbatim>\<open>Store\<close>: a read gives what was written, \<^verbatim>\<open>Put\<close> never replaces a value and reports a conflict
  exactly when there is one, \<^verbatim>\<open>ErrNotFound\<close> is returned exactly for absent keys, a failed write
  leaves at most its own key written.
\<close>

theorem bitcaskStore_refines:
  "bitcask_db bc ct \<Longrightarrow> kv_store (bitcaskStore bc) ct"
  by (rule bitcask_db.bitcaskStore_kv_store)

theorem bitcaskStore_refines_witness: "kv_store (bitcaskStore mem_bitcask) md_map"
  by (rule bitcaskStore_refines [OF mem_bitcask_db])

end
