(* ===== verification/Random_Crypto.thy ===== *)
theory Random_Crypto
  imports Go_Prelude
begin

text \<open>
  Random strings, identifiers and key hashes: \<^verbatim>\<open>service/random/crypto.go\<close>, \<^verbatim>\<open>service/random/id.go\<close> and
  \<^verbatim>\<open>service/auth/crypto.go\<close>, with the two encodings of the standard library they use
  (\<^verbatim>\<open>base64.RawURLEncoding\<close>, and \<^verbatim>\<open>base32\<close> with an alphabet of its own). What the random source
  delivers is an argument; \<^verbatim>\<open>bcrypt\<close> is a parameter with its documented behaviour as the
  locale \<open>bcrypt_hash\<close>.
\<close>

type_synonym bytes = "8 word list"

abbreviation byte_vals :: "nat list \<Rightarrow> bool" where
  "byte_vals xs \<equiv> \<forall>x \<in> set xs. x < 256"

section \<open>Base 64 without padding, URL alphabet\<close>

definition b64_alphabet :: string where
  "b64_alphabet = ''ABCDEFGHIJKLMNOPQRSTUVWXYZabcdefghijklmnopqrstuvwxyz0123456789-_''"

definition b64_char :: "nat \<Rightarrow> char" where
  "b64_char n = b64_alphabet ! n"

fun b64_enc :: "nat list \<Rightarrow> string" where
  "b64_enc [] = []"
| "b64_enc [a] = [b64_char (a div 4), b64_char (a mod 4 * 16)]"
| "b64_enc [a, b] =
     [b64_char (a div 4), b64_char (a mod 4 * 16 + b div 16), b64_char (b mod 16 * 4)]"
| "b64_enc (a # b # c # r) =
     b64_char (a div 4) # b64_char (a mod 4 * 16 + b div 16) #
     b64_char (b mod 16 * 4 + c div 64) # b64_char (c mod 64) # b64_enc r"

definition EncodeToString64 :: "bytes \<Rightarrow> string" where
  "EncodeToString64 data = b64_enc (map unat data)"

lemma length_b64_enc: "length (b64_enc xs) = (8 * length xs + 5) div 6"
  by (induction xs rule: b64_enc.induct) auto

lemma length_b64_alphabet [simp]: "length b64_alphabet = 64"
  by (simp add: b64_alphabet_def)

lemma b64_char_alphabet: "n < 64 \<Longrightarrow> b64_char n \<in> set b64_alphabet"
  by (simp add: b64_char_def)

lemma b64_enc_alphabet: "byte_vals xs \<Longrightarrow> set (b64_enc xs) \<subseteq> set b64_alphabet"
proof (induction xs rule: b64_enc.induct)
  case (4 a b c r)
  have "a mod 4 * 16 + b div 16 < 64" and "b mod 16 * 4 + c div 64 < 64"
    using "4.prems" by (auto simp: less_mult_imp_div_less)
  with 4 show ?case by (auto intro!: b64_char_alphabet)
qed (auto intro!: b64_char_alphabet)

text \<open>
  Every text over the alphabet is the beginning of an encoding of enough bytes: three bytes for
  every four characters.
\<close>

lemma b64_sextet: "c \<in> set b64_alphabet \<Longrightarrow> \<exists>n < 64. b64_char n = c"
  by (auto simp: b64_char_def in_set_conv_nth)

lemma b64_three_bytes:
  assumes "s < 64" "t < 64" "u < 64" "v < (64::nat)"
  defines "a \<equiv> s * 4 + t div 16" and "b \<equiv> t mod 16 * 16 + u div 4" and "c \<equiv> u mod 4 * 64 + v"
  shows "a < 256" "b < 256" "c < 256" "a div 4 = s" "a mod 4 * 16 + b div 16 = t"
    "b mod 16 * 4 + c div 64 = u" "c mod 64 = v"
  using assms by auto

lemma b64_enc_whole:
  assumes "set t \<subseteq> set b64_alphabet" and "length t = 4 * k"
  shows "\<exists>xs. length xs = 3 * k \<and> byte_vals xs \<and> b64_enc xs = t"
  using assms
proof (induction k arbitrary: t)
  case 0
  then show ?case by (intro exI [of _ "[]"]) simp
next
  case (Suc k)
  then have "length t = Suc (Suc (Suc (Suc (4 * k))))" by simp
  then obtain p q r s t' where t: "t = p # q # r # s # t'"
    by (auto simp only: length_Suc_conv)
  with Suc.prems obtain xs where xs: "length xs = 3 * k" "byte_vals xs" "b64_enc xs = t'"
    using Suc.IH [of t'] by auto
  from t Suc.prems obtain n1 n2 where 12: "n1 < 64" "n2 < (64::nat)" "b64_char n1 = p" "b64_char n2 = q"
    using b64_sextet [of p] b64_sextet [of q] by auto
  from t Suc.prems obtain n3 n4 where 34: "n3 < 64" "n4 < (64::nat)" "b64_char n3 = r" "b64_char n4 = s"
    using b64_sextet [of r] b64_sextet [of s] by auto
  let ?ys = "(n1 * 4 + n2 div 16) # (n2 mod 16 * 16 + n3 div 4) # (n3 mod 4 * 64 + n4) # xs"
  note bs = b64_three_bytes [OF 12(1,2) 34(1,2)]
  from bs(1-3) xs have "byte_vals ?ys" by simp
  moreover have "b64_enc ?ys = t"
    by (simp only: b64_enc.simps bs 12(3,4) 34(3,4) xs t)
  ultimately show ?case using xs(1) by (intro exI [of _ ?ys]) simp
qed

lemma b64_enc_append: "length xs = 3 * k \<Longrightarrow> b64_enc (xs @ ys) = b64_enc xs @ b64_enc ys"
proof (induction k arbitrary: xs)
  case (Suc k)
  then have "length xs = Suc (Suc (Suc (3 * k)))" by simp
  then obtain a b c xs' where "xs = a # b # c # xs'" "length xs' = 3 * k"
    by (auto simp only: length_Suc_conv)
  with Suc.IH show ?case by simp
qed simp

text \<open>The buffer of \<open>1 + 4 n div 3\<close> bytes is large enough for \<open>n\<close> characters.\<close>

lemma buffer_chars: "n \<le> (8 * (1 + 4 * n div 3) + 5) div (6::nat)"
proof -
  define d where "d = 4 * n div 3"
  have "4 * n \<le> 3 * d + 2" unfolding d_def by linarith
  then have "n * 6 \<le> 8 * (1 + d) + 5" by simp
  then show ?thesis by (simp add: less_eq_div_iff_mult_less_eq d_def)
qed

lemma buffer_groups:
  assumes "n \<noteq> 1"
  shows "3 * ((n + 3) div 4) \<le> 1 + 4 * n div (3::nat)"
proof (cases "n \<le> 3")
  case True
  with assms have "n \<in> {0, 2, 3}" by auto
  then show ?thesis by auto
next
  case False
  have "4 * n \<le> 3 * (4 * n div 3) + 2" "4 * ((n + 3) div 4) \<le> n + 3" by linarith+
  with False show ?thesis by linarith
qed

lemma b64_enc_reaches:
  assumes "set t \<subseteq> set b64_alphabet"
  shows "\<exists>xs. length xs = 1 + 4 * length t div 3 \<and> byte_vals xs \<and> take (length t) (b64_enc xs) = t"
proof (cases "length t = 1")
  case True
  then obtain p where t: "t = [p]" by (auto simp: length_Suc_conv)
  with assms obtain n where "n < 64" "b64_char n = p" using b64_sextet by auto
  with t show ?thesis by (intro exI [of _ "[n * 4, 0]"]) simp
next
  case False
  define k where "k = (length t + 3) div 4"
  define m where "m = 1 + 4 * length t div 3"
  let ?pad = "replicate (4 * k - length t) (b64_char 0)"
  have k: "length t \<le> 4 * k" "3 * k \<le> m"
    unfolding k_def m_def using buffer_groups [OF False] by simp_all
  have "set (t @ ?pad) \<subseteq> set b64_alphabet"
    using assms b64_char_alphabet [of 0] by (auto simp: set_replicate_conv_if)
  moreover have "length (t @ ?pad) = 4 * k" using k by simp
  ultimately obtain xs where xs: "length xs = 3 * k" "byte_vals xs" "b64_enc xs = t @ ?pad"
    using b64_enc_whole by blast
  let ?ys = "xs @ replicate (m - 3 * k) 0"
  have "length ?ys = m" "byte_vals ?ys" using xs k by auto
  moreover have "take (length t) (b64_enc ?ys) = t"
    using xs b64_enc_append [OF xs(1), of "replicate (m - 3 * k) 0"] by simp
  ultimately show ?thesis unfolding m_def by blast
qed

section \<open>Random strings\<close>

text \<open>
  One call of \<^verbatim>\<open>rand.Read\<close> on a buffer of a given length: the count, the error and what the buffer
  then holds.
\<close>

type_synonym rand_read = "nat \<Rightarrow> nat \<times> goerr option \<times> bytes"

text \<open>
  \<^verbatim>\<open>NewSecureString\<close> of the package \<^verbatim>\<open>random\<close>. A negative buffer length or a slice beyond the string
  panics. (A length so large that memory runs out is not modelled.)
\<close>

definition NewSecureString :: "rand_read \<Rightarrow> int \<Rightarrow> string res outcome" where
  "NewSecureString rd len =
     (let n = add64 1 (quot (mul64 len 4) 3)
      in if n < 0 then Panic ''makeslice: len out of range''
         else (case rd (nat n) of (k, err, data) \<Rightarrow>
           (case err of
              Some e \<Rightarrow> Done (Inl e)
            | None \<Rightarrow>
                if k \<noteq> nat n then Done (Inl (Errorf ''failed to read enough data''))
                else (let s = EncodeToString64 data
                      in if len < 0 \<or> int (length s) < len then Panic ''slice bounds out of range''
                         else Done (Inr (take (nat len) s))))))"

text \<open>The package \<^verbatim>\<open>auth\<close> holds the same function under another name.\<close>

definition newRandomString :: "rand_read \<Rightarrow> int \<Rightarrow> string res outcome" where
  "newRandomString rd len =
     (let n = add64 1 (quot (mul64 len 4) 3)
      in if n < 0 then Panic ''makeslice: len out of range''
         else (case rd (nat n) of (k, err, data) \<Rightarrow>
           (case err of
              Some e \<Rightarrow> Done (Inl e)
            | None \<Rightarrow>
                if k \<noteq> nat n then Done (Inl (Errorf ''failed to read enough data''))
                else (let s = EncodeToString64 data
                      in if len < 0 \<or> int (length s) < len then Panic ''slice bounds out of range''
                         else Done (Inr (take (nat len) s))))))"

definition MinKeyLen :: int where
  "MinKeyLen = 32"

definition newRandomToken :: "rand_read \<Rightarrow> string res outcome" where
  "newRandomToken rd = newRandomString rd MinKeyLen"

lemma newRandomString_eq: "newRandomString = NewSecureString"
  by (simp add: fun_eq_iff newRandomString_def NewSecureString_def)

text \<open>The documented behaviour of \<^verbatim>\<open>rand.Read\<close>: the buffer is filled exactly when there is no error.\<close>

definition rand_ok :: "rand_read \<Rightarrow> bool" where
  "rand_ok rd \<longleftrightarrow> (\<forall>n. case rd n of (k, err, data) \<Rightarrow> length data = n \<and> (err = None \<longleftrightarrow> k = n))"

lemma NewSecureString_buffer:
  assumes "0 \<le> len" "len < 2 ^ 61"
  shows "nat (add64 1 (quot (mul64 len 4) 3)) = 1 + 4 * nat len div 3"
    and "0 \<le> add64 1 (quot (mul64 len 4) 3)"
proof -
  have 1: "mul64 len 4 = 4 * len"
    using assms by (simp add: mul64_def int64_range_def)
  have 2: "add64 1 (quot (4 * len) 3) = 1 + 4 * len div 3"
    using assms by (simp add: add64_def int64_range_def quot_nonneg)
  from 1 2 assms show "nat (add64 1 (quot (mul64 len 4) 3)) = 1 + 4 * nat len div 3"
    by (simp add: nat_add_distrib nat_div_distrib nat_mult_distrib)
  from 1 2 assms show "0 \<le> add64 1 (quot (mul64 len 4) 3)" by simp
qed

lemma EncodeToString64_alphabet: "set (EncodeToString64 data) \<subseteq> set b64_alphabet"
  unfolding EncodeToString64_def
proof (rule b64_enc_alphabet)
  show "byte_vals (map unat data)"
    using unsigned_less [where 'b = 8 and 'a = nat] by auto
qed

lemma NewSecureString_result:
  assumes "rand_ok rd" "0 \<le> len" "len < 2 ^ 61"
  shows "NewSecureString rd len =
    (case rd (1 + 4 * nat len div 3) of (k, err, data) \<Rightarrow>
       (case err of Some e \<Rightarrow> Done (Inl e)
        | None \<Rightarrow> Done (Inr (take (nat len) (EncodeToString64 data)))))"
proof -
  obtain k err data where rd: "rd (1 + 4 * nat len div 3) = (k, err, data)"
    by (cases "rd (1 + 4 * nat len div 3)") auto
  with assms(1) have len: "length data = 1 + 4 * nat len div 3"
    and k: "err = None \<longleftrightarrow> k = 1 + 4 * nat len div 3"
    unfolding rand_ok_def by (metis (mono_tags, lifting) case_prod_conv)+
  have "nat len \<le> length (EncodeToString64 data)"
    unfolding EncodeToString64_def length_b64_enc length_map len by (rule buffer_chars)
  then have "\<not> int (length (EncodeToString64 data)) < len" by linarith
  with assms NewSecureString_buffer [OF assms(2,3)] rd k show ?thesis
    by (auto simp: NewSecureString_def Let_def split: option.splits)
qed

text \<open>
  A generated string has exactly the requested length, is made of the URL alphabet only, and
  carries six bits for each character: every text over the alphabet is the result for some
  contents of the buffer.
\<close>

lemma NewSecureString_ok:
  assumes "rand_ok rd" "0 \<le> len" "len < 2 ^ 61" "NewSecureString rd len = Done (Inr s)"
  shows "int (length s) = len \<and> set s \<subseteq> set b64_alphabet"
proof -
  obtain k err data where rd: "rd (1 + 4 * nat len div 3) = (k, err, data)"
    by (cases "rd (1 + 4 * nat len div 3)") auto
  with assms(1) have len: "length data = 1 + 4 * nat len div 3"
    unfolding rand_ok_def by (metis (mono_tags, lifting) case_prod_conv)
  have "nat len \<le> length (EncodeToString64 data)"
    unfolding EncodeToString64_def length_b64_enc length_map len by (rule buffer_chars)
  moreover from assms(4) have "s = take (nat len) (EncodeToString64 data)"
    unfolding NewSecureString_result [OF assms(1-3)] rd by (auto split: option.splits)
  ultimately show ?thesis
    using assms(2) EncodeToString64_alphabet [of data] set_take_subset [of "nat len" "EncodeToString64 data"]
    by auto
qed

lemma EncodeToString64_reaches:
  assumes "set t \<subseteq> set b64_alphabet"
  shows "\<exists>data. length data = 1 + 4 * length t div 3 \<and> take (length t) (EncodeToString64 data) = t"
proof -
  from b64_enc_reaches [OF assms] obtain xs where xs: "length xs = 1 + 4 * length t div 3"
    "byte_vals xs" "take (length t) (b64_enc xs) = t" by blast
  have "map unat (map word_of_nat xs :: bytes) = xs"
    using xs(2) by (auto simp: map_idI unat_of_nat)
  with xs show ?thesis
    by (intro exI [of _ "map word_of_nat xs"]) (simp add: EncodeToString64_def)
qed

section \<open>Identifiers\<close>

text \<open>\<^verbatim>\<open>base32.NewEncoder\<close> with the alphabet of the package and the standard padding.\<close>

definition charset :: string where
  "charset = ''ybndrfg8ejkmcpqxot1uwisza345h769''"

definition b32_char :: "nat \<Rightarrow> char" where
  "b32_char n = charset ! n"

fun b32_enc :: "nat list \<Rightarrow> string" where
  "b32_enc [] = []"
| "b32_enc [a] = [b32_char (a div 8), b32_char (a mod 8 * 4)] @ replicate 6 (CHR ''='')"
| "b32_enc [a, b] =
     [b32_char (a div 8), b32_char (a mod 8 * 4 + b div 64), b32_char (b mod 64 div 2),
      b32_char (b mod 2 * 16)] @ replicate 4 (CHR ''='')"
| "b32_enc [a, b, c] =
     [b32_char (a div 8), b32_char (a mod 8 * 4 + b div 64), b32_char (b mod 64 div 2),
      b32_char (b mod 2 * 16 + c div 16), b32_char (c mod 16 * 2)] @ replicate 3 (CHR ''='')"
| "b32_enc [a, b, c, d] =
     [b32_char (a div 8), b32_char (a mod 8 * 4 + b div 64), b32_char (b mod 64 div 2),
      b32_char (b mod 2 * 16 + c div 16), b32_char (c mod 16 * 2 + d div 128),
      b32_char (d mod 128 div 4), b32_char (d mod 4 * 8)] @ [CHR ''='']"
| "b32_enc (a # b # c # d # e # r) =
     [b32_char (a div 8), b32_char (a mod 8 * 4 + b div 64), b32_char (b mod 64 div 2),
      b32_char (b mod 2 * 16 + c div 16), b32_char (c mod 16 * 2 + d div 128),
      b32_char (d mod 128 div 4), b32_char (d mod 4 * 8 + e div 32), b32_char (e mod 32)] @ b32_enc r"

text \<open>
  \<^verbatim>\<open>NewID\<close>: \<open>uuid\<close> is what \<^verbatim>\<open>uuid.NewRandom\<close> returned (nil is the empty list). Writing to a
  \<^verbatim>\<open>bytes.Buffer\<close> never fails; \<^verbatim>\<open>Truncate\<close> panics beyond the end of the buffer.
\<close>

definition NewID :: "bytes \<Rightarrow> string outcome" where
  "NewID uuid =
     (let b = b32_enc (map unat uuid)
      in if length b < 26 then Panic ''bytes.Buffer: truncation out of range''
         else Done (take 26 b))"

lemma length_charset [simp]: "length charset = 32"
  by (simp add: charset_def)

lemma b32_char_charset: "n < 32 \<Longrightarrow> b32_char n \<in> set charset"
  by (simp add: b32_char_def)

lemma distinct_charset: "distinct charset"
  by (simp add: charset_def)

lemma b32_char_inject: "m < 32 \<Longrightarrow> n < 32 \<Longrightarrow> b32_char m = b32_char n \<longleftrightarrow> m = n"
  by (simp add: b32_char_def nth_eq_iff_index_eq [OF distinct_charset])

lemma bytes_16:
  assumes "length (xs :: 'a list) = 16"
  obtains a b c d e f g h i j k l m n p q where "xs = [a, b, c, d, e, f, g, h, i, j, k, l, m, n, p, q]"
proof -
  from assms have "length xs = Suc (Suc (Suc (Suc (Suc (Suc (Suc (Suc (Suc (Suc (Suc (Suc (Suc (Suc
    (Suc (Suc 0)))))))))))))))" by simp
  then show thesis using that by (auto simp only: length_Suc_conv length_0_conv)
qed

lemma b32_group_bounds:
  assumes "a < 256" "b < 256" "c < 256" "d < 256" "e < (256::nat)"
  shows "a div 8 < 32" "a mod 8 * 4 + b div 64 < 32" "b mod 64 div 2 < 32"
    "b mod 2 * 16 + c div 16 < 32" "c mod 16 * 2 + d div 128 < 32" "d mod 128 div 4 < 32"
    "d mod 4 * 8 + e div 32 < 32" "e mod 32 < 32" "a mod 8 * 4 < 32"
  using assms by auto

text \<open>Two numbers written with two digits are equal when their digits are.\<close>

lemma two_digits:
  assumes "x * n + y = x' * n + y'" "y < n" "y' < (n::nat)"
  shows "x = x'" "y = y'"
proof -
  from assms have "(x * n + y) div n = (x' * n + y') div n" by simp
  with assms(2,3) show "x = x'" by simp
  with assms(1) show "y = y'" by simp
qed

lemma whole_from_parts: "x div n = x' div n \<Longrightarrow> x mod n = x' mod n \<Longrightarrow> x = (x'::nat)"
  by (metis div_mult_mod_eq)

lemma byte_parts:
  assumes "x < (256::nat)"
  shows "x div 64 < 4" "x div 16 < 16" "x div 128 < 2" "x div 32 < 8"
  using assms by auto

lemma b32_group_inject:
  assumes bs: "a < 256" "b < 256" "c < 256" "d < 256" "e < (256::nat)"
    and bs': "a' < 256" "b' < 256" "c' < 256" "d' < 256" "e' < (256::nat)"
    and eq: "a div 8 = a' div 8" "a mod 8 * 4 + b div 64 = a' mod 8 * 4 + b' div 64"
    "b mod 64 div 2 = b' mod 64 div 2" "b mod 2 * 16 + c div 16 = b' mod 2 * 16 + c' div 16"
    "c mod 16 * 2 + d div 128 = c' mod 16 * 2 + d' div 128" "d mod 128 div 4 = d' mod 128 div 4"
    "d mod 4 * 8 + e div 32 = d' mod 4 * 8 + e' div 32" "e mod 32 = e' mod 32"
  shows "a = a' \<and> b = b' \<and> c = c' \<and> d = d' \<and> e = e'"
proof -
  note 2 = two_digits [OF eq(2) byte_parts(1) [OF bs(2)] byte_parts(1) [OF bs'(2)]]
  note 4 = two_digits [OF eq(4) byte_parts(2) [OF bs(3)] byte_parts(2) [OF bs'(3)]]
  note 5 = two_digits [OF eq(5) byte_parts(3) [OF bs(4)] byte_parts(3) [OF bs'(4)]]
  note 7 = two_digits [OF eq(7) byte_parts(4) [OF bs(5)] byte_parts(4) [OF bs'(5)]]
  have b: "b mod 64 = b' mod 64"
    by (rule whole_from_parts [where n = 2]) (simp_all add: eq(3) 4(1) mod_mod_cancel)
  have d: "d mod 128 = d' mod 128"
    by (rule whole_from_parts [where n = 4]) (simp_all add: eq(6) 7(1) mod_mod_cancel)
  show ?thesis
    by (intro conjI whole_from_parts [OF eq(1) 2(1)] whole_from_parts [OF 2(2) b]
        whole_from_parts [OF 4(2) 5(1)] whole_from_parts [OF 5(2) d] whole_from_parts [OF 7(2) eq(8)])
qed

definition b32_group :: "nat \<Rightarrow> nat \<Rightarrow> nat \<Rightarrow> nat \<Rightarrow> nat \<Rightarrow> string" where
  "b32_group a b c d e =
     [b32_char (a div 8), b32_char (a mod 8 * 4 + b div 64), b32_char (b mod 64 div 2),
      b32_char (b mod 2 * 16 + c div 16), b32_char (c mod 16 * 2 + d div 128),
      b32_char (d mod 128 div 4), b32_char (d mod 4 * 8 + e div 32), b32_char (e mod 32)]"

lemma length_b32_group [simp]: "length (b32_group a b c d e) = 8"
  by (simp add: b32_group_def)

lemma b32_group_charset:
  assumes "byte_vals [a, b, c, d, e]"
  shows "set (b32_group a b c d e) \<subseteq> set charset"
  using assms by (auto simp: b32_group_def intro!: b32_char_charset b32_group_bounds)

lemma b32_char_eqD: "b32_char m = b32_char n \<Longrightarrow> m < 32 \<Longrightarrow> n < 32 \<Longrightarrow> m = n"
  by (simp add: b32_char_inject)

lemma b32_group_eqD:
  assumes eq: "b32_group a b c d e = b32_group a' b' c' d' e'"
    and bv: "byte_vals [a, b, c, d, e]" and bv': "byte_vals [a', b', c', d', e']"
  shows "[a, b, c, d, e] = [a', b', c', d', e']"
proof -
  from bv have v: "a < 256" "b < 256" "c < 256" "d < 256" "e < 256" by auto
  from bv' have v': "a' < 256" "b' < 256" "c' < 256" "d' < 256" "e' < 256" by auto
  note B = b32_group_bounds [OF v] and B' = b32_group_bounds [OF v']
  note E = eq [unfolded b32_group_def list.inject]
  have "a = a' \<and> b = b' \<and> c = c' \<and> d = d' \<and> e = e'"
    by (rule b32_group_inject [OF v v'])
      (rule b32_char_eqD, use E in simp, rule B B', rule B B')+
  then show ?thesis by simp
qed

lemma b32_enc_16:
  "take 26 (b32_enc [a, b, c, d, e, f, g, h, i, j, k, l, m, n, p, q]) =
     b32_group a b c d e @ b32_group f g h i j @ b32_group k l m n p @
     [b32_char (q div 8), b32_char (q mod 8 * 4)]"
  by (simp add: b32_group_def)

lemma byte_vals_unat [simp]: "byte_vals (map unat (u :: bytes))"
  using unsigned_less [where 'b = 8 and 'a = nat] by auto

lemma NewID_16:
  assumes "length uuid = 16"
  shows "\<exists>s. NewID uuid = Done s \<and> length s = 26 \<and> set s \<subseteq> set charset"
proof -
  obtain a b c d e f g h i j k l m n p q
    where u: "map unat uuid = [a, b, c, d, e, f, g, h, i, j, k, l, m, n, p, q]"
    using bytes_16 [of "map unat uuid"] assms by (metis length_map)
  from byte_vals_unat [of uuid, unfolded u]
  have b: "byte_vals [a, b, c, d, e]" "byte_vals [f, g, h, i, j]" "byte_vals [k, l, m, n, p]" "q < 256"
    by simp_all
  let ?s = "take 26 (b32_enc (map unat uuid))"
  have "NewID uuid = Done ?s" "length ?s = 26"
    unfolding NewID_def u by (simp_all add: Let_def)
  moreover have "set ?s \<subseteq> set charset"
    unfolding u b32_enc_16 using b32_group_charset [OF b(1)] b32_group_charset [OF b(2)]
      b32_group_charset [OF b(3)] b(4) b32_char_charset [of "q div 8"] b32_char_charset [of "q mod 8 * 4"]
    by auto
  ultimately show ?thesis by blast
qed

text \<open>Identifiers of distinct UUIDs are distinct: the encoding loses nothing.\<close>

lemma NewID_inject:
  assumes "length u = 16" "length v = 16" "NewID u = Done s" "NewID v = Done s"
  shows "u = v"
proof -
  obtain a b c d e f g h i j k l m n p q
    where u: "map unat u = [a, b, c, d, e, f, g, h, i, j, k, l, m, n, p, q]"
    using bytes_16 [of "map unat u"] assms by (metis length_map)
  obtain a' b' c' d' e' f' g' h' i' j' k' l' m' n' p' q'
    where v: "map unat v = [a', b', c', d', e', f', g', h', i', j', k', l', m', n', p', q']"
    using bytes_16 [of "map unat v"] assms by (metis length_map)
  from byte_vals_unat [of u, unfolded u]
  have bu: "byte_vals [a, b, c, d, e]" "byte_vals [f, g, h, i, j]" "byte_vals [k, l, m, n, p]" "q < 256"
    by simp_all
  from byte_vals_unat [of v, unfolded v]
  have bv: "byte_vals [a', b', c', d', e']" "byte_vals [f', g', h', i', j']"
    "byte_vals [k', l', m', n', p']" "q' < 256"
    by simp_all
  have "take 26 (b32_enc (map unat u)) = take 26 (b32_enc (map unat v))"
    using assms(3,4) unfolding NewID_def by (auto simp: Let_def split: if_splits)
  from this [unfolded u v b32_enc_16]
  have eq: "b32_group a b c d e = b32_group a' b' c' d' e'"
    "b32_group f g h i j = b32_group f' g' h' i' j'"
    "b32_group k l m n p = b32_group k' l' m' n' p'"
    "b32_char (q div 8) = b32_char (q' div 8)" "b32_char (q mod 8 * 4) = b32_char (q' mod 8 * 4)"
    by simp_all
  note b32_group_eqD [OF eq(1) bu(1) bv(1)] b32_group_eqD [OF eq(2) bu(2) bv(2)]
    b32_group_eqD [OF eq(3) bu(3) bv(3)]
  moreover have "q = q'"
  proof (rule whole_from_parts [where n = 8])
    show "q div 8 = q' div 8"
      by (rule b32_char_eqD [OF eq(4)]) (use bu(4) bv(4) in auto)
    have "q mod 8 * 4 = q' mod 8 * 4"
      by (rule b32_char_eqD [OF eq(5)]) auto
    then show "q mod 8 = q' mod 8" by simp
  qed
  ultimately have "map unat u = map unat v" unfolding u v by simp
  then show ?thesis by (rule map_injective) (auto intro!: injI simp: word_unat_eq_iff)
qed

section \<open>Key hashes\<close>

text \<open>
  The two functions of \<^verbatim>\<open>golang.org/x/crypto/bcrypt\<close> the code calls, at the default cost.
  \<^verbatim>\<open>GenerateFromPassword\<close> draws a salt; the draw is its first argument here.
\<close>

record bcrypt =
  bcrypt_Generate :: "nat \<Rightarrow> string \<Rightarrow> string res"
  bcrypt_Compare :: "string \<Rightarrow> string \<Rightarrow> goerr option"

text \<open>Documented behaviour: a generated hash is not empty and matches the password it was made of.\<close>

locale bcrypt_lib =
  fixes bcr :: bcrypt
  assumes generate_not_empty: "bcrypt_Generate bcr salt key = Inr h \<Longrightarrow> h \<noteq> []"
    and generate_matches: "bcrypt_Generate bcr salt key = Inr h \<Longrightarrow> bcrypt_Compare bcr h key = None"

definition hashKey :: "bcrypt \<Rightarrow> nat \<Rightarrow> string \<Rightarrow> string res" where
  "hashKey bcr salt key =
     (if key = [] then Inl (Errorf ''invalid empty key'')
      else (case bcrypt_Generate bcr salt key of
        Inl err \<Rightarrow> Inl err
      | Inr hash \<Rightarrow> Inr hash))"

definition compareKeyHash :: "bcrypt \<Rightarrow> string \<Rightarrow> string \<Rightarrow> goerr option" where
  "compareKeyHash bcr hash key =
     (if hash = [] then Some (Errorf ''invalid empty hash'')
      else if key = [] then Some (Errorf ''invalid empty key'')
      else bcrypt_Compare bcr hash key)"

text \<open>The contract the authentication service relies on, and its proof for the two functions.\<close>

locale key_hashing =
  fixes hash :: "nat \<Rightarrow> string \<Rightarrow> string res"
    and compare :: "string \<Rightarrow> string \<Rightarrow> goerr option"
  assumes hash_matches: "hash salt key = Inr h \<Longrightarrow> compare h key = None"
    and hash_key_not_empty: "hash salt key = Inr h \<Longrightarrow> key \<noteq> [] \<and> h \<noteq> []"
    and empty_key_rejected: "compare h [] \<noteq> None"
    and empty_hash_rejected: "compare [] key \<noteq> None"

sublocale bcrypt_lib \<subseteq> key_hashing "hashKey bcr" "compareKeyHash bcr"
  by unfold_locales
    (auto simp: hashKey_def compareKeyHash_def split: if_splits sum.splits
      dest: generate_not_empty generate_matches)

context bcrypt_lib
begin

lemma bcrypt_key_hashing: "key_hashing (hashKey bcr) (compareKeyHash bcr)"
  by (rule key_hashing_axioms)

end

text \<open>
  An instance of the parameter, to evaluate the model on concrete inputs: the hash is the key
  behind a marker; as in the library, keys beyond 72 bytes are refused.
\<close>

definition mark_bcrypt :: bcrypt where
  "mark_bcrypt =
     \<lparr>bcrypt_Generate = (\<lambda>salt key.
        if 72 < length key then Inl (Foreign ''bcrypt.ErrPasswordTooLong'' ''password too long'')
        else Inr (CHR ''$'' # key)),
      bcrypt_Compare = (\<lambda>h key.
        if h = CHR ''$'' # key then None else Some (Foreign ''bcrypt.ErrMismatch'' ''mismatch''))\<rparr>"

interpretation mark: bcrypt_lib mark_bcrypt
  by unfold_locales (auto simp: mark_bcrypt_def split: if_splits)

lemma mark_bcrypt_lib: "bcrypt_lib mark_bcrypt"
  by (rule mark.bcrypt_lib_axioms)

section \<open>Properties\<close>

text \<open>
  C32: with a random source that fills the buffer, \<^verbatim>\<open>NewSecureString\<close> does not panic; what it
  returns has exactly the requested length and only characters of the URL-safe alphabet, and every
  such text is the result for some contents of the buffer, so no entropy is lost to the encoding
  or to the truncation.
\<close>

theorem NewSecureString_correct:
  assumes "0 \<le> len" "len < 2 ^ 61"
  shows "(\<forall>rd. rand_ok rd \<longrightarrow>
      NewSecureString rd len \<noteq> Panic p \<and>
      (\<forall>s. NewSecureString rd len = Done (Inr s) \<longrightarrow> int (length s) = len \<and> set s \<subseteq> set b64_alphabet)) \<and>
    (\<forall>s. int (length s) = len \<and> set s \<subseteq> set b64_alphabet \<longrightarrow>
      (\<exists>rd. rand_ok rd \<and> NewSecureString rd len = Done (Inr s)))"
proof (intro conjI allI impI; (elim conjE)?)
  fix rd assume "rand_ok rd"
  then show "NewSecureString rd len \<noteq> Panic p"
    using assms by (simp add: NewSecureString_result split: prod.splits option.splits)
next
  fix rd s assume "rand_ok rd" "NewSecureString rd len = Done (Inr s)"
  with assms show "int (length s) = len" "set s \<subseteq> set b64_alphabet"
    using NewSecureString_ok by blast+
next
  fix s assume s: "int (length s) = len" "set s \<subseteq> set b64_alphabet"
  then have len: "nat len = length s" by simp
  obtain data where data: "length data = 1 + 4 * nat len div 3" "take (nat len) (EncodeToString64 data) = s"
    using EncodeToString64_reaches [OF s(2)] unfolding len by blast
  let ?rd = "\<lambda>n. (n, None, take n data @ replicate (n - length data) 0)"
  have "rand_ok ?rd" by (auto simp: rand_ok_def)
  moreover have "NewSecureString ?rd len = Done (Inr s)"
    unfolding NewSecureString_result [OF \<open>rand_ok ?rd\<close> assms] using data by simp
  ultimately show "\<exists>rd. rand_ok rd \<and> NewSecureString rd len = Done (Inr s)" by blast
qed

theorem NewSecureString_correct_witness:
  "\<exists>rd. rand_ok rd \<and> NewSecureString rd 5 = Done (Inr ''_aZ-9'')"
  using NewSecureString_correct [of 5] by (simp add: b64_alphabet_def)

text \<open>
  C33: the identifier of a UUID of 16 bytes has exactly 26 characters of the alphabet, none of them
  an upper case letter (the comment in the code speaks of upper case letters), and distinct UUIDs
  have distinct identifiers: truncating the padding loses nothing.
\<close>

theorem NewID_correct:
  assumes "length uuid = 16"
  shows "\<exists>s. NewID uuid = Done s \<and> length s = 26 \<and> set s \<subseteq> set charset \<and>
    (\<forall>c \<in> set s. is_lower c \<or> is_digit c) \<and>
    (\<forall>v. length v = 16 \<longrightarrow> NewID v = Done s \<longrightarrow> v = uuid)"
proof -
  from NewID_16 [OF assms] obtain s where s: "NewID uuid = Done s" "length s = 26" "set s \<subseteq> set charset"
    by blast
  have "\<forall>c \<in> set charset. is_lower c \<or> is_digit c"
    by (simp add: charset_def is_lower_def is_digit_def)
  with s(3) have "\<forall>c \<in> set s. is_lower c \<or> is_digit c" by blast
  with s NewID_inject [OF _ assms] show ?thesis by blast
qed

theorem NewID_correct_witness:
  "\<exists>s. NewID [0x12, 0x3e, 0x45, 0x67, 0xe8, 0x9b, 0x42, 0xd3, 0xa4, 0x56, 0x42, 0x66, 0x14, 0x17, 0x40, 0] = Done s \<and>
     length s = 26 \<and> (\<forall>c \<in> set s. is_lower c \<or> is_digit c)"
  using NewID_correct
    [of "[0x12, 0x3e, 0x45, 0x67, 0xe8, 0x9b, 0x42, 0xd3, 0xa4, 0x56, 0x42, 0x66, 0x14, 0x17, 0x40, 0]"]
  by auto

end
