(* ===== verification/Session_Cache.thy ===== *)
theory Session_Cache
  imports Go_Prelude
begin

text \<open>
  The session cache of \<^verbatim>\<open>service/auth/session_cache.go\<close>: bearer tokens and the client and
  expiration date of each. The map is a partial function; the loop that ranges over it takes the
  iteration order as an argument, because Go leaves it open. A body between \<^verbatim>\<open>Lock\<close> and \<^verbatim>\<open>Unlock\<close> is
  one atomic step; \<^verbatim>\<open>Get\<close> has two of them, which are separate definitions.
\<close>

section \<open>State and operations\<close>

record CachedSession =
  session_ClientID :: string
  session_ExpirationDate :: instant

record SessionCacheConfig =
  ExpirationMinutes :: int

definition SessionCacheConfig_IsValid :: "SessionCacheConfig \<Rightarrow> goerr option" where
  "SessionCacheConfig_IsValid c =
     (if ExpirationMinutes c \<le> 0
      then Some (Errorf ''invalid ExpirationMinutes value: should be a positive number'')
      else None)"

type_synonym session_map = "string \<rightharpoonup> CachedSession"

record SessionCache =
  sc_cfg :: SessionCacheConfig
  sessionMap :: session_map

definition NewSessionCache :: "SessionCacheConfig \<Rightarrow> SessionCache res" where
  "NewSessionCache cfg =
     (case SessionCacheConfig_IsValid cfg of
        Some err \<Rightarrow> Inl err
      | None \<Rightarrow> Inr \<lparr>sc_cfg = cfg, sessionMap = Map.empty\<rparr>)"

text \<open>\<^verbatim>\<open>Get\<close>: the read under the read lock, the expiration check, the eviction under the lock.\<close>

definition Get_read :: "SessionCache \<Rightarrow> string \<Rightarrow> CachedSession option" where
  "Get_read t token = sessionMap t token"

definition Get_evict :: "SessionCache \<Rightarrow> string \<Rightarrow> SessionCache" where
  "Get_evict t token = t\<lparr>sessionMap := (sessionMap t)(token := None)\<rparr>"

definition SessionCache_Get ::
  "SessionCache \<Rightarrow> instant \<Rightarrow> string \<Rightarrow> CachedSession res \<times> SessionCache" where
  "SessionCache_Get t now token =
     (case Get_read t token of
        None \<Rightarrow> (Inl (Errorf ''token is invalid''), t)
      | Some session \<Rightarrow>
          if session_ExpirationDate session < now
          then (Inl (Errorf ''session is expired''), Get_evict t token)
          else (Inr session, t))"

text \<open>\<^verbatim>\<open>delete\<close>: the first session of the client in iteration order is removed, then the loop ends.\<close>

fun delete_loop :: "string list \<Rightarrow> string \<Rightarrow> session_map \<Rightarrow> session_map" where
  "delete_loop [] clientID m = m"
| "delete_loop (token # ts) clientID m =
     (case m token of
        None \<Rightarrow> delete_loop ts clientID m
      | Some session \<Rightarrow>
          if session_ClientID session = clientID then m(token := None)
          else delete_loop ts clientID m)"

definition SessionCache_delete :: "string list \<Rightarrow> SessionCache \<Rightarrow> string \<Rightarrow> SessionCache" where
  "SessionCache_delete ord t clientID =
     t\<lparr>sessionMap := delete_loop ord clientID (sessionMap t)\<rparr>"

definition SessionCache_Put ::
  "string list \<Rightarrow> SessionCache \<Rightarrow> instant \<Rightarrow> string \<Rightarrow> string \<Rightarrow> goerr option \<times> SessionCache" where
  "SessionCache_Put ord t now clientID token =
     (if length clientID = 0 then (Some (Errorf ''can not cache: invalid client id''), t)
      else if length token = 0 then (Some (Errorf ''can not cache: invalid token''), t)
      else if sessionMap t token \<noteq> None then (Some (Errorf ''can not cache: token in use''), t)
      else
        (let t1 = SessionCache_delete ord t clientID
         in (None, t1\<lparr>sessionMap := (sessionMap t1)(token \<mapsto>
              \<lparr>session_ClientID = clientID,
               session_ExpirationDate =
                 now + mul64 (ExpirationMinutes (sc_cfg t)) time_Minute\<rparr>)\<rparr>)))"

definition SessionCache_Delete :: "string list \<Rightarrow> SessionCache \<Rightarrow> string \<Rightarrow> SessionCache" where
  "SessionCache_Delete ord t clientID = SessionCache_delete ord t clientID"

lemmas SessionCache_defs =
  SessionCache_Get_def Get_read_def Get_evict_def SessionCache_delete_def SessionCache_Put_def
  SessionCache_Delete_def

text \<open>An order in which a loop may range over a map.\<close>

definition range_order :: "string list \<Rightarrow> session_map \<Rightarrow> bool" where
  "range_order ord m \<longleftrightarrow> distinct ord \<and> set ord = dom m"

section \<open>The invariant: one token for each client\<close>

definition one_token :: "session_map \<Rightarrow> bool" where
  "one_token m \<longleftrightarrow>
     (\<forall>t u s r. m t = Some s \<longrightarrow> m u = Some r \<longrightarrow> session_ClientID s = session_ClientID r \<longrightarrow> t = u)"

definition named_sessions :: "session_map \<Rightarrow> bool" where
  "named_sessions m \<longleftrightarrow> (\<forall>t s. m t = Some s \<longrightarrow> t \<noteq> [] \<and> session_ClientID s \<noteq> [])"

definition cache_inv :: "SessionCache \<Rightarrow> bool" where
  "cache_inv t \<longleftrightarrow> finite (dom (sessionMap t)) \<and> one_token (sessionMap t) \<and> named_sessions (sessionMap t)"

text \<open>What \<^verbatim>\<open>delete\<close> is for: the map without the sessions of a client.\<close>

definition without_client :: "string \<Rightarrow> session_map \<Rightarrow> session_map" where
  "without_client clientID m =
     (\<lambda>t. case m t of None \<Rightarrow> None
          | Some s \<Rightarrow> if session_ClientID s = clientID then None else Some s)"

lemma without_client_Some [simp]:
  "without_client c m t = Some s \<longleftrightarrow> m t = Some s \<and> session_ClientID s \<noteq> c"
  by (auto simp: without_client_def split: option.splits)

lemma without_client_submap: "without_client c m \<subseteq>\<^sub>m m"
  by (auto simp: map_le_def)

lemma delete_loop_submap: "delete_loop ord c m \<subseteq>\<^sub>m m"
  by (induction ord) (auto simp: map_le_def split: option.splits)

lemma one_token_submap: "one_token m \<Longrightarrow> m' \<subseteq>\<^sub>m m \<Longrightarrow> one_token m'"
  unfolding one_token_def map_le_def by (metis domI)

lemma named_sessions_submap: "named_sessions m \<Longrightarrow> m' \<subseteq>\<^sub>m m \<Longrightarrow> named_sessions m'"
  unfolding named_sessions_def map_le_def by (metis domI)

lemma cache_inv_submap:
  assumes "cache_inv t" and "m \<subseteq>\<^sub>m sessionMap t"
  shows "cache_inv (t\<lparr>sessionMap := m\<rparr>)"
proof -
  from assms(2) have "dom m \<subseteq> dom (sessionMap t)" by (rule map_le_implies_dom_le)
  with assms show ?thesis
    by (auto simp: cache_inv_def one_token_submap named_sessions_submap intro: finite_subset)
qed

text \<open>
  Under the invariant the loop removes every session of the client, in whatever order the map is
  iterated: the early \<^verbatim>\<open>return\<close> misses nothing.
\<close>

lemma delete_loop_none:
  assumes "\<forall>t s. t \<in> set ord \<longrightarrow> m t = Some s \<longrightarrow> session_ClientID s \<noteq> c"
  shows "delete_loop ord c m = m"
  using assms by (induction ord) (auto split: option.splits)

lemma delete_loop_found:
  assumes "one_token m" "m t = Some s" "session_ClientID s = c" "t \<in> set ord"
  shows "delete_loop ord c m = m(t := None)"
  using assms(4)
proof (induction ord)
  case (Cons u ord)
  show ?case
  proof (cases "\<exists>r. m u = Some r \<and> session_ClientID r = c")
    case True
    with assms(1-3) have "u = t" unfolding one_token_def by blast
    with assms show ?thesis by simp
  next
    case False
    with Cons assms have "t \<in> set ord" by auto
    with Cons.IH False show ?thesis by (auto split: option.splits)
  qed
qed simp

lemma delete_loop_eq:
  assumes "one_token m" "range_order ord m"
  shows "delete_loop ord c m = without_client c m"
proof (cases "\<exists>t s. m t = Some s \<and> session_ClientID s = c")
  case True
  then obtain t s where ts: "m t = Some s" "session_ClientID s = c" by blast
  with assms(2) have "t \<in> set ord" by (auto simp: range_order_def)
  with assms(1) ts have "delete_loop ord c m = m(t := None)" by (rule delete_loop_found)
  also have "\<dots> = without_client c m"
    using assms(1) ts
    by (auto simp: fun_eq_iff without_client_def one_token_def split: option.splits)
  finally show ?thesis .
next
  case False
  then have "delete_loop ord c m = m" by (intro delete_loop_none) blast
  with False show ?thesis
    by (auto simp: fun_eq_iff without_client_def split: option.splits)
qed

section \<open>What the operations do\<close>

lemma delete_eq:
  assumes "cache_inv t" "range_order ord (sessionMap t)"
  shows "SessionCache_delete ord t c = t\<lparr>sessionMap := without_client c (sessionMap t)\<rparr>"
  using assms by (simp add: SessionCache_delete_def cache_inv_def delete_loop_eq)

lemma NewSessionCache_inv: "NewSessionCache cfg = Inr t \<Longrightarrow> cache_inv t"
  by (auto simp: NewSessionCache_def cache_inv_def one_token_def named_sessions_def split: option.splits)

lemma Get_evict_inv: "cache_inv t \<Longrightarrow> cache_inv (Get_evict t token)"
  unfolding Get_evict_def by (rule cache_inv_submap) (auto simp: map_le_def)

lemma Get_inv: "cache_inv t \<Longrightarrow> SessionCache_Get t now token = (r, t') \<Longrightarrow> cache_inv t'"
  by (auto simp: SessionCache_Get_def Get_evict_inv split: option.splits if_splits)

lemma delete_inv: "cache_inv t \<Longrightarrow> cache_inv (SessionCache_delete ord t c)"
  unfolding SessionCache_delete_def by (rule cache_inv_submap [OF _ delete_loop_submap])

lemma Put_inv:
  assumes inv: "cache_inv t" and ord: "range_order ord (sessionMap t)"
    and put: "SessionCache_Put ord t now c token = (r, t')"
  shows "cache_inv t'"
proof (cases "length c = 0 \<or> length token = 0 \<or> sessionMap t token \<noteq> None")
  case True
  with put have "t' = t" by (auto simp: SessionCache_Put_def split: if_splits)
  with inv show ?thesis by simp
next
  case False
  with put obtain e where t': "sessionMap t' =
      (without_client c (sessionMap t))(token \<mapsto> \<lparr>session_ClientID = c, session_ExpirationDate = e\<rparr>)"
    by (auto simp: SessionCache_Put_def Let_def delete_eq [OF inv ord])
  have "finite (dom (without_client c (sessionMap t)))"
    by (rule finite_subset [OF map_le_implies_dom_le [OF without_client_submap]])
      (use inv in \<open>simp add: cache_inv_def\<close>)
  moreover from inv have "one_token (sessionMap t)" "named_sessions (sessionMap t)"
    by (auto simp: cache_inv_def)
  ultimately show ?thesis
    using False unfolding cache_inv_def t'
    by (auto simp: one_token_def named_sessions_def) 
qed

lemma Put_ok:
  assumes "cache_inv t" "range_order ord (sessionMap t)"
    and "SessionCache_Put ord t now c token = (None, t')"
  shows "c \<noteq> [] \<and> token \<noteq> [] \<and> sessionMap t token = None \<and> sc_cfg t' = sc_cfg t \<and>
    sessionMap t' = (without_client c (sessionMap t))(token \<mapsto>
      \<lparr>session_ClientID = c,
       session_ExpirationDate = now + mul64 (ExpirationMinutes (sc_cfg t)) time_Minute\<rparr>)"
  using assms(3) by (auto simp: SessionCache_Put_def Let_def delete_eq [OF assms(1,2)] split: if_splits)

lemma Put_err: "SessionCache_Put ord t now c token = (Some e, t') \<Longrightarrow> t' = t"
  by (auto simp: SessionCache_Put_def Let_def split: if_splits)

lemma Get_ok:
  "SessionCache_Get t now token = (Inr s, t') \<longleftrightarrow>
     t' = t \<and> sessionMap t token = Some s \<and> now \<le> session_ExpirationDate s"
  by (auto simp: SessionCache_Get_def Get_read_def split: option.splits if_splits)

text \<open>The validity period, where the product of minutes and nanoseconds does not overflow.\<close>

lemma expiration_exact:
  "0 < m \<Longrightarrow> m \<le> 153722867 \<Longrightarrow> mul64 m time_Minute = m * time_Minute"
  by (simp add: mul64_def int64_range_def)

section \<open>Reachable caches\<close>

text \<open>
  Any interleaving of the atomic steps of concurrent callers. An eviction is a step of its own: it
  may follow other steps after the read that decided on it.
\<close>

inductive cache_step :: "SessionCache \<Rightarrow> SessionCache \<Rightarrow> bool" where
  evict: "cache_step t (Get_evict t token)"
| put: "range_order ord (sessionMap t) \<Longrightarrow> SessionCache_Put ord t now c token = (r, t') \<Longrightarrow> cache_step t t'"
| delete: "range_order ord (sessionMap t) \<Longrightarrow> cache_step t (SessionCache_Delete ord t c)"

inductive cache_reach :: "SessionCacheConfig \<Rightarrow> SessionCache \<Rightarrow> bool" for cfg where
  new: "NewSessionCache cfg = Inr t \<Longrightarrow> cache_reach cfg t"
| step: "cache_reach cfg t \<Longrightarrow> cache_step t t' \<Longrightarrow> cache_reach cfg t'"

lemma cache_step_inv: "cache_step t t' \<Longrightarrow> cache_inv t \<Longrightarrow> cache_inv t'"
  by (induction rule: cache_step.induct)
    (auto simp: SessionCache_Delete_def intro: Get_evict_inv Put_inv delete_inv)

lemma cache_reach_inv: "cache_reach cfg t \<Longrightarrow> cache_inv t"
  by (induction rule: cache_reach.induct) (auto intro: NewSessionCache_inv cache_step_inv)

section \<open>Properties\<close>

text \<open>
  C25: in every cache reachable by any interleaving of concurrent operations a client has at most
  one token, there are finitely many sessions, and none has an empty token or client.
\<close>

theorem sessions_unique:
  assumes "cache_reach cfg t"
  shows "finite (dom (sessionMap t)) \<and>
    (\<forall>u v s r. sessionMap t u = Some s \<and> sessionMap t v = Some r \<and>
      session_ClientID s = session_ClientID r \<longrightarrow> u = v) \<and>
    (\<forall>u s. sessionMap t u = Some s \<longrightarrow> u \<noteq> [] \<and> session_ClientID s \<noteq> [])"
  using cache_reach_inv [OF assms]
  unfolding cache_inv_def one_token_def named_sessions_def by blast

text \<open>
  C29: \<^verbatim>\<open>Put\<close> on a reachable cache refuses an empty client, an empty token and a token in use,
  without any effect; otherwise the new token is the only one of the client, with the validity
  period of the configuration, every other client keeps its session, and the order in which the
  loop ranges over the map has no influence.
\<close>

theorem Put_correct:
  assumes "cache_reach cfg t" "range_order ord (sessionMap t)"
  shows "SessionCache_Put ord t now c token =
    (if c = [] then (Some (Errorf ''can not cache: invalid client id''), t)
     else if token = [] then (Some (Errorf ''can not cache: invalid token''), t)
     else if sessionMap t token \<noteq> None then (Some (Errorf ''can not cache: token in use''), t)
     else (None, t\<lparr>sessionMap := (without_client c (sessionMap t))(token \<mapsto>
       \<lparr>session_ClientID = c,
        session_ExpirationDate = now + mul64 (ExpirationMinutes (sc_cfg t)) time_Minute\<rparr>)\<rparr>))"
  using cache_reach_inv [OF assms(1)] assms(2)
  by (simp add: SessionCache_Put_def Let_def delete_eq)


text \<open>
  \<^verbatim>\<open>Delete\<close> on a reachable cache removes the session of the client, whichever token it has, and
  nothing else, in every iteration order: the early return of the loop misses nothing.
\<close>

theorem Delete_correct:
  assumes "cache_reach cfg t" "range_order ord (sessionMap t)"
  shows "SessionCache_Delete ord t c = t\<lparr>sessionMap := without_client c (sessionMap t)\<rparr>"
  using cache_reach_inv [OF assms(1)] assms(2) by (simp add: SessionCache_Delete_def delete_eq)

definition sample_cache :: SessionCache where
  "sample_cache = \<lparr>sc_cfg = \<lparr>ExpirationMinutes = 1440\<rparr>,
     sessionMap = [''t1'' \<mapsto> \<lparr>session_ClientID = ''a'', session_ExpirationDate = 86400000000007\<rparr>]\<rparr>"

lemma sample_cache_reach: "cache_reach \<lparr>ExpirationMinutes = 1440\<rparr> sample_cache"
proof (rule cache_reach.step)
  show "cache_reach \<lparr>ExpirationMinutes = 1440\<rparr> \<lparr>sc_cfg = \<lparr>ExpirationMinutes = 1440\<rparr>, sessionMap = Map.empty\<rparr>"
    by (rule cache_reach.new) (simp add: NewSessionCache_def SessionCacheConfig_IsValid_def)
  show "cache_step \<lparr>sc_cfg = \<lparr>ExpirationMinutes = 1440\<rparr>, sessionMap = Map.empty\<rparr> sample_cache"
    by (rule cache_step.put [where ord = "[]" and now = 7 and c = "''a''" and token = "''t1''" and r = None])
      (simp_all add: range_order_def SessionCache_Put_def SessionCache_delete_def sample_cache_def
        mul64_def wrap64_def)
qed

lemma sample_cache_order: "range_order [''t1''] (sessionMap sample_cache)"
  by (auto simp: range_order_def sample_cache_def)

theorem sessions_unique_witness: "finite (dom (sessionMap sample_cache))"
  using sessions_unique [OF sample_cache_reach] by blast

theorem Put_correct_witness:
  "sessionMap (snd (SessionCache_Put [''t1''] sample_cache 8 ''a'' ''t2'')) ''t1'' = None"
  using Put_correct [OF sample_cache_reach sample_cache_order, of 8 "''a''" "''t2''"]
  by (simp add: sample_cache_def without_client_def)

theorem Delete_correct_witness:
  "sessionMap (SessionCache_Delete [''t1''] sample_cache ''a'') = Map.empty"
  using Delete_correct [OF sample_cache_reach sample_cache_order, of "''a''"]
  by (simp add: sample_cache_def without_client_def fun_eq_iff)

text \<open>
  C31: a token that was cached can be read exactly until its expiration date. The validity period
  is the configured number of minutes up to 153722867 minutes; with one minute more the
  multiplication by \<^verbatim>\<open>time.Minute\<close> wraps around and the session is expired when it is created.
\<close>

theorem session_lifetime:
  assumes "SessionCache_Put ord t now c token = (None, t')"
  defines "m \<equiv> ExpirationMinutes (sc_cfg t)"
  shows "(is_ok (fst (SessionCache_Get t' later token)) \<longleftrightarrow> later \<le> now + mul64 m time_Minute) \<and>
    (0 < m \<and> m \<le> 153722867 \<longrightarrow> mul64 m time_Minute = m * time_Minute) \<and>
    (m = 153722868 \<longrightarrow> \<not> is_ok (fst (SessionCache_Get t' now token)))"
proof (intro conjI)
  from assms(1) have t': "sessionMap t' token =
    Some \<lparr>session_ClientID = c, session_ExpirationDate = now + mul64 m time_Minute\<rparr>"
    by (auto simp: SessionCache_Put_def Let_def m_def split: if_splits)
  show "is_ok (fst (SessionCache_Get t' later token)) \<longleftrightarrow> later \<le> now + mul64 m time_Minute"
    by (simp add: SessionCache_Get_def Get_read_def t')
  show "0 < m \<and> m \<le> 153722867 \<longrightarrow> mul64 m time_Minute = m * time_Minute"
    using expiration_exact by blast
  show "m = 153722868 \<longrightarrow> \<not> is_ok (fst (SessionCache_Get t' now token))"
    by (auto simp: SessionCache_Get_def Get_read_def t' mul64_def wrap64_def)
qed

definition long_cache :: SessionCache where
  "long_cache = \<lparr>sc_cfg = \<lparr>ExpirationMinutes = 153722868\<rparr>, sessionMap = Map.empty\<rparr>"

theorem session_lifetime_witness:
  "\<not> is_ok (fst (SessionCache_Get (snd (SessionCache_Put [] long_cache 5 ''a'' ''t'')) 5 ''t''))"
  using session_lifetime [of "[]" long_cache 5 "''a''" "''t''" "snd (SessionCache_Put [] long_cache 5 ''a'' ''t'')" 5]
  by (simp add: long_cache_def SessionCache_Put_def Let_def SessionCache_delete_def mul64_def wrap64_def)

end
