(* ===== verification/Auth_Service.thy ===== *)
theory Auth_Service
  imports Kv_Store Random_Crypto Session_Cache
begin

text \<open>
  The authentication service of \<^verbatim>\<open>service/auth/service.go\<close>: registration, authentication, login and
  removal of clients, over any store that keeps the contract \<open>kv_store\<close> and any key hash that keeps
  \<open>key_hashing\<close> (the locale \<open>auth_backend\<close>), then over \<^verbatim>\<open>bitcaskStore\<close> and \<^verbatim>\<open>bcrypt\<close>. \<^verbatim>\<open>Register\<close> is two
  accesses to the store; the last section runs any number of registrations concurrently.
\<close>

section \<open>Operations\<close>

definition NewService ::
  "('d store_ops \<times> 'd) option \<Rightarrow> SessionCache option \<Rightarrow> ('d store_ops \<times> 'd \<times> SessionCache) res" where
  "NewService st cache =
     (case st of
        None \<Rightarrow> Inl (Errorf ''invalid store'')
      | Some (S, d) \<Rightarrow> (case cache of
          None \<Rightarrow> Inl (Errorf ''invalid session cache'')
        | Some c \<Rightarrow> Inr (S, d, c)))"

definition Authenticate :: "'d store_ops \<Rightarrow> bcrypt \<Rightarrow> 'd \<Rightarrow> string \<Rightarrow> string \<Rightarrow> goerr option" where
  "Authenticate S bcr d cid authToken =
     (case st_Get S d cid of
        Inl err \<Rightarrow> Some (Wrapf ''authentication failed: '' err)
      | Inr hash \<Rightarrow> (case compareKeyHash bcr hash authToken of
          Some err \<Rightarrow> Some (Errorf ''authentication failed'')
        | None \<Rightarrow> None))"

text \<open>
  \<^verbatim>\<open>Register\<close> up to the first access to the store (\<open>None\<close>: it goes on), and what follows it.
\<close>

definition Register_check :: "'d store_ops \<Rightarrow> 'd \<Rightarrow> string \<Rightarrow> string \<Rightarrow> goerr option" where
  "Register_check S d cid key =
     (if int (length key) < MinKeyLen then Some (Errorf ''registration failed: key not long enough'')
      else (case st_Get S d cid of
        Inr val \<Rightarrow> Some (Sentinel ErrAlreadyRegistered)
      | Inl err \<Rightarrow>
          if \<not> errors_Is err ErrNotFound then Some (Wrapf ''registration failed: '' err)
          else None))"

definition Register_commit ::
  "'d store_ops \<Rightarrow> bcrypt \<Rightarrow> nat \<Rightarrow> 'd \<Rightarrow> string \<Rightarrow> string \<Rightarrow> goerr option \<times> 'd" where
  "Register_commit S bcr salt d cid key =
     (case hashKey bcr salt key of
        Inl err \<Rightarrow> (Some (Wrapf ''registration failed: '' err), d)
      | Inr hash \<Rightarrow> (case st_Put S d cid hash of
          (Some err, d') \<Rightarrow>
            if errors_Is err ErrConflict then (Some (Sentinel ErrAlreadyRegistered), d')
            else (Some (Wrapf ''registration failed: '' err), d')
        | (None, d') \<Rightarrow> (None, d')))"

definition Register ::
  "'d store_ops \<Rightarrow> bcrypt \<Rightarrow> nat \<Rightarrow> 'd \<Rightarrow> string \<Rightarrow> string \<Rightarrow> goerr option \<times> 'd" where
  "Register S bcr salt d cid key =
     (case Register_check S d cid key of
        Some err \<Rightarrow> (Some err, d)
      | None \<Rightarrow> Register_commit S bcr salt d cid key)"

definition Unregister ::
  "'d store_ops \<Rightarrow> string list \<Rightarrow> 'd \<Rightarrow> SessionCache \<Rightarrow> string \<Rightarrow> goerr option \<times> 'd \<times> SessionCache" where
  "Unregister S ord d c cid =
     (case st_Get S d cid of
        Inl err \<Rightarrow> (Some (Wrapf ''unregister failed: '' err), d, c)
      | Inr val \<Rightarrow> (case st_Delete S d cid of
          (Some err, d') \<Rightarrow> (Some (Wrapf ''unregister failed: '' err), d', c)
        | (None, d') \<Rightarrow> (None, d', SessionCache_Delete ord c cid)))"

definition Login ::
  "'d store_ops \<Rightarrow> bcrypt \<Rightarrow> rand_read \<Rightarrow> string list \<Rightarrow> 'd \<Rightarrow> SessionCache \<Rightarrow> instant \<Rightarrow> string \<Rightarrow> string
    \<Rightarrow> string res outcome \<times> SessionCache" where
  "Login S bcr rd ord d c now cid key =
     (case Authenticate S bcr d cid key of
        Some err \<Rightarrow> (Done (Inl (Wrapf ''login failed: '' err)), c)
      | None \<Rightarrow> (case newRandomToken rd of
          Panic p \<Rightarrow> (Panic p, c)
        | Done (Inl err) \<Rightarrow> (Done (Inl (Wrapf ''login failed: '' err)), c)
        | Done (Inr bearerToken) \<Rightarrow> (case SessionCache_Put ord c now cid bearerToken of
            (Some err, c') \<Rightarrow> (Done (Inl (Wrapf ''login failed: '' err)), c')
          | (None, c') \<Rightarrow> (Done (Inr bearerToken), c'))))"

lemmas Register_defs = Register_def Register_check_def Register_commit_def

lemma Authenticate_None_iff:
  "Authenticate S bcr d cid key = None \<longleftrightarrow>
     (\<exists>h. st_Get S d cid = Inr h \<and> compareKeyHash bcr h key = None)"
  by (auto simp: Authenticate_def split: sum.splits option.splits)

section \<open>What the operations guarantee over the contracts\<close>

locale auth_backend =
  kv_store S ct + key_hashing "hashKey bcr" "compareKeyHash bcr"
  for S :: "'d store_ops" and ct :: "'d \<Rightarrow> string \<Rightarrow> string option" and bcr :: bcrypt
begin

lemma Register_ok:
  assumes "Register S bcr salt d cid key = (None, d')"
  shows "\<exists>h. hashKey bcr salt key = Inr h \<and> cid \<noteq> [] \<and> MinKeyLen \<le> int (length key) \<and>
    ct d cid = None \<and> ct d' = (ct d)(cid \<mapsto> h)"
proof -
  from assms have chk: "Register_check S d cid key = None"
    and com: "Register_commit S bcr salt d cid key = (None, d')"
    by (auto simp: Register_def split: option.splits)
  from com obtain h where h: "hashKey bcr salt key = Inr h" "st_Put S d cid h = (None, d')"
    by (auto simp: Register_commit_def split: sum.splits prod.splits option.splits if_splits)
  moreover from chk have "MinKeyLen \<le> int (length key)"
    by (auto simp: Register_check_def split: if_splits)
  ultimately show ?thesis using put_ok [OF h(2)] by blast
qed

text \<open>A registered client keeps its hash, whatever a later registration returns.\<close>

lemma Register_commit_keeps:
  assumes "Register_commit S bcr salt d cid key = (r, d')" "ct d j = Some h"
  shows "ct d' j = Some h"
proof (cases "hashKey bcr salt key")
  case (Inl e)
  with assms show ?thesis by (simp add: Register_commit_def)
next
  case (Inr w)
  with assms(1) obtain r' where p: "st_Put S d cid w = (r', d')"
    by (auto simp: Register_commit_def split: prod.splits option.splits if_splits)
  show ?thesis
  proof (cases "j = cid")
    case True
    with assms(2) put_keeps [OF p] show ?thesis by simp
  next
    case False
    with assms(2) put_frame [OF p] show ?thesis by simp
  qed
qed

lemma Register_keeps:
  assumes "Register S bcr salt d cid key = (r, d')" "ct d j = Some h"
  shows "ct d' j = Some h"
  using assms Register_commit_keeps by (auto simp: Register_def split: option.splits)

lemma Register_taken:
  assumes "ct d cid = Some h"
  shows "\<exists>e. Register S bcr salt d cid key = (Some e, d)"
proof (cases "Register_check S d cid key")
  case (Some e)
  then show ?thesis by (auto simp: Register_def)
next
  case None
  then obtain e where "st_Get S d cid = Inl e" "errors_Is e ErrNotFound"
    by (auto simp: Register_check_def split: if_splits sum.splits)
  with get_missing assms show ?thesis by auto
qed

text \<open>The key a client registered with authenticates it, unless the store cannot be read.\<close>

lemma Register_Authenticate:
  assumes "Register S bcr salt d cid key = (None, d')" "st_Get S d' cid = Inr w"
  shows "Authenticate S bcr d' cid key = None"
proof -
  from Register_ok [OF assms(1)] obtain h where h: "hashKey bcr salt key = Inr h" "ct d' cid = Some h"
    by auto
  with get_value [OF assms(2)] have "w = h" by simp
  with hash_matches [OF h(1)] assms(2) show ?thesis by (auto simp: Authenticate_None_iff)
qed

lemma Authenticate_registered:
  assumes "Authenticate S bcr d cid key = None"
  shows "cid \<noteq> [] \<and> key \<noteq> [] \<and> (\<exists>h. h \<noteq> [] \<and> ct d cid = Some h)"
proof -
  from assms obtain h where h: "st_Get S d cid = Inr h" "compareKeyHash bcr h key = None"
    by (auto simp: Authenticate_None_iff)
  from h(2) have "key \<noteq> []" "h \<noteq> []"
    using empty_key_rejected [of h] empty_hash_rejected [of key] by metis+
  with get_value [OF h(1)] show ?thesis by simp
qed

lemma Unregister_ok:
  assumes "Unregister S ord d c cid = (None, d', c')"
  shows "cid \<noteq> [] \<and> ct d cid \<noteq> None \<and> ct d' = (ct d)(cid := None) \<and> c' = SessionCache_Delete ord c cid"
  using assms
  by (auto simp: Unregister_def dest!: get_value delete_ok split: sum.splits prod.splits option.splits)

lemma Unregister_frame:
  assumes "Unregister S ord d c cid = (r, d', c')" "j \<noteq> cid"
  shows "ct d' j = ct d j"
  using assms by (auto simp: Unregister_def dest: delete_frame split: sum.splits prod.splits option.splits)

lemma Unregister_no_login:
  assumes "Unregister S ord d c cid = (None, d', c')"
  shows "Authenticate S bcr d' cid key \<noteq> None"
  using Unregister_ok [OF assms] Authenticate_registered [of d' cid key] by auto

end

text \<open>The contracts hold for the code's store and hash functions.\<close>

lemma auth_backendI: "bitcask_db bc ct \<Longrightarrow> bcrypt_lib bcr \<Longrightarrow> auth_backend (bitcaskStore bc) ct bcr"
  unfolding auth_backend_def
  by (simp add: bitcask_db.bitcaskStore_kv_store bcrypt_lib.bcrypt_key_hashing)

interpretation auth_mem: auth_backend "bitcaskStore mem_bitcask" md_map mark_bcrypt
  by (rule auth_backendI [OF mem_bitcask_db mark_bcrypt_lib])

section \<open>Sessions of a login\<close>

lemma newRandomToken_ok:
  assumes "rand_ok rd" "newRandomToken rd = Done (Inr t)"
  shows "length t = 32 \<and> set t \<subseteq> set b64_alphabet"
  using NewSecureString_ok [of rd 32 t] assms
  by (simp add: newRandomToken_def newRandomString_eq MinKeyLen_def)

lemma newRandomToken_no_panic: "rand_ok rd \<Longrightarrow> newRandomToken rd \<noteq> Panic p"
  using NewSecureString_result [of rd 32]
  by (auto simp: newRandomToken_def newRandomString_eq MinKeyLen_def split: prod.splits option.splits)

lemma Login_ok:
  assumes "Login S bcr rd ord d c now cid key = (Done (Inr t), c')"
  shows "Authenticate S bcr d cid key = None \<and> newRandomToken rd = Done (Inr t) \<and>
    SessionCache_Put ord c now cid t = (None, c')"
  using assms by (auto simp: Login_def split: option.splits outcome.splits sum.splits prod.splits)

lemma Login_err:
  assumes "Login S bcr rd ord d c now cid key = (Done (Inl e), c')"
  shows "c' = c"
  using assms by (auto simp: Login_def dest: Put_err split: option.splits outcome.splits sum.splits prod.splits)

lemma Login_inv:
  assumes "cache_inv c" "range_order ord (sessionMap c)"
    and "Login S bcr rd ord d c now cid key = (r, c')"
  shows "cache_inv c'"
  using assms by (auto simp: Login_def dest: Put_inv split: option.splits outcome.splits sum.splits prod.splits)

lemma Unregister_inv:
  assumes "cache_inv c" "Unregister S ord d c cid = (r, d', c')"
  shows "cache_inv c'"
  using assms
  by (auto simp: Unregister_def SessionCache_Delete_def delete_inv
      split: option.splits sum.splits prod.splits)

section \<open>Concurrent registrations\<close>

text \<open>
  Any number of goroutines, numbered by \<^typ>\<open>nat\<close>, each running \<^verbatim>\<open>Register\<close> for its client,
  key and salt. The store is shared; the check and the commit of one goroutine are atomic, with
  anything in between.
\<close>

datatype reg_pc = RegStart | RegChecked | RegDone "goerr option"

record reg_job =
  rj_client :: string
  rj_key :: string
  rj_salt :: nat

record 'd reg_sys =
  rs_db :: 'd
  rs_pc :: "nat \<Rightarrow> reg_pc"

definition reg_init :: "'d \<Rightarrow> 'd reg_sys" where
  "reg_init d = \<lparr>rs_db = d, rs_pc = (\<lambda>_. RegStart)\<rparr>"

inductive reg_step ::
  "'d store_ops \<Rightarrow> bcrypt \<Rightarrow> (nat \<Rightarrow> reg_job) \<Rightarrow> 'd reg_sys \<Rightarrow> 'd reg_sys \<Rightarrow> bool"
  for S bcr J where
  reg_refused: "rs_pc s i = RegStart \<Longrightarrow>
    Register_check S (rs_db s) (rj_client (J i)) (rj_key (J i)) = Some e \<Longrightarrow>
    reg_step S bcr J s (s\<lparr>rs_pc := (rs_pc s)(i := RegDone (Some e))\<rparr>)"
| reg_checked: "rs_pc s i = RegStart \<Longrightarrow>
    Register_check S (rs_db s) (rj_client (J i)) (rj_key (J i)) = None \<Longrightarrow>
    reg_step S bcr J s (s\<lparr>rs_pc := (rs_pc s)(i := RegChecked)\<rparr>)"
| reg_commit: "rs_pc s i = RegChecked \<Longrightarrow>
    Register_commit S bcr (rj_salt (J i)) (rs_db s) (rj_client (J i)) (rj_key (J i)) = (r, d') \<Longrightarrow>
    reg_step S bcr J s (s\<lparr>rs_db := d', rs_pc := (rs_pc s)(i := RegDone r)\<rparr>)"

inductive reg_reach ::
  "'d store_ops \<Rightarrow> bcrypt \<Rightarrow> (nat \<Rightarrow> reg_job) \<Rightarrow> 'd \<Rightarrow> 'd reg_sys \<Rightarrow> bool"
  for S bcr J d0 where
  reg_start: "reg_reach S bcr J d0 (reg_init d0)"
| reg_next: "reg_reach S bcr J d0 s \<Longrightarrow> reg_step S bcr J s t \<Longrightarrow> reg_reach S bcr J d0 t"

text \<open>
  The hash a winner stored is still there, so no other goroutine can have won the same client.
\<close>

definition reg_inv :: "bcrypt \<Rightarrow> ('d \<Rightarrow> string \<Rightarrow> string option) \<Rightarrow> (nat \<Rightarrow> reg_job) \<Rightarrow> 'd reg_sys \<Rightarrow> bool" where
  "reg_inv bcr ct J s \<longleftrightarrow>
     (\<forall>i. rs_pc s i = RegDone None \<longrightarrow>
        (\<exists>h. hashKey bcr (rj_salt (J i)) (rj_key (J i)) = Inr h \<and> ct (rs_db s) (rj_client (J i)) = Some h)) \<and>
     (\<forall>i j. rs_pc s i = RegDone None \<longrightarrow> rs_pc s j = RegDone None \<longrightarrow>
        rj_client (J i) = rj_client (J j) \<longrightarrow> i = j)"

context auth_backend
begin

lemma Register_commit_ok:
  assumes "Register_commit S bcr salt d cid key = (None, d')"
  shows "\<exists>h. hashKey bcr salt key = Inr h \<and> ct d cid = None \<and> ct d' = (ct d)(cid \<mapsto> h)"
  using assms put_ok
  by (fastforce simp: Register_commit_def split: sum.splits prod.splits option.splits if_splits)

lemma reg_step_inv:
  assumes "reg_step S bcr J s t" "reg_inv bcr ct J s"
  shows "reg_inv bcr ct J t"
  using assms
proof (induction rule: reg_step.induct)
  case (reg_commit s i r d')
  have keep: "ct d' j = Some h" if "ct (rs_db s) j = Some h" for j h
    using Register_commit_keeps [OF reg_commit(2) that] .
  show ?case
  proof (cases r)
    case (Some e)
    with reg_commit.prems keep show ?thesis by (fastforce simp: reg_inv_def)
  next
    case None
    with reg_commit(2) obtain h where h: "hashKey bcr (rj_salt (J i)) (rj_key (J i)) = Inr h"
      "ct (rs_db s) (rj_client (J i)) = None" "ct d' = (ct (rs_db s))(rj_client (J i) \<mapsto> h)"
      using Register_commit_ok by blast
    have fresh: "rj_client (J j) \<noteq> rj_client (J i)" if "rs_pc s j = RegDone None" for j
      using reg_commit.prems that h(2) by (force simp: reg_inv_def)
    show ?thesis
      using reg_commit.prems h None fresh unfolding reg_inv_def
      by (auto split: if_splits)
  qed
qed (auto simp: reg_inv_def split: if_splits)

lemma reg_reach_inv: "reg_reach S bcr J d0 s \<Longrightarrow> reg_inv bcr ct J s"
proof (induction rule: reg_reach.induct)
  case reg_start
  show ?case by (simp add: reg_inv_def reg_init_def)
next
  case (reg_next s t)
  then show ?case by (blast intro: reg_step_inv)
qed

end

section \<open>Properties\<close>

text \<open>
  C7: a registration that succeeds had a client without an entry and a key of at least the
  minimum length; afterwards the client has an entry, every other entry is unchanged, and the key
  authenticates the client whenever the store can be read.
\<close>

theorem Register_correct:
  assumes "bitcask_db bc ct" "bcrypt_lib bcr"
    and "Register (bitcaskStore bc) bcr salt d cid key = (None, d')"
  shows "cid \<noteq> [] \<and> MinKeyLen \<le> int (length key) \<and> ct d cid = None \<and>
    (\<exists>h. ct d' = (ct d)(cid \<mapsto> h)) \<and>
    (\<forall>w. bitcaskStore_Get bc d' cid = Inr w \<longrightarrow> Authenticate (bitcaskStore bc) bcr d' cid key = None)"
proof -
  note B = auth_backendI [OF assms(1,2)]
  show ?thesis
    using auth_backend.Register_ok [OF B assms(3)] auth_backend.Register_Authenticate [OF B assms(3)]
    by (auto simp: bitcaskStore_def)
qed

text \<open>A registration and a login on the database in memory.\<close>

definition sample_key :: string where
  "sample_key = replicate 32 (CHR ''k'')"

definition empty_memdb :: memdb where
  "empty_memdb = \<lparr>md_map = Map.empty, md_faults = []\<rparr>"

definition registered_memdb :: memdb where
  "registered_memdb = \<lparr>md_map = [''alice'' \<mapsto> CHR ''$'' # sample_key], md_faults = []\<rparr>"

lemma length_sample_key [simp]: "length sample_key = 32"
  by (simp add: sample_key_def)

lemma sample_key_not_Nil [simp]: "sample_key \<noteq> []"
  by (simp add: sample_key_def)

lemmas mem_eval =
  bitcaskStore_defs mem_bitcask_def empty_memdb_def registered_memdb_def hashKey_def
  compareKeyHash_def mark_bcrypt_def MinKeyLen_def

lemma sample_Register:
  "Register (bitcaskStore mem_bitcask) mark_bcrypt 0 empty_memdb ''alice'' sample_key = (None, registered_memdb)"
  by (simp add: Register_defs mem_eval)

lemma sample_Authenticate:
  "Authenticate (bitcaskStore mem_bitcask) mark_bcrypt registered_memdb ''alice'' sample_key = None"
  by (simp add: Authenticate_def mem_eval)

theorem Register_correct_witness:
  "\<exists>h. md_map registered_memdb = (md_map empty_memdb)(''alice'' \<mapsto> h)"
  using Register_correct [OF mem_bitcask_db mark_bcrypt_lib sample_Register] by blast

text \<open>
  No registration, successful or not, changes the entry of a registered client: a second
  registration of a client is refused and leaves the database as it is, and one of another client
  leaves every existing entry in place.
\<close>

theorem Register_keeps_clients:
  assumes "bitcask_db bc ct" "bcrypt_lib bcr"
    and "Register (bitcaskStore bc) bcr salt d cid key = (r, d')" "ct d j = Some h"
  shows "ct d' j = Some h \<and> (j = cid \<longrightarrow> r \<noteq> None \<and> d' = d)"
proof -
  note B = auth_backendI [OF assms(1,2)]
  show ?thesis
    using auth_backend.Register_keeps [OF B assms(3,4)] auth_backend.Register_taken [OF B, of d cid h salt key]
      assms(3,4) by auto
qed

theorem Register_keeps_clients_witness:
  "md_map (snd (Register (bitcaskStore mem_bitcask) mark_bcrypt 0 registered_memdb ''alice'' (replicate 40 (CHR ''x''))))
     ''alice'' = Some (CHR ''$'' # sample_key)"
  using Register_keeps_clients [OF mem_bitcask_db mark_bcrypt_lib surjective_pairing,
      of registered_memdb "''alice''" "CHR ''$'' # sample_key" 0 "''alice''" "replicate 40 (CHR ''x'')"]
  by (simp add: registered_memdb_def)

text \<open>
  C10: when any number of goroutines register concurrently, in any interleaving of their store
  accesses, at most one registration of a client succeeds, and the hash the winner stored is the
  one the database holds.
\<close>

theorem Register_one_winner:
  assumes "bitcask_db bc ct" "bcrypt_lib bcr" "reg_reach (bitcaskStore bc) bcr J d0 s"
    and "rs_pc s i = RegDone None"
  shows "(\<exists>h. hashKey bcr (rj_salt (J i)) (rj_key (J i)) = Inr h \<and> ct (rs_db s) (rj_client (J i)) = Some h) \<and>
    (\<forall>j. j \<noteq> i \<longrightarrow> rj_client (J j) = rj_client (J i) \<longrightarrow> rs_pc s j \<noteq> RegDone None)"
  using auth_backend.reg_reach_inv [OF auth_backendI [OF assms(1,2)] assms(3)] assms(4)
  unfolding reg_inv_def by blast

definition sample_jobs :: "nat \<Rightarrow> reg_job" where
  "sample_jobs i = \<lparr>rj_client = ''alice'', rj_key = (if i = 0 then sample_key else replicate 33 (CHR ''m'')), rj_salt = i\<rparr>"

definition sample_race :: "memdb reg_sys" where
  "sample_race = \<lparr>rs_db = registered_memdb,
     rs_pc = (\<lambda>_. RegStart)(1 := RegChecked, 0 := RegChecked, 0 := RegDone None)\<rparr>"

lemma sample_race_reach:
  "reg_reach (bitcaskStore mem_bitcask) mark_bcrypt sample_jobs empty_memdb sample_race"
proof -
  let ?R = "reg_reach (bitcaskStore mem_bitcask) mark_bcrypt sample_jobs empty_memdb"
  let ?S = "reg_step (bitcaskStore mem_bitcask) mark_bcrypt sample_jobs"
  let ?s1 = "(reg_init empty_memdb)\<lparr>rs_pc := (\<lambda>_. RegStart)(1 := RegChecked)\<rparr>"
  let ?s2 = "?s1\<lparr>rs_pc := (\<lambda>_. RegStart)(1 := RegChecked, 0 := RegChecked)\<rparr>"
  have "?S (reg_init empty_memdb) ?s1"
    using reg_checked [of "reg_init empty_memdb" 1 "bitcaskStore mem_bitcask" sample_jobs mark_bcrypt]
    by (simp add: reg_init_def sample_jobs_def Register_check_def mem_eval)
  moreover have "?S ?s1 ?s2"
    using reg_checked [of ?s1 0 "bitcaskStore mem_bitcask" sample_jobs mark_bcrypt]
    by (simp add: reg_init_def sample_jobs_def Register_check_def mem_eval)
  moreover have "?S ?s2 sample_race"
    using reg_commit [of ?s2 0 "bitcaskStore mem_bitcask" mark_bcrypt sample_jobs None registered_memdb]
    by (simp add: reg_init_def sample_jobs_def Register_commit_def mem_eval sample_race_def)
  ultimately show ?thesis using reg_start reg_next by metis
qed

theorem Register_one_winner_witness: "rs_pc sample_race 1 \<noteq> RegDone None"
  using Register_one_winner [OF mem_bitcask_db mark_bcrypt_lib sample_race_reach, of 0]
  by (simp add: sample_race_def sample_jobs_def)

text \<open>
  C14: a login that succeeds was authenticated; the token is 32 characters of the URL-safe
  alphabet, was not in use, gives the session of this client until it expires, and is from now on
  the only token of the client, while other clients keep theirs.
\<close>

theorem Login_correct:
  assumes "rand_ok rd" "cache_reach cfg c" "range_order ord (sessionMap c)"
    and "Login S bcr rd ord d c now cid key = (Done (Inr token), c')"
  shows "Authenticate S bcr d cid key = None \<and> length token = 32 \<and> set token \<subseteq> set b64_alphabet \<and>
    sessionMap c token = None \<and>
    (\<forall>later s c''. SessionCache_Get c' later token = (Inr s, c'') \<longleftrightarrow>
      c'' = c' \<and> session_ClientID s = cid \<and> later \<le> session_ExpirationDate s \<and>
      session_ExpirationDate s = now + mul64 (ExpirationMinutes (sc_cfg c)) time_Minute) \<and>
    (\<forall>u s. u \<noteq> token \<longrightarrow> sessionMap c' u = Some s \<longleftrightarrow> sessionMap c u = Some s \<and> session_ClientID s \<noteq> cid)"
proof -
  from Login_ok [OF assms(4)] have L: "Authenticate S bcr d cid key = None" "newRandomToken rd = Done (Inr token)"
    "SessionCache_Put ord c now cid token = (None, c')" by auto
  note P = Put_ok [OF cache_reach_inv [OF assms(2)] assms(3) L(3)]
  then have m: "sessionMap c' = (without_client cid (sessionMap c))(token \<mapsto>
    \<lparr>session_ClientID = cid,
     session_ExpirationDate = now + mul64 (ExpirationMinutes (sc_cfg c)) time_Minute\<rparr>)" by blast
  have "SessionCache_Get c' later token = (Inr s, c'') \<longleftrightarrow>
      c'' = c' \<and> session_ClientID s = cid \<and> later \<le> session_ExpirationDate s \<and>
      session_ExpirationDate s = now + mul64 (ExpirationMinutes (sc_cfg c)) time_Minute" for later s c''
    by (cases s) (auto simp: Get_ok m)
  moreover have "sessionMap c' u = Some s \<longleftrightarrow> sessionMap c u = Some s \<and> session_ClientID s \<noteq> cid"
    if "u \<noteq> token" for u s using that by (simp add: m)
  ultimately show ?thesis using L newRandomToken_ok [OF assms(1) L(2)] P by blast
qed

definition zero_read :: rand_read where
  "zero_read n = (n, None, replicate n 0)"

definition zero_token :: string where
  "zero_token = replicate 32 (CHR ''A'')"

lemma zero_read_ok: "rand_ok zero_read"
  by (simp add: rand_ok_def zero_read_def)

lemma zero_token_made: "newRandomToken zero_read = Done (Inr zero_token)"
  unfolding zero_token_def by code_simp

lemma zero_token_fresh [simp]: "zero_token \<noteq> []" "zero_token \<noteq> ''t1''"
  unfolding zero_token_def by code_simp+

lemma sample_Login:
  "Login (bitcaskStore mem_bitcask) mark_bcrypt zero_read [''t1''] registered_memdb sample_cache 8 ''alice'' sample_key =
    (Done (Inr zero_token), snd (SessionCache_Put [''t1''] sample_cache 8 ''alice'' zero_token))"
  by (simp add: Login_def sample_Authenticate zero_token_made)
    (simp add: SessionCache_Put_def sample_cache_def Let_def)

theorem Login_correct_witness:
  "sessionMap (snd (SessionCache_Put [''t1''] sample_cache 8 ''alice'' zero_token)) ''t1'' \<noteq> None"
proof -
  let ?c' = "snd (SessionCache_Put [''t1''] sample_cache 8 ''alice'' zero_token)"
  have "\<forall>u s. u \<noteq> zero_token \<longrightarrow>
      sessionMap ?c' u = Some s \<longleftrightarrow> sessionMap sample_cache u = Some s \<and> session_ClientID s \<noteq> ''alice''"
    using Login_correct [OF zero_read_ok sample_cache_reach sample_cache_order sample_Login] by (elim conjE)
  from this [rule_format, OF zero_token_fresh(2) [symmetric]] show ?thesis
    by (simp add: sample_cache_def)
qed

text \<open>
  C24: when \<^verbatim>\<open>Unregister\<close> succeeds the client was registered, its entry and no other is gone, no key
  authenticates it any more, and none of its tokens is left in the cache, while the sessions of
  other clients are.
\<close>

theorem Unregister_correct:
  assumes "bitcask_db bc ct" "bcrypt_lib bcr" "cache_reach cfg c" "range_order ord (sessionMap c)"
    and "Unregister (bitcaskStore bc) ord d c cid = (None, d', c')"
  shows "ct d cid \<noteq> None \<and> ct d' = (ct d)(cid := None) \<and>
    (\<forall>key. Authenticate (bitcaskStore bc) bcr d' cid key \<noteq> None) \<and>
    sessionMap c' = without_client cid (sessionMap c)"
proof -
  note B = auth_backendI [OF assms(1,2)]
  from auth_backend.Unregister_ok [OF B assms(5)] auth_backend.Unregister_no_login [OF B assms(5)]
  show ?thesis
    using delete_eq [OF cache_reach_inv [OF assms(3)] assms(4), of cid]
    by (auto simp: SessionCache_Delete_def)
qed

lemma sample_Unregister:
  "Unregister (bitcaskStore mem_bitcask) [''t1''] registered_memdb sample_cache ''alice'' =
    (None, registered_memdb\<lparr>md_map := (md_map registered_memdb)(''alice'' := None)\<rparr>,
     SessionCache_Delete [''t1''] sample_cache ''alice'')"
  by (simp add: Unregister_def mem_eval)

theorem Unregister_correct_witness:
  "Authenticate (bitcaskStore mem_bitcask) mark_bcrypt
     (registered_memdb\<lparr>md_map := (md_map registered_memdb)(''alice'' := None)\<rparr>) ''alice'' sample_key \<noteq> None"
  using Unregister_correct [OF mem_bitcask_db mark_bcrypt_lib sample_cache_reach sample_cache_order sample_Unregister]
  by blast

text \<open>
  A removal whose last step fails (the database deletes the entry, then \<^verbatim>\<open>Sync\<close> reports an
  error) is reported as an error, but the client is gone from the store while its session stays
  valid: every further \<^verbatim>\<open>Unregister\<close> then fails at the lookup, so no call removes the session
  before it expires.
\<close>

theorem Unregister_partial_failure:
  "\<exists>e d' c'. Unregister (bitcaskStore mem_bitcask) ord
      \<lparr>md_map = [''a'' \<mapsto> h], md_faults = [None, Some ''disk full'']\<rparr> sample_cache ''a'' = (Some e, d', c') \<and>
    md_map d' ''a'' = None \<and>
    fst (SessionCache_Get c' 8 ''t1'') = Inr \<lparr>session_ClientID = ''a'', session_ExpirationDate = 86400000000007\<rparr> \<and>
    (\<forall>ord'. \<exists>e'. Unregister (bitcaskStore mem_bitcask) ord' d' c' ''a'' = (Some e', d', c'))"
  by (simp add: Unregister_def mem_eval memdb_fault.simps SessionCache_Get_def Get_read_def sample_cache_def)

end
