(* ===== verification/Go_Regexp.thy ===== *)
theory Go_Regexp
  imports Go_Prelude
begin

text \<open>
  The part of the standard library's \<^verbatim>\<open>regexp\<close> the code uses: literals, character classes, any
  character, alternatives, greedy repetition, capturing groups and the two anchors. The matcher
  lists the ways a pattern matches in the order of preference of the library (leftmost-first:
  the left alternative, then the longer repetition), so the first success is its answer. Patterns
  of the code are values of the type \<open>re\<close>, written in the shape of their source text.
\<close>

section \<open>Patterns and the matcher\<close>

datatype re =
    RLit string
  | RClass "(char \<times> char) list"
  | RAny
  | RCat re re
  | RAlt re re
  | RStar re
  | ROpt re
  | RGroup nat re
  | RBegin
  | REnd

text \<open>A state of a match: the position, the rest of the text, the groups recorded so far.\<close>

type_synonym mstate = "nat \<times> string \<times> (nat \<times> string) list"

definition in_class :: "(char \<times> char) list \<Rightarrow> char \<Rightarrow> bool" where
  "in_class rs c \<longleftrightarrow> (\<exists>(lo, hi) \<in> set rs. (of_char lo :: nat) \<le> of_char c \<and> (of_char c :: nat) \<le> of_char hi)"

text \<open>\<^verbatim>\<open>.\<close> does not match a newline.\<close>

definition any_char :: "char \<Rightarrow> bool" where
  "any_char c \<longleftrightarrow> c \<noteq> CHR 0x0A"

fun char_step :: "(char \<Rightarrow> bool) \<Rightarrow> mstate \<Rightarrow> mstate list" where
  "char_step P (p, [], g) = []"
| "char_step P (p, c # s, g) = (if P c then [(Suc p, s, g)] else [])"

text \<open>
  Greedy repetition: one more round first, then none. A round must consume something, so the
  length of the rest bounds the number of rounds.
\<close>

fun star_loop :: "nat \<Rightarrow> (mstate \<Rightarrow> mstate list) \<Rightarrow> mstate \<Rightarrow> mstate list" where
  "star_loop 0 f st = [st]"
| "star_loop (Suc n) f st =
     concat (map (star_loop n f)
       (filter (\<lambda>st'. length (fst (snd st')) < length (fst (snd st))) (f st))) @ [st]"

primrec mt :: "re \<Rightarrow> mstate \<Rightarrow> mstate list" where
  "mt (RLit l) = (\<lambda>(p, s, g). if HasPrefix s l then [(p + length l, drop (length l) s, g)] else [])"
| "mt (RClass rs) = char_step (in_class rs)"
| "mt RAny = char_step any_char"
| "mt (RCat r q) = (\<lambda>st. concat (map (mt q) (mt r st)))"
| "mt (RAlt r q) = (\<lambda>st. mt r st @ mt q st)"
| "mt (RStar r) = (\<lambda>st. star_loop (length (fst (snd st))) (mt r) st)"
| "mt (ROpt r) = (\<lambda>st. mt r st @ [st])"
| "mt (RGroup n r) = (\<lambda>(p, s, g).
     map (\<lambda>(p', s', g'). (p', s', (n, take (p' - p) s) # g')) (mt r (p, s, g)))"
| "mt RBegin = (\<lambda>(p, s, g). if p = 0 then [(p, s, g)] else [])"
| "mt REnd = (\<lambda>(p, s, g). if s = [] then [(p, s, g)] else [])"

text \<open>
  \<^verbatim>\<open>FindStringSubmatch\<close> of a pattern with \<open>n\<close> groups: the first success at the leftmost offset where
  there is one, as the list of the whole match and the groups (a group that took no part is the
  empty string); \<open>None\<close> is the nil slice.
\<close>

definition group_text :: "(nat \<times> string) list \<Rightarrow> nat \<Rightarrow> string" where
  "group_text g i = (case map_of g i of None \<Rightarrow> [] | Some t \<Rightarrow> t)"

fun find_from :: "re \<Rightarrow> nat \<Rightarrow> nat \<Rightarrow> string \<Rightarrow> string list option" where
  "find_from r n p s =
     (case mt r (p, s, []) of
        (p', s', g) # _ \<Rightarrow> Some (take (p' - p) s # map (group_text g) [1..<Suc n])
      | [] \<Rightarrow> (case s of [] \<Rightarrow> None | c # s' \<Rightarrow> find_from r n (Suc p) s'))"

declare find_from.simps [simp del]

definition FindStringSubmatch :: "re \<Rightarrow> nat \<Rightarrow> string \<Rightarrow> string list option" where
  "FindStringSubmatch r n s = find_from r n 0 s"

text \<open>Concatenation of a list of patterns.\<close>

fun cats :: "re list \<Rightarrow> re" where
  "cats [] = RLit []"
| "cats [r] = r"
| "cats (r # rs) = RCat r (cats rs)"

section \<open>What a match is\<close>

lemma char_step_iff:
  "st' \<in> set (char_step P (p, s, g)) \<longleftrightarrow> (\<exists>c. P c \<and> s = c # fst (snd st') \<and> st' = (Suc p, fst (snd st'), g))"
  by (cases s) auto

lemma mt_Lit [simp]:
  "st' \<in> set (mt (RLit l) (p, s, g)) \<longleftrightarrow> (\<exists>s'. s = l @ s' \<and> st' = (p + length l, s', g))"
  by (auto simp: HasPrefix_iff)

lemma mt_Class [simp]:
  "st' \<in> set (mt (RClass rs) (p, s, g)) \<longleftrightarrow> (\<exists>c s'. in_class rs c \<and> s = c # s' \<and> st' = (Suc p, s', g))"
  by (cases s) auto

lemma mt_Any [simp]:
  "st' \<in> set (mt RAny (p, s, g)) \<longleftrightarrow> (\<exists>c s'. any_char c \<and> s = c # s' \<and> st' = (Suc p, s', g))"
  by (cases s) auto

lemma mt_Cat [simp]: "st' \<in> set (mt (RCat r q) st) \<longleftrightarrow> (\<exists>m \<in> set (mt r st). st' \<in> set (mt q m))"
  by auto

lemma mt_Alt [simp]: "st' \<in> set (mt (RAlt r q) st) \<longleftrightarrow> st' \<in> set (mt r st) \<or> st' \<in> set (mt q st)"
  by auto

lemma mt_Opt [simp]: "st' \<in> set (mt (ROpt r) st) \<longleftrightarrow> st' \<in> set (mt r st) \<or> st' = st"
  by auto

lemma mt_Group [simp]:
  "st' \<in> set (mt (RGroup n r) (p, s, g)) \<longleftrightarrow>
     (\<exists>p' s' g'. (p', s', g') \<in> set (mt r (p, s, g)) \<and> st' = (p', s', (n, take (p' - p) s) # g'))"
  by force

lemma mt_Begin [simp]: "st' \<in> set (mt RBegin (p, s, g)) \<longleftrightarrow> p = 0 \<and> st' = (p, s, g)"
  by auto

lemma mt_End [simp]: "st' \<in> set (mt REnd (p, s, g)) \<longleftrightarrow> s = [] \<and> st' = (p, s, g)"
  by auto

declare mt.simps [simp del]

lemma star_char:
  assumes "length s \<le> n"
  shows "st' \<in> set (star_loop n (char_step P) (p, s, g)) \<longleftrightarrow>
    (\<exists>u s'. s = u @ s' \<and> (\<forall>c \<in> set u. P c) \<and> st' = (p + length u, s', g))"
  using assms
proof (induction n arbitrary: p s)
  case 0
  then have "s = []" by simp
  then show ?case by simp
next
  case (Suc n)
  show ?case
  proof (cases s)
    case Nil
    then show ?thesis by auto
  next
    case (Cons c t)
    have split: "(\<exists>u s'. s = u @ s' \<and> (\<forall>c \<in> set u. P c) \<and> st' = (p + length u, s', g)) \<longleftrightarrow>
      st' = (p, s, g) \<or>
      (P c \<and> (\<exists>u s'. t = u @ s' \<and> (\<forall>c \<in> set u. P c) \<and> st' = (Suc p + length u, s', g)))"
      (is "?L \<longleftrightarrow> ?A \<or> ?B")
    proof
      assume ?L
      then obtain u s' where u: "s = u @ s'" "\<forall>c \<in> set u. P c" "st' = (p + length u, s', g)" by blast
      with Cons show "?A \<or> ?B" by (cases u) auto
    next
      assume "?A \<or> ?B"
      then show ?L
      proof
        assume ?A
        then show ?L by (intro exI [where x = "[]"] exI [where x = s]) simp
      next
        assume ?B
        then obtain u s' where "P c" "t = u @ s'" "\<forall>c \<in> set u. P c" "st' = (Suc p + length u, s', g)"
          by blast
        with Cons show ?L by (intro exI [where x = "c # u"] exI [where x = s']) simp
      qed
    qed
    from Suc.prems Cons have "length t \<le> n" by simp
    from Suc.IH [OF this] Cons show ?thesis unfolding split by auto
  qed
qed

lemma mt_Star_Class [simp]:
  "st' \<in> set (mt (RStar (RClass rs)) (p, s, g)) \<longleftrightarrow>
     (\<exists>u s'. s = u @ s' \<and> (\<forall>c \<in> set u. in_class rs c) \<and> st' = (p + length u, s', g))"
  by (simp add: mt.simps star_char)

lemma mt_Star_Any [simp]:
  "st' \<in> set (mt (RStar RAny) (p, s, g)) \<longleftrightarrow>
     (\<exists>u s'. s = u @ s' \<and> (\<forall>c \<in> set u. any_char c) \<and> st' = (p + length u, s', g))"
  by (simp add: mt.simps star_char)

text \<open>A pattern that begins with \<^verbatim>\<open>^\<close> can match at the beginning only.\<close>

lemma find_from_anchored:
  assumes "\<And>st. fst st \<noteq> 0 \<Longrightarrow> mt r st = []" "p \<noteq> 0"
  shows "find_from r n p s = None"
  using assms(2)
proof (induction s arbitrary: p)
  case Nil
  with assms(1) show ?case by (simp add: find_from.simps)
next
  case (Cons c s)
  then show ?case by (simp add: find_from.simps assms(1))
qed

lemma begin_anchored: "fst st \<noteq> 0 \<Longrightarrow> mt (RCat RBegin r) st = []"
  by (cases st) (simp add: mt.simps)

lemma FindStringSubmatch_anchored:
  "FindStringSubmatch (RCat RBegin r) n s =
     (case mt (RCat RBegin r) (0, s, []) of
        (p', s', g) # _ \<Rightarrow> Some (take p' s # map (group_text g) [1..<Suc n])
      | [] \<Rightarrow> None)"
  using find_from_anchored [OF begin_anchored, of "Suc 0" r n]
  by (auto simp: FindStringSubmatch_def find_from.simps [of _ n 0 s] split: list.splits)

text \<open>
  When all successes of an anchored pattern agree on the groups, the answer is those groups.
\<close>

lemma FindStringSubmatch_unique:
  assumes "\<And>st. st \<in> set (mt (RCat RBegin r) (0, s, [])) \<Longrightarrow>
      take (fst st) s # map (group_text (snd (snd st))) [1..<Suc n] = ts"
  shows "FindStringSubmatch (RCat RBegin r) n s =
    (if mt (RCat RBegin r) (0, s, []) = [] then None else Some ts)"
proof (cases "mt (RCat RBegin r) (0, s, [])")
  case Nil
  then show ?thesis by (simp add: FindStringSubmatch_anchored)
next
  case (Cons st sts)
  with assms [of st] show ?thesis
    by (cases st) (simp add: FindStringSubmatch_anchored)
qed

lemma mt_nonempty: "mt r st \<noteq> [] \<longleftrightarrow> (\<exists>st'. st' \<in> set (mt r st))"
  by (cases "mt r st") auto

section \<open>The texts a pattern matches\<close>

text \<open>
  For a pattern without groups and anchors a match is a text the pattern stands for, at the
  beginning of the rest: \<open>eats r P\<close> says that the texts of \<open>r\<close> are those with \<open>P\<close>.
\<close>

definition eats :: "re \<Rightarrow> (string \<Rightarrow> bool) \<Rightarrow> bool" where
  "eats r P \<longleftrightarrow> (\<forall>p s g st'. st' \<in> set (mt r (p, s, g)) \<longleftrightarrow>
     (\<exists>u s'. s = u @ s' \<and> P u \<and> st' = (p + length u, s', g)))"

lemma eatsD:
  "eats r P \<Longrightarrow> st' \<in> set (mt r (p, s, g)) \<longleftrightarrow> (\<exists>u s'. s = u @ s' \<and> P u \<and> st' = (p + length u, s', g))"
  unfolding eats_def by blast

lemma eats_Bex:
  "eats r P \<Longrightarrow> (\<exists>m \<in> set (mt r (p, s, g)). Q m) \<longleftrightarrow> (\<exists>u s'. s = u @ s' \<and> P u \<and> Q (p + length u, s', g))"
  unfolding Bex_def by (auto simp: eatsD)

lemma eats_cong: "eats r P \<Longrightarrow> (\<And>u. P u \<longleftrightarrow> Q u) \<Longrightarrow> eats r Q"
  by (simp add: eats_def)

lemma eats_Lit: "eats (RLit l) (\<lambda>u. u = l)"
  by (simp add: eats_def)

lemma eats_Class: "eats (RClass rs) (\<lambda>u. \<exists>c. in_class rs c \<and> u = [c])"
  by (auto simp: eats_def)

lemma eats_Any: "eats RAny (\<lambda>u. \<exists>c. any_char c \<and> u = [c])"
  by (auto simp: eats_def)

lemma eats_Star_Class: "eats (RStar (RClass rs)) (\<lambda>u. \<forall>c \<in> set u. in_class rs c)"
  by (simp add: eats_def)

lemma eats_Star_Any: "eats (RStar RAny) (\<lambda>u. \<forall>c \<in> set u. any_char c)"
  by (simp add: eats_def)

lemma eats_Cat:
  assumes "eats r P" "eats q Q"
  shows "eats (RCat r q) (\<lambda>u. \<exists>a b. u = a @ b \<and> P a \<and> Q b)"
  unfolding eats_def mt_Cat
proof (intro allI)
  fix p s g st'
  have "(\<exists>m\<in>set (mt r (p, s, g)). st' \<in> set (mt q m)) \<longleftrightarrow>
    (\<exists>a t b s'. s = a @ t \<and> P a \<and> t = b @ s' \<and> Q b \<and> st' = (p + length a + length b, s', g))"
    by (simp add: eats_Bex [OF assms(1)] eatsD [OF assms(2)])
  also have "\<dots> \<longleftrightarrow>
    (\<exists>u s'. s = u @ s' \<and> (\<exists>a b. u = a @ b \<and> P a \<and> Q b) \<and> st' = (p + length u, s', g))"
    by (fastforce simp: add.assoc)
  finally show "(\<exists>m\<in>set (mt r (p, s, g)). st' \<in> set (mt q m)) \<longleftrightarrow>
    (\<exists>u s'. s = u @ s' \<and> (\<exists>a b. u = a @ b \<and> P a \<and> Q b) \<and> st' = (p + length u, s', g))" .
qed

lemma eats_Alt: "eats r P \<Longrightarrow> eats q Q \<Longrightarrow> eats (RAlt r q) (\<lambda>u. P u \<or> Q u)"
  by (auto simp: eats_def)

lemma eats_Opt:
  assumes "eats r P"
  shows "eats (ROpt r) (\<lambda>u. u = [] \<or> P u)"
proof -
  have h: "(\<exists>u s'. s = u @ s' \<and> P u \<and> st' = (p + length u, s', g)) \<or> st' = (p, s, g) \<longleftrightarrow>
    (\<exists>u s'. s = u @ s' \<and> (u = [] \<or> P u) \<and> st' = (p + length u, s', g))" for p s g st'
    by (auto intro: exI [where x = "[]"])
  show ?thesis unfolding eats_def mt_Opt eatsD [OF assms] by (intro allI h)
qed

lemma eats_Lit_cats:
  assumes "rs \<noteq> []" "eats (cats rs) Q"
  shows "eats (cats (RLit l # rs)) (\<lambda>u. \<exists>b. u = l @ b \<and> Q b)"
  using eats_Cat [OF eats_Lit assms(2), of l] assms(1) by (cases rs) simp_all

lemma eats_cats:
  "rs \<noteq> [] \<Longrightarrow> eats r P \<Longrightarrow> eats (cats rs) Q \<Longrightarrow> eats (cats (r # rs)) (\<lambda>u. \<exists>a b. u = a @ b \<and> P a \<and> Q b)"
  by (cases rs) (auto intro: eats_Cat)

section \<open>Decimal numbers in patterns\<close>

text \<open>\<^verbatim>\<open>\d\<close>, \<^verbatim>\<open>\d*\<close>, \<^verbatim>\<open>\d+\<close>, and \<^verbatim>\<open>(?:0|[1-9]\d*)\<close>: a number without leading zeros.\<close>

definition re_digit :: re where
  "re_digit = RClass [(CHR ''0'', CHR ''9'')]"

definition re_number :: re where
  "re_number = RAlt (RLit ''0'') (RCat (RClass [(CHR ''1'', CHR ''9'')]) (RStar re_digit))"

lemma in_class_digit [simp]: "in_class [(CHR ''0'', CHR ''9'')] c \<longleftrightarrow> is_digit c"
  by (simp add: in_class_def is_digit_def)

lemma in_class_nonzero [simp]: "in_class [(CHR ''1'', CHR ''9'')] c \<longleftrightarrow> is_digit c \<and> c \<noteq> CHR ''0''"
proof -
  have "(of_char c :: nat) = of_char (CHR ''0'') \<longleftrightarrow> c = CHR ''0''"
    by (simp only: of_char_eq_iff)
  then show ?thesis by (auto simp: in_class_def is_digit_def)
qed

definition canonical :: "string \<Rightarrow> bool" where
  "canonical t \<longleftrightarrow> t \<noteq> [] \<and> (\<forall>c \<in> set t. is_digit c) \<and> (hd t = CHR ''0'' \<longrightarrow> t = ''0'')"

lemma eats_number: "eats re_number canonical"
proof (rule eats_cong)
  show "eats re_number (\<lambda>u. u = ''0'' \<or> (\<exists>a b. u = a @ b \<and>
      (\<exists>c. in_class [(CHR ''1'', CHR ''9'')] c \<and> a = [c]) \<and> (\<forall>c \<in> set b. in_class [(CHR ''0'', CHR ''9'')] c)))"
    unfolding re_number_def re_digit_def
    by (intro eats_Alt eats_Lit eats_Cat eats_Class eats_Star_Class)
next
  fix u
  show "(u = ''0'' \<or> (\<exists>a b. u = a @ b \<and>
      (\<exists>c. in_class [(CHR ''1'', CHR ''9'')] c \<and> a = [c]) \<and>
      (\<forall>c \<in> set b. in_class [(CHR ''0'', CHR ''9'')] c))) \<longleftrightarrow> canonical u"
    (is "?L \<longleftrightarrow> _")
  proof
    assume ?L
    then show "canonical u" by (auto simp: canonical_def is_digit_def)
  next
    assume u: "canonical u"
    then obtain c v where v: "u = c # v" by (cases u) (auto simp: canonical_def)
    show ?L
    proof (cases "c = CHR ''0''")
      case True
      with u v show ?L by (simp add: canonical_def)
    next
      case False
      with u v show ?L
        by (intro disjI2 exI [where x = "[c]"] exI [where x = v]) (simp add: canonical_def)
    qed
  qed
qed

lemma eats_digits: "eats (RStar re_digit) (\<lambda>u. \<forall>c \<in> set u. is_digit c)"
  using eats_Star_Class [of "[(CHR ''0'', CHR ''9'')]"] by (simp add: re_digit_def)

end
