(* ===== verification/Job.thy ===== *)
theory Job
  imports Go_Regexp "HOL-Library.List_Lexorder" "HOL-Library.Char_ord" "HOL-Library.AList"
begin

text \<open>
  The package \<^verbatim>\<open>public/job\<close>: the data of a job, its input data, and the validation of job
  configurations and runners. The semantic version package is a parameter with its documented
  behaviour as the locale \<open>semver_lib\<close>.
\<close>

section \<open>Data\<close>

text \<open>
  A \<^verbatim>\<open>float64\<close> is its 64-bit pattern; its decimal texts are made by functions that are arguments.
  A value of type \<^verbatim>\<open>any\<close> is one of those JSON decoding makes. A map is an association list with
  distinct keys; its order has no meaning, and where the code ranges over a map the order is an
  argument. \<open>None\<close> is the nil map.
\<close>

type_synonym float64 = "64 word"

datatype goany =
    AnyNil
  | AnyBool bool
  | AnyNum float64
  | AnyStr string
  | AnyArr "goany list"
  | AnyMap "(string \<times> goany) list"

type_synonym any_map = "(string \<times> goany) list"
type_synonym InputData = "any_map option"

definition TypeRecording :: string where "TypeRecording = ''recording''"
definition TypeTranscribing :: string where "TypeTranscribing = ''transcribing''"

definition MinSupportedRecorderVersion :: string where
  "MinSupportedRecorderVersion = ''0.6.0''"
definition MinSupportedTranscriberVersion :: string where
  "MinSupportedTranscriberVersion = ''0.1.0''"
definition RecordingJobPrefix :: string where
  "RecordingJobPrefix = ''calls-recorder''"
definition TranscribingJobPrefix :: string where
  "TranscribingJobPrefix = ''calls-transcriber''"
definition ImageRegistryDefault :: string where
  "ImageRegistryDefault = ''mattermost''"
definition InputDataSiteURLKey :: string where
  "InputDataSiteURLKey = ''site_url''"

record ServiceConfig =
  Runners :: "string list"

record JobConfig =
  cfg_Type :: string
  cfg_MaxDurationSec :: int
  cfg_Runner :: string
  cfg_InputData :: InputData

record Job =
  job_Config :: JobConfig
  job_ID :: string
  job_StartAt :: int
  job_StopAt :: int
  job_OutputData :: InputData

definition empty_JobConfig :: JobConfig where
  "empty_JobConfig = \<lparr>cfg_Type = [], cfg_MaxDurationSec = 0, cfg_Runner = [], cfg_InputData = None\<rparr>"

definition empty_Job :: Job where
  "empty_Job = \<lparr>job_Config = empty_JobConfig, job_ID = [], job_StartAt = 0, job_StopAt = 0, job_OutputData = None\<rparr>"

section \<open>Input data\<close>

definition GetSiteURL :: "InputData \<Rightarrow> string" where
  "GetSiteURL d =
     (case d of
        None \<Rightarrow> []
      | Some m \<Rightarrow> (case map_of m InputDataSiteURLKey of Some (AnyStr s) \<Rightarrow> s | _ \<Rightarrow> []))"

definition SetSiteURL :: "InputData \<Rightarrow> string \<Rightarrow> InputData" where
  "SetSiteURL d siteURL =
     (case d of
        None \<Rightarrow> None
      | Some m \<Rightarrow> Some (AList.update InputDataSiteURLKey (AnyStr siteURL) m))"

text \<open>
  The verb \<^verbatim>\<open>%v\<close>: \<open>fv\<close> prints a number; the elements of a list are separated by spaces, the entries
  of a map are sorted by key.
\<close>

definition spaced :: "string list \<Rightarrow> string" where
  "spaced ps = Join ps (CHR '' '')"

fun fmt_v :: "(float64 \<Rightarrow> string) \<Rightarrow> goany \<Rightarrow> string" where
  "fmt_v fv AnyNil = ''<nil>''"
| "fmt_v fv (AnyBool b) = (if b then ''true'' else ''false'')"
| "fmt_v fv (AnyNum f) = fv f"
| "fmt_v fv (AnyStr s) = s"
| "fmt_v fv (AnyArr xs) = ''['' @ spaced (map (fmt_v fv) xs) @ '']''"
| "fmt_v fv (AnyMap kvs) =
     ''map['' @ spaced (map (\<lambda>(k, t). k @ '':'' @ t)
       (sort_key fst (map (\<lambda>(k, v). (k, fmt_v fv v)) kvs))) @ '']''"

text \<open>\<^verbatim>\<open>ToEnv\<close>: \<open>ord\<close> is the order in which the loop ranges over the keys.\<close>

definition ToEnv :: "(float64 \<Rightarrow> string) \<Rightarrow> string list \<Rightarrow> InputData \<Rightarrow> string list" where
  "ToEnv fv ord d =
     (case d of
        None \<Rightarrow> []
      | Some m \<Rightarrow>
          map (\<lambda>k. ToUpper k @ ''='' @ (case map_of m k of Some v \<Rightarrow> fmt_v fv v | None \<Rightarrow> [])) ord)"

text \<open>An order of the keys of the map.\<close>

definition key_order :: "string list \<Rightarrow> InputData \<Rightarrow> bool" where
  "key_order ord d \<longleftrightarrow>
     distinct ord \<and> set ord = (case d of None \<Rightarrow> {} | Some m \<Rightarrow> fst ` set m)"

lemma GetSiteURL_SetSiteURL: "d \<noteq> None \<Longrightarrow> GetSiteURL (SetSiteURL d u) = u"
  by (auto simp: GetSiteURL_def SetSiteURL_def update_conv)

lemma SetSiteURL_nil [simp]: "SetSiteURL None u = None"
  by (simp add: SetSiteURL_def)

lemma SetSiteURL_other:
  "k \<noteq> InputDataSiteURLKey \<Longrightarrow> SetSiteURL (Some m) u = Some m' \<Longrightarrow> map_of m' k = map_of m k"
  by (auto simp: SetSiteURL_def update_conv)

lemma ToEnv_entries:
  assumes "distinct (map fst m)" "key_order ord (Some m)"
  shows "set (ToEnv fv ord (Some m)) = {ToUpper k @ ''='' @ fmt_v fv v | k v. (k, v) \<in> set m}"
    and "length (ToEnv fv ord (Some m)) = length m"
proof -
  have ord: "distinct ord" "set ord = fst ` set m"
    using assms(2) by (auto simp: key_order_def)
  show "set (ToEnv fv ord (Some m)) = {ToUpper k @ ''='' @ fmt_v fv v | k v. (k, v) \<in> set m}"
    using assms(1) ord(2) by (force simp: ToEnv_def image_iff)
  have "length ord = card (fst ` set m)"
    using ord by (metis distinct_card)
  also have "\<dots> = length m"
    using assms(1) by (metis distinct_card length_map list.set_map)
  finally show "length (ToEnv fv ord (Some m)) = length m" by (simp add: ToEnv_def)
qed

section \<open>Semantic versions\<close>

text \<open>
  The functions of \<^verbatim>\<open>github.com/Masterminds/semver\<close> the code calls, the environment, and the
  compilation of runner patterns for registries whose text uses more of the pattern syntax than
  the character \<^verbatim>\<open>.\<close> (\<open>None\<close>: the pattern does not compile), together: what the validation of a
  runner takes from outside.
\<close>

record 'v joblib =
  jl_env :: environ
  jl_NewVersion :: "string \<Rightarrow> 'v res"
  jl_Compare :: "'v \<Rightarrow> 'v \<Rightarrow> int"
  jl_regexp :: "string \<Rightarrow> string \<Rightarrow> re option"

definition checkMinVersion :: "'v joblib \<Rightarrow> string \<Rightarrow> string \<Rightarrow> goerr option" where
  "checkMinVersion jl minVersion actualVersion =
     (case jl_NewVersion jl minVersion of
        Inl err \<Rightarrow> Some (Wrapf ''failed to parse minVersion: '' err)
      | Inr minV \<Rightarrow> (case jl_NewVersion jl actualVersion of
          Inl err \<Rightarrow> Some (Wrapf ''failed to parse actualVersion: '' err)
        | Inr currV \<Rightarrow>
            if jl_Compare jl currV minV < 0
            then Some (Errorf (''actual version ('' @ actualVersion @
              '') is lower than minimum supported version ('' @ minVersion @ '')''))
            else None))"

type_synonym version = "nat \<times> nat \<times> nat"

fun version_lt :: "version \<Rightarrow> version \<Rightarrow> bool" where
  "version_lt (x, y, z) (x', y', z') \<longleftrightarrow> x < x' \<or> x = x' \<and> (y < y' \<or> y = y' \<and> z < z')"

fun version_fits :: "version \<Rightarrow> bool" where
  "version_fits (x, y, z) \<longleftrightarrow> x < 2 ^ 63 \<and> y < 2 ^ 63 \<and> z < 2 ^ 63"

fun release :: "version \<Rightarrow> string" where
  "release (x, y, z) = nat_dec x @ ''.'' @ nat_dec y @ ''.'' @ nat_dec z"

text \<open>
  Documented behaviour on releases: three numbers that fit in 64 bits make a version, larger ones
  are refused, and versions compare by their numbers from the left.
\<close>

locale semver_lib =
  fixes jl :: "'v joblib"
  assumes new_release: "version_fits v \<Longrightarrow> \<exists>sv. jl_NewVersion jl (release v) = Inr sv"
    and new_too_large: "\<not> version_fits v \<Longrightarrow> \<exists>e. jl_NewVersion jl (release v) = Inl e"
    and compare_release: "jl_NewVersion jl (release v) = Inr sv \<Longrightarrow>
      jl_NewVersion jl (release w) = Inr sw \<Longrightarrow> jl_Compare jl sv sw < 0 \<longleftrightarrow> version_lt v w"
begin

lemma checkMinVersion_release:
  assumes "version_fits m"
  shows "checkMinVersion jl (release m) (release v) = None \<longleftrightarrow> version_fits v \<and> \<not> version_lt v m"
proof -
  obtain sm where sm: "jl_NewVersion jl (release m) = Inr sm" using new_release [OF assms] by blast
  show ?thesis
  proof (cases "version_fits v")
    case True
    then obtain sv where "jl_NewVersion jl (release v) = Inr sv" using new_release by blast
    with sm True compare_release [of v sv m sm] show ?thesis by (simp add: checkMinVersion_def)
  next
    case False
    then obtain e where "jl_NewVersion jl (release v) = Inl e" using new_too_large by blast
    with sm False show ?thesis by (simp add: checkMinVersion_def)
  qed
qed

end

lemma min_versions:
  "MinSupportedRecorderVersion = release (0, 6, 0)"
  "MinSupportedTranscriberVersion = release (0, 1, 0)"
  by (simp_all add: MinSupportedRecorderVersion_def MinSupportedTranscriberVersion_def nat_dec.simps)

section \<open>Runners\<close>

text \<open>
  The registry is put into the pattern as it is, so its characters are pattern syntax. Among the
  characters of a registry name only \<^verbatim>\<open>.\<close> is one that matters, and it matches any character;
  a registry with other syntax is left to the parameter.
\<close>

definition re_meta :: "char \<Rightarrow> bool" where
  "re_meta c \<longleftrightarrow> c \<in> set [CHR 0x5C, CHR ''+'', CHR ''*'', CHR ''?'', CHR ''('', CHR '')'', CHR ''|'',
     CHR ''['', CHR '']'', CHR ''{'', CHR ''}'', CHR ''^'', CHR ''$'']"

definition registry_re :: "string \<Rightarrow> re option" where
  "registry_re registry =
     (if \<exists>c \<in> set registry. re_meta c then None
      else Some (cats (map (\<lambda>c. if c = CHR ''.'' then RAny else RLit [c]) registry)))"

text \<open>
  The pattern \<^verbatim>\<open>^<registry>/<prefix>:v((?:0|[1-9]\d*)\.(?:0|[1-9]\d*)\.(?:0|[1-9]\d*))(?:-dev\d*)?$\<close>.
\<close>

definition re_release :: re where
  "re_release = cats [re_number, RLit ''.'', re_number, RLit ''.'', re_number]"

definition re_dev :: re where
  "re_dev = cats [RLit ''-dev'', RStar re_digit]"

definition runner_pattern :: "re \<Rightarrow> string \<Rightarrow> re" where
  "runner_pattern r prefix =
     cats [RBegin, r, RLit (''/'' @ prefix @ '':v''), RGroup 1 re_release, ROpt re_dev, REnd]"

definition runner_re :: "'v joblib \<Rightarrow> string \<Rightarrow> string \<Rightarrow> re option" where
  "runner_re jl registry prefix =
     (case registry_re registry of
        Some r \<Rightarrow> Some (runner_pattern r prefix)
      | None \<Rightarrow> jl_regexp jl registry prefix)"

text \<open>The loop over a list of patterns: the first that matches decides.\<close>

fun match_runner :: "re list \<Rightarrow> string \<Rightarrow> string option" where
  "match_runner [] runner = None"
| "match_runner (re # res) runner =
     (case FindStringSubmatch re 1 runner of
        Some (m0 # m1 # ms) \<Rightarrow> Some m1
      | _ \<Rightarrow> match_runner res runner)"

text \<open>\<^verbatim>\<open>%q\<close>: the quoted text, on printable characters.\<close>

definition quoted :: "string \<Rightarrow> string" where
  "quoted s =
     CHR 0x22 # concat (map (\<lambda>c. if c = CHR 0x22 \<or> c = CHR 0x5C then [CHR 0x5C, c] else [c]) s) @ [CHR 0x22]"

definition RunnerIsValid :: "'v joblib \<Rightarrow> string \<Rightarrow> string \<Rightarrow> goerr option outcome" where
  "RunnerIsValid jl runner registry =
     (if jl_env jl ''DEV_MODE'' = ''true'' \<or> jl_env jl ''TEST_MODE'' = ''true'' then Done None
      else if runner = [] then Done (Some (Errorf ''runner should not be empty''))
      else if registry = [] then Done (Some (Errorf ''registry should not be empty''))
      else
        (case (runner_re jl registry RecordingJobPrefix, runner_re jl registry TranscribingJobPrefix) of
           (Some r1, Some r2) \<Rightarrow>
             (case match_runner [r1] runner of
                Some ver \<Rightarrow> Done (checkMinVersion jl MinSupportedRecorderVersion ver)
              | None \<Rightarrow> (case match_runner [r2] runner of
                  Some ver \<Rightarrow> Done (checkMinVersion jl MinSupportedTranscriberVersion ver)
                | None \<Rightarrow> Done (Some (Errorf (''failed to validate runner '' @ quoted runner)))))
         | _ \<Rightarrow> Panic ''regexp: Compile''))"

text \<open>The loop of \<^verbatim>\<open>ServiceConfig.IsValid\<close> ends at the first error.\<close>

fun runners_valid :: "'v joblib \<Rightarrow> string list \<Rightarrow> string \<Rightarrow> goerr option outcome" where
  "runners_valid jl [] registry = Done None"
| "runners_valid jl (runner # rs) registry =
     (case RunnerIsValid jl runner registry of
        Panic p \<Rightarrow> Panic p
      | Done (Some err) \<Rightarrow> Done (Some err)
      | Done None \<Rightarrow> runners_valid jl rs registry)"

definition ServiceConfig_IsValid :: "'v joblib \<Rightarrow> ServiceConfig \<Rightarrow> string \<Rightarrow> goerr option outcome" where
  "ServiceConfig_IsValid jl c registry =
     (if length (Runners c) = 0 then Done (Some (Errorf ''invalid empty Runners''))
      else if registry = [] then Done (Some (Errorf ''registry should not be empty''))
      else runners_valid jl (Runners c) registry)"

definition JobConfig_IsValid :: "'v joblib \<Rightarrow> JobConfig \<Rightarrow> string \<Rightarrow> goerr option outcome" where
  "JobConfig_IsValid jl c registry =
     (if cfg_Type c = [] then Done (Some (Errorf ''invalid Type value: should not be empty''))
      else (case RunnerIsValid jl (cfg_Runner c) registry of
        Panic p \<Rightarrow> Panic p
      | Done (Some err) \<Rightarrow> Done (Some (Wrapf ''invalid Runner value: '' err))
      | Done None \<Rightarrow>
          if cfg_MaxDurationSec c \<le> 0
          then Done (Some (Errorf ''invalid MaxDurationSec value: should be positive''))
          else if cfg_Type c = TypeRecording then Done None
          else if cfg_Type c = TypeTranscribing then Done None
          else Done (Some (Errorf (''invalid Type value: '' @ quoted (cfg_Type c))))))"

end
