(* ===== verification/Job_Validation.thy ===== *)
theory Job_Validation
  imports Job
begin

text \<open>
  What the validation of runners and job configurations accepts: the regular expression of a
  runner is worked out to the texts it matches and the version it extracts, so that
  \<^verbatim>\<open>RunnerIsValid\<close> is characterised by registry, image name, version and suffix.
\<close>

section \<open>Canonical decimal numbers\<close>

lemma digit_of_val: "is_digit c \<Longrightarrow> digit_char (digit_val c) = c"
  by (simp add: is_digit_def digit_char_def digit_val_def)

lemma digit_val_less: "is_digit c \<Longrightarrow> digit_val c < 10"
  unfolding is_digit_def digit_val_def by linarith

lemma dec_val_snoc: "dec_val (t @ [c]) = 10 * dec_val t + digit_val c"
  by (simp add: dec_val_def dec_acc_append)

lemma nat_dec_step: "0 < n \<Longrightarrow> d < 10 \<Longrightarrow> nat_dec (10 * n + d) = nat_dec n @ [digit_char d]"
  by (simp add: nat_dec.simps [of "10 * n + d"])

lemma hd_nat_dec: "0 < n \<Longrightarrow> hd (nat_dec n) \<noteq> CHR ''0''"
proof (induction n rule: nat_dec.induct)
  case (1 n)
  show ?case
  proof (cases "n < 10")
    case True
    with 1 have "n \<in> {1, 2, 3, 4, 5, 6, 7, 8, 9}" by auto
    then show ?thesis by (auto simp: nat_dec.simps [of n])
  next
    case False
    with 1 have "hd (nat_dec (n div 10)) \<noteq> CHR ''0''" by simp
    with False show ?thesis by (simp add: nat_dec.simps [of n])
  qed
qed

lemma canonical_nat_dec [simp]: "canonical (nat_dec n)"
  using hd_nat_dec [of n] nat_dec_digits [of _ n]
  by (cases "n = 0") (auto simp: canonical_def nat_dec.simps [of 0])

lemma nat_dec_dec_val: "canonical t \<Longrightarrow> nat_dec (dec_val t) = t"
proof (induction t rule: rev_induct)
  case Nil
  then show ?case by (simp add: canonical_def)
next
  case (snoc c t)
  from snoc.prems have c: "is_digit c" by (simp add: canonical_def)
  show ?case
  proof (cases "t = []")
    case True
    with c show ?thesis
      using digit_val_less [OF c] digit_of_val [OF c]
      by (simp add: dec_val_def nat_dec.simps)
  next
    case False
    with snoc.prems have t: "canonical t" "t \<noteq> ''0''"
      by (auto simp: canonical_def hd_append)
    with snoc.IH have IH: "nat_dec (dec_val t) = t" by simp
    with t(2) have "0 < dec_val t" by (cases "dec_val t = 0") (auto simp: nat_dec.simps [of 0])
    with IH c show ?thesis
      by (simp add: dec_val_snoc nat_dec_step digit_val_less digit_of_val)
  qed
qed

lemma canonical_iff: "canonical t \<longleftrightarrow> (\<exists>n. t = nat_dec n)"
  using nat_dec_dec_val [of t] by auto metis

section \<open>The texts a runner pattern matches\<close>

text \<open>What a registry matches: itself, with any character in the place of a dot.\<close>

definition registry_char :: "char \<Rightarrow> char \<Rightarrow> bool" where
  "registry_char c d \<longleftrightarrow> (if c = CHR ''.'' then any_char d else d = c)"

definition registry_matches :: "string \<Rightarrow> string \<Rightarrow> bool" where
  "registry_matches registry r \<longleftrightarrow>
     list_all2 registry_char registry r"

lemma registry_matches_plain: "CHR ''.'' \<notin> set registry \<Longrightarrow> registry_matches registry r \<longleftrightarrow> r = registry"
  unfolding registry_matches_def
  by (induction registry arbitrary: r) (auto simp: list_all2_Cons1 registry_char_def)

lemma registry_matches_length: "registry_matches registry r \<Longrightarrow> length r = length registry"
  by (auto simp: registry_matches_def dest: list_all2_lengthD)

lemma eats_registry:
  "eats (cats (map (\<lambda>c. if c = CHR ''.'' then RAny else RLit [c]) reg)) (registry_matches reg)"
proof (induction reg)
  case Nil
  have "eats (RLit []) (registry_matches [])"
    by (rule eats_cong [OF eats_Lit]) (simp add: registry_matches_def)
  then show ?case by simp
next
  case (Cons c reg)
  let ?q = "if c = CHR ''.'' then RAny else RLit [c]"
  have q: "eats ?q (\<lambda>u. \<exists>d. registry_char c d \<and> u = [d])"
    using eats_Any eats_Lit [of "[c]"] by (simp add: registry_char_def)
  show ?case
  proof (cases "reg = []")
    case True
    with q show ?thesis
      by (auto simp: registry_matches_def list_all2_Cons1 elim!: eats_cong)
  next
    case False
    then have "map (\<lambda>c. if c = CHR ''.'' then RAny else RLit [c]) reg \<noteq> []" by simp
    from eats_cats [OF this q Cons.IH] show ?thesis
      unfolding list.map
    proof (rule eats_cong)
      fix u
      show "(\<exists>a b. u = a @ b \<and> (\<exists>d. registry_char c d \<and> a = [d]) \<and> registry_matches reg b) \<longleftrightarrow>
        registry_matches (c # reg) u"
        (is "?L \<longleftrightarrow> ?R")
      proof
        assume ?L
        then show ?R by (auto simp: registry_matches_def)
      next
        assume ?R
        then obtain d t where "u = d # t" "registry_char c d" "registry_matches reg t"
          by (auto simp: registry_matches_def list_all2_Cons1)
        then show ?L by (intro exI [where x = "[d]"] exI [where x = t]) simp
      qed
    qed
  qed
qed

definition dev_suffix :: "string \<Rightarrow> bool" where
  "dev_suffix d \<longleftrightarrow> d = [] \<or> (\<exists>u. d = ''-dev'' @ u \<and> (\<forall>c \<in> set u. is_digit c))"

lemma eats_dev: "eats (ROpt re_dev) dev_suffix"
proof (rule eats_cong)
  show "eats (ROpt re_dev) (\<lambda>u. u = [] \<or> (\<exists>a b. u = a @ b \<and> a = ''-dev'' \<and> (\<forall>c \<in> set b. is_digit c)))"
    unfolding re_dev_def by (intro eats_Opt eats_cats eats_Lit) (simp_all add: eats_digits)
qed (auto simp: dev_suffix_def)

lemma eats_release: "eats re_release (\<lambda>u. \<exists>v. u = release v)"
proof (rule eats_cong)
  show "eats re_release (\<lambda>u. \<exists>a b. u = a @ b \<and> canonical a \<and> (\<exists>c. b = ''.'' @ c \<and>
    (\<exists>d e. c = d @ e \<and> canonical d \<and> (\<exists>f. e = ''.'' @ f \<and> canonical f))))"
    unfolding re_release_def
    by (intro eats_cats eats_Lit_cats) (simp_all add: eats_number)
next
  fix u
  show "(\<exists>a b. u = a @ b \<and> canonical a \<and> (\<exists>c. b = ''.'' @ c \<and>
    (\<exists>d e. c = d @ e \<and> canonical d \<and> (\<exists>f. e = ''.'' @ f \<and> canonical f)))) \<longleftrightarrow> (\<exists>v. u = release v)"
    (is "?L \<longleftrightarrow> ?R")
  proof
    assume ?L
    then obtain x y z where "u = release (x, y, z)" by (auto simp: canonical_iff)
    then show ?R ..
  next
    assume ?R
    then obtain x y z where u: "u = release (x, y, z)" by auto
    show ?L
      unfolding u canonical_iff
      by (rule exI [where x = "nat_dec x"], rule exI [where x = "''.'' @ nat_dec y @ ''.'' @ nat_dec z"],
          intro conjI exI, (rule refl | simp)+)
  qed
qed

definition runner_text :: "string \<Rightarrow> string \<Rightarrow> version \<Rightarrow> string \<Rightarrow> string" where
  "runner_text reg prefix v dev = reg @ ''/'' @ prefix @ '':v'' @ release v @ dev"

lemma eats_group:
  assumes "eats r P"
  shows "(\<exists>m \<in> set (mt (RGroup n r) (p, s, g)). Q m) \<longleftrightarrow>
    (\<exists>u s'. s = u @ s' \<and> P u \<and> Q (p + length u, s', (n, u) # g))"
proof -
  have "(\<exists>m \<in> set (mt (RGroup n r) (p, s, g)). Q m) \<longleftrightarrow>
    (\<exists>m \<in> set (mt r (p, s, g)). Q (fst m, fst (snd m), (n, take (fst m - p) s) # snd (snd m)))"
    unfolding Bex_def mt_Group by force
  also have "\<dots> \<longleftrightarrow> (\<exists>u s'. s = u @ s' \<and> P u \<and> Q (p + length u, s', (n, u) # g))"
    unfolding eats_Bex [OF assms] by (intro ex_cong1) auto
  finally show ?thesis .
qed

lemma mt_begin_Bex: "(\<exists>m \<in> set (mt RBegin (0, s, g)). Q m) \<longleftrightarrow> Q (0, s, g)"
  by (simp add: Bex_def)

lemma mt_runner:
  assumes "registry_re registry = Some r"
  shows "st \<in> set (mt (cats [RBegin, r, RLit (''/'' @ prefix @ '':v''), RGroup 1 re_release, ROpt re_dev, REnd])
      (0, s, [])) \<longleftrightarrow>
    (\<exists>reg v dev. registry_matches registry reg \<and> dev_suffix dev \<and> s = runner_text reg prefix v dev \<and>
      st = (length s, [], [(1, release v)]))"
proof -
  from assms have r: "r = cats (map (\<lambda>c. if c = CHR ''.'' then RAny else RLit [c]) registry)"
    by (auto simp: registry_re_def split: if_splits)
  have "st \<in> set (mt (cats [RBegin, r, RLit (''/'' @ prefix @ '':v''), RGroup 1 re_release, ROpt re_dev, REnd])
      (0, s, [])) \<longleftrightarrow>
    (\<exists>reg s1. s = reg @ s1 \<and> registry_matches registry reg \<and>
      (\<exists>l s2. s1 = l @ s2 \<and> l = ''/'' @ prefix @ '':v'' \<and>
        (\<exists>u s3. s2 = u @ s3 \<and> (\<exists>v. u = release v) \<and>
          (\<exists>dev s4. s3 = dev @ s4 \<and> dev_suffix dev \<and> s4 = [] \<and>
            st = (length reg + length l + length u + length dev, s4, [(1, u)])))))"
    unfolding cats.simps mt_Cat r
    by (simp add: mt_begin_Bex eats_Bex [OF eats_registry] eats_Bex [OF eats_Lit] eats_group [OF eats_release]
        eats_Bex [OF eats_dev] del: cats.simps release.simps mt_Opt mt_Lit)
  also have "\<dots> \<longleftrightarrow> (\<exists>reg v dev. registry_matches registry reg \<and> dev_suffix dev \<and>
      s = runner_text reg prefix v dev \<and> st = (length s, [], [(1, release v)]))"
    unfolding runner_text_def by (auto simp del: release.simps) fastforce+
  finally show ?thesis .
qed

section \<open>What \<^verbatim>\<open>RunnerIsValid\<close> accepts\<close>

text \<open>The version behind the last fixed part of a runner: the text up to the suffix.\<close>

lemma takeWhile_release:
  assumes "dev_suffix dev"
  shows "takeWhile (\<lambda>c. c \<noteq> CHR ''-'') (release v @ dev) = release v"
proof -
  obtain x y z where v: "v = (x, y, z)" by (cases v)
  have "c \<noteq> CHR ''-''" if "c \<in> set (nat_dec n)" for c n
    using nat_dec_digits [OF that] by (auto simp: is_digit_def)
  then have "\<forall>c \<in> set (release v). c \<noteq> CHR ''-''"
    unfolding v by auto
  then have "takeWhile (\<lambda>c. c \<noteq> CHR ''-'') (release v @ dev) =
      release v @ takeWhile (\<lambda>c. c \<noteq> CHR ''-'') dev"
    by (intro takeWhile_append2) blast
  moreover from assms have "takeWhile (\<lambda>c. c \<noteq> CHR ''-'') dev = []"
    by (auto simp: dev_suffix_def)
  ultimately show ?thesis by simp
qed

lemma runner_text_version:
  assumes "registry_matches registry reg" "dev_suffix dev"
  shows "takeWhile (\<lambda>c. c \<noteq> CHR ''-'')
    (drop (length registry + length prefix + 3) (runner_text reg prefix v dev)) = release v"
proof -
  have "runner_text reg prefix v dev = (reg @ ''/'' @ prefix @ '':v'') @ (release v @ dev)"
    by (simp add: runner_text_def)
  moreover have "length (reg @ ''/'' @ prefix @ '':v'') = length registry + length prefix + 3"
    using registry_matches_length [OF assms(1)] by simp
  ultimately show ?thesis
    using takeWhile_release [OF assms(2)] by (metis append_eq_conv_conj)
qed

definition runner_match :: "string \<Rightarrow> string \<Rightarrow> string \<Rightarrow> version \<Rightarrow> bool" where
  "runner_match registry prefix runner v \<longleftrightarrow>
     (\<exists>reg dev. registry_matches registry reg \<and> dev_suffix dev \<and> runner = runner_text reg prefix v dev)"

lemma runner_match_version:
  assumes "runner_match registry prefix runner v"
  shows "release v = takeWhile (\<lambda>c. c \<noteq> CHR ''-'') (drop (length registry + length prefix + 3) runner)"
proof -
  from assms obtain reg dev where "registry_matches registry reg" "dev_suffix dev"
    "runner = runner_text reg prefix v dev" unfolding runner_match_def by blast
  then show ?thesis by (simp add: runner_text_version)
qed

lemma mt_runner_match:
  assumes "registry_re registry = Some r"
  shows "st \<in> set (mt (runner_pattern r prefix) (0, s, [])) \<longleftrightarrow>
    (\<exists>v. runner_match registry prefix s v \<and> st = (length s, [], [(1, release v)]))"
  unfolding runner_pattern_def mt_runner [OF assms] runner_match_def by blast

lemma FindStringSubmatch_runner:
  assumes "registry_re registry = Some r"
  shows "FindStringSubmatch (runner_pattern r prefix) 1 runner =
    (if \<exists>v. runner_match registry prefix runner v
     then Some [runner, takeWhile (\<lambda>c. c \<noteq> CHR ''-'') (drop (length registry + length prefix + 3) runner)]
     else None)"
proof -
  obtain q where q: "runner_pattern r prefix = RCat RBegin q" by (simp add: runner_pattern_def)
  note st = mt_runner_match [OF assms, of _ prefix runner]
  let ?ver = "takeWhile (\<lambda>c. c \<noteq> CHR ''-'') (drop (length registry + length prefix + 3) runner)"
  have "FindStringSubmatch (RCat RBegin q) 1 runner =
    (if mt (RCat RBegin q) (0, runner, []) = [] then None else Some [runner, ?ver])"
  proof (rule FindStringSubmatch_unique)
    fix st'
    assume "st' \<in> set (mt (RCat RBegin q) (0, runner, []))"
    then obtain v where v: "runner_match registry prefix runner v" "st' = (length runner, [], [(1, release v)])"
      unfolding q [symmetric] st by blast
    then show "take (fst st') runner # map (group_text (snd (snd st'))) [1..<Suc 1] = [runner, ?ver]"
      by (simp add: group_text_def runner_match_version [OF v(1)] del: release.simps)
  qed
  moreover have "mt (RCat RBegin q) (0, runner, []) = [] \<longleftrightarrow> \<not> (\<exists>v. runner_match registry prefix runner v)"
    using mt_nonempty [of "RCat RBegin q" "(0, runner, [])"] unfolding q [symmetric] st by blast
  ultimately show ?thesis unfolding q by simp
qed

lemma match_runner_Some:
  assumes "registry_re registry = Some r" "runner_match registry prefix runner v"
  shows "match_runner [runner_pattern r prefix] runner = Some (release v)"
  using assms(2) unfolding match_runner.simps FindStringSubmatch_runner [OF assms(1)]
  by (cases v) (auto simp: runner_match_version [symmetric] simp del: release.simps)

lemma match_runner_None:
  assumes "registry_re registry = Some r" "\<not> (\<exists>v. runner_match registry prefix runner v)"
  shows "match_runner [runner_pattern r prefix] runner = None"
  using assms(2) unfolding match_runner.simps FindStringSubmatch_runner [OF assms(1)] by simp

lemma runner_match_unique:
  "runner_match registry prefix runner v \<Longrightarrow> runner_match registry prefix runner w \<Longrightarrow> release v = release w"
  by (simp only: runner_match_version)

text \<open>A runner names one of the two images, so the order of the two loops does not matter.\<close>

lemma runner_match_disjoint:
  assumes "runner_match registry RecordingJobPrefix runner v"
  shows "\<not> runner_match registry TranscribingJobPrefix runner w"
proof
  assume "runner_match registry TranscribingJobPrefix runner w"
  with assms obtain a d b e where ab: "registry_matches registry a" "registry_matches registry b"
    and eq: "runner_text a RecordingJobPrefix v d = runner_text b TranscribingJobPrefix w e"
    unfolding runner_match_def by blast
  from ab have "length a = length b" by (simp add: registry_matches_length)
  with eq show False
    by (simp add: runner_text_def RecordingJobPrefix_def TranscribingJobPrefix_def)
qed

context semver_lib
begin

text \<open>The two images differ in their minimum version only.\<close>

lemma checkMinVersion_match:
  assumes "version_fits m" "runner_match registry prefix runner v"
  shows "checkMinVersion jl (release m) (release v) = None \<longleftrightarrow>
    (\<exists>w. version_fits w \<and> runner_match registry prefix runner w \<and> \<not> version_lt w m)"
  using checkMinVersion_release [OF assms(1)] runner_match_unique [OF assms(2)] assms(2) by metis

lemma RunnerIsValid_modelled:
  assumes env: "jl_env jl ''DEV_MODE'' \<noteq> ''true''" "jl_env jl ''TEST_MODE'' \<noteq> ''true''"
    and reg: "registry \<noteq> []" "registry_re registry = Some r"
  shows "RunnerIsValid jl runner registry = Done None \<longleftrightarrow>
    (\<exists>v. version_fits v \<and>
      (runner_match registry RecordingJobPrefix runner v \<and> \<not> version_lt v (0, 6, 0) \<or>
       runner_match registry TranscribingJobPrefix runner v \<and> \<not> version_lt v (0, 1, 0)))"
proof -
  have run: "RunnerIsValid jl runner registry =
      (case match_runner [runner_pattern r RecordingJobPrefix] runner of
         Some ver \<Rightarrow> Done (checkMinVersion jl (release (0, 6, 0)) ver)
       | None \<Rightarrow> (case match_runner [runner_pattern r TranscribingJobPrefix] runner of
           Some ver \<Rightarrow> Done (checkMinVersion jl (release (0, 1, 0)) ver)
         | None \<Rightarrow> Done (Some (Errorf (''failed to validate runner '' @ quoted runner)))))"
    if "runner \<noteq> []"
    using env reg that
    unfolding RunnerIsValid_def runner_re_def min_versions
    by (simp del: match_runner.simps release.simps)
  have ne: "runner \<noteq> []" if "runner_match registry prefix runner v" for prefix v
    using that by (auto simp: runner_match_def runner_text_def)
  consider (rec) v where "runner_match registry RecordingJobPrefix runner v"
    | (trans) v where "runner_match registry TranscribingJobPrefix runner v"
      "\<not> (\<exists>v. runner_match registry RecordingJobPrefix runner v)"
    | (none) "\<not> (\<exists>v. runner_match registry RecordingJobPrefix runner v)"
      "\<not> (\<exists>v. runner_match registry TranscribingJobPrefix runner v)" by blast
  then show ?thesis
  proof cases
    case rec
    with run ne match_runner_Some [OF reg(2) rec]
    have "RunnerIsValid jl runner registry = Done (checkMinVersion jl (release (0, 6, 0)) (release v))" by simp
    with checkMinVersion_match [OF _ rec, of "(0, 6, 0)"] runner_match_disjoint [OF rec]
    show ?thesis by auto
  next
    case trans
    with run ne match_runner_Some [OF reg(2) trans(1)] match_runner_None [OF reg(2) trans(2)]
    have "RunnerIsValid jl runner registry = Done (checkMinVersion jl (release (0, 1, 0)) (release v))" by simp
    with checkMinVersion_match [OF _ trans(1), of "(0, 1, 0)"] trans(2) show ?thesis by auto
  next
    case none
    with run match_runner_None [OF reg(2) none(1)] match_runner_None [OF reg(2) none(2)]
    have "RunnerIsValid jl runner registry \<noteq> Done None"
      by (cases "runner = []") (use env in \<open>simp_all add: RunnerIsValid_def\<close>)
    with none show ?thesis by auto
  qed
qed

end

section \<open>Versions as triples of numbers\<close>

text \<open>
  An instance of the parameter on releases: the parts between the dots are numbers without leading
  zeros that fit in 64 bits.
\<close>

definition triple_parse :: "string \<Rightarrow> version res" where
  "triple_parse s =
     (case Split s (CHR ''.'') of
        [a, b, c] \<Rightarrow>
          if canonical a \<and> canonical b \<and> canonical c \<and> version_fits (dec_val a, dec_val b, dec_val c)
          then Inr (dec_val a, dec_val b, dec_val c)
          else Inl (Foreign ''semver'' ''Invalid Semantic Version'')
      | _ \<Rightarrow> Inl (Foreign ''semver'' ''Invalid Semantic Version''))"

definition triple_lib :: "environ \<Rightarrow> version joblib" where
  "triple_lib env =
     \<lparr>jl_env = env, jl_NewVersion = triple_parse,
      jl_Compare = (\<lambda>v w. if version_lt v w then -1 else if v = w then 0 else 1),
      jl_regexp = (\<lambda>r p. None)\<rparr>"

lemma nat_dec_no_dot: "CHR ''.'' \<notin> set (nat_dec n)"
  using nat_dec_digits [of "CHR ''.''" n] by (auto simp: is_digit_def)

lemma triple_parse_release:
  "triple_parse (release v) =
     (if version_fits v then Inr v else Inl (Foreign ''semver'' ''Invalid Semantic Version''))"
  by (cases v) (simp add: triple_parse_def Split_append Split_single nat_dec_no_dot)

lemma triple_semver: "semver_lib (triple_lib env)"
  by unfold_locales (auto simp: triple_lib_def triple_parse_release split: if_splits)

interpretation triple: semver_lib "triple_lib env" for env
  by (rule triple_semver)

section \<open>Properties\<close>



text \<open>
  The registry is put into the pattern without quoting, so a dot of the registry matches any
  character: with the registry \<^verbatim>\<open>my.registry\<close> a runner of the registry \<^verbatim>\<open>myXregistry\<close> is accepted.
\<close>

theorem RunnerIsValid_dotted_registry:
  assumes "semver_lib jl" "jl_env jl ''DEV_MODE'' \<noteq> ''true''" "jl_env jl ''TEST_MODE'' \<noteq> ''true''"
  shows "RunnerIsValid jl ''myXregistry/calls-recorder:v0.6.0'' ''my.registry'' = Done None"
proof -
  have "registry_re ''my.registry'' \<noteq> None" by (simp add: registry_re_def re_meta_def)
  then obtain r where r: "registry_re ''my.registry'' = Some r" by auto
  have "runner_match ''my.registry'' RecordingJobPrefix ''myXregistry/calls-recorder:v0.6.0'' (0, 6, 0)"
    unfolding runner_match_def
    by (intro exI [where x = "''myXregistry''"] exI [where x = "[]"])
      (simp add: registry_matches_def registry_char_def any_char_def dev_suffix_def runner_text_def
        RecordingJobPrefix_def nat_dec.simps)
  moreover have "version_fits (0, 6, 0)" "\<not> version_lt (0, 6, 0) (0, 6, 0)" by simp_all
  ultimately show ?thesis
    using semver_lib.RunnerIsValid_modelled [OF assms _ r] by blast
qed

theorem RunnerIsValid_dotted_registry_witness:
  "RunnerIsValid (triple_lib (\<lambda>_. [])) ''myXregistry/calls-recorder:v0.6.0'' ''my.registry'' = Done None"
  by (rule RunnerIsValid_dotted_registry [OF triple_semver]) (simp_all add: triple_lib_def)

text \<open>
  A job configuration is valid exactly when its runner is valid for the registry, its maximum
  duration is positive and its type is one of the two types; the type is not compared with the
  image of the runner. Every other configuration is an error or the panic of the runner's pattern.
\<close>

theorem JobConfig_IsValid_correct:
  "(JobConfig_IsValid jl c registry = Done None \<longleftrightarrow>
      RunnerIsValid jl (cfg_Runner c) registry = Done None \<and> 0 < cfg_MaxDurationSec c \<and>
      cfg_Type c \<in> {TypeRecording, TypeTranscribing}) \<and>
   (JobConfig_IsValid jl c registry = Panic p \<longrightarrow>
      RunnerIsValid jl (cfg_Runner c) registry = Panic p \<and> cfg_Type c \<noteq> [])"
  by (auto simp: JobConfig_IsValid_def TypeRecording_def TypeTranscribing_def
      split: outcome.splits option.splits if_splits)

theorem JobConfig_IsValid_correct_witness:
  "JobConfig_IsValid (triple_lib (\<lambda>_. ''true'')) \<lparr>cfg_Type = ''recording'', cfg_MaxDurationSec = 60,
     cfg_Runner = ''anything'', cfg_InputData = None\<rparr> ''mattermost'' = Done None"
  using JobConfig_IsValid_correct [of "triple_lib (\<lambda>_. ''true'')"
      "\<lparr>cfg_Type = ''recording'', cfg_MaxDurationSec = 60, cfg_Runner = ''anything'', cfg_InputData = None\<rparr>" "''mattermost''"]
  by (simp add: RunnerIsValid_def triple_lib_def TypeRecording_def)

text \<open>
  The environment of a runner has one entry for each key of the input data, in upper case
  with the printed value, whatever order the map is iterated in; after \<^verbatim>\<open>SetSiteURL\<close> on input data
  that is not nil one of them is the given site URL, and the other keys keep their values.
\<close>

theorem ToEnv_correct:
  assumes "distinct (map fst m)" "key_order ord (Some m)"
  shows "set (ToEnv fv ord (Some m)) = {ToUpper k @ ''='' @ fmt_v fv v | k v. map_of m k = Some v} \<and>
    length (ToEnv fv ord (Some m)) = length m \<and>
    (\<forall>u ord'. key_order ord' (SetSiteURL (Some m) u) \<longrightarrow>
      ''SITE_URL='' @ u \<in> set (ToEnv fv ord' (SetSiteURL (Some m) u))) \<and>
    (\<forall>u k m'. SetSiteURL (Some m) u = Some m' \<longrightarrow> k \<noteq> InputDataSiteURLKey \<longrightarrow> map_of m' k = map_of m k)"
proof (intro conjI allI impI)
  show "set (ToEnv fv ord (Some m)) = {ToUpper k @ ''='' @ fmt_v fv v | k v. map_of m k = Some v}"
    using ToEnv_entries(1) [OF assms] assms(1) by simp
  show "length (ToEnv fv ord (Some m)) = length m" by (rule ToEnv_entries(2) [OF assms])
next
  fix u ord' assume ord': "key_order ord' (SetSiteURL (Some m) u)"
  obtain m' where m': "SetSiteURL (Some m) u = Some m'" by (simp add: SetSiteURL_def)
  then have "m' = AList.update InputDataSiteURLKey (AnyStr u) m" by (simp add: SetSiteURL_def)
  then have "distinct (map fst m')" "map_of m' InputDataSiteURLKey = Some (AnyStr u)"
    using assms(1) by (simp_all add: distinct_update update_conv)
  from ToEnv_entries(1) [OF this(1) ord' [unfolded m']] this
  have "ToUpper InputDataSiteURLKey @ ''='' @ fmt_v fv (AnyStr u) \<in> set (ToEnv fv ord' (Some m'))" by force
  moreover have "ToUpper InputDataSiteURLKey = ''SITE_URL''"
    unfolding InputDataSiteURLKey_def by code_simp
  ultimately show "''SITE_URL='' @ u \<in> set (ToEnv fv ord' (SetSiteURL (Some m) u))"
    unfolding m' by simp
qed (rule SetSiteURL_other)

theorem ToEnv_correct_witness:
  "''SITE_URL=http://x'' \<in> set (ToEnv (\<lambda>_. []) [''site_url'', ''call_id'']
     (SetSiteURL (Some [(''call_id'', AnyStr ''c1'')]) ''http://x''))"
proof -
  have "key_order [''site_url'', ''call_id''] (SetSiteURL (Some [(''call_id'', AnyStr ''c1'')]) ''http://x'')"
    by (auto simp: key_order_def SetSiteURL_def InputDataSiteURLKey_def)
  then show ?thesis
    using ToEnv_correct [of "[(''call_id'', AnyStr ''c1'')]" "[''call_id'']" "\<lambda>_. []"]
    by (simp add: key_order_def)
qed

end
