(* ===== verification/Config.thy ===== *)
theory Config
  imports Session_Cache Job_Validation
begin

text \<open>
  Configuration: \<^verbatim>\<open>service/config.go\<close>, \<^verbatim>\<open>service/api/config.go\<close>, \<^verbatim>\<open>logger/config.go\<close>, the
  configuration types of the two job services, and the loading of the configuration in
  \<^verbatim>\<open>cmd/offloader/main.go\<close>. The readers of configuration files and of the environment and the level
  names of the logging package are parameters.
\<close>

section \<open>API and security\<close>

record TLSConfig =
  tls_Enable :: bool
  tls_CertFile :: string
  tls_CertKey :: string

definition TLSConfig_IsValid :: "TLSConfig \<Rightarrow> goerr option" where
  "TLSConfig_IsValid c =
     (if tls_Enable c then
        (if tls_CertFile c = [] then Some (Errorf ''invalid CertFile value: should not be empty'')
         else if tls_CertKey c = [] then Some (Errorf ''invalid CertKey value: should not be empty'')
         else None)
      else None)"

record HTTPConfig =
  http_ListenAddress :: string
  http_TLS :: TLSConfig

definition HTTPConfig_IsValid :: "HTTPConfig \<Rightarrow> goerr option" where
  "HTTPConfig_IsValid c =
     (if http_ListenAddress c = [] then Some (Errorf ''invalid ListenAddress value: should not be empty'')
      else (case TLSConfig_IsValid (http_TLS c) of
        Some err \<Rightarrow> Some (Wrapf ''invalid TLS config: '' err)
      | None \<Rightarrow> None))"

record SecurityConfig =
  sec_EnableAdmin :: bool
  sec_AdminSecretKey :: string
  sec_AllowSelfRegistration :: bool
  sec_SessionCache :: SessionCacheConfig

definition SecurityConfig_IsValid :: "SecurityConfig \<Rightarrow> goerr option" where
  "SecurityConfig_IsValid c =
     (if \<not> sec_EnableAdmin c then None
      else if sec_AdminSecretKey c = [] then Some (Errorf ''invalid AdminSecretKey value: should not be empty'')
      else None)"

record APIConfig =
  api_HTTP :: HTTPConfig
  api_Security :: SecurityConfig

definition APIConfig_IsValid :: "APIConfig \<Rightarrow> goerr option" where
  "APIConfig_IsValid c =
     (case SecurityConfig_IsValid (api_Security c) of
        Some err \<Rightarrow> Some (Wrapf ''failed to validate security config: '' err)
      | None \<Rightarrow> (case HTTPConfig_IsValid (api_HTTP c) of
          Some err \<Rightarrow> Some (Wrapf ''failed to validate http config: '' err)
        | None \<Rightarrow> None))"

record StoreConfig =
  store_DataSource :: string

definition StoreConfig_IsValid :: "StoreConfig \<Rightarrow> goerr option" where
  "StoreConfig_IsValid c =
     (if store_DataSource c = [] then Some (Errorf ''invalid DataSource value: should not be empty'')
      else None)"

section \<open>Retention times\<close>

text \<open>The pattern \<^verbatim>\<open>^(\d+)([mhd])$\<close>.\<close>

definition retentionTimeRE :: re where
  "retentionTimeRE =
     cats [RBegin, RGroup 1 (RCat re_digit (RStar re_digit)),
           RGroup 2 (RClass [(CHR ''m'', CHR ''m''), (CHR ''h'', CHR ''h''), (CHR ''d'', CHR ''d'')]), REnd]"

text \<open>
  \<^verbatim>\<open>strconv.Atoi\<close> on a text of digits, and the part of \<^verbatim>\<open>time.ParseDuration\<close> that one number with one
  unit goes through: \<^verbatim>\<open>leadingInt\<close> with its two overflow checks, the unit, the product.
\<close>

definition Atoi_digits :: "string \<Rightarrow> int res" where
  "Atoi_digits s =
     (if dec_val s < 2 ^ 63 then Inr (int (dec_val s))
      else Inl (Foreign ''strconv.ErrRange'' (''strconv.Atoi: parsing '' @ quoted s @ '': value out of range'')))"

fun leadingInt :: "nat \<Rightarrow> string \<Rightarrow> (nat \<times> string) option" where
  "leadingInt x [] = Some (x, [])"
| "leadingInt x (c # s) =
     (if \<not> is_digit c then Some (x, c # s)
      else if 2 ^ 63 div 10 < x then None
      else if 2 ^ 63 < 10 * x + digit_val c then None
      else leadingInt (10 * x + digit_val c) s)"

definition unitMap :: "string \<Rightarrow> nat option" where
  "unitMap u =
     map_of [(''ns'', 1), (''us'', 1000), (''ms'', 1000000), (''s'', 1000000000),
             (''m'', 60000000000), (''h'', 3600000000000)] u"

definition ParseDuration_single :: "string \<Rightarrow> duration res" where
  "ParseDuration_single val =
     (let invalid = Inl (Foreign ''time'' (''time: invalid duration '' @ quoted val))
      in case leadingInt 0 val of
           None \<Rightarrow> invalid
         | Some (v, u) \<Rightarrow> (case unitMap u of
             None \<Rightarrow> Inl (Foreign ''time'' (''time: unknown unit '' @ quoted u @ '' in duration '' @ quoted val))
           | Some unit \<Rightarrow>
               if 2 ^ 63 div unit < v then invalid
               else if 2 ^ 63 - 1 < v * unit then invalid
               else Inr (int (v * unit))))"

definition parseRetentionTime :: "string \<Rightarrow> duration res" where
  "parseRetentionTime val =
     (case FindStringSubmatch retentionTimeRE 2 val of
        Some [m0, m1, m2] \<Rightarrow>
          if m2 = ''d'' then
            (case Atoi_digits m1 of
               Inl err \<Rightarrow> Inl err
             | Inr numDays \<Rightarrow> Inr (mul64 (mul64 time_Hour 24) numDays))
          else
            (case ParseDuration_single val of
               Inl err \<Rightarrow> Inl err
             | Inr d \<Rightarrow> Inr d)
      | _ \<Rightarrow> Inl (Errorf ''invalid retention time format''))"

text \<open>\<^verbatim>\<open>RetentionTime.UnmarshalText\<close> on the value \<open>rt\<close> pointed to.\<close>

definition RetentionTime_UnmarshalText :: "duration \<Rightarrow> string \<Rightarrow> goerr option \<times> duration" where
  "RetentionTime_UnmarshalText rt data =
     (case parseRetentionTime data of
        Inl err \<Rightarrow> (Some err, rt)
      | Inr d \<Rightarrow> (None, d))"

section \<open>Job services\<close>

definition JobAPITypeDocker :: string where "JobAPITypeDocker = ''docker''"
definition JobAPITypeKubernetes :: string where "JobAPITypeKubernetes = ''kubernetes''"

record DockerConfig =
  dk_MaxConcurrentJobs :: int
  dk_FailedJobsRetentionTime :: duration
  dk_ImageRegistry :: string
  dk_OutputLogs :: bool

definition DockerConfig_IsValid :: "DockerConfig \<Rightarrow> goerr option" where
  "DockerConfig_IsValid c =
     (if dk_MaxConcurrentJobs c < 0 then Some (Errorf ''invalid MaxConcurrentJobs value: should be positive'')
      else if dk_FailedJobsRetentionTime c > 0 \<and> dk_FailedJobsRetentionTime c < time_Minute
      then Some (Errorf ''invalid FailedJobsRetentionTime value: should be at least one minute'')
      else None)"

text \<open>
  The resource requirements of a job type belong to the Kubernetes API: a type \<open>'rr\<close> of which the
  code only looks up values. The YAML decoder is a parameter; it may have changed its target when
  it reports an error.
\<close>

type_synonym 'rr requirements = "(string \<times> 'rr) list"
type_synonym 'a yaml_decoder = "string \<Rightarrow> 'a \<Rightarrow> goerr option \<times> 'a"

definition Requirements_Decode ::
  "'rr requirements yaml_decoder \<Rightarrow> 'rr requirements \<Rightarrow> string \<Rightarrow> goerr option \<times> 'rr requirements" where
  "Requirements_Decode yaml r data = yaml data r"

definition Requirements_UnmarshalTOML ::
  "'rr requirements yaml_decoder \<Rightarrow> 'rr requirements \<Rightarrow> goany \<Rightarrow> goerr option \<times> 'rr requirements" where
  "Requirements_UnmarshalTOML yaml r data =
     (case data of
        AnyStr js \<Rightarrow> yaml js r
      | _ \<Rightarrow> (Some (Errorf ''invalid data found''), r))"

record 'rr K8sConfig =
  ks_MaxConcurrentJobs :: int
  ks_FailedJobsRetentionTime :: duration
  ks_ImageRegistry :: string
  ks_JobsResourceRequirements :: "'rr requirements"
  ks_PersistentVolumeClaimName :: string
  ks_NodeSysctls :: string

definition K8sConfig_IsValid :: "'rr K8sConfig \<Rightarrow> goerr option" where
  "K8sConfig_IsValid c =
     (if ks_MaxConcurrentJobs c < 0 then Some (Errorf ''invalid MaxConcurrentJobs value: should be positive'')
      else if ks_FailedJobsRetentionTime c > 0 \<and> ks_FailedJobsRetentionTime c < time_Minute
      then Some (Errorf ''invalid FailedJobsRetentionTime value: should be at least one minute'')
      else None)"

record 'rr JobsConfig =
  jobs_APIType :: string
  jobs_MaxConcurrentJobs :: int
  jobs_FailedJobsRetentionTime :: duration
  jobs_ImageRegistry :: string
  jobs_Kubernetes :: "'rr K8sConfig"
  jobs_Docker :: DockerConfig

definition JobsConfig_IsValid :: "'rr JobsConfig \<Rightarrow> goerr option" where
  "JobsConfig_IsValid c =
     (if jobs_APIType c \<noteq> JobAPITypeDocker \<and> jobs_APIType c \<noteq> JobAPITypeKubernetes
      then Some (Errorf (''invalid APIType value: '' @ jobs_APIType c))
      else if jobs_MaxConcurrentJobs c \<le> 0
      then Some (Errorf ''invalid MaxConcurrentJobs value: should be greater than zero'')
      else if jobs_FailedJobsRetentionTime c < 0
      then Some (Errorf ''invalid FailedJobsRetentionTime value: should be a positive duration'')
      else if jobs_FailedJobsRetentionTime c > 0 \<and> jobs_FailedJobsRetentionTime c < time_Minute
      then Some (Errorf ''invalid FailedJobsRetentionTime value: should be at least one minute'')
      else if jobs_APIType c = JobAPITypeDocker then DockerConfig_IsValid (jobs_Docker c)
      else if jobs_APIType c = JobAPITypeKubernetes then K8sConfig_IsValid (jobs_Kubernetes c)
      else None)"

section \<open>Logging\<close>

record LoggerConfig =
  log_EnableConsole :: bool
  log_ConsoleJSON :: bool
  log_ConsoleLevel :: string
  log_EnableFile :: bool
  log_FileJSON :: bool
  log_FileLevel :: string
  log_FileLocation :: string
  log_EnableColor :: bool

text \<open>\<open>levels\<close> are the names in \<^verbatim>\<open>mlog.StdAll\<close>. The loop notes for each target whether its level is among them.\<close>

fun found_levels :: "LoggerConfig \<Rightarrow> string list \<Rightarrow> bool \<times> bool \<Rightarrow> bool \<times> bool" where
  "found_levels c [] found = found"
| "found_levels c (l # ls) (foundConsoleLevel, foundFileLevel) =
     found_levels c ls
       (if ToLower (log_ConsoleLevel c) = l then True else foundConsoleLevel,
        if ToLower (log_FileLevel c) = l then True else foundFileLevel)"

definition LoggerConfig_IsValid :: "string list \<Rightarrow> LoggerConfig \<Rightarrow> goerr option" where
  "LoggerConfig_IsValid levels c =
     (if \<not> log_EnableConsole c \<and> \<not> log_EnableFile c
      then Some (Errorf ''should enable at least one logging target'')
      else (case found_levels c levels (False, False) of (foundConsoleLevel, foundFileLevel) \<Rightarrow>
        if log_EnableConsole c \<and> \<not> foundConsoleLevel
        then Some (Errorf (''invalid ConsoleLevel value '' @ quoted (log_ConsoleLevel c)))
        else if log_EnableFile c \<and> \<not> foundFileLevel
        then Some (Errorf (''invalid FileLevel value '' @ quoted (log_FileLevel c)))
        else if log_EnableFile c \<and> log_FileLocation c = []
        then Some (Errorf ''invalid FileLocation value: should not be empty'')
        else None))"

section \<open>The configuration of the service\<close>

record 'rr Config =
  cf_API :: APIConfig
  cf_Store :: StoreConfig
  cf_Jobs :: "'rr JobsConfig"
  cf_Logger :: LoggerConfig

definition Config_IsValid :: "string list \<Rightarrow> 'rr Config \<Rightarrow> goerr option" where
  "Config_IsValid levels c =
     (case APIConfig_IsValid (cf_API c) of
        Some err \<Rightarrow> Some err
      | None \<Rightarrow> (case StoreConfig_IsValid (cf_Store c) of
          Some err \<Rightarrow> Some err
        | None \<Rightarrow> (case JobsConfig_IsValid (cf_Jobs c) of
            Some err \<Rightarrow> Some err
          | None \<Rightarrow> LoggerConfig_IsValid levels (cf_Logger c))))"

text \<open>The value of a variable declared without a value.\<close>

definition zero_Config :: "'rr Config" where
  "zero_Config =
     \<lparr>cf_API =
        \<lparr>api_HTTP = \<lparr>http_ListenAddress = [],
           http_TLS = \<lparr>tls_Enable = False, tls_CertFile = [], tls_CertKey = []\<rparr>\<rparr>,
         api_Security = \<lparr>sec_EnableAdmin = False, sec_AdminSecretKey = [], sec_AllowSelfRegistration = False,
           sec_SessionCache = \<lparr>ExpirationMinutes = 0\<rparr>\<rparr>\<rparr>,
      cf_Store = \<lparr>store_DataSource = []\<rparr>,
      cf_Jobs =
        \<lparr>jobs_APIType = [], jobs_MaxConcurrentJobs = 0, jobs_FailedJobsRetentionTime = 0, jobs_ImageRegistry = [],
         jobs_Kubernetes = \<lparr>ks_MaxConcurrentJobs = 0, ks_FailedJobsRetentionTime = 0, ks_ImageRegistry = [],
           ks_JobsResourceRequirements = [], ks_PersistentVolumeClaimName = [], ks_NodeSysctls = []\<rparr>,
         jobs_Docker = \<lparr>dk_MaxConcurrentJobs = 0, dk_FailedJobsRetentionTime = 0, dk_ImageRegistry = [],
           dk_OutputLogs = False\<rparr>\<rparr>,
      cf_Logger =
        \<lparr>log_EnableConsole = False, log_ConsoleJSON = False, log_ConsoleLevel = [], log_EnableFile = False,
         log_FileJSON = False, log_FileLevel = [], log_FileLocation = [], log_EnableColor = False\<rparr>\<rparr>"

text \<open>The fourteen assignments of \<^verbatim>\<open>SetDefaults\<close>, grouped by the structure they assign to.\<close>

definition API_SetDefaults :: "APIConfig \<Rightarrow> APIConfig" where
  "API_SetDefaults a =
     a\<lparr>api_HTTP := (api_HTTP a)\<lparr>http_ListenAddress := '':4545''\<rparr>,
       api_Security := (api_Security a)\<lparr>sec_SessionCache := \<lparr>ExpirationMinutes = 1440\<rparr>\<rparr>\<rparr>"

definition Logger_SetDefaults :: "LoggerConfig \<Rightarrow> LoggerConfig" where
  "Logger_SetDefaults l =
     l\<lparr>log_EnableConsole := True, log_ConsoleJSON := False, log_ConsoleLevel := ''INFO'',
       log_EnableFile := True, log_FileJSON := True, log_FileLocation := ''calls-offloader.log'',
       log_FileLevel := ''DEBUG'', log_EnableColor := False\<rparr>"

definition SetDefaults :: "'rr Config \<Rightarrow> 'rr Config" where
  "SetDefaults c =
     c\<lparr>cf_API := API_SetDefaults (cf_API c),
       cf_Store := (cf_Store c)\<lparr>store_DataSource := ''/tmp/calls-offloader-db''\<rparr>,
       cf_Jobs := (cf_Jobs c)\<lparr>jobs_APIType := JobAPITypeDocker, jobs_MaxConcurrentJobs := 2,
         jobs_ImageRegistry := ImageRegistryDefault\<rparr>,
       cf_Logger := Logger_SetDefaults (cf_Logger c)\<rparr>"

text \<open>
  \<^verbatim>\<open>ParseFromEnv\<close>: \<open>process\<close> is \<^verbatim>\<open>envconfig.Process("", c)\<close>, which sets the fields of \<open>c\<close> from the
  environment. The field of the retention time is marked \<^verbatim>\<open>ignored\<close> and parsed here.
\<close>

definition ParseFromEnv ::
  "environ \<Rightarrow> ('rr Config \<Rightarrow> goerr option \<times> 'rr Config) \<Rightarrow> 'rr Config \<Rightarrow> goerr option \<times> 'rr Config" where
  "ParseFromEnv env process c =
     (let val = env ''JOBS_FAILEDJOBSRETENTIONTIME''
      in if val \<noteq> [] then
           (case parseRetentionTime val of
              Inl err \<Rightarrow> (Some (Wrapf ''failed to parse FailedJobsRetentionTime: '' err), c)
            | Inr d \<Rightarrow> process (c\<lparr>cf_Jobs := (cf_Jobs c)\<lparr>jobs_FailedJobsRetentionTime := d\<rparr>\<rparr>))
         else process c)"

text \<open>
  \<^verbatim>\<open>loadConfig\<close> of the command: \<open>missing\<close> says that \<^verbatim>\<open>os.Stat\<close> reports a file that does not exist,
  \<open>decode_file\<close> is \<^verbatim>\<open>toml.DecodeFile\<close>. The configuration is returned with every error.
\<close>

definition loadConfig ::
  "(string \<Rightarrow> bool) \<Rightarrow> (string \<Rightarrow> 'rr Config \<Rightarrow> goerr option \<times> 'rr Config) \<Rightarrow> environ \<Rightarrow>
   ('rr Config \<Rightarrow> goerr option \<times> 'rr Config) \<Rightarrow> string \<Rightarrow> 'rr Config \<times> goerr option" where
  "loadConfig missing decode_file env process path =
     (let parse = (\<lambda>cfg. case ParseFromEnv env process cfg of
            (Some err, cfg') \<Rightarrow> (cfg', Some err)
          | (None, cfg') \<Rightarrow> (cfg', None))
      in if missing path then parse (SetDefaults zero_Config)
         else (case decode_file path zero_Config of
           (Some err, cfg) \<Rightarrow> (cfg, Some (Wrapf ''failed to decode config file: '' err))
         | (None, cfg) \<Rightarrow> parse cfg))"

section \<open>What is a valid configuration\<close>

lemma found_levels_eq:
  "found_levels c ls (a, b) =
     (a \<or> ToLower (log_ConsoleLevel c) \<in> set ls, b \<or> ToLower (log_FileLevel c) \<in> set ls)"
  by (induction ls arbitrary: a b) auto

lemma LoggerConfig_valid:
  "LoggerConfig_IsValid levels c = None \<longleftrightarrow>
     (log_EnableConsole c \<or> log_EnableFile c) \<and>
     (log_EnableConsole c \<longrightarrow> ToLower (log_ConsoleLevel c) \<in> set levels) \<and>
     (log_EnableFile c \<longrightarrow> ToLower (log_FileLevel c) \<in> set levels \<and> log_FileLocation c \<noteq> [])"
  by (auto simp: LoggerConfig_IsValid_def found_levels_eq)

lemma TLSConfig_valid:
  "TLSConfig_IsValid c = None \<longleftrightarrow> (tls_Enable c \<longrightarrow> tls_CertFile c \<noteq> [] \<and> tls_CertKey c \<noteq> [])"
  by (auto simp: TLSConfig_IsValid_def)

lemma APIConfig_valid:
  "APIConfig_IsValid c = None \<longleftrightarrow>
     (sec_EnableAdmin (api_Security c) \<longrightarrow> sec_AdminSecretKey (api_Security c) \<noteq> []) \<and>
     http_ListenAddress (api_HTTP c) \<noteq> [] \<and>
     (tls_Enable (http_TLS (api_HTTP c)) \<longrightarrow>
        tls_CertFile (http_TLS (api_HTTP c)) \<noteq> [] \<and> tls_CertKey (http_TLS (api_HTTP c)) \<noteq> [])"
  by (auto simp: APIConfig_IsValid_def SecurityConfig_IsValid_def HTTPConfig_IsValid_def TLSConfig_IsValid_def
      split: option.splits if_splits)

definition retention_ok :: "duration \<Rightarrow> bool" where
  "retention_ok d \<longleftrightarrow> d = 0 \<or> time_Minute \<le> d"

lemma DockerConfig_valid:
  "DockerConfig_IsValid c = None \<longleftrightarrow>
     0 \<le> dk_MaxConcurrentJobs c \<and> (dk_FailedJobsRetentionTime c < 0 \<or> retention_ok (dk_FailedJobsRetentionTime c))"
  by (auto simp: DockerConfig_IsValid_def retention_ok_def)

lemma K8sConfig_valid:
  "K8sConfig_IsValid c = None \<longleftrightarrow>
     0 \<le> ks_MaxConcurrentJobs c \<and> (ks_FailedJobsRetentionTime c < 0 \<or> retention_ok (ks_FailedJobsRetentionTime c))"
  by (auto simp: K8sConfig_IsValid_def retention_ok_def)

lemma JobsConfig_valid:
  "JobsConfig_IsValid c = None \<longleftrightarrow>
     0 < jobs_MaxConcurrentJobs c \<and> retention_ok (jobs_FailedJobsRetentionTime c) \<and>
     (jobs_APIType c = JobAPITypeDocker \<and> DockerConfig_IsValid (jobs_Docker c) = None \<or>
      jobs_APIType c = JobAPITypeKubernetes \<and> K8sConfig_IsValid (jobs_Kubernetes c) = None)"
  by (auto simp: JobsConfig_IsValid_def JobAPITypeDocker_def JobAPITypeKubernetes_def retention_ok_def)

lemma Config_valid:
  "Config_IsValid levels c = None \<longleftrightarrow>
     APIConfig_IsValid (cf_API c) = None \<and> StoreConfig_IsValid (cf_Store c) = None \<and>
     JobsConfig_IsValid (cf_Jobs c) = None \<and> LoggerConfig_IsValid levels (cf_Logger c) = None"
  by (auto simp: Config_IsValid_def split: option.splits)

section \<open>What a retention time is\<close>

definition digits :: "string \<Rightarrow> bool" where
  "digits t \<longleftrightarrow> t \<noteq> [] \<and> (\<forall>c \<in> set t. is_digit c)"

definition retention_units :: string where
  "retention_units = ''mhd''"

lemma eats_some_digits: "eats (RCat re_digit (RStar re_digit)) digits"
proof (rule eats_cong)
  show "eats (RCat re_digit (RStar re_digit)) (\<lambda>u. \<exists>a b. u = a @ b \<and>
      (\<exists>c. in_class [(CHR ''0'', CHR ''9'')] c \<and> a = [c]) \<and> (\<forall>c \<in> set b. is_digit c))"
    using eats_Cat [OF eats_Class eats_digits] unfolding re_digit_def .
next
  fix u
  show "(\<exists>a b. u = a @ b \<and> (\<exists>c. in_class [(CHR ''0'', CHR ''9'')] c \<and> a = [c]) \<and>
      (\<forall>c \<in> set b. is_digit c)) \<longleftrightarrow> digits u"
    (is "?L \<longleftrightarrow> _")
  proof
    assume u: "digits u"
    then show ?L
      by (intro exI [where x = "[hd u]"] exI [where x = "tl u"]) (cases u; simp add: digits_def)
  qed (auto simp: digits_def)
qed

lemma in_class_units:
  "in_class [(CHR ''m'', CHR ''m''), (CHR ''h'', CHR ''h''), (CHR ''d'', CHR ''d'')] c \<longleftrightarrow> c \<in> set retention_units"
proof -
  have eq: "(of_char lo :: nat) \<le> of_char c \<and> (of_char c :: nat) \<le> of_char lo \<longleftrightarrow> c = lo" for lo
    by (metis of_char_eq_iff order_antisym order_refl)
  show ?thesis unfolding in_class_def retention_units_def by (simp only: list.set bex_simps split_conv eq) simp
qed

lemma mt_retention:
  "st \<in> set (mt retentionTimeRE (0, s, [])) \<longleftrightarrow>
     (\<exists>n u. digits n \<and> u \<in> set retention_units \<and> s = n @ [u] \<and> st = (length s, [], [(2, [u]), (1, n)]))"
proof -
  have "st \<in> set (mt retentionTimeRE (0, s, [])) \<longleftrightarrow>
    (\<exists>n s1. s = n @ s1 \<and> digits n \<and>
      (\<exists>l s2. s1 = l @ s2 \<and> (\<exists>c. c \<in> set retention_units \<and> l = [c]) \<and> s2 = [] \<and>
        st = (length n + length l, s2, [(2, l), (1, n)])))"
    unfolding retentionTimeRE_def cats.simps mt_Cat
    by (simp add: mt_begin_Bex eats_group [OF eats_some_digits] eats_group [OF eats_Class] in_class_units
        del: cats.simps mt_Class)
  also have "\<dots> \<longleftrightarrow> (\<exists>n u. digits n \<and> u \<in> set retention_units \<and> s = n @ [u] \<and>
      st = (length s, [], [(2, [u]), (1, n)]))" by auto
  finally show ?thesis .
qed

lemma FindStringSubmatch_retention:
  "FindStringSubmatch retentionTimeRE 2 s =
     (if s \<noteq> [] \<and> digits (butlast s) \<and> last s \<in> set retention_units
      then Some [s, butlast s, [last s]] else None)"
proof -
  obtain q where q: "retentionTimeRE = RCat RBegin q" by (simp add: retentionTimeRE_def)
  have "FindStringSubmatch (RCat RBegin q) 2 s =
      (if mt (RCat RBegin q) (0, s, []) = [] then None else Some [s, butlast s, [last s]])"
  proof (rule FindStringSubmatch_unique)
    fix st
    assume "st \<in> set (mt (RCat RBegin q) (0, s, []))"
    then obtain n u where "s = n @ [u]" "st = (length s, [], [(2, [u]), (1, n)])"
      unfolding q [symmetric] mt_retention by blast
    then show "take (fst st) s # map (group_text (snd (snd st))) [1..<Suc 2] = [s, butlast s, [last s]]"
      by (simp add: group_text_def upt_rec)
  qed
  moreover have "mt (RCat RBegin q) (0, s, []) \<noteq> [] \<longleftrightarrow>
      s \<noteq> [] \<and> digits (butlast s) \<and> last s \<in> set retention_units"
    unfolding mt_nonempty q [symmetric] mt_retention
    by (metis append_butlast_last_id append_is_Nil_conv butlast_snoc last_snoc not_Cons_self2)
  ultimately show ?thesis unfolding q by auto
qed

text \<open>\<^verbatim>\<open>leadingInt\<close> reads the number exactly when it is at most \<open>2 ^ 63\<close>.\<close>

lemma dec_acc_ge: "n \<le> dec_acc n s"
proof (induction s arbitrary: n)
  case (Cons c s)
  have "n \<le> 10 * n + digit_val c" by simp
  also have "\<dots> \<le> dec_acc (10 * n + digit_val c) s" by (rule Cons.IH)
  finally show ?case by simp
qed simp

lemma leadingInt_digits:
  assumes "\<forall>c \<in> set s. is_digit c" "u = [] \<or> \<not> is_digit (hd u)" "x \<le> 2 ^ 63"
  shows "leadingInt x (s @ u) = (if dec_acc x s \<le> 2 ^ 63 then Some (dec_acc x s, u) else None)"
  using assms
proof (induction s arbitrary: x)
  case Nil
  then show ?case by (cases u) auto
next
  case (Cons c s)
  let ?y = "10 * x + digit_val c"
  have d: "digit_val c < 10" using Cons.prems(1) by (simp add: digit_val_less)
  show ?case
  proof (cases "?y \<le> 2 ^ 63")
    case True
    moreover from True have "\<not> 2 ^ 63 div 10 < x" by simp
    ultimately show ?thesis using Cons by simp
  next
    case False
    then have "\<not> dec_acc ?y s \<le> 2 ^ 63" using dec_acc_ge [of ?y s] by linarith
    with False Cons.prems(1) show ?thesis by simp
  qed
qed

lemma parseRetentionTime_format:
  "is_ok (parseRetentionTime s) \<Longrightarrow> \<exists>n u. digits n \<and> u \<in> set retention_units \<and> s = n @ [u]"
  unfolding parseRetentionTime_def FindStringSubmatch_retention
  by (cases "s \<noteq> [] \<and> digits (butlast s) \<and> last s \<in> set retention_units")
    (use append_butlast_last_id [of s, symmetric] in blast, simp)

lemma ParseDuration_digits:
  assumes "digits n" "unitMap u = Some k" "u \<noteq> []" "\<not> is_digit (hd u)" "0 < k"
  shows "is_ok (ParseDuration_single (n @ u)) \<longleftrightarrow> dec_val n * k < 2 ^ 63"
    and "ParseDuration_single (n @ u) = Inr d \<Longrightarrow> d = int (dec_val n * k)"
proof -
  have L: "leadingInt 0 (n @ u) = (if dec_val n \<le> 2 ^ 63 then Some (dec_val n, u) else None)"
    using leadingInt_digits [of n u 0] assms unfolding digits_def dec_val_def by simp
  have "\<not> 2 ^ 63 div k < dec_val n" if "dec_val n * k < 2 ^ 63"
    using that assms(5) by (metis div_le_mono div_mult_self_is_m less_imp_le not_less)
  moreover have "dec_val n \<le> 2 ^ 63" if "dec_val n * k < 2 ^ 63"
    using that assms(5) by (metis Suc_leI less_imp_le mult.comm_neutral mult_le_mono2 order.trans One_nat_def)
  ultimately show "is_ok (ParseDuration_single (n @ u)) \<longleftrightarrow> dec_val n * k < 2 ^ 63"
    by (auto simp: ParseDuration_single_def Let_def L assms(2))
  show "ParseDuration_single (n @ u) = Inr d \<Longrightarrow> d = int (dec_val n * k)"
    by (auto simp: ParseDuration_single_def Let_def L assms(2) split: if_splits)
qed

section \<open>Properties\<close>

text \<open>
  C28: a retention time is accepted only as digits followed by \<^verbatim>\<open>m\<close>, \<^verbatim>\<open>h\<close> or \<^verbatim>\<open>d\<close>. Minutes and hours
  are accepted exactly when the duration fits in 63 bits, and are then exact. Days are accepted
  whenever the number fits, but the product wraps around: only up to 106751 days is the duration
  the one that was written.
\<close>

theorem parseRetentionTime_correct:
  assumes "digits n"
  shows "(\<forall>s. is_ok (parseRetentionTime s) \<longrightarrow> (\<exists>n u. digits n \<and> u \<in> set retention_units \<and> s = n @ [u])) \<and>
    (is_ok (parseRetentionTime (n @ ''m'')) \<longleftrightarrow> dec_val n * 60000000000 < 2 ^ 63) \<and>
    (\<forall>d. parseRetentionTime (n @ ''m'') = Inr d \<longrightarrow> d = int (dec_val n) * time_Minute) \<and>
    (is_ok (parseRetentionTime (n @ ''h'')) \<longleftrightarrow> dec_val n * 3600000000000 < 2 ^ 63) \<and>
    (\<forall>d. parseRetentionTime (n @ ''h'') = Inr d \<longrightarrow> d = int (dec_val n) * time_Hour) \<and>
    (is_ok (parseRetentionTime (n @ ''d'')) \<longleftrightarrow> dec_val n < 2 ^ 63) \<and>
    (\<forall>d. parseRetentionTime (n @ ''d'') = Inr d \<longrightarrow>
      d = wrap64 (int (dec_val n) * (24 * time_Hour)) \<and>
      (d = int (dec_val n) * (24 * time_Hour) \<longleftrightarrow> dec_val n \<le> 106751))"
proof -
  have F: "FindStringSubmatch retentionTimeRE 2 (n @ [u]) = Some [n @ [u], n, [u]]"
    if "u \<in> set retention_units" for u
    using assms that by (simp add: FindStringSubmatch_retention)
  have m: "parseRetentionTime (n @ ''m'') = ParseDuration_single (n @ ''m'')"
    and h: "parseRetentionTime (n @ ''h'') = ParseDuration_single (n @ ''h'')"
    unfolding parseRetentionTime_def by (simp_all add: F retention_units_def split: sum.splits)
  have d: "parseRetentionTime (n @ ''d'') =
      (case Atoi_digits n of Inl err \<Rightarrow> Inl err | Inr k \<Rightarrow> Inr (wrap64 (k * (24 * time_Hour))))"
    unfolding parseRetentionTime_def
    by (simp add: F retention_units_def mul64_def wrap64_def [of 86400000000000] mult.commute split: sum.splits)
  have days: "wrap64 (int k * (24 * time_Hour)) = int k * (24 * time_Hour) \<longleftrightarrow> k \<le> 106751" for k
  proof
    assume eq: "wrap64 (int k * (24 * time_Hour)) = int k * (24 * time_Hour)"
    have "int64_range (int k * (24 * time_Hour))" by (subst eq [symmetric]) simp
    then show "k \<le> 106751" by (simp add: int64_range_def)
  qed (rule wrap64_id, simp add: int64_range_def)
  show ?thesis
    using parseRetentionTime_format ParseDuration_digits [OF assms, of "''m''" 60000000000]
      ParseDuration_digits [OF assms, of "''h''" 3600000000000]
    unfolding m h d
    by (auto simp: unitMap_def is_digit_def Atoi_digits_def days [simplified])
qed

theorem parseRetentionTime_correct_witness:
  "is_ok (parseRetentionTime ''90m'') \<and> parseRetentionTime ''213504d'' = Inr 1526290448384"
proof -
  have d: "digits ''90''" "digits ''213504''" by (simp_all add: digits_def is_digit_def)
  have v: "dec_val ''90'' = 90" "dec_val ''213504'' = 213504" by (simp_all add: dec_val_def digit_val_def)
  have "is_ok (parseRetentionTime ''90m'')" "is_ok (parseRetentionTime ''213504d'')"
    using parseRetentionTime_correct [OF d(1)] parseRetentionTime_correct [OF d(2)] by (simp_all add: v)
  moreover obtain r where "parseRetentionTime ''213504d'' = Inr r"
    using \<open>is_ok (parseRetentionTime ''213504d'')\<close> by (auto simp: is_ok_iff)
  moreover from this have "r = 1526290448384"
    using parseRetentionTime_correct [OF d(2)] by (simp add: v wrap64_def)
  ultimately show ?thesis by simp
qed

text \<open>
  Which configurations of the service are valid: the conjunction of the checks of all parts,
  none of them skipped by an early return, whichever job service is selected.
\<close>

theorem Config_IsValid_correct:
  "Config_IsValid levels c = None \<longleftrightarrow>
     (sec_EnableAdmin (api_Security (cf_API c)) \<longrightarrow> sec_AdminSecretKey (api_Security (cf_API c)) \<noteq> []) \<and>
     http_ListenAddress (api_HTTP (cf_API c)) \<noteq> [] \<and>
     (tls_Enable (http_TLS (api_HTTP (cf_API c))) \<longrightarrow>
        tls_CertFile (http_TLS (api_HTTP (cf_API c))) \<noteq> [] \<and> tls_CertKey (http_TLS (api_HTTP (cf_API c))) \<noteq> []) \<and>
     store_DataSource (cf_Store c) \<noteq> [] \<and>
     0 < jobs_MaxConcurrentJobs (cf_Jobs c) \<and> retention_ok (jobs_FailedJobsRetentionTime (cf_Jobs c)) \<and>
     (jobs_APIType (cf_Jobs c) = ''docker'' \<and> DockerConfig_IsValid (jobs_Docker (cf_Jobs c)) = None \<or>
      jobs_APIType (cf_Jobs c) = ''kubernetes'' \<and> K8sConfig_IsValid (jobs_Kubernetes (cf_Jobs c)) = None) \<and>
     LoggerConfig_IsValid levels (cf_Logger c) = None"
  by (auto simp: Config_valid APIConfig_valid JobsConfig_valid StoreConfig_IsValid_def
      JobAPITypeDocker_def JobAPITypeKubernetes_def)

text \<open>The configuration used when there is no file.\<close>

abbreviation default_Config :: "'rr Config" where
  "default_Config \<equiv> SetDefaults zero_Config"

lemma default_Config_valid:
  "{''info'', ''debug''} \<subseteq> set levels \<Longrightarrow> Config_IsValid levels default_Config = None"
proof -
  have lower: "ToLower ''INFO'' = ''info''" "ToLower ''DEBUG'' = ''debug''" by code_simp+
  show "{''info'', ''debug''} \<subseteq> set levels \<Longrightarrow> ?thesis"
    by (simp add: Config_valid APIConfig_valid StoreConfig_IsValid_def JobsConfig_valid LoggerConfig_valid
        SetDefaults_def API_SetDefaults_def Logger_SetDefaults_def zero_Config_def retention_ok_def
        DockerConfig_valid lower)
qed

theorem Config_IsValid_correct_witness:
  "Config_IsValid [''info'', ''debug''] (default_Config :: unit Config) = None"
  using Config_IsValid_correct [of "[''info'', ''debug'']" "default_Config :: unit Config"]
    default_Config_valid [where 'a = unit, of "[''info'', ''debug'']"] by simp

text \<open>
  Without a configuration file and without overriding variables the service starts from a
  valid configuration, if the logging package knows the levels \<^verbatim>\<open>info\<close> and \<^verbatim>\<open>debug\<close>; an error of
  the environment is reported, never dropped.
\<close>

theorem loadConfig_defaults:
  assumes "{''info'', ''debug''} \<subseteq> set levels" "missing path"
    and "env ''JOBS_FAILEDJOBSRETENTIONTIME'' = []" "\<And>c. process c = (None, c)"
  shows "\<exists>c. loadConfig missing decode_file env process path = (c, None) \<and> Config_IsValid levels c = None \<and>
    NewSessionCache (sec_SessionCache (api_Security (cf_API c))) =
      Inr \<lparr>sc_cfg = \<lparr>ExpirationMinutes = 1440\<rparr>, sessionMap = Map.empty\<rparr>"
  using assms default_Config_valid [OF assms(1)]
  by (auto simp: loadConfig_def Let_def ParseFromEnv_def SetDefaults_def API_SetDefaults_def NewSessionCache_def
      SessionCacheConfig_IsValid_def)

theorem loadConfig_defaults_witness:
  "snd (loadConfig (\<lambda>_. True) (\<lambda>_ (c :: unit Config). (None, c)) (\<lambda>_. []) (\<lambda>c. (None, c)) ''config/config.toml'') = None"
  using loadConfig_defaults [of "[''info'', ''debug'']" "\<lambda>_. True" "''config/config.toml''" "\<lambda>_. []"
      "\<lambda>c. (None, c)" "\<lambda>_ (c :: unit Config). (None, c)"]
  by auto

end
