(* ===== verification/Seccomp.thy ===== *)
theory Seccomp
  imports Go_Prelude
begin

text \<open>
  The seccomp profile of \<^verbatim>\<open>service/docker/security_opts.go\<close>: the rules in the order of the file, the
  text of the constant, and its compaction by \<^verbatim>\<open>init\<close> into the option handed to every container.
\<close>

section \<open>The rules\<close>

datatype seccomp_action = SCMP_ACT_ALLOW | SCMP_ACT_ERRNO

text \<open>The arguments of a rule are \<^verbatim>\<open>null\<close> throughout.\<close>

record seccomp_rule =
  rule_name :: string
  rule_action :: seccomp_action
  rule_args :: "string option"

definition allow :: "string \<Rightarrow> seccomp_rule" where
  "allow n = \<lparr>rule_name = n, rule_action = SCMP_ACT_ALLOW, rule_args = None\<rparr>"

definition defaultAction :: seccomp_action where
  "defaultAction = SCMP_ACT_ERRNO"

definition seccomp_rules_1 :: "seccomp_rule list" where
  "seccomp_rules_1 = map allow
     [''accept'', ''accept4'', ''access'', ''alarm'', ''arch_prctl'', ''bind'', ''brk'', ''capget'',
      ''capset'', ''chdir'', ''chmod'', ''chown'', ''chown32'', ''chroot'', ''clock_getres'',
      ''clock_gettime'', ''clock_nanosleep'', ''clone'', ''clone3'', ''close'', ''close_range'',
      ''connect'', ''copy_file_range'', ''creat'', ''dup'', ''dup2'', ''dup3'', ''epoll_create'',
      ''epoll_create1'', ''epoll_ctl'']"

definition seccomp_rules_2 :: "seccomp_rule list" where
  "seccomp_rules_2 = map allow
     [''epoll_ctl_old'', ''epoll_pwait'', ''epoll_wait'', ''epoll_pwait2'', ''epoll_wait_old'',
      ''eventfd'', ''eventfd2'', ''execve'', ''execveat'', ''exit'', ''exit_group'', ''faccessat'',
      ''faccessat2'', ''fadvise64'', ''fadvise64_64'', ''fallocate'', ''fanotify_init'',
      ''fanotify_mark'', ''fchdir'', ''fchmod'', ''fchmodat'', ''fchown'', ''fchown32'', ''fchownat'',
      ''fcntl'', ''fcntl64'', ''fdatasync'', ''fgetxattr'', ''flistxattr'', ''flock'']"

definition seccomp_rules_3 :: "seccomp_rule list" where
  "seccomp_rules_3 = map allow
     [''fork'', ''fremovexattr'', ''fsetxattr'', ''fstat'', ''fstat64'', ''fstatat64'', ''fstatfs'',
      ''fstatfs64'', ''fsconfig'', ''fsmount'', ''fsopen'', ''fspick'', ''fsync'', ''ftruncate'',
      ''ftruncate64'', ''futex'', ''futex_waitv'', ''futimesat'', ''getcpu'', ''getcwd'', ''getdents'',
      ''getdents64'', ''getegid'', ''getegid32'', ''geteuid'', ''geteuid32'', ''getgid'', ''getgid32'',
      ''getgroups'', ''getgroups32'']"

definition seccomp_rules_4 :: "seccomp_rule list" where
  "seccomp_rules_4 = map allow
     [''getitimer'', ''getpeername'', ''getpgid'', ''getpgrp'', ''getpid'', ''getppid'',
      ''getpriority'', ''getrandom'', ''getresgid'', ''getresgid32'', ''getresuid'', ''getresuid32'',
      ''getrlimit'', ''get_robust_list'', ''getrusage'', ''getsid'', ''getsockname'', ''getsockopt'',
      ''get_thread_area'', ''gettid'', ''gettimeofday'', ''getuid'', ''getuid32'', ''getxattr'',
      ''inotify_add_watch'', ''inotify_init'', ''inotify_init1'', ''inotify_rm_watch'', ''io_cancel'',
      ''ioctl'']"

definition seccomp_rules_5 :: "seccomp_rule list" where
  "seccomp_rules_5 = map allow
     [''io_destroy'', ''io_getevents'', ''ioprio_get'', ''ioprio_set'', ''io_setup'', ''io_submit'',
      ''kill'', ''lchown'', ''lchown32'', ''lgetxattr'', ''link'', ''linkat'', ''listen'',
      ''listxattr'', ''llistxattr'', ''_llseek'', ''lremovexattr'', ''lseek'', ''lsetxattr'',
      ''lstat'', ''lstat64'', ''madvise'', ''membarrier'', ''memfd_create'', ''mincore'', ''mkdir'',
      ''mkdirat'', ''mknod'', ''mknodat'', ''mlock'']"

definition seccomp_rules_6 :: "seccomp_rule list" where
  "seccomp_rules_6 = map allow
     [''mlockall'', ''mmap'', ''mmap2'', ''mprotect'', ''mq_getsetattr'', ''mq_notify'', ''mq_open'',
      ''mq_timedreceive'', ''mq_timedsend'', ''mq_unlink'', ''move_mount'', ''mremap'', ''msgctl'',
      ''msgget'', ''msgrcv'', ''msgsnd'', ''msync'', ''munlock'', ''munlockall'', ''munmap'',
      ''name_to_handle_at'', ''nanosleep'', ''newfstatat'', ''_newselect'', ''open'',
      ''open_by_handle_at'', ''open_tree'', ''openat'', ''openat2'', ''pause'']"

definition seccomp_rules_7 :: "seccomp_rule list" where
  "seccomp_rules_7 = map allow
     [''pipe'', ''pidfd_getfd'', ''pidfd_open'', ''pidfd_send_signal'', ''pipe2'', ''poll'', ''ppoll'',
      ''prctl'', ''pread64'', ''preadv'', ''preadv2'', ''prlimit64'', ''pselect6'', ''pwrite64'',
      ''pwritev'', ''pwritev2'', ''read'', ''readahead'', ''readlink'', ''readlinkat'', ''readv'',
      ''recvfrom'', ''recvmmsg'', ''recvmsg'', ''remap_file_pages'', ''removexattr'', ''rename'',
      ''renameat'', ''renameat2'', ''rmdir'']"

definition seccomp_rules_8 :: "seccomp_rule list" where
  "seccomp_rules_8 = map allow
     [''rt_sigaction'', ''rt_sigpending'', ''rt_sigprocmask'', ''rt_sigqueueinfo'', ''rt_sigreturn'',
      ''rt_sigsuspend'', ''rt_sigtimedwait'', ''rt_tgsigqueueinfo'', ''sched_getaffinity'',
      ''sched_getattr'', ''sched_getparam'', ''sched_get_priority_max'', ''sched_get_priority_min'',
      ''sched_getscheduler'', ''sched_rr_get_interval'', ''sched_setaffinity'', ''sched_setattr'',
      ''sched_setparam'', ''sched_setscheduler'', ''sched_yield'', ''seccomp'', ''select'', ''semctl'',
      ''semget'', ''semop'', ''semtimedop'', ''sendfile'', ''sendfile64'', ''sendmmsg'', ''sendmsg'']"

definition seccomp_rules_9 :: "seccomp_rule list" where
  "seccomp_rules_9 = map allow
     [''sendto'', ''setdomainname'', ''setfsgid'', ''setfsgid32'', ''setfsuid'', ''setfsuid32'',
      ''setgid'', ''setgid32'', ''setgroups'', ''setgroups32'', ''sethostname'', ''setitimer'',
      ''setns'', ''setpgid'', ''setpriority'', ''setregid'', ''setregid32'', ''setresgid'',
      ''setresgid32'', ''setresuid'', ''setresuid32'', ''setreuid'', ''setreuid32'', ''setrlimit'',
      ''set_robust_list'', ''setsid'', ''setsockopt'', ''set_thread_area'', ''set_tid_address'',
      ''setuid'']"

definition seccomp_rules_10 :: "seccomp_rule list" where
  "seccomp_rules_10 = map allow
     [''setuid32'', ''setxattr'', ''shmat'', ''shmctl'', ''shmdt'', ''shmget'', ''shutdown'',
      ''sigaltstack'', ''signalfd'', ''signalfd4'', ''socket'', ''socketpair'', ''splice'', ''stat'',
      ''stat64'', ''statfs'', ''statfs64'', ''statx'', ''symlink'', ''symlinkat'', ''sync'',
      ''sync_file_range'', ''syncfs'', ''sysinfo'', ''syslog'', ''tee'', ''tgkill'', ''time'',
      ''timer_create'', ''timer_delete'']"

definition seccomp_rules_11 :: "seccomp_rule list" where
  "seccomp_rules_11 = map allow
     [''timerfd_create'', ''timerfd_gettime'', ''timerfd_settime'', ''timer_getoverrun'',
      ''timer_gettime'', ''timer_settime'', ''times'', ''tkill'', ''truncate'', ''truncate64'',
      ''ugetrlimit'', ''umask'', ''uname'', ''unlink'', ''unlinkat'', ''unshare'', ''utime'',
      ''utimensat'', ''utimes'', ''vfork'', ''vhangup'', ''vmsplice'', ''wait4'', ''waitid'',
      ''write'', ''writev'']"

definition syscalls :: "seccomp_rule list" where
  "syscalls =
     seccomp_rules_1 @ seccomp_rules_2 @ seccomp_rules_3 @ seccomp_rules_4 @
     seccomp_rules_5 @ seccomp_rules_6 @ seccomp_rules_7 @ seccomp_rules_8 @
     seccomp_rules_9 @ seccomp_rules_10 @ seccomp_rules_11"

lemmas seccomp_rules_defs =
  seccomp_rules_1_def seccomp_rules_2_def seccomp_rules_3_def seccomp_rules_4_def
  seccomp_rules_5_def seccomp_rules_6_def seccomp_rules_7_def seccomp_rules_8_def
  seccomp_rules_9_def seccomp_rules_10_def seccomp_rules_11_def

section \<open>The text of the profile\<close>

abbreviation nl :: char where "nl \<equiv> CHR 0x0A"
abbreviation dq :: char where "dq \<equiv> CHR 0x22"

definition indent :: "nat \<Rightarrow> string" where
  "indent n = replicate n (CHR '' '')"

definition in_quotes :: "string \<Rightarrow> string" where
  "in_quotes s = dq # s @ [dq]"

fun action_text :: "seccomp_action \<Rightarrow> string" where
  "action_text SCMP_ACT_ALLOW = ''SCMP_ACT_ALLOW''"
| "action_text SCMP_ACT_ERRNO = ''SCMP_ACT_ERRNO''"

definition args_text :: "string option \<Rightarrow> string" where
  "args_text a = (case a of None \<Rightarrow> ''null'' | Some t \<Rightarrow> t)"

text \<open>A rule as the file writes it, and as it is without the white space between its tokens.\<close>

definition rule_text :: "seccomp_rule \<Rightarrow> string" where
  "rule_text r =
     indent 8 @ ''{'' @ nl #
     indent 12 @ in_quotes ''name'' @ '': '' @ in_quotes (rule_name r) @ '','' @ nl #
     indent 12 @ in_quotes ''action'' @ '': '' @ in_quotes (action_text (rule_action r)) @ '','' @ nl #
     indent 12 @ in_quotes ''args'' @ '': '' @ args_text (rule_args r) @ nl #
     indent 8 @ ''}''"

definition rule_compact :: "seccomp_rule \<Rightarrow> string" where
  "rule_compact r =
     ''{'' @ in_quotes ''name'' @ '':'' @ in_quotes (rule_name r) @ '','' @
     in_quotes ''action'' @ '':'' @ in_quotes (action_text (rule_action r)) @ '','' @
     in_quotes ''args'' @ '':'' @ args_text (rule_args r) @ ''}''"

fun separated :: "string \<Rightarrow> string list \<Rightarrow> string" where
  "separated sep [] = []"
| "separated sep [t] = t"
| "separated sep (t # u # ts) = t @ sep @ separated sep (u # ts)"

definition dockerSecurityOptsProfileJSON :: string where
  "dockerSecurityOptsProfileJSON =
     nl # ''{'' @ nl #
     indent 4 @ in_quotes ''defaultAction'' @ '': '' @ in_quotes (action_text defaultAction) @ '','' @ nl #
     indent 4 @ in_quotes ''syscalls'' @ '': ['' @ nl #
     separated ('','' @ [nl]) (map rule_text syscalls) @ nl #
     indent 4 @ '']'' @ nl # ''}'' @ [nl]"

text \<open>
  \<^verbatim>\<open>json.Compact\<close> of the standard library on a valid JSON text (the constant is one): white space
  outside strings is dropped. The state says whether the position is inside a string and whether
  the character before was a backslash.
\<close>

datatype scan = Outside | Inside | Escaped

fun scan_step :: "scan \<Rightarrow> char \<Rightarrow> scan" where
  "scan_step Outside c = (if c = dq then Inside else Outside)"
| "scan_step Inside c = (if c = dq then Outside else if c = CHR 0x5C then Escaped else Inside)"
| "scan_step Escaped c = Inside"

fun json_Compact :: "scan \<Rightarrow> string \<Rightarrow> string" where
  "json_Compact st [] = []"
| "json_Compact st (c # s) =
     (if st = Outside \<and> c \<in> {CHR '' '', CHR 0x09, CHR 0x0A, CHR 0x0D} then json_Compact st s
      else c # json_Compact (scan_step st c) s)"

definition dockerSecurityOpts :: string where
  "dockerSecurityOpts = ''seccomp='' @ json_Compact Outside dockerSecurityOptsProfileJSON"

section \<open>Compaction\<close>

text \<open>
  \<open>squeezes s t\<close>: the text \<open>s\<close> between two tokens is compacted to \<open>t\<close>, whatever follows.
\<close>

definition squeezes :: "string \<Rightarrow> string \<Rightarrow> bool" where
  "squeezes s t \<longleftrightarrow> (\<forall>u. json_Compact Outside (s @ u) = t @ json_Compact Outside u)"

lemma squeezes_append: "squeezes s t \<Longrightarrow> squeezes s' t' \<Longrightarrow> squeezes (s @ s') (t @ t')"
  by (simp add: squeezes_def)

lemma squeezes_Nil [simp]: "squeezes [] []"
  by (simp add: squeezes_def)

lemma squeezes_indent [simp]: "squeezes (indent n) []"
  unfolding squeezes_def indent_def by (induction n) simp_all

lemma squeezes_space: "c \<in> {CHR '' '', CHR 0x09, CHR 0x0A, CHR 0x0D} \<Longrightarrow> squeezes s t \<Longrightarrow> squeezes (c # s) t"
  by (simp add: squeezes_def)

lemma squeezes_token:
  "c \<notin> {CHR '' '', CHR 0x09, CHR 0x0A, CHR 0x0D, dq} \<Longrightarrow> squeezes s t \<Longrightarrow> squeezes (c # s) (c # t)"
  by (simp add: squeezes_def)

definition plain :: "string \<Rightarrow> bool" where
  "plain s \<longleftrightarrow> (\<forall>c \<in> set s. c \<noteq> dq \<and> c \<noteq> CHR 0x5C)"

lemma compact_inside: "plain s \<Longrightarrow> json_Compact Inside (s @ u) = s @ json_Compact Inside u"
  by (induction s) (simp_all add: plain_def)

lemma squeezes_quotes: "plain s \<Longrightarrow> squeezes (in_quotes s) (in_quotes s)"
  by (simp add: squeezes_def in_quotes_def compact_inside)

lemma squeezes_separated:
  "squeezes sep sep' \<Longrightarrow> (\<And>t. t \<in> set ts \<Longrightarrow> squeezes (f t) (g t)) \<Longrightarrow>
     squeezes (separated sep (map f ts)) (separated sep' (map g ts))"
proof (induction ts)
  case (Cons t ts)
  then show ?case by (cases ts) (simp_all add: squeezes_append)
qed simp

lemma squeezes_rule:
  assumes "plain (rule_name r)" "rule_args r = None"
  shows "squeezes (rule_text r) (rule_compact r)"
proof -
  have q: "squeezes (in_quotes ''name'') (in_quotes ''name'')"
    "squeezes (in_quotes ''action'') (in_quotes ''action'')" "squeezes (in_quotes ''args'') (in_quotes ''args'')"
    "squeezes (in_quotes (rule_name r)) (in_quotes (rule_name r))"
    by (rule squeezes_quotes, use assms(1) in \<open>simp add: plain_def\<close>)+
  have a: "squeezes (in_quotes (action_text x)) (in_quotes (action_text x))" for x
    by (rule squeezes_quotes) (cases x; simp add: plain_def)
  have c: "squeezes '': '' '':''" "squeezes ('','' @ [nl]) '',''" "squeezes (''{'' @ [nl]) ''{''"
    "squeezes ''}'' ''}''" "squeezes (''null'' @ [nl]) ''null''"
    by (simp_all add: squeezes_token squeezes_space)
  have "squeezes (indent 8 @ (''{'' @ [nl]) @
     indent 12 @ in_quotes ''name'' @ '': '' @ in_quotes (rule_name r) @ ('','' @ [nl]) @
     indent 12 @ in_quotes ''action'' @ '': '' @ in_quotes (action_text (rule_action r)) @ ('','' @ [nl]) @
     indent 12 @ in_quotes ''args'' @ '': '' @ (''null'' @ [nl]) @
     indent 8 @ ''}'')
    ([] @ ''{'' @ [] @ in_quotes ''name'' @ '':'' @ in_quotes (rule_name r) @ '','' @
     [] @ in_quotes ''action'' @ '':'' @ in_quotes (action_text (rule_action r)) @ '','' @
     [] @ in_quotes ''args'' @ '':'' @ ''null'' @ [] @ ''}'')"
    by (intro squeezes_append squeezes_indent a c q)
  then show ?thesis by (simp add: rule_text_def rule_compact_def args_text_def assms(2))
qed

lemma syscalls_rules: "r \<in> set syscalls \<Longrightarrow> plain (rule_name r) \<and> rule_action r = SCMP_ACT_ALLOW \<and> rule_args r = None"
proof -
  have "list_all (\<lambda>n. \<forall>c \<in> set n. c \<noteq> dq \<and> c \<noteq> CHR 0x5C) (map rule_name syscalls)"
    by code_simp
  moreover have "list_all (\<lambda>r. rule_action r = SCMP_ACT_ALLOW \<and> rule_args r = None) syscalls"
    unfolding syscalls_def seccomp_rules_defs allow_def by simp
  ultimately have "list_all (\<lambda>r. plain (rule_name r) \<and> rule_action r = SCMP_ACT_ALLOW \<and> rule_args r = None) syscalls"
    by (simp add: list_all_iff plain_def)
  then show "r \<in> set syscalls \<Longrightarrow> ?thesis" by (simp add: list_all_iff)
qed

text \<open>What the profile decides: the first rule for a system call, else the default action.\<close>

definition seccomp_decision :: "string \<Rightarrow> seccomp_action" where
  "seccomp_decision name =
     (case find (\<lambda>r. rule_name r = name) syscalls of
        Some r \<Rightarrow> rule_action r
      | None \<Rightarrow> defaultAction)"

text \<open>System calls a container must not make, and some that a browser sandbox needs.\<close>

definition denied_calls :: "string list" where
  "denied_calls =
     [''ptrace'', ''mount'', ''umount2'', ''pivot_root'', ''init_module'', ''finit_module'', ''delete_module'',
      ''kexec_load'', ''reboot'', ''settimeofday'', ''clock_settime'', ''swapon'', ''acct'', ''bpf'',
      ''perf_event_open'', ''keyctl'', ''add_key'', ''request_key'', ''process_vm_readv'',
      ''process_vm_writev'', ''userfaultfd'', ''iopl'', ''ioperm'']"

lemma denied_calls_absent: "list_all (\<lambda>n. list_all (\<lambda>m. n \<noteq> m) denied_calls) (map rule_name syscalls)"
  by code_simp

lemma sandbox_calls_present:
  "list_ex (\<lambda>n. n = ''clone'') (map rule_name syscalls)" "list_ex (\<lambda>n. n = ''unshare'') (map rule_name syscalls)"
  "list_ex (\<lambda>n. n = ''setns'') (map rule_name syscalls)" "list_ex (\<lambda>n. n = ''chroot'') (map rule_name syscalls)"
  by code_simp+

section \<open>Properties\<close>

text \<open>
  The option handed to the container engine is \<^verbatim>\<open>seccomp=\<close> and the profile without any white
  space between its tokens: the default action and all 326 rules in the order of the file.
\<close>

theorem dockerSecurityOpts_text:
  "dockerSecurityOpts =
     ''seccomp={'' @ in_quotes ''defaultAction'' @ '':'' @ in_quotes ''SCMP_ACT_ERRNO'' @ '','' @
     in_quotes ''syscalls'' @ '':['' @ separated '','' (map rule_compact syscalls) @ '']}'' \<and>
   length syscalls = 326"
proof
  have q: "squeezes (in_quotes ''defaultAction'') (in_quotes ''defaultAction'')"
    "squeezes (in_quotes ''SCMP_ACT_ERRNO'') (in_quotes ''SCMP_ACT_ERRNO'')"
    "squeezes (in_quotes ''syscalls'') (in_quotes ''syscalls'')"
    by (rule squeezes_quotes, simp add: plain_def)+
  have c: "squeezes (nl # ''{'' @ [nl]) ''{''" "squeezes '': '' '':''" "squeezes ('','' @ [nl]) '',''"
    "squeezes ('': ['' @ [nl]) '':[''" "squeezes [nl] []" "squeezes ('']'' @ nl # ''}'' @ [nl]) '']}''"
    by (simp_all add: squeezes_token squeezes_space)
  have r: "squeezes (separated ('','' @ [nl]) (map rule_text syscalls)) (separated '','' (map rule_compact syscalls))"
    using syscalls_rules by (intro squeezes_separated c squeezes_rule) blast+
  have "squeezes ((nl # ''{'' @ [nl]) @ indent 4 @ in_quotes ''defaultAction'' @ '': '' @
      in_quotes ''SCMP_ACT_ERRNO'' @ ('','' @ [nl]) @ indent 4 @ in_quotes ''syscalls'' @ ('': ['' @ [nl]) @
      separated ('','' @ [nl]) (map rule_text syscalls) @ [nl] @ indent 4 @ ('']'' @ nl # ''}'' @ [nl]))
    (''{'' @ [] @ in_quotes ''defaultAction'' @ '':'' @ in_quotes ''SCMP_ACT_ERRNO'' @ '','' @
      [] @ in_quotes ''syscalls'' @ '':['' @ separated '','' (map rule_compact syscalls) @ [] @ [] @ '']}'')"
    by (intro squeezes_append squeezes_indent q c r)
  from this [unfolded squeezes_def, rule_format, of "[]"]
  show "dockerSecurityOpts =
     ''seccomp={'' @ in_quotes ''defaultAction'' @ '':'' @ in_quotes ''SCMP_ACT_ERRNO'' @ '','' @
     in_quotes ''syscalls'' @ '':['' @ separated '','' (map rule_compact syscalls) @ '']}''"
    by (simp add: dockerSecurityOpts_def dockerSecurityOptsProfileJSON_def defaultAction_def)
  show "length syscalls = 326" unfolding syscalls_def seccomp_rules_defs by simp
qed



end
