(* ===== verification/Go_Run.thy ===== *)
theory Go_Run
  imports Go_Prelude
begin

text \<open>
  Procedures over a state: a call runs on a state of any type \<open>'w\<close> and returns a value, returns an
  error, or panics, with the state it leaves behind. Sequencing stops at the first error or panic,
  as the \<^verbatim>\<open>if err != nil { return }\<close> blocks of the code do.
\<close>

type_synonym ('w, 'a) proc = "'w \<Rightarrow> 'a res outcome \<times> 'w"

definition ret :: "'a \<Rightarrow> ('w, 'a) proc" where
  "ret x = (\<lambda>w. (Done (Inr x), w))"

definition fail :: "goerr \<Rightarrow> ('w, 'a) proc" where
  "fail e = (\<lambda>w. (Done (Inl e), w))"

definition andThen :: "('w, 'a) proc \<Rightarrow> ('a \<Rightarrow> ('w, 'b) proc) \<Rightarrow> ('w, 'b) proc" where
  "andThen m f = (\<lambda>w. case m w of
       (Panic p, w') \<Rightarrow> (Panic p, w')
     | (Done (Inl e), w') \<Rightarrow> (Done (Inl e), w')
     | (Done (Inr x), w') \<Rightarrow> f x w')"

text \<open>\<^verbatim>\<open>fmt.Errorf("...: %w", err)\<close> on the error of a call.\<close>

definition wrapping :: "string \<Rightarrow> ('w, 'a) proc \<Rightarrow> ('w, 'a) proc" where
  "wrapping msg m = (\<lambda>w. case m w of
       (Done (Inl e), w') \<Rightarrow> (Done (Inl (Wrapf msg e)), w')
     | r \<Rightarrow> r)"

text \<open>The same with \<^verbatim>\<open>%s\<close> and \<^verbatim>\<open>err.Error()\<close>: the text is kept, the error value is not.\<close>

definition flattening :: "string \<Rightarrow> ('w, 'a) proc \<Rightarrow> ('w, 'a) proc" where
  "flattening msg m = (\<lambda>w. case m w of
       (Done (Inl e), w') \<Rightarrow> (Done (Inl (Errorf (msg @ err_text e))), w')
     | r \<Rightarrow> r)"

text \<open>Calls of functions that return a value and an error, an error only, a value only, or may panic.\<close>

definition call :: "('w \<Rightarrow> 'a res \<times> 'w) \<Rightarrow> ('w, 'a) proc" where
  "call f = (\<lambda>w. case f w of (r, w') \<Rightarrow> (Done r, w'))"

definition call_err :: "('w \<Rightarrow> goerr option \<times> 'w) \<Rightarrow> ('w, unit) proc" where
  "call_err f = (\<lambda>w. case f w of
       (Some e, w') \<Rightarrow> (Done (Inl e), w')
     | (None, w') \<Rightarrow> (Done (Inr ()), w'))"

definition get :: "('w \<Rightarrow> 'a \<times> 'w) \<Rightarrow> ('w, 'a) proc" where
  "get f = (\<lambda>w. case f w of (x, w') \<Rightarrow> (Done (Inr x), w'))"

definition pure :: "'a outcome \<Rightarrow> ('w, 'a) proc" where
  "pure r = (\<lambda>w. case r of Panic p \<Rightarrow> (Panic p, w) | Done x \<Rightarrow> (Done (Inr x), w))"

definition check :: "goerr option outcome \<Rightarrow> ('w, unit) proc" where
  "check r = (\<lambda>w. case r of
       Panic p \<Rightarrow> (Panic p, w)
     | Done (Some e) \<Rightarrow> (Done (Inl e), w)
     | Done None \<Rightarrow> (Done (Inr ()), w))"

section \<open>Runs\<close>

named_theorems go_run "results of sequenced calls"

lemma ret_run [go_run, simp]: "ret x w = (r, w') \<longleftrightarrow> r = Done (Inr x) \<and> w' = w"
  by (auto simp: ret_def)

lemma fail_run [go_run, simp]: "fail e w = (r, w') \<longleftrightarrow> r = Done (Inl e) \<and> w' = w"
  by (auto simp: fail_def)

lemma andThen_ok [go_run]:
  "andThen m f w = (Done (Inr y), w') \<longleftrightarrow> (\<exists>x w1. m w = (Done (Inr x), w1) \<and> f x w1 = (Done (Inr y), w'))"
  by (auto simp: andThen_def split: prod.splits outcome.splits sum.splits)

lemma andThen_err [go_run]:
  "andThen m f w = (Done (Inl e), w') \<longleftrightarrow>
     m w = (Done (Inl e), w') \<or> (\<exists>x w1. m w = (Done (Inr x), w1) \<and> f x w1 = (Done (Inl e), w'))"
  by (auto simp: andThen_def split: prod.splits outcome.splits sum.splits)

lemma andThen_panic [go_run]:
  "andThen m f w = (Panic p, w') \<longleftrightarrow>
     m w = (Panic p, w') \<or> (\<exists>x w1. m w = (Done (Inr x), w1) \<and> f x w1 = (Panic p, w'))"
  by (auto simp: andThen_def split: prod.splits outcome.splits sum.splits)

lemma wrapping_ok [go_run]: "wrapping msg m w = (Done (Inr x), w') \<longleftrightarrow> m w = (Done (Inr x), w')"
  by (auto simp: wrapping_def split: prod.splits outcome.splits sum.splits)

lemma wrapping_err [go_run]:
  "wrapping msg m w = (Done (Inl e), w') \<longleftrightarrow> (\<exists>e'. e = Wrapf msg e' \<and> m w = (Done (Inl e'), w'))"
  by (auto simp: wrapping_def split: prod.splits outcome.splits sum.splits)

lemma wrapping_panic [go_run]: "wrapping msg m w = (Panic p, w') \<longleftrightarrow> m w = (Panic p, w')"
  by (auto simp: wrapping_def split: prod.splits outcome.splits sum.splits)

lemma flattening_ok [go_run]: "flattening msg m w = (Done (Inr x), w') \<longleftrightarrow> m w = (Done (Inr x), w')"
  by (auto simp: flattening_def split: prod.splits outcome.splits sum.splits)

lemma flattening_err [go_run]:
  "flattening msg m w = (Done (Inl e), w') \<longleftrightarrow>
     (\<exists>e'. e = Errorf (msg @ err_text e') \<and> m w = (Done (Inl e'), w'))"
  by (auto simp: flattening_def split: prod.splits outcome.splits sum.splits)

lemma flattening_panic [go_run]: "flattening msg m w = (Panic p, w') \<longleftrightarrow> m w = (Panic p, w')"
  by (auto simp: flattening_def split: prod.splits outcome.splits sum.splits)

lemma call_run [go_run]: "call f w = (r, w') \<longleftrightarrow> (\<exists>x. r = Done x \<and> f w = (x, w'))"
  by (auto simp: call_def split: prod.splits)

lemma call_err_ok [go_run]: "call_err f w = (Done (Inr u), w') \<longleftrightarrow> f w = (None, w')"
  by (auto simp: call_err_def split: prod.splits option.splits)

lemma call_err_err [go_run]: "call_err f w = (Done (Inl e), w') \<longleftrightarrow> f w = (Some e, w')"
  by (auto simp: call_err_def split: prod.splits option.splits)

lemma call_err_panic [go_run, simp]: "call_err f w \<noteq> (Panic p, w')"
  by (auto simp: call_err_def split: prod.splits option.splits)

lemma get_run [go_run]: "get f w = (r, w') \<longleftrightarrow> (\<exists>x. r = Done (Inr x) \<and> f w = (x, w'))"
  by (auto simp: get_def split: prod.splits)

lemma pure_run [go_run]:
  "pure r w = (q, w') \<longleftrightarrow> w' = w \<and> q = (case r of Panic p \<Rightarrow> Panic p | Done x \<Rightarrow> Done (Inr x))"
  by (auto simp: pure_def split: outcome.splits)

lemma check_ok [go_run]: "check r w = (Done (Inr u), w') \<longleftrightarrow> r = Done None \<and> w' = w"
  by (auto simp: check_def split: outcome.splits option.splits)

lemma check_err [go_run]: "check r w = (Done (Inl e), w') \<longleftrightarrow> r = Done (Some e) \<and> w' = w"
  by (auto simp: check_def split: outcome.splits option.splits)

lemma check_panic [go_run]: "check r w = (Panic p, w') \<longleftrightarrow> r = Panic p \<and> w' = w"
  by (auto simp: check_def split: outcome.splits option.splits)

named_theorems go_eval "evaluation of a sequence whose steps are known"

lemma andThen_eval [go_eval]:
  "m w = (Done (Inr x), w1) \<Longrightarrow> andThen m f w = f x w1"
  "m w = (Done (Inl e), w1) \<Longrightarrow> andThen m f w = (Done (Inl e), w1)"
  "m w = (Panic p, w1) \<Longrightarrow> andThen m f w = (Panic p, w1)"
  by (simp_all add: andThen_def)

lemma wrapping_eval [go_eval]:
  "m w = (Done (Inr x), w1) \<Longrightarrow> wrapping msg m w = (Done (Inr x), w1)"
  "m w = (Done (Inl e), w1) \<Longrightarrow> wrapping msg m w = (Done (Inl (Wrapf msg e)), w1)"
  by (simp_all add: wrapping_def)

lemma flattening_eval [go_eval]:
  "m w = (Done (Inr x), w1) \<Longrightarrow> flattening msg m w = (Done (Inr x), w1)"
  "m w = (Done (Inl e), w1) \<Longrightarrow> flattening msg m w = (Done (Inl (Errorf (msg @ err_text e))), w1)"
  by (simp_all add: flattening_def)

lemma call_eval [go_eval]:
  "f w = (r, w1) \<Longrightarrow> call f w = (Done r, w1)"
  "k w = (None, w1) \<Longrightarrow> call_err k w = (Done (Inr ()), w1)"
  "k w = (Some e, w1) \<Longrightarrow> call_err k w = (Done (Inl e), w1)"
  "g w = (x, w1) \<Longrightarrow> get g w = (Done (Inr x), w1)"
  by (simp_all add: call_def call_err_def get_def)

lemma check_eval [go_eval]:
  "check (Done None) w = (Done (Inr ()), w)" "check (Done (Some e)) w = (Done (Inl e), w)"
  "check (Panic p) w = (Panic p, w)" "pure (Done x) w = (Done (Inr x), w)" "pure (Panic p) w = (Panic p, w)"
  "ret y w = (Done (Inr y), w)" "fail e w = (Done (Inl e), w)"
  by (simp_all add: check_def pure_def ret_def fail_def)

text \<open>
  An invariant relation between the states before and after: \<open>keeps R m\<close> says that every run of
  \<open>m\<close>, however it ends, relates them by \<open>R\<close>.
\<close>

definition keeps :: "('w \<Rightarrow> 'w \<Rightarrow> bool) \<Rightarrow> ('w, 'a) proc \<Rightarrow> bool" where
  "keeps R m \<longleftrightarrow> (\<forall>w r w'. m w = (r, w') \<longrightarrow> R w w')"

lemma keepsI: "(\<And>w r w'. m w = (r, w') \<Longrightarrow> R w w') \<Longrightarrow> keeps R m"
  by (simp add: keeps_def)

lemma keepsD: "keeps R m \<Longrightarrow> m w = (r, w') \<Longrightarrow> R w w'"
  by (simp add: keeps_def)

lemma keeps_ret: "reflp R \<Longrightarrow> keeps R (ret x)"
  by (auto simp: keeps_def reflp_def)

lemma keeps_fail: "reflp R \<Longrightarrow> keeps R (fail e)"
  by (auto simp: keeps_def reflp_def)

lemma keeps_pure: "reflp R \<Longrightarrow> keeps R (pure r)"
  by (auto simp: keeps_def pure_run reflp_def)

lemma keeps_check: "reflp R \<Longrightarrow> keeps R (check r)"
  by (auto simp: keeps_def check_def reflp_def split: outcome.splits option.splits)

lemma keeps_andThen:
  assumes "transp R" "keeps R m" "\<And>x. keeps R (f x)"
  shows "keeps R (andThen m f)"
proof (rule keepsI)
  fix w r w'
  assume run: "andThen m f w = (r, w')"
  obtain q w1 where q: "m w = (q, w1)" by (cases "m w")
  then have R: "R w w1" by (rule keepsD [OF assms(2)])
  show "R w w'"
  proof (cases "\<exists>x. q = Done (Inr x)")
    case True
    then obtain x where "q = Done (Inr x)" ..
    with run q have "f x w1 = (r, w')" by (simp add: andThen_def)
    then have "R w1 w'" by (rule keepsD [OF assms(3)])
    with R assms(1) show ?thesis by (blast dest: transpD)
  next
    case False
    with run q R show ?thesis by (auto simp: andThen_def split: outcome.splits sum.splits)
  qed
qed

lemma keeps_wrapping: "keeps R m \<Longrightarrow> keeps R (wrapping msg m)"
  by (auto simp: keeps_def wrapping_def split: prod.splits outcome.splits sum.splits)

lemma keeps_flattening: "keeps R m \<Longrightarrow> keeps R (flattening msg m)"
  by (auto simp: keeps_def flattening_def split: prod.splits outcome.splits sum.splits)

lemma keeps_call: "(\<And>w r w'. f w = (r, w') \<Longrightarrow> R w w') \<Longrightarrow> keeps R (call f)"
  by (auto simp: keeps_def call_run)

lemma keeps_call_err: "(\<And>w r w'. f w = (r, w') \<Longrightarrow> R w w') \<Longrightarrow> keeps R (call_err f)"
  by (fastforce simp: keeps_def call_err_def split: prod.splits option.splits)

lemma keeps_get: "(\<And>w r w'. f w = (r, w') \<Longrightarrow> R w w') \<Longrightarrow> keeps R (get f)"
  by (auto simp: keeps_def get_run)

lemma keeps_if: "(b \<Longrightarrow> keeps R m) \<Longrightarrow> (\<not> b \<Longrightarrow> keeps R n) \<Longrightarrow> keeps R (if b then m else n)"
  by simp

lemmas keeps_intros =
  keeps_ret keeps_fail keeps_pure keeps_check keeps_andThen keeps_wrapping keeps_flattening
  keeps_call keeps_call_err keeps_get keeps_if

end
