(* ===== verification/Urls.thy ===== *)
theory Urls
  imports Go_Prelude
begin

text \<open>
  The part of \<^verbatim>\<open>net/url\<close> the code uses. Parsing and printing whole URLs are parameters; what is done
  with the host of a URL is modelled.
\<close>

record URL =
  url_Scheme :: string
  url_Host :: string
  url_Rest :: string

record url_lib =
  ul_Parse :: "string \<Rightarrow> URL res"
  ul_String :: "URL \<Rightarrow> string"

text \<open>\<^verbatim>\<open>splitHostPort\<close>: at the last colon, if only digits follow it.\<close>

fun last_colon :: "string \<Rightarrow> (string \<times> string) option" where
  "last_colon [] = None"
| "last_colon (c # s) =
     (case last_colon s of
        Some (h, p) \<Rightarrow> Some (c # h, p)
      | None \<Rightarrow> if c = CHR '':'' then Some ([], s) else None)"

definition strip_brackets :: "string \<Rightarrow> string" where
  "strip_brackets h =
     (if h \<noteq> [] \<and> hd h = CHR ''['' \<and> last h = CHR '']'' then butlast (tl h) else h)"

definition splitHostPort :: "string \<Rightarrow> string \<times> string" where
  "splitHostPort hp =
     (case last_colon hp of
        Some (h, p) \<Rightarrow> if list_all is_digit p then (strip_brackets h, p) else (strip_brackets hp, [])
      | None \<Rightarrow> (strip_brackets hp, []))"

definition url_Hostname :: "URL \<Rightarrow> string" where
  "url_Hostname u = fst (splitHostPort (url_Host u))"

definition url_Port :: "URL \<Rightarrow> string" where
  "url_Port u = snd (splitHostPort (url_Host u))"

definition is_loopback :: "URL \<Rightarrow> bool" where
  "is_loopback u \<longleftrightarrow> url_Hostname u = ''localhost'' \<or> url_Hostname u = ''127.0.0.1''"

lemma last_colon_split: "last_colon s = Some (h, p) \<longleftrightarrow> s = h @ CHR '':'' # p \<and> CHR '':'' \<notin> set p"
proof (induction s arbitrary: h p)
  case (Cons c s)
  show ?case
  proof (cases "last_colon s")
    case None
    have "CHR '':'' \<notin> set s"
    proof
      assume "CHR '':'' \<in> set s"
      then obtain h' p' where "s = h' @ CHR '':'' # p'" "CHR '':'' \<notin> set p'"
        by (meson split_list_last)
      with Cons.IH [of h' p'] None show False by simp
    qed
    with None show ?thesis by (cases h) auto
  next
    case (Some hp)
    then obtain h' p' where hp: "last_colon s = Some (h', p')" by (cases hp) auto
    with Cons.IH [of h' p'] have s: "s = h' @ CHR '':'' # p'" "CHR '':'' \<notin> set p'" by auto
    show ?thesis
    proof
      assume "last_colon (c # s) = Some (h, p)"
      with hp s show "c # s = h @ CHR '':'' # p \<and> CHR '':'' \<notin> set p" by auto
    next
      assume A: "c # s = h @ CHR '':'' # p \<and> CHR '':'' \<notin> set p"
      with s have "h \<noteq> []" by (cases h) auto
      with A obtain t where "h = c # t" "s = t @ CHR '':'' # p" by (cases h) auto
      with A Cons.IH [of t p] show "last_colon (c # s) = Some (h, p)" by simp
    qed
  qed
qed simp

lemma splitHostPort_port:
  "list_all is_digit p \<Longrightarrow> hd (h @ [CHR '':'']) \<noteq> CHR ''['' \<Longrightarrow> splitHostPort (h @ CHR '':'' # p) = (h, p)"
proof -
  assume p: "list_all is_digit p" and h: "hd (h @ [CHR '':'']) \<noteq> CHR ''[''"
  from p have "CHR '':'' \<notin> set p" by (auto simp: list_all_iff is_digit_def)
  then have "last_colon (h @ CHR '':'' # p) = Some (h, p)" by (simp add: last_colon_split)
  with p h show ?thesis by (cases h) (auto simp: splitHostPort_def strip_brackets_def)
qed

end
