(* ===== verification/Docker.thy ===== *)
theory Docker
  imports Config Seccomp Random_Crypto Go_Run Urls
begin

text \<open>
  The job service over Docker: \<^verbatim>\<open>service/docker/service.go\<close> and \<^verbatim>\<open>service/docker/utils.go\<close>. The client of
  the engine is a record of calls on a state \<open>'w\<close> (the engine and the world around it); the locale
  \<open>docker_engine\<close> says what the limit on concurrent jobs relies on.
\<close>

section \<open>The client and the host\<close>

abbreviation dockerRequestTimeout :: duration where "dockerRequestTimeout \<equiv> 10 * time_Second"
abbreviation dockerImagePullTimeout :: duration where "dockerImagePullTimeout \<equiv> 2 * time_Minute"
abbreviation dockerStopTimeout :: duration where "dockerStopTimeout \<equiv> 5 * time_Minute"
abbreviation dockerRetentionJobInterval :: duration where "dockerRetentionJobInterval \<equiv> time_Minute"

definition dockerVolumePath :: string where
  "dockerVolumePath = ''/data''"

definition app_label :: "string \<times> string" where
  "app_label = (''app'', ''mattermost-calls-offloader'')"

record container_mount =
  mount_Target :: string
  mount_Source :: string
  mount_Type :: string

record container_spec =
  spec_Image :: string
  spec_Tty :: bool
  spec_Env :: "string list"
  spec_Volumes :: "string list"
  spec_Labels :: "(string \<times> string) list"
  spec_NetworkMode :: string
  spec_Mounts :: "container_mount list"
  spec_SecurityOpt :: "string list"
  spec_Name :: string

record container_state =
  state_ExitCode :: int
  state_FinishedAt :: string

record container_json =
  cj_State :: "container_state option"
  cj_Mounts :: "string list"

record logs_options =
  lo_ShowStderr :: bool
  lo_ShowStdout :: bool
  lo_Since :: instant
  lo_Follow :: bool

text \<open>
  Every call takes the timeout of the context it is made with. A list of containers is the list of
  their identifiers; \<open>Filters\<close> are pairs of key and value. \<^verbatim>\<open>ImagePull\<close> returns the lines scanned
  from the stream and the error the scanner ended with; \<^verbatim>\<open>ContainerWait\<close> the status or the error
  that arrives first.
\<close>

record 'w docker_client =
  dc_New :: "'w \<Rightarrow> goerr option \<times> 'w"
  dc_ServerVersion :: "duration \<Rightarrow> 'w \<Rightarrow> (string \<times> string) res \<times> 'w"
  dc_ContainerList :: "duration \<Rightarrow> bool \<Rightarrow> (string \<times> string) list \<Rightarrow> 'w \<Rightarrow> string list res \<times> 'w"
  dc_ContainerInspect :: "duration \<Rightarrow> string \<Rightarrow> 'w \<Rightarrow> container_json res \<times> 'w"
  dc_ContainerCreate :: "duration \<Rightarrow> container_spec \<Rightarrow> 'w \<Rightarrow> string res \<times> 'w"
  dc_ContainerStart :: "duration \<Rightarrow> string \<Rightarrow> 'w \<Rightarrow> goerr option \<times> 'w"
  dc_ContainerWait :: "duration \<Rightarrow> string \<Rightarrow> 'w \<Rightarrow> int res \<times> 'w"
  dc_ContainerStop :: "duration \<Rightarrow> int \<Rightarrow> string \<Rightarrow> 'w \<Rightarrow> goerr option \<times> 'w"
  dc_ContainerRemove :: "duration \<Rightarrow> string \<Rightarrow> 'w \<Rightarrow> goerr option \<times> 'w"
  dc_ContainerLogs :: "duration \<Rightarrow> string \<Rightarrow> logs_options \<Rightarrow> 'w \<Rightarrow> string res \<times> 'w"
  dc_VolumeRemove :: "duration \<Rightarrow> string \<Rightarrow> bool \<Rightarrow> 'w \<Rightarrow> goerr option \<times> 'w"
  dc_ImageInspect :: "duration \<Rightarrow> string \<Rightarrow> 'w \<Rightarrow> goerr option \<times> 'w"
  dc_ImagePull :: "duration \<Rightarrow> string \<Rightarrow> 'w \<Rightarrow> (string list \<times> goerr option) res \<times> 'w"
  dc_Close :: "'w \<Rightarrow> goerr option \<times> 'w"

text \<open>
  What else the service takes from its host: random bytes, clocks, the operating system, the
  iteration order of maps, the decimal text of floats, URLs, the parser of time stamps
  (\<^verbatim>\<open>time.RFC3339\<close>) and the separation of a log stream (\<^verbatim>\<open>stdcopy.StdCopy\<close>: what was written to the
  two writers and the error).
\<close>

record ('w, 'v) host =
  h_job :: "'v joblib"
  h_GOOS :: string
  h_NewRandom :: "'w \<Rightarrow> bytes \<times> 'w"
  h_Now :: "'w \<Rightarrow> instant \<times> 'w"
  h_range :: "InputData \<Rightarrow> string list"
  h_float :: "float64 \<Rightarrow> string"
  h_url :: url_lib
  h_ParseTime :: "string \<Rightarrow> instant res"
  h_StdCopy :: "string \<Rightarrow> (string \<times> string) \<times> goerr option"

abbreviation host_env :: "('w, 'v) host \<Rightarrow> environ" where
  "host_env h \<equiv> jl_env (h_job h)"

text \<open>\<^verbatim>\<open>time.Now().UnixMilli()\<close>.\<close>

definition UnixMilli :: "('w, 'v) host \<Rightarrow> ('w, int) proc" where
  "UnixMilli h = get (\<lambda>w. case h_Now h w of (t, w') \<Rightarrow> (t div 1000000, w'))"

definition random_NewID :: "('w, 'v) host \<Rightarrow> ('w, string) proc" where
  "random_NewID h = andThen (get (h_NewRandom h)) (\<lambda>uuid. pure (NewID uuid))"

lemma random_NewID_ok:
  "random_NewID h w = (Done (Inr nid), w') \<longleftrightarrow> (\<exists>u. h_NewRandom h w = (u, w') \<and> NewID u = Done nid)"
  by (auto simp: random_NewID_def andThen_def get_def pure_def split: prod.splits outcome.splits)

record 'w DockerService =
  ds_cfg :: DockerConfig
  ds_client :: "'w docker_client"

section \<open>Names and addresses\<close>

text \<open>
  The pattern \<^verbatim>\<open>^mattermost\/(.+):v(?:0|[1-9]\d*)\.(?:0|[1-9]\d*)\.(?:0|[1-9]\d*)(?:-dev\d*)*$\<close>.
\<close>

definition dockerImageRE :: re where
  "dockerImageRE =
     cats [RBegin, RLit ''mattermost/'', RGroup 1 (RCat RAny (RStar RAny)), RLit '':v'',
           re_number, RLit ''.'', re_number, RLit ''.'', re_number, RStar re_dev, REnd]"

definition getImageNameFromRunner :: "string \<Rightarrow> string" where
  "getImageNameFromRunner runner =
     (case FindStringSubmatch dockerImageRE 1 runner of
        Some [m0, m1] \<Rightarrow> m1
      | _ \<Rightarrow> [])"

definition docker_getSiteURLForJob :: "('w, 'v) host \<Rightarrow> string \<Rightarrow> string" where
  "docker_getSiteURLForJob h siteURL =
     (if \<not> devMode (host_env h) then siteURL
      else if h_GOOS h = ''darwin'' then
        (case ul_Parse (h_url h) siteURL of
           Inl err \<Rightarrow> siteURL
         | Inr u \<Rightarrow>
             if is_loopback u
             then ul_String (h_url h) (u\<lparr>url_Host := ''host.docker.internal'' @ '':'' @ url_Port u\<rparr>)
             else siteURL)
      else siteURL)"

section \<open>Operations\<close>

text \<open>\<^verbatim>\<open>updateJobRunner\<close>: a missing image is pulled.\<close>

definition updateJobRunner :: "('w, 'v) host \<Rightarrow> 'w DockerService \<Rightarrow> string \<Rightarrow> ('w, unit) proc" where
  "updateJobRunner h s runner0 =
     (let runner = (if devMode (host_env h) then getImageNameFromRunner runner0 @ '':master'' else runner0)
      in (\<lambda>w. case dc_ImageInspect (ds_client s) dockerRequestTimeout runner w of
            (None, w1) \<Rightarrow> ret () w1
          | (Some missing, w1) \<Rightarrow>
              andThen (wrapping ''failed to pull docker image: ''
                  (call (dc_ImagePull (ds_client s) dockerImagePullTimeout runner)))
                (\<lambda>(ls, scanner_Err). case scanner_Err of
                   Some err \<Rightarrow> fail (Wrapf ''failed to scan output: '' err)
                 | None \<Rightarrow> ret ()) w1))"

text \<open>
  \<^verbatim>\<open>Init\<close>: one goroutine for each runner. \<open>order\<close> is the order in which they run and deliver their
  results (each is run as a whole); the first error in it is the result, and all of them run.
\<close>

fun run_all :: "('w, unit) proc list \<Rightarrow> 'w \<Rightarrow> (goerr option) outcome \<times> 'w" where
  "run_all [] w = (Done None, w)"
| "run_all (m # ms) w =
     (case m w of
        (Panic p, w') \<Rightarrow> (Panic p, w')
      | (Done (Inl e), w') \<Rightarrow> (case run_all ms w' of
          (Panic p, w'') \<Rightarrow> (Panic p, w'')
        | (Done r, w'') \<Rightarrow> (Done (Some e), w''))
      | (Done (Inr u), w') \<Rightarrow> run_all ms w')"

definition Docker_Init ::
  "('w, 'v) host \<Rightarrow> 'w DockerService \<Rightarrow> string list \<Rightarrow> 'w \<Rightarrow> (goerr option) outcome \<times> 'w" where
  "Docker_Init h s order = run_all (map (updateJobRunner h s) order)"

definition stopJob :: "'w DockerService \<Rightarrow> string \<Rightarrow> ('w, unit) proc" where
  "stopJob s jobID =
     flattening ''failed to stop container: ''
       (call_err (dc_ContainerStop (ds_client s) dockerStopTimeout (dockerStopTimeout div time_Second) jobID))"

text \<open>\<^verbatim>\<open>getJobLogs\<close>: the error, and what was written to the two writers before it.\<close>

definition getJobLogs ::
  "('w, 'v) host \<Rightarrow> 'w DockerService \<Rightarrow> duration \<Rightarrow> string \<Rightarrow> bool \<Rightarrow> 'w \<Rightarrow> (goerr option \<times> string \<times> string) \<times> 'w" where
  "getJobLogs h s timeout jobID follow w =
     (case h_Now h w of (now, w1) \<Rightarrow>
       (case dc_ContainerLogs (ds_client s) timeout jobID
          \<lparr>lo_ShowStderr = True, lo_ShowStdout = True, lo_Since = now - time_Hour, lo_Follow = follow\<rparr> w1 of
          (Inl err, w2) \<Rightarrow> ((Some (Errorf (''failed to get container logs: '' @ err_text err)), [], []), w2)
        | (Inr rdr, w2) \<Rightarrow> (case h_StdCopy h rdr of ((out, err), e) \<Rightarrow>
            (case e of
               Some er \<Rightarrow> ((Some (Errorf (''failed to read logs: '' @ err_text er)), out, err), w2)
             | None \<Rightarrow> ((None, out, err), w2)))))"

definition Docker_GetJobLogs ::
  "('w, 'v) host \<Rightarrow> 'w DockerService \<Rightarrow> string \<Rightarrow> 'w \<Rightarrow> (goerr option \<times> string \<times> string) \<times> 'w" where
  "Docker_GetJobLogs h s jobID = getJobLogs h s dockerRequestTimeout jobID False"

definition Docker_DeleteJob :: "'w DockerService \<Rightarrow> string \<Rightarrow> ('w, unit) proc" where
  "Docker_DeleteJob s jobID =
     andThen (wrapping ''failed to get container: ''
         (call (dc_ContainerInspect (ds_client s) dockerRequestTimeout jobID))) (\<lambda>cnt.
     andThen (wrapping ''failed to remove container: ''
         (call_err (dc_ContainerRemove (ds_client s) dockerRequestTimeout jobID))) (\<lambda>_.
     case cj_Mounts cnt of
       [] \<Rightarrow> fail (Errorf ''container should have one volume'')
     | v # vs \<Rightarrow> wrapping ''failed to remove volume: ''
         (call_err (dc_VolumeRemove (ds_client s) dockerRequestTimeout v False))))"

section \<open>Creating a job\<close>

text \<open>The checks, up to the limit on running containers. \<open>hasCb\<close>: the callback is not nil.\<close>

definition Docker_admit :: "('w, 'v) host \<Rightarrow> 'w DockerService \<Rightarrow> JobConfig \<Rightarrow> bool \<Rightarrow> ('w, unit) proc" where
  "Docker_admit h s cfg hasCb =
     andThen (wrapping ''invalid job config: ''
         (check (JobConfig_IsValid (h_job h) cfg (dk_ImageRegistry (ds_cfg s))))) (\<lambda>_.
     if \<not> hasCb then fail (Errorf ''onStopCb should not be nil'')
     else andThen (wrapping ''failed to list containers: ''
         (call (dc_ContainerList (ds_client s) dockerRequestTimeout False
            [(''label'', fst app_label @ ''='' @ snd app_label)]))) (\<lambda>containers.
     if dk_MaxConcurrentJobs (ds_cfg s) > 0 \<and> int (length containers) \<ge> dk_MaxConcurrentJobs (ds_cfg s) \<and>
        \<not> devMode (host_env h)
     then fail (Errorf ''max concurrent jobs reached'')
     else ret ()))"

definition jobPrefix :: "string \<Rightarrow> string" where
  "jobPrefix type =
     (if type = TypeRecording then RecordingJobPrefix
      else if type = TypeTranscribing then TranscribingJobPrefix
      else [])"

text \<open>\<^verbatim>\<open>DOCKER_NETWORK\<close> wins over the host network of development mode on Linux.\<close>

definition networkMode :: "('w, 'v) host \<Rightarrow> string" where
  "networkMode h =
     (let dockerNetwork = host_env h ''DOCKER_NETWORK''
      in if dockerNetwork \<noteq> [] then dockerNetwork
         else if devMode (host_env h) \<and> h_GOOS h = ''linux'' then ''host''
         else [])"

definition docker_spec ::
  "('w, 'v) host \<Rightarrow> string \<Rightarrow> string list \<Rightarrow> string \<Rightarrow> container_spec" where
  "docker_spec h img env volumeID =
     \<lparr>spec_Image = img, spec_Tty = False, spec_Env = env,
      spec_Volumes = [volumeID @ '':'' @ dockerVolumePath],
      spec_Labels = [app_label],
      spec_NetworkMode = networkMode h,
      spec_Mounts = [\<lparr>mount_Target = dockerVolumePath, mount_Source = volumeID, mount_Type = ''volume''\<rparr>],
      spec_SecurityOpt = [dockerSecurityOpts],
      spec_Name = []\<rparr>"

text \<open>
  The input data after \<^verbatim>\<open>SetSiteURL\<close>. The map is shared: the job that is returned refers to the
  updated map.
\<close>

definition docker_input :: "('w, 'v) host \<Rightarrow> JobConfig \<Rightarrow> InputData" where
  "docker_input h cfg =
     SetSiteURL (cfg_InputData cfg) (docker_getSiteURLForJob h (GetSiteURL (cfg_InputData cfg)))"

definition docker_env :: "('w, 'v) host \<Rightarrow> JobConfig \<Rightarrow> string list" where
  "docker_env h cfg =
     ToEnv (h_float h) (h_range h (docker_input h cfg)) (docker_input h cfg) @
     (if devMode (host_env h) then [''DEV_MODE=true''] else [])"

definition docker_image :: "('w, 'v) host \<Rightarrow> JobConfig \<Rightarrow> string" where
  "docker_image h cfg =
     (if devMode (host_env h) then jobPrefix (cfg_Type cfg) @ '':master'' else cfg_Runner cfg)"

definition Docker_launch :: "('w, 'v) host \<Rightarrow> 'w DockerService \<Rightarrow> JobConfig \<Rightarrow> ('w, Job) proc" where
  "Docker_launch h s cfg =
     andThen (wrapping ''failed to update job runner: '' (updateJobRunner h s (cfg_Runner cfg))) (\<lambda>_.
     andThen (random_NewID h) (\<lambda>nid.
     andThen (wrapping ''failed to create container: ''
         (call (dc_ContainerCreate (ds_client s) dockerRequestTimeout
            (docker_spec h (docker_image h cfg) (docker_env h cfg) (jobPrefix (cfg_Type cfg) @ ''-'' @ nid))))) (\<lambda>ID.
     if length ID < 12 then pure (Panic ''slice bounds out of range'')
     else andThen (wrapping ''failed to start container: ''
         (call_err (dc_ContainerStart (ds_client s) dockerRequestTimeout (take 12 ID)))) (\<lambda>_.
     andThen (UnixMilli h) (\<lambda>now.
     ret \<lparr>job_Config = cfg\<lparr>cfg_Runner := docker_image h cfg, cfg_InputData := docker_input h cfg\<rparr>,
          job_ID = take 12 ID, job_StartAt = now, job_StopAt = 0, job_OutputData = None\<rparr>)))))"

definition Docker_CreateJob ::
  "('w, 'v) host \<Rightarrow> 'w DockerService \<Rightarrow> JobConfig \<Rightarrow> bool \<Rightarrow> ('w, Job) proc" where
  "Docker_CreateJob h s cfg hasCb = andThen (Docker_admit h s cfg hasCb) (\<lambda>_. Docker_launch h s cfg)"

text \<open>
  The goroutine \<^verbatim>\<open>CreateJob\<close> leaves behind, up to its call of the callback: \<open>Some success\<close> is the call
  with that argument, \<open>None\<close> a return without it. (Copying the logs to the standard output, when it is
  configured, is not modelled: it only reads.) \<open>docker_expired\<close> is the branch of an expired context.
\<close>

definition docker_expired :: "'w DockerService \<Rightarrow> string \<Rightarrow> 'w \<Rightarrow> bool option \<times> 'w" where
  "docker_expired s jobID w1 =
     (case stopJob s jobID w1 of
        (Done (Inr u), w2) \<Rightarrow> (case dc_ContainerInspect (ds_client s) dockerRequestTimeout jobID w2 of
          (Inl err', w3) \<Rightarrow> (None, w3)
        | (Inr cnt, w3) \<Rightarrow> (case cj_State cnt of
            None \<Rightarrow> (None, w3)
          | Some st \<Rightarrow> (Some (state_ExitCode st = 0), w3)))
      | (r, w2) \<Rightarrow> (None, w2))"

definition docker_watch :: "'w DockerService \<Rightarrow> JobConfig \<Rightarrow> string \<Rightarrow> 'w \<Rightarrow> bool option \<times> 'w" where
  "docker_watch s cfg jobID w =
     (case dc_ContainerWait (ds_client s) (mul64 (cfg_MaxDurationSec cfg) time_Second) jobID w of
        (Inr status, w1) \<Rightarrow> (Some (status = 0), w1)
      | (Inl err, w1) \<Rightarrow> docker_expired s jobID w1)"

section \<open>The retention job\<close>

text \<open>One container of a pass: every failure goes on with the next one.\<close>

definition retention_check :: "('w, 'v) host \<Rightarrow> 'w DockerService \<Rightarrow> string \<Rightarrow> 'w \<Rightarrow> 'w" where
  "retention_check h s ID w =
     (case dc_ContainerInspect (ds_client s) dockerRequestTimeout ID w of
        (Inl err, w1) \<Rightarrow> w1
      | (Inr c, w1) \<Rightarrow> (case cj_State c of
          None \<Rightarrow> w1
        | Some st \<Rightarrow> (case h_ParseTime h (state_FinishedAt st) of
            Inl err \<Rightarrow> w1
          | Inr finishedAt \<Rightarrow> (case h_Now h w1 of (now, w2) \<Rightarrow>
              if now - finishedAt > dk_FailedJobsRetentionTime (ds_cfg s)
              then snd (Docker_DeleteJob s ID w2)
              else w2))))"

definition retention_pass :: "('w, 'v) host \<Rightarrow> 'w DockerService \<Rightarrow> 'w \<Rightarrow> 'w" where
  "retention_pass h s w =
     (case dc_ContainerList (ds_client s) dockerRequestTimeout True
        [(''status'', ''exited''), (''label'', fst app_label @ ''='' @ snd app_label)] w of
        (Inl err, w1) \<Rightarrow> w1
      | (Inr containers, w1) \<Rightarrow> fold (retention_check h s) containers w1)"

text \<open>
  The loop of the goroutine over what its \<^verbatim>\<open>select\<close> receives: a tick of the timer (with what the world
  did meanwhile) or the closing of \<^verbatim>\<open>stopCh\<close>. The result says whether \<^verbatim>\<open>retentionJobDoneCh\<close> was closed.
\<close>

datatype 'w retention_event = Tick "'w \<Rightarrow> 'w" | StopCh

fun retentionJob :: "('w, 'v) host \<Rightarrow> 'w DockerService \<Rightarrow> 'w retention_event list \<Rightarrow> 'w \<Rightarrow> bool \<times> 'w" where
  "retentionJob h s [] w = (False, w)"
| "retentionJob h s (StopCh # evs) w = (True, w)"
| "retentionJob h s (Tick meanwhile # evs) w = retentionJob h s evs (retention_pass h s (meanwhile w))"

text \<open>
  \<^verbatim>\<open>NewJobService\<close>: the service and whether its retention job was started (otherwise its channel is
  closed at once). \<^verbatim>\<open>Shutdown\<close> closes \<^verbatim>\<open>stopCh\<close>, waits for the retention job (\<open>None\<close>: it waits for
  ever) and closes the client.
\<close>

definition Docker_NewJobService :: "'w docker_client \<Rightarrow> DockerConfig \<Rightarrow> ('w, 'w DockerService \<times> bool) proc" where
  "Docker_NewJobService client cfg =
     andThen (wrapping ''failed to create docker client: '' (call_err (dc_New client))) (\<lambda>_.
     andThen (wrapping ''failed to get server version: ''
         (call (dc_ServerVersion client dockerRequestTimeout))) (\<lambda>version.
     ret (\<lparr>ds_cfg = cfg, ds_client = client\<rparr>, dk_FailedJobsRetentionTime cfg > 0)))"

definition Docker_Shutdown ::
  "('w, 'v) host \<Rightarrow> 'w DockerService \<Rightarrow> bool \<Rightarrow> 'w retention_event list \<Rightarrow> 'w \<Rightarrow> (goerr option) option \<times> 'w" where
  "Docker_Shutdown h s started pending w =
     (case (if started then retentionJob h s (pending @ [StopCh]) w else (True, w)) of
        (True, w1) \<Rightarrow> (case dc_Close (ds_client s) w1 of (r, w2) \<Rightarrow> (Some r, w2))
      | (False, w1) \<Rightarrow> (None, w1))"

end
