(* ===== verification/Docker_Engine.thy ===== *)
theory Docker_Engine
  imports Docker
begin

text \<open>
  What the Docker job service guarantees over an engine that behaves as documented. The locale
  \<open>docker_limit\<close> counts the running containers of the application, \<open>docker_objects\<close> follows containers
  and volumes; both are interpreted on a simulated engine, on which the properties are evaluated.
\<close>

section \<open>The limit on running containers\<close>

text \<open>
  \<open>running\<close> counts the running containers with the label of the application. A list without \<^verbatim>\<open>All\<close>
  returns them; only a start adds one; any call may find that some have exited.
\<close>

locale docker_limit =
  fixes dc :: "'w docker_client"
    and h :: "('w, 'v) host"
    and running :: "'w \<Rightarrow> nat"
  assumes list_running:
      "dc_ContainerList dc t False [(''label'', ''app=mattermost-calls-offloader'')] w = (Inr ids, w') \<Longrightarrow>
        running w' = length ids"
    and list_quiet: "dc_ContainerList dc t a fs w = (r, w') \<Longrightarrow> running w' \<le> running w"
    and create_quiet: "dc_ContainerCreate dc t spec w = (rc, w') \<Longrightarrow> running w' \<le> running w"
    and start_one: "dc_ContainerStart dc t cid w = (re, w') \<Longrightarrow> running w' \<le> Suc (running w)"
    and image_quiet: "dc_ImageInspect dc t img w = (re, w') \<Longrightarrow> running w' \<le> running w"
    and pull_quiet: "dc_ImagePull dc t img w = (rp, w') \<Longrightarrow> running w' \<le> running w"
    and random_quiet: "h_NewRandom h w = (x, w') \<Longrightarrow> running w' \<le> running w"
    and clock_quiet: "h_Now h w = (n, w') \<Longrightarrow> running w' \<le> running w"
begin

definition quiet :: "'w \<Rightarrow> 'w \<Rightarrow> bool" where
  "quiet w w' \<longleftrightarrow> running w' \<le> running w"

lemma quiet_rel: "reflp quiet" "transp quiet"
  by (auto simp: quiet_def reflp_def transp_def)

lemma quiet_updateJobRunner: "ds_client s = dc \<Longrightarrow> keeps quiet (updateJobRunner h s r)"
proof (rule keepsI)
  fix w q w'
  assume dc: "ds_client s = dc" and run: "updateJobRunner h s r w = (q, w')"
  define img where "img = (if devMode (host_env h) then getImageNameFromRunner r @ '':master'' else r)"
  have pull: "keeps quiet (andThen (wrapping m (call (dc_ImagePull dc t i)))
      (\<lambda>(ls, scanner_Err). case scanner_Err of Some err \<Rightarrow> fail (Wrapf m' err) | None \<Rightarrow> ret ()))" for m m' t i
    by (intro keeps_intros quiet_rel) (auto simp: quiet_def dest: pull_quiet
        intro!: keeps_fail keeps_ret quiet_rel split: option.splits)
  show "quiet w w'"
  proof (cases "dc_ImageInspect dc dockerRequestTimeout img w")
    case (Pair e w1)
    then have q1: "quiet w w1" by (simp add: quiet_def image_quiet)
    show ?thesis
    proof (cases e)
      case None
      with run Pair dc q1 show ?thesis by (simp add: updateJobRunner_def Let_def img_def [symmetric])
    next
      case (Some err)
      with run Pair dc have "quiet w1 w'"
        by (auto simp: updateJobRunner_def Let_def img_def [symmetric] intro: keepsD [OF pull])
      with q1 show ?thesis by (simp add: quiet_def)
    qed
  qed
qed

lemma quiet_admit:
  assumes "ds_client s = dc"
  shows "keeps quiet (Docker_admit h s cfg cb)"
  unfolding Docker_admit_def assms
  by (intro keeps_intros quiet_rel) (auto simp: quiet_def dest: list_quiet)

lemma quiet_NewID: "keeps quiet (random_NewID h)"
  unfolding random_NewID_def
  by (intro keeps_intros quiet_rel) (auto simp: quiet_def dest: random_quiet)

lemma quiet_UnixMilli: "keeps quiet (UnixMilli h)"
  unfolding UnixMilli_def
  by (intro keeps_intros) (auto simp: quiet_def dest: clock_quiet split: prod.splits)

lemma admit_below:
  assumes "ds_client s = dc" "\<not> devMode (host_env h)" "0 < dk_MaxConcurrentJobs (ds_cfg s)"
    and "Docker_admit h s cfg cb w = (Done (Inr u), w')"
  shows "int (running w') < dk_MaxConcurrentJobs (ds_cfg s)"
  using assms(2-4) unfolding Docker_admit_def assms(1)
  by (auto simp: go_run app_label_def dest!: list_running split: if_splits)

lemma launch_one:
  assumes "ds_client s = dc" "Docker_launch h s cfg w = (r, w')"
  shows "running w' \<le> Suc (running w)"
proof -
  let ?R = "\<lambda>w w'. running w' \<le> Suc (running w)"
  have weak: "running w2 \<le> Suc (running w1)" if "quiet w1 w2" for w1 w2
    using that by (simp add: quiet_def)
  have step: "?R w1 w3" if "quiet w1 w2" "?R w2 w3" for w1 w2 w3
    using that by (simp add: quiet_def)
  have then_quiet: "keeps ?R (andThen m f)" if "keeps quiet m" "\<And>x. keeps ?R (f x)"
    for m :: "('w, 'a) proc" and f :: "'a \<Rightarrow> ('w, 'b) proc"
  proof (rule keepsI)
    fix w1 r w3
    assume run: "andThen m f w1 = (r, w3)"
    obtain q w2 where q: "m w1 = (q, w2)" by (cases "m w1")
    then have Q: "quiet w1 w2" by (rule keepsD [OF that(1)])
    show "?R w1 w3"
    proof (cases "\<exists>x. q = Done (Inr x)")
      case True
      with run q obtain x where "f x w2 = (r, w3)" by (auto simp: andThen_def)
      with keepsD [OF that(2)] Q step show ?thesis by blast
    next
      case False
      with run q Q weak show ?thesis by (auto simp: andThen_def split: outcome.splits sum.splits)
    qed
  qed
  have start: "keeps ?R (andThen (wrapping m (call_err (dc_ContainerStart dc t i))) (\<lambda>_. andThen (UnixMilli h) g))"
    if "\<And>x. keeps quiet (g x)" for m t i and g :: "int \<Rightarrow> ('w, Job) proc"
  proof (rule keepsI)
    fix w1 r w3
    assume run: "andThen (wrapping m (call_err (dc_ContainerStart dc t i))) (\<lambda>_. andThen (UnixMilli h) g) w1 = (r, w3)"
    obtain e w2 where e: "dc_ContainerStart dc t i w1 = (e, w2)" by (cases "dc_ContainerStart dc t i w1")
    have G: "keeps quiet (andThen (UnixMilli h) g)"
      using quiet_UnixMilli that by (intro keeps_intros quiet_rel)
    from run e have "w3 = w2 \<or> andThen (UnixMilli h) g w2 = (r, w3)"
      by (cases e) (auto simp: andThen_def wrapping_def call_err_def)
    with start_one [OF e] keepsD [OF G] show "?R w1 w3" unfolding quiet_def by fastforce
  qed
  have "keeps ?R (Docker_launch h s cfg)"
    unfolding Docker_launch_def assms(1)
    by (intro then_quiet keeps_if start keeps_wrapping quiet_updateJobRunner assms(1) quiet_NewID keeps_call
        keeps_ret quiet_rel)
      (auto simp: quiet_def keeps_def pure_def dest: create_quiet)
  with assms(2) show ?thesis by (auto dest: keepsD)
qed

text \<open>Jobs created one after the other never exceed the limit.\<close>

lemma CreateJob_limit:
  assumes "ds_client s = dc" "\<not> devMode (host_env h)" "0 < dk_MaxConcurrentJobs (ds_cfg s)"
    and "int (running w) \<le> dk_MaxConcurrentJobs (ds_cfg s)" "Docker_CreateJob h s cfg cb w = (r, w')"
  shows "int (running w') \<le> dk_MaxConcurrentJobs (ds_cfg s)"
proof -
  obtain q w1 where q: "Docker_admit h s cfg cb w = (q, w1)" by (cases "Docker_admit h s cfg cb w")
  have "quiet w w1" by (rule keepsD [OF quiet_admit [OF assms(1)] q])
  show ?thesis
  proof (cases "\<exists>u. q = Done (Inr u)")
    case True
    then obtain u where u: "Docker_admit h s cfg cb w = (Done (Inr u), w1)" using q by blast
    with assms(5) have "Docker_launch h s cfg w1 = (r, w')"
      by (auto simp: Docker_CreateJob_def andThen_def)
    with launch_one [OF assms(1)] admit_below [OF assms(1-3) u] show ?thesis by fastforce
  next
    case False
    with assms(5) q have "w' = w1"
      by (auto simp: Docker_CreateJob_def andThen_def split: outcome.splits sum.splits)
    with \<open>quiet w w1\<close> assms(4) show ?thesis by (simp add: quiet_def)
  qed
qed

end

section \<open>Containers and volumes\<close>

text \<open>
  \<open>key\<close> resolves a name (an identifier or the beginning of one) to a container, \<open>conts\<close> and \<open>vols\<close>
  are the containers and volumes. A removal without \<^verbatim>\<open>Force\<close> refuses a running container; a call that
  fails has no effect; reading and looking at the clock change nothing.
\<close>

record cont_view =
  cv_running :: bool
  cv_state :: "container_state option"
  cv_mounts :: "string list"

locale docker_objects =
  fixes dc :: "'w docker_client"
    and h :: "('w, 'v) host"
    and key :: "'w \<Rightarrow> string \<Rightarrow> string option"
    and conts :: "'w \<Rightarrow> string \<Rightarrow> cont_view option"
    and vols :: "'w \<Rightarrow> string set"
  assumes inspect_ok: "dc_ContainerInspect dc t name w = (Inr j, w') \<Longrightarrow>
      \<exists>k c. key w name = Some k \<and> conts w k = Some c \<and> cj_State j = cv_state c \<and> cj_Mounts j = cv_mounts c"
    and inspect_same: "dc_ContainerInspect dc t name w = (rj, w') \<Longrightarrow> w' = w"
    and list_same: "dc_ContainerList dc t a fs w = (rl, w') \<Longrightarrow> w' = w"
    and now_same: "h_Now h w = (n, w') \<Longrightarrow> w' = w"
    and remove_ok: "dc_ContainerRemove dc t name w = (None, w') \<Longrightarrow>
      \<exists>k c. key w name = Some k \<and> conts w k = Some c \<and> \<not> cv_running c \<and>
        conts w' = (conts w)(k := None) \<and> vols w' = vols w"
    and remove_err: "dc_ContainerRemove dc t name w = (Some e, w') \<Longrightarrow> w' = w"
    and volume_ok: "dc_VolumeRemove dc t v f w = (None, w') \<Longrightarrow> conts w' = conts w \<and> vols w' = vols w - {v}"
    and volume_err: "dc_VolumeRemove dc t v f w = (Some e, w') \<Longrightarrow> w' = w"
begin

lemma DeleteJob_ok:
  assumes "ds_client s = dc" "Docker_DeleteJob s name w = (Done (Inr u), w')"
  shows "\<exists>k c v vs. key w name = Some k \<and> conts w k = Some c \<and> \<not> cv_running c \<and> cv_mounts c = v # vs \<and>
    conts w' = (conts w)(k := None) \<and> vols w' = vols w - {v}"
proof -
  from assms(2) obtain j w1 w2 where
    ins: "dc_ContainerInspect dc dockerRequestTimeout name w = (Inr j, w1)"
    and rem: "dc_ContainerRemove dc dockerRequestTimeout name w1 = (None, w2)"
    and rest: "(case cj_Mounts j of
         [] \<Rightarrow> fail (Errorf ''container should have one volume'')
       | v # vs \<Rightarrow> wrapping ''failed to remove volume: ''
           (call_err (dc_VolumeRemove dc dockerRequestTimeout v False))) w2 = (Done (Inr u), w')"
    unfolding Docker_DeleteJob_def assms(1) by (auto simp: go_run)
  from rest obtain v vs where m: "cj_Mounts j = v # vs"
    and vol: "dc_VolumeRemove dc dockerRequestTimeout v False w2 = (None, w')"
    by (cases "cj_Mounts j") (auto simp: go_run)
  from inspect_same [OF ins] have "w1 = w" .
  with inspect_ok [OF ins] remove_ok [OF rem] volume_ok [OF vol] m show ?thesis by fastforce
qed

text \<open>However it ends, at most the named container is gone, and it was not running.\<close>

lemma DeleteJob_conts:
  assumes "ds_client s = dc" "Docker_DeleteJob s name w = (r, w')"
  shows "conts w' = conts w \<or> (\<exists>k c. key w name = Some k \<and> conts w k = Some c \<and> \<not> cv_running c \<and>
    conts w' = (conts w)(k := None))"
proof -
  obtain j w1 where ins: "dc_ContainerInspect dc dockerRequestTimeout name w = (j, w1)"
    by (cases "dc_ContainerInspect dc dockerRequestTimeout name w")
  obtain e w2 where rem: "dc_ContainerRemove dc dockerRequestTimeout name w1 = (e, w2)"
    by (cases "dc_ContainerRemove dc dockerRequestTimeout name w1")
  have w1: "w1 = w" by (rule inspect_same [OF ins])
  show ?thesis
  proof (cases e)
    case (Some err)
    with remove_err rem have "w2 = w1" by blast
    with assms ins rem Some w1 show ?thesis
      by (cases j) (auto simp: Docker_DeleteJob_def andThen_def wrapping_def call_def call_err_def)
  next
    case None
    with remove_ok rem have gone: "\<exists>k c. key w1 name = Some k \<and> conts w1 k = Some c \<and> \<not> cv_running c \<and>
        conts w2 = (conts w1)(k := None)" by blast
    have vol: "conts w3 = conts w2" if "dc_VolumeRemove dc t v False w2 = (x, w3)" for t v x w3
      by (cases x) (use that volume_ok volume_err in blast)+
    from assms(2) ins rem None have "w' = w1 \<or> conts w' = conts w2"
      unfolding Docker_DeleteJob_def assms(1)
      by (cases j) (auto simp: andThen_def wrapping_def call_def call_err_def
          split: list.splits prod.splits option.splits outcome.splits sum.splits dest: vol)
    with gone w1 show ?thesis by auto
  qed
qed

text \<open>Which containers a pass may remove, when the clock never reads more than \<open>T\<close> during it.\<close>

definition retained :: "duration \<Rightarrow> instant \<Rightarrow> cont_view \<Rightarrow> bool" where
  "retained keep T c \<longleftrightarrow>
     cv_running c \<or>
     (case cv_state c of
        None \<Rightarrow> True
      | Some st \<Rightarrow> (case h_ParseTime h (state_FinishedAt st) of Inl e \<Rightarrow> True | Inr f \<Rightarrow> T - f \<le> keep))"

lemma retention_check_keeps:
  assumes "ds_client s = dc" "\<And>w n w'. h_Now h w = (n, w') \<Longrightarrow> n \<le> T"
    and "conts w k = Some c" "retained (dk_FailedJobsRetentionTime (ds_cfg s)) T c"
  shows "conts (retention_check h s name w) k = Some c"
proof -
  obtain r w1 where ins: "dc_ContainerInspect dc dockerRequestTimeout name w = (r, w1)"
    by (cases "dc_ContainerInspect dc dockerRequestTimeout name w")
  have w1: "w1 = w" by (rule inspect_same [OF ins])
  show ?thesis
  proof (cases r)
    case (Inl e)
    with ins w1 assms show ?thesis by (simp add: retention_check_def)
  next
    case (Inr j)
    with inspect_ok ins obtain k' c' where k': "key w name = Some k'" "conts w k' = Some c'" "cj_State j = cv_state c'"
      by blast
    obtain n w2 where now: "h_Now h w = (n, w2)" by (cases "h_Now h w")
    have w2: "w2 = w" and n: "n \<le> T" using now_same [OF now] assms(2) [OF now] by simp_all
    obtain rd w3 where del: "Docker_DeleteJob s name w = (rd, w3)" by (cases "Docker_DeleteJob s name w")
    have survives: "conts w3 k = Some c" if "k' \<noteq> k \<or> cv_running c'"
      using DeleteJob_conts [OF assms(1) del] assms(3) k' that by auto
    show ?thesis
    proof (cases "k' = k \<and> \<not> cv_running c'")
      case True
      with k' assms(3) have "c' = c" by simp
      with assms(4) True have "case cv_state c of None \<Rightarrow> True | Some st \<Rightarrow>
          (case h_ParseTime h (state_FinishedAt st) of Inl e \<Rightarrow> True
           | Inr f \<Rightarrow> \<not> n - f > dk_FailedJobsRetentionTime (ds_cfg s))"
        using n by (auto simp: retained_def split: option.splits sum.splits)
      with k'(3) \<open>c' = c\<close> ins Inr w1 now w2 assms(1,3) show ?thesis
        by (auto simp: retention_check_def split: option.splits sum.splits)
    next
      case False
      with survives k'(3) ins Inr w1 now w2 del assms(1,3) show ?thesis
        by (auto simp: retention_check_def split: option.splits sum.splits)
    qed
  qed
qed

lemma retention_pass_keeps:
  assumes "ds_client s = dc" "\<And>w n w'. h_Now h w = (n, w') \<Longrightarrow> n \<le> T"
    and "conts w k = Some c" "retained (dk_FailedJobsRetentionTime (ds_cfg s)) T c"
  shows "conts (retention_pass h s w) k = Some c"
proof -
  have fold: "conts w k = Some c \<Longrightarrow> conts (fold (retention_check h s) names w) k = Some c" for names w
  proof (induction names arbitrary: w)
    case (Cons name names)
    from retention_check_keeps [OF assms(1,2) Cons.prems assms(4)] Cons.IH show ?case by simp
  qed simp
  show ?thesis
    using assms(1,3) fold list_same
    by (fastforce simp: retention_pass_def split: prod.splits sum.splits)
qed

end

end
