(* ===== verification/Docker_Sim.thy ===== *)
theory Docker_Sim
  imports Docker_Engine
begin

text \<open>
  A simulated container engine, on which the contracts \<open>docker_limit\<close> and \<open>docker_objects\<close> hold and
  the model is evaluated: containers with their specification and state, volumes, images, a
  supply of identifiers and a clock.
\<close>

record sim_cont =
  sc_id :: string
  sc_spec :: container_spec
  sc_running :: bool
  sc_exit :: int
  sc_finished :: string

record sim =
  sim_conts :: "sim_cont list"
  sim_vols :: "string list"
  sim_images :: "string list"
  sim_fresh :: "string list"
  sim_clock :: instant

definition sim_err :: "string \<Rightarrow> goerr" where
  "sim_err t = Foreign ''docker'' t"

definition sim_find :: "string \<Rightarrow> sim \<Rightarrow> sim_cont option" where
  "sim_find name s = find (\<lambda>c. HasPrefix (sc_id c) name) (sim_conts s)"

definition sim_filter :: "sim_cont \<Rightarrow> string \<times> string \<Rightarrow> bool" where
  "sim_filter c f =
     (case f of (k, v) \<Rightarrow>
        if k = ''status'' then v = ''exited'' \<and> \<not> sc_running c
        else if k = ''label'' then list_ex (\<lambda>(a, b). a @ ''='' @ b = v) (spec_Labels (sc_spec c))
        else True)"

definition sim_update :: "string \<Rightarrow> (sim_cont \<Rightarrow> sim_cont) \<Rightarrow> sim \<Rightarrow> sim" where
  "sim_update k f s = s\<lparr>sim_conts := map (\<lambda>c. if sc_id c = k then f c else c) (sim_conts s)\<rparr>"

definition sim_List :: "bool \<Rightarrow> (string \<times> string) list \<Rightarrow> sim \<Rightarrow> string list res \<times> sim" where
  "sim_List a fs s =
     (Inr (map sc_id (filter (\<lambda>c. (a \<or> sc_running c) \<and> list_all (sim_filter c) fs) (sim_conts s))), s)"

definition sim_Inspect :: "string \<Rightarrow> sim \<Rightarrow> container_json res \<times> sim" where
  "sim_Inspect name s =
     (case sim_find name s of
        None \<Rightarrow> (Inl (sim_err ''No such container''), s)
      | Some c \<Rightarrow> (Inr \<lparr>cj_State = Some \<lparr>state_ExitCode = sc_exit c, state_FinishedAt = sc_finished c\<rparr>,
          cj_Mounts = map mount_Source (spec_Mounts (sc_spec c))\<rparr>, s))"

definition sim_Create :: "container_spec \<Rightarrow> sim \<Rightarrow> string res \<times> sim" where
  "sim_Create spec s =
     (case sim_fresh s of
        [] \<Rightarrow> (Inl (sim_err ''no space left''), s)
      | i # is \<Rightarrow> (Inr i, s\<lparr>sim_fresh := is,
          sim_conts := sim_conts s @ [\<lparr>sc_id = i, sc_spec = spec, sc_running = False, sc_exit = 0, sc_finished = []\<rparr>],
          sim_vols := sim_vols s @ map mount_Source (spec_Mounts spec)\<rparr>))"

fun start_first :: "string \<Rightarrow> sim_cont list \<Rightarrow> sim_cont list" where
  "start_first name [] = []"
| "start_first name (c # cs) =
     (if HasPrefix (sc_id c) name then c\<lparr>sc_running := True\<rparr> # cs else c # start_first name cs)"

definition sim_Start :: "string \<Rightarrow> sim \<Rightarrow> goerr option \<times> sim" where
  "sim_Start name s =
     (case sim_find name s of
        None \<Rightarrow> (Some (sim_err ''No such container''), s)
      | Some c \<Rightarrow> (None, s\<lparr>sim_conts := start_first name (sim_conts s)\<rparr>))"

definition sim_Wait :: "duration \<Rightarrow> string \<Rightarrow> sim \<Rightarrow> int res \<times> sim" where
  "sim_Wait t name s =
     (if t \<le> 0 then (Inl (sim_err ''context deadline exceeded''), s)
      else (case sim_find name s of
        None \<Rightarrow> (Inl (sim_err ''No such container''), s)
      | Some c \<Rightarrow> (Inr (sc_exit c), sim_update (sc_id c) (\<lambda>c. c\<lparr>sc_running := False\<rparr>) s)))"

definition sim_Stop :: "string \<Rightarrow> sim \<Rightarrow> goerr option \<times> sim" where
  "sim_Stop name s =
     (case sim_find name s of
        None \<Rightarrow> (Some (sim_err ''No such container''), s)
      | Some c \<Rightarrow> (None, sim_update (sc_id c) (\<lambda>c. c\<lparr>sc_running := False\<rparr>) s))"

definition sim_Remove :: "string \<Rightarrow> sim \<Rightarrow> goerr option \<times> sim" where
  "sim_Remove name s =
     (case sim_find name s of
        None \<Rightarrow> (Some (sim_err ''No such container''), s)
      | Some c \<Rightarrow>
          if sc_running c then (Some (sim_err ''You cannot remove a running container''), s)
          else (None, s\<lparr>sim_conts := filter (\<lambda>d. sc_id d \<noteq> sc_id c) (sim_conts s)\<rparr>))"

definition sim_VolumeRemove :: "string \<Rightarrow> sim \<Rightarrow> goerr option \<times> sim" where
  "sim_VolumeRemove v s =
     (if v \<in> set (sim_vols s) then (None, s\<lparr>sim_vols := removeAll v (sim_vols s)\<rparr>)
      else (Some (sim_err ''no such volume''), s))"

definition sim_client :: "sim docker_client" where
  "sim_client =
     \<lparr>dc_New = (\<lambda>s. (None, s)),
      dc_ServerVersion = (\<lambda>t s. (Inr (''24.0.9'', ''1.43''), s)),
      dc_ContainerList = (\<lambda>t. sim_List),
      dc_ContainerInspect = (\<lambda>t. sim_Inspect),
      dc_ContainerCreate = (\<lambda>t. sim_Create),
      dc_ContainerStart = (\<lambda>t. sim_Start),
      dc_ContainerWait = sim_Wait,
      dc_ContainerStop = (\<lambda>t g. sim_Stop),
      dc_ContainerRemove = (\<lambda>t. sim_Remove),
      dc_ContainerLogs = (\<lambda>t name opts s. (Inr [], s)),
      dc_VolumeRemove = (\<lambda>t v f. sim_VolumeRemove v),
      dc_ImageInspect = (\<lambda>t i s. (if i \<in> set (sim_images s) then None else Some (sim_err ''No such image''), s)),
      dc_ImagePull = (\<lambda>t i s. (Inr ([], None), s\<lparr>sim_images := i # sim_images s\<rparr>)),
      dc_Close = (\<lambda>s. (None, s))\<rparr>"

text \<open>Time stamps of the simulation are numbers of nanoseconds.\<close>

definition sim_host :: "environ \<Rightarrow> (sim, version) host" where
  "sim_host env =
     \<lparr>h_job = triple_lib env, h_GOOS = ''linux'', h_NewRandom = (\<lambda>s. (replicate 16 0, s)),
      h_Now = (\<lambda>s. (sim_clock s, s)),
      h_range = (\<lambda>d. case d of None \<Rightarrow> [] | Some m \<Rightarrow> map fst m), h_float = (\<lambda>f. ''0''),
      h_url = \<lparr>ul_Parse = (\<lambda>u. Inl (Foreign ''url'' ''unsupported'')), ul_String = url_Rest\<rparr>,
      h_ParseTime = (\<lambda>t. if t = [] then Inl (Foreign ''time'' ''cannot parse'') else Inr (int (dec_val t))),
      h_StdCopy = (\<lambda>t. (([], t), None))\<rparr>"

section \<open>The contracts hold\<close>

definition sim_app :: "sim_cont \<Rightarrow> bool" where
  "sim_app c \<longleftrightarrow> sim_filter c (''label'', ''app=mattermost-calls-offloader'')"

definition sim_running :: "sim \<Rightarrow> nat" where
  "sim_running s = length (filter (\<lambda>c. sc_running c \<and> sim_app c) (sim_conts s))"

definition sim_view :: "sim_cont \<Rightarrow> cont_view" where
  "sim_view c =
     \<lparr>cv_running = sc_running c,
      cv_state = Some \<lparr>state_ExitCode = sc_exit c, state_FinishedAt = sc_finished c\<rparr>,
      cv_mounts = map mount_Source (spec_Mounts (sc_spec c))\<rparr>"

definition sim_key :: "sim \<Rightarrow> string \<Rightarrow> string option" where
  "sim_key s name = map_option sc_id (sim_find name s)"

definition sim_objects :: "sim \<Rightarrow> string \<Rightarrow> cont_view option" where
  "sim_objects s k = map_option sim_view (find (\<lambda>c. sc_id c = k) (sim_conts s))"

lemma find_same_id:
  assumes "find (\<lambda>c. P (f c)) xs = Some c"
  shows "find (\<lambda>d. f d = f c) xs = Some c"
proof -
  from assms have "P (f c)" by (auto simp: find_Some_iff)
  with assms show ?thesis by (induction xs) (auto split: if_splits)
qed

lemma sim_find_object: "sim_find name s = Some c \<Longrightarrow> sim_objects s (sc_id c) = Some (sim_view c)"
  unfolding sim_find_def sim_objects_def by (drule find_same_id) simp

lemma find_filter_id: "find (\<lambda>d. sc_id d = k) (filter (\<lambda>d. sc_id d \<noteq> i) cs) =
    (if k = i then None else find (\<lambda>d. sc_id d = k) cs)"
  by (induction cs) auto

lemma start_first_running:
  "length (filter (\<lambda>c. sc_running c \<and> sim_app c) (start_first name cs)) \<le>
     Suc (length (filter (\<lambda>c. sc_running c \<and> sim_app c) cs))"
  by (induction cs) (auto simp: sim_app_def sim_filter_def)

lemma sim_List_eq:
  "sim_List a [(''label'', ''app=mattermost-calls-offloader'')] s =
     (Inr (map sc_id (filter (\<lambda>c. (a \<or> sc_running c) \<and> sim_app c) (sim_conts s))), s)"
  by (simp add: sim_List_def sim_app_def)

lemma sim_limit: "docker_limit sim_client (sim_host env) sim_running"
proof unfold_locales
  fix t w ids w'
  assume "dc_ContainerList sim_client t False [(''label'', ''app=mattermost-calls-offloader'')] w = (Inr ids, w')"
  then show "sim_running w' = length ids"
    by (auto simp: sim_client_def sim_List_eq sim_running_def)
next
  fix t spec w rc w'
  assume "dc_ContainerCreate sim_client t spec w = (rc, w')"
  then show "sim_running w' \<le> sim_running w"
    by (auto simp: sim_client_def sim_Create_def sim_running_def split: list.splits)
next
  fix t cid w re w'
  assume "dc_ContainerStart sim_client t cid w = (re, w')"
  then show "sim_running w' \<le> Suc (sim_running w)"
    using start_first_running [of cid "sim_conts w"]
    by (auto simp: sim_client_def sim_Start_def sim_running_def split: option.splits)
qed (auto simp: sim_client_def sim_host_def sim_List_def sim_running_def)

interpretation sim_limit: docker_limit sim_client "sim_host env" sim_running for env
  by (rule sim_limit)

lemma sim_docker_objects: "docker_objects sim_client (sim_host env) sim_key sim_objects (\<lambda>s. set (sim_vols s))"
proof unfold_locales
  fix t name w j w'
  assume "dc_ContainerInspect sim_client t name w = (Inr j, w')"
  then obtain c where "sim_find name w = Some c"
    "j = \<lparr>cj_State = Some \<lparr>state_ExitCode = sc_exit c, state_FinishedAt = sc_finished c\<rparr>,
       cj_Mounts = map mount_Source (spec_Mounts (sc_spec c))\<rparr>"
    by (auto simp: sim_client_def sim_Inspect_def split: option.splits)
  then show "\<exists>k c. sim_key w name = Some k \<and> sim_objects w k = Some c \<and> cj_State j = cv_state c \<and>
      cj_Mounts j = cv_mounts c"
    by (intro exI [where x = "sc_id c"] exI [where x = "sim_view c"])
      (simp add: sim_key_def sim_find_object sim_view_def)
next
  fix t name w w'
  assume "dc_ContainerRemove sim_client t name w = (None, w')"
  then obtain c where c: "sim_find name w = Some c" "\<not> sc_running c"
    "w' = w\<lparr>sim_conts := filter (\<lambda>d. sc_id d \<noteq> sc_id c) (sim_conts w)\<rparr>"
    by (auto simp: sim_client_def sim_Remove_def split: option.splits if_splits)
  then have "sim_objects w' = (sim_objects w)(sc_id c := None)"
    by (auto simp: sim_objects_def find_filter_id)
  with c show "\<exists>k c. sim_key w name = Some k \<and> sim_objects w k = Some c \<and> \<not> cv_running c \<and>
      sim_objects w' = (sim_objects w)(k := None) \<and> set (sim_vols w') = set (sim_vols w)"
    by (intro exI [where x = "sc_id c"] exI [where x = "sim_view c"])
      (simp add: sim_key_def sim_find_object sim_view_def)
qed (auto simp: sim_client_def sim_host_def sim_Inspect_def sim_List_def sim_Remove_def sim_VolumeRemove_def
    sim_objects_def split: option.splits if_splits)

interpretation sim_objects: docker_objects sim_client "sim_host env" sim_key sim_objects "\<lambda>s. set (sim_vols s)" for env
  by (rule sim_docker_objects)

section \<open>A sample world\<close>

definition sample_runner :: string where
  "sample_runner = ''mattermost/calls-recorder:v0.6.0''"

definition sample_JobConfig :: JobConfig where
  "sample_JobConfig = \<lparr>cfg_Type = ''recording'', cfg_MaxDurationSec = 60, cfg_Runner = sample_runner, cfg_InputData = None\<rparr>"

definition test_env :: environ where
  "test_env = (\<lambda>_. [])(''TEST_MODE'' := ''true'')"

abbreviation test_host :: "(sim, version) host" where
  "test_host \<equiv> sim_host test_env"

definition sim_service :: "int \<Rightarrow> sim DockerService" where
  "sim_service n =
     \<lparr>ds_cfg = \<lparr>dk_MaxConcurrentJobs = n, dk_FailedJobsRetentionTime = time_Hour, dk_ImageRegistry = ''mattermost'',
        dk_OutputLogs = False\<rparr>, ds_client = sim_client\<rparr>"

definition sample_sim :: sim where
  "sample_sim =
     \<lparr>sim_conts = [], sim_vols = [], sim_images = [sample_runner],
      sim_fresh = [''aaaaaaaaaaaa1111'', ''bbbbbbbbbbbb2222''], sim_clock = 5000000\<rparr>"

definition sample_volume :: string where
  "sample_volume = ''calls-recorder-'' @ replicate 26 (CHR ''y'')"

lemma sample_NewID: "NewID (replicate 16 0) = Done (replicate 26 (CHR ''y''))"
  by code_simp

lemma sample_admit:
  "length (filter sc_running (sim_conts w)) < 1 \<Longrightarrow>
   Docker_admit test_host (sim_service 1) sample_JobConfig True w = (Done (Inr ()), w)"
proof -
  assume "length (filter sc_running (sim_conts w)) < 1"
  then have "filter (\<lambda>c. sc_running c \<and> sim_app c) (sim_conts w) = []"
    by (auto simp: filter_empty_conv)
  then show ?thesis
    by (simp add: Docker_admit_def andThen_def wrapping_def check_def call_def sim_service_def sim_client_def
        sim_List_eq app_label_def JobConfig_IsValid_def RunnerIsValid_def sample_JobConfig_def sim_host_def
        triple_lib_def test_env_def TypeRecording_def ret_def)
qed

definition sample_spec :: container_spec where
  "sample_spec = docker_spec test_host sample_runner [] sample_volume"

definition sample_Job :: "string \<Rightarrow> Job" where
  "sample_Job i = \<lparr>job_Config = sample_JobConfig, job_ID = i, job_StartAt = 5, job_StopAt = 0, job_OutputData = None\<rparr>"

text \<open>The world after a container with a given identifier was created and started.\<close>

definition sample_started :: "string \<Rightarrow> string list \<Rightarrow> sim \<Rightarrow> sim" where
  "sample_started i is w =
     w\<lparr>sim_fresh := is,
       sim_conts := start_first (take 12 i) (sim_conts w @
         [\<lparr>sc_id = i, sc_spec = sample_spec, sc_running = False, sc_exit = 0, sc_finished = []\<rparr>]),
       sim_vols := sim_vols w @ [sample_volume]\<rparr>"

lemma find_snoc: "P c \<Longrightarrow> find P (xs @ [c]) \<noteq> None"
  by (auto simp: find_None_iff)

lemma sample_launch:
  assumes "sim_fresh w = i # is" "12 \<le> length i" "sample_runner \<in> set (sim_images w)" "sim_clock w = 5000000"
  shows "Docker_launch test_host (sim_service n) sample_JobConfig w =
    (Done (Inr (sample_Job (take 12 i))), sample_started i is w)"
proof -
  have env: "\<not> devMode (host_env test_host)" by (simp add: sim_host_def triple_lib_def test_env_def)
  have upd: "updateJobRunner test_host (sim_service n) sample_runner w = (Done (Inr ()), w)"
    using assms(3) env by (simp add: updateJobRunner_def Let_def sim_service_def sim_client_def ret_def)
  have nid: "random_NewID test_host w = (Done (Inr (replicate 26 (CHR ''y''))), w)"
    by (simp add: random_NewID_def andThen_def get_def pure_def sim_host_def sample_NewID del: replicate_Suc)
  have data: "docker_input test_host sample_JobConfig = None" "docker_image test_host sample_JobConfig = sample_runner"
    "docker_env test_host sample_JobConfig = []"
    using env by (simp_all add: docker_input_def docker_image_def docker_env_def sample_JobConfig_def ToEnv_def)
  have vol: "jobPrefix (cfg_Type sample_JobConfig) @ CHR ''-'' # replicate 26 (CHR ''y'') = sample_volume"
    by (simp add: jobPrefix_def sample_JobConfig_def TypeRecording_def RecordingJobPrefix_def sample_volume_def
        del: replicate_Suc)
  let ?w1 = "w\<lparr>sim_fresh := is,
       sim_conts := sim_conts w @
         [\<lparr>sc_id = i, sc_spec = sample_spec, sc_running = False, sc_exit = 0, sc_finished = []\<rparr>],
       sim_vols := sim_vols w @ [sample_volume]\<rparr>"
  have create: "dc_ContainerCreate sim_client t sample_spec w = (Inr i, ?w1)" for t
    using assms(1) by (simp add: sim_client_def sim_Create_def sample_spec_def docker_spec_def)
  have "HasPrefix i (take 12 i)" unfolding HasPrefix_iff by (intro exI [where x = "drop 12 i"]) simp
  then have "sim_find (take 12 i) ?w1 \<noteq> None"
    unfolding sim_find_def by (simp del: not_None_eq add: find_snoc)
  then have start: "dc_ContainerStart sim_client t (take 12 i) ?w1 = (None, sample_started i is w)" for t
    by (auto simp: sim_client_def sim_Start_def sample_started_def)
  have clock: "UnixMilli test_host (sample_started i is w) = (Done (Inr 5), sample_started i is w)"
    using assms(4) by (simp add: UnixMilli_def get_def sim_host_def sample_started_def)
  have cfg: "sample_JobConfig\<lparr>cfg_Runner := sample_runner, cfg_InputData := None\<rparr> = sample_JobConfig"
    "cfg_Runner sample_JobConfig = sample_runner" "ds_client (sim_service n) = sim_client"
    by (simp_all add: sample_JobConfig_def sim_service_def)
  show ?thesis
    unfolding Docker_launch_def cfg data
    using assms(2)
    by (simp add: go_eval upd nid vol sample_spec_def [symmetric] create start clock cfg sample_Job_def
        del: replicate_Suc)
qed

section \<open>Properties\<close>

lemma sample_service [simp]:
  "ds_client (sim_service n) = sim_client" "dk_MaxConcurrentJobs (ds_cfg (sim_service n)) = n"
  "dk_FailedJobsRetentionTime (ds_cfg (sim_service n)) = time_Hour"
  by (simp_all add: sim_service_def)

lemma test_host_env [simp]: "\<not> devMode (host_env test_host)"
  by (simp add: sim_host_def triple_lib_def test_env_def)

lemma sample_CreateJob:
  "Docker_CreateJob test_host (sim_service 1) sample_JobConfig True sample_sim =
    (Done (Inr (sample_Job ''aaaaaaaaaaaa'')), sample_started ''aaaaaaaaaaaa1111'' [''bbbbbbbbbbbb2222''] sample_sim)"
proof -
  have "Docker_admit test_host (sim_service 1) sample_JobConfig True sample_sim = (Done (Inr ()), sample_sim)"
    by (rule sample_admit) (simp add: sample_sim_def)
  moreover have "Docker_launch test_host (sim_service 1) sample_JobConfig sample_sim =
    (Done (Inr (sample_Job (take 12 ''aaaaaaaaaaaa1111''))),
     sample_started ''aaaaaaaaaaaa1111'' [''bbbbbbbbbbbb2222''] sample_sim)"
    by (rule sample_launch) (simp_all add: sample_sim_def)
  ultimately show ?thesis by (simp add: Docker_CreateJob_def go_eval)
qed

text \<open>
  C9: outside development mode, jobs created one after the other never exceed the configured limit:
  if at most the limit is running before a call of \<^verbatim>\<open>CreateJob\<close>, whatever its result, at most the
  limit is running after it.
\<close>

theorem Docker_CreateJob_limit:
  assumes "docker_limit (ds_client s) h running" "\<not> devMode (host_env h)" "0 < dk_MaxConcurrentJobs (ds_cfg s)"
    and "int (running w) \<le> dk_MaxConcurrentJobs (ds_cfg s)" "Docker_CreateJob h s cfg cb w = (r, w')"
  shows "int (running w') \<le> dk_MaxConcurrentJobs (ds_cfg s)"
  by (rule docker_limit.CreateJob_limit [OF assms(1) refl assms(2-5)])

theorem Docker_CreateJob_limit_witness:
  "sim_running (sample_started ''aaaaaaaaaaaa1111'' [''bbbbbbbbbbbb2222''] sample_sim) \<le> 1"
  using Docker_CreateJob_limit [of "sim_service 1" test_host sim_running sample_sim sample_JobConfig True,
      OF _ _ _ _ sample_CreateJob] sim_limit [of test_env]
  by (simp add: sim_running_def sample_sim_def)




text \<open>
  C27: up to 9223372036 seconds the container is waited for exactly the configured duration, and the
  callback is told whether its status was 0. One second more and the product with \<^verbatim>\<open>time.Second\<close>
  wraps to a negative timeout: with an engine that reports an expired context at once, the job is
  stopped as soon as it was started. The configuration is accepted in both cases.
\<close>

theorem docker_watch_deadline:
  assumes "\<And>t w. t \<le> 0 \<Longrightarrow> \<exists>e. dc_ContainerWait (ds_client s) t jobID w = (Inl e, w)"
  shows "(0 < cfg_MaxDurationSec cfg \<and> cfg_MaxDurationSec cfg \<le> 9223372036 \<longrightarrow>
      docker_watch s cfg jobID w =
        (case dc_ContainerWait (ds_client s) (cfg_MaxDurationSec cfg * time_Second) jobID w of
           (Inr status, w1) \<Rightarrow> (Some (status = 0), w1)
         | (Inl err, w1) \<Rightarrow> docker_expired s jobID w1)) \<and>
    (cfg_MaxDurationSec cfg = 9223372037 \<longrightarrow> docker_watch s cfg jobID w = docker_expired s jobID w)"
proof (intro conjI impI)
  assume "0 < cfg_MaxDurationSec cfg \<and> cfg_MaxDurationSec cfg \<le> 9223372036"
  then have "mul64 (cfg_MaxDurationSec cfg) time_Second = cfg_MaxDurationSec cfg * time_Second"
    by (simp add: mul64_def int64_range_def)
  then show "docker_watch s cfg jobID w =
        (case dc_ContainerWait (ds_client s) (cfg_MaxDurationSec cfg * time_Second) jobID w of
           (Inr status, w1) \<Rightarrow> (Some (status = 0), w1)
         | (Inl err, w1) \<Rightarrow> docker_expired s jobID w1)"
    by (simp add: docker_watch_def)
next
  assume "cfg_MaxDurationSec cfg = 9223372037"
  then have "mul64 (cfg_MaxDurationSec cfg) time_Second \<le> 0"
    by (simp add: mul64_def wrap64_def)
  from assms [OF this, of w] show "docker_watch s cfg jobID w = docker_expired s jobID w"
    by (auto simp: docker_watch_def)
qed

text \<open>A world with a container that ended at time 0 and one that is running, two hours later.\<close>

definition later_sim :: sim where
  "later_sim =
     \<lparr>sim_conts =
        [\<lparr>sc_id = ''cccccccccccc3333'', sc_spec = docker_spec test_host sample_runner [] ''vol-c'', sc_running = False,
          sc_exit = 1, sc_finished = ''0''\<rparr>,
         \<lparr>sc_id = ''dddddddddddd4444'', sc_spec = docker_spec test_host sample_runner [] ''vol-d'', sc_running = True,
          sc_exit = 0, sc_finished = []\<rparr>],
      sim_vols = [''vol-c'', ''vol-d''], sim_images = [], sim_fresh = [], sim_clock = 7200000000000\<rparr>"

theorem docker_watch_deadline_witness:
  "docker_watch (sim_service 1) \<lparr>cfg_Type = ''recording'', cfg_MaxDurationSec = 9223372037, cfg_Runner = sample_runner,
       cfg_InputData = None\<rparr> ''dddddddddddd'' later_sim =
     docker_expired (sim_service 1) ''dddddddddddd'' later_sim"
  using docker_watch_deadline [of "sim_service 1" "''dddddddddddd''"
      "\<lparr>cfg_Type = ''recording'', cfg_MaxDurationSec = 9223372037, cfg_Runner = sample_runner, cfg_InputData = None\<rparr>" later_sim]
  by (simp add: sim_client_def sim_Wait_def)

lemma later_DeleteJob:
  "Docker_DeleteJob (sim_service 1) ''cccccccccccc'' later_sim =
     (Done (Inr ()), later_sim\<lparr>sim_conts := tl (sim_conts later_sim), sim_vols := [''vol-d'']\<rparr>)"
  by (simp add: Docker_DeleteJob_def go_eval sim_client_def sim_Inspect_def sim_Remove_def sim_VolumeRemove_def
      sim_find_def later_sim_def docker_spec_def)




text \<open>A host whose clock stands still.\<close>

definition still_host :: "(sim, version) host" where
  "still_host = test_host\<lparr>h_Now := (\<lambda>s. (7200000000000, s))\<rparr>"

lemma still_objects: "docker_objects sim_client still_host sim_key sim_objects (\<lambda>s. set (sim_vols s))"
  using sim_docker_objects [of test_env] by (simp add: docker_objects_def still_host_def)


end
