(* ===== verification/Kubernetes.thy ===== *)
theory Kubernetes
  imports Docker
begin

text \<open>
  The job service over Kubernetes: \<^verbatim>\<open>service/kubernetes/service.go\<close> and \<^verbatim>\<open>service/kubernetes/utils.go\<close>. The
  client of the cluster is a record of calls on a state \<open>'w\<close>; the objects the service builds are
  records with the fields it sets.
\<close>

section \<open>Objects and client\<close>

definition k8sDefaultNamespace :: string where "k8sDefaultNamespace = ''default''"
definition k8sInitContainerImage :: string where "k8sInitContainerImage = ''busybox:1.36''"
definition k8sVolumePath :: string where "k8sVolumePath = ''/data''"
abbreviation k8sJobStopTimeout :: duration where "k8sJobStopTimeout \<equiv> 5 * time_Minute"
abbreviation k8sRequestTimeout :: duration where "k8sRequestTimeout \<equiv> 10 * time_Second"

record EnvVar =
  env_Name :: string
  env_Value :: string

record Toleration =
  tol_Key :: string
  tol_Operator :: string
  tol_Value :: string
  tol_Effect :: string

record 'rr k8s_container =
  kc_Name :: string
  kc_Image :: string
  kc_ImagePullPolicy :: string
  kc_Command :: "string list"
  kc_VolumeMounts :: "(string \<times> string) list"
  kc_Env :: "EnvVar list"
  kc_Resources :: "'rr option"
  kc_Privileged :: bool

text \<open>A volume is its name and the claim it refers to, if any.\<close>

record 'rr k8s_job =
  kj_Name :: string
  kj_Namespace :: string
  kj_Labels :: "(string \<times> string) list"
  kj_Parallelism :: int
  kj_Completions :: int
  kj_BackoffLimit :: int
  kj_TTLSecondsAfterFinished :: "int option"
  kj_PodLabels :: "(string \<times> string) list"
  kj_InitContainers :: "'rr k8s_container list"
  kj_Containers :: "'rr k8s_container list"
  kj_Volumes :: "(string \<times> string option) list"
  kj_Tolerations :: "Toleration list"
  kj_RestartPolicy :: string
  kj_TerminationGracePeriodSeconds :: int
  kj_ActiveDeadlineSeconds :: int
  kj_HostNetwork :: bool

record job_status =
  st_Failed :: int
  st_Succeeded :: int

text \<open>An event of a watch: its type and the status, if its object is a job.\<close>

record watch_event =
  ev_Type :: string
  ev_Object :: "job_status option"

definition watch_Deleted :: string where "watch_Deleted = ''DELETED''"

text \<open>
  A watch is the list of its events up to the closing of the channel. A stream of logs is its
  contents and the error the copy ended with.
\<close>

record ('w, 'rr) k8s_client =
  kc_Config :: "'w \<Rightarrow> goerr option \<times> 'w"
  kc_NewForConfig :: "'w \<Rightarrow> goerr option \<times> 'w"
  kc_ServerVersion :: "'w \<Rightarrow> string res \<times> 'w"
  kc_List :: "duration \<Rightarrow> string \<Rightarrow> 'w \<Rightarrow> job_status list res \<times> 'w"
  kc_Create :: "duration \<Rightarrow> string \<Rightarrow> 'rr k8s_job \<Rightarrow> 'w \<Rightarrow> goerr option \<times> 'w"
  kc_Watch :: "duration \<Rightarrow> string \<Rightarrow> int \<Rightarrow> string \<Rightarrow> 'w \<Rightarrow> watch_event list res \<times> 'w"
  kc_Delete :: "duration \<Rightarrow> string \<Rightarrow> string \<Rightarrow> string \<Rightarrow> 'w \<Rightarrow> goerr option \<times> 'w"
  kc_ListPods :: "duration \<Rightarrow> string \<Rightarrow> string \<Rightarrow> 'w \<Rightarrow> string list res \<times> 'w"
  kc_Stream :: "duration \<Rightarrow> string \<Rightarrow> string \<Rightarrow> 'w \<Rightarrow> (string \<times> goerr option) res \<times> 'w"

text \<open>
  The decoder of tolerations, files, and the conversion \<^verbatim>\<open>int32(d.Seconds())\<close>, which goes through a
  \<^verbatim>\<open>float64\<close> and depends on the platform when it does not fit.
\<close>

record 'w k8s_host =
  kh_Tolerations :: "string \<Rightarrow> Toleration list res"
  kh_Open :: "string \<Rightarrow> 'w \<Rightarrow> string res \<times> 'w"
  kh_Seconds32 :: "duration \<Rightarrow> int"

record ('w, 'rr) K8sService =
  kss_cfg :: "'rr K8sConfig"
  kss_namespace :: string
  kss_client :: "('w, 'rr) k8s_client"

section \<open>Helpers\<close>

definition defaultTolerations :: "Toleration list" where
  "defaultTolerations =
     [\<lparr>tol_Key = ''utilities'', tol_Operator = ''Equal'', tol_Value = ''true'', tol_Effect = ''NoSchedule''\<rparr>]"

definition getEnvFromJobInputData :: "(float64 \<Rightarrow> string) \<Rightarrow> string list \<Rightarrow> InputData \<Rightarrow> EnvVar list" where
  "getEnvFromJobInputData fv ord data =
     (case data of
        None \<Rightarrow> []
      | Some m \<Rightarrow> map (\<lambda>k. \<lparr>env_Name = ToUpper k,
          env_Value = (case map_of m k of Some v \<Rightarrow> fmt_v fv v | None \<Rightarrow> [])\<rparr>) ord)"

definition getJobPodTolerations ::
  "'w k8s_host \<Rightarrow> environ \<Rightarrow> ('w, Toleration list) proc" where
  "getJobPodTolerations kh env =
     (let data = env ''K8S_JOB_POD_TOLERATIONS''; path = env ''K8S_JOB_POD_TOLERATIONS_FILE''
      in if data \<noteq> [] then
           wrapping ''failed to unmarshal tolerations: '' (call (\<lambda>w. (kh_Tolerations kh data, w)))
         else if path \<noteq> [] then
           andThen (wrapping (''failed to open file '' @ path @ '': '') (call (kh_Open kh path))) (\<lambda>contents.
           wrapping ''failed to unmarshal tolerations: '' (call (\<lambda>w. (kh_Tolerations kh contents, w))))
         else ret defaultTolerations)"

text \<open>The loop over the jobs, with its \<^verbatim>\<open>continue\<close>.\<close>

fun count_active :: "job_status list \<Rightarrow> int \<Rightarrow> int" where
  "count_active [] activeJobs = activeJobs"
| "count_active (jb # jbs) activeJobs =
     (if st_Failed jb > 0 \<or> st_Succeeded jb > 0 then count_active jbs activeJobs
      else count_active jbs (activeJobs + 1))"

definition getActiveJobs :: "job_status list \<Rightarrow> int" where
  "getActiveJobs jobs = count_active jobs 0"

definition k8s_getSiteURLForJob :: "('w, 'v) host \<Rightarrow> string \<Rightarrow> string" where
  "k8s_getSiteURLForJob h siteURL =
     (if \<not> devMode (host_env h) then siteURL
      else (case ul_Parse (h_url h) siteURL of
        Inl err \<Rightarrow> siteURL
      | Inr u \<Rightarrow>
          if is_loopback u
          then ul_String (h_url h) (u\<lparr>url_Host := ''host.minikube.internal'' @ '':'' @ url_Port u\<rparr>)
          else siteURL))"

text \<open>\<^verbatim>\<open>strconv.ParseBool\<close>; the error is dropped, with the value \<^verbatim>\<open>false\<close>.\<close>

definition ParseBool :: "string \<Rightarrow> bool res" where
  "ParseBool s =
     (if s \<in> {''1'', ''t'', ''T'', ''true'', ''TRUE'', ''True''} then Inr True
      else if s \<in> {''0'', ''f'', ''F'', ''false'', ''FALSE'', ''False''} then Inr False
      else Inl (Foreign ''strconv.ErrSyntax'' (''strconv.ParseBool: parsing '' @ quoted s @ '': invalid syntax'')))"

definition getJobPodSecurityContext :: "environ \<Rightarrow> bool" where
  "getJobPodSecurityContext env =
     (case ParseBool (env ''SECURITY_CONTEXT_PRIVILEGED'') of Inr b \<Rightarrow> b | Inl err \<Rightarrow> False)"

text \<open>The containers of the loop over the comma separated settings, from index \<open>i\<close>.\<close>

fun init_containers :: "environ \<Rightarrow> string \<Rightarrow> string \<Rightarrow> nat \<Rightarrow> string list \<Rightarrow> 'rr k8s_container list" where
  "init_containers env jobID img i [] = []"
| "init_containers env jobID img i (ctl # ctls) =
     \<lparr>kc_Name = jobID @ ''-init-'' @ nat_dec i, kc_Image = img, kc_ImagePullPolicy = ''IfNotPresent'',
      kc_Command = [''sysctl'', ''-w'', ctl], kc_VolumeMounts = [], kc_Env = [], kc_Resources = None,
      kc_Privileged = getJobPodSecurityContext env\<rparr> # init_containers env jobID img (Suc i) ctls"

definition genInitContainers :: "environ \<Rightarrow> string \<Rightarrow> string \<Rightarrow> string \<Rightarrow> 'rr k8s_container list res" where
  "genInitContainers env jobID img sysctls =
     (if jobID = [] then Inl (Errorf ''invalid empty jobID'')
      else if img = [] then Inl (Errorf ''invalid empty image'')
      else if sysctls = [] then Inl (Errorf ''invalid empty sysctls'')
      else Inr (init_containers env jobID img 0 (Split sysctls (CHR '',''))))"

section \<open>Operations\<close>

definition K8s_NewJobService ::
  "environ \<Rightarrow> ('w, 'rr) k8s_client \<Rightarrow> 'rr K8sConfig \<Rightarrow> ('w, ('w, 'rr) K8sService) proc" where
  "K8s_NewJobService env client cfg =
     andThen (wrapping ''failed to create in-cluster config: '' (call_err (kc_Config client))) (\<lambda>_.
     andThen (wrapping ''failed to create kubernetes client: '' (call_err (kc_NewForConfig client))) (\<lambda>_.
     andThen (wrapping ''failed to get kubernetes server version: '' (call (kc_ServerVersion client))) (\<lambda>version.
     ret \<lparr>kss_cfg = cfg,
          kss_namespace = (if env ''K8S_NAMESPACE'' = [] then k8sDefaultNamespace else env ''K8S_NAMESPACE''),
          kss_client = client\<rparr>)))"

definition K8s_Init :: "('w, 'rr) K8sService \<Rightarrow> ServiceConfig \<Rightarrow> 'w \<Rightarrow> (goerr option) outcome \<times> 'w" where
  "K8s_Init s cfg w = (Done None, w)"

definition K8s_DeleteJob :: "('w, 'rr) K8sService \<Rightarrow> string \<Rightarrow> ('w, unit) proc" where
  "K8s_DeleteJob s jobID =
     wrapping ''failed to delete job: ''
       (call_err (kc_Delete (kss_client s) k8sRequestTimeout (kss_namespace s) jobID ''Background''))"

definition job_selector :: "string \<Rightarrow> string" where
  "job_selector jobID = ''job_name=='' @ jobID"

text \<open>The logs of the first pod go to the second writer; the first one is not used.\<close>

definition K8s_GetJobLogs :: "('w, 'rr) K8sService \<Rightarrow> string \<Rightarrow> 'w \<Rightarrow> (goerr option \<times> string \<times> string) \<times> 'w" where
  "K8s_GetJobLogs s jobID w =
     (case kc_ListPods (kss_client s) k8sRequestTimeout (kss_namespace s) (job_selector jobID) w of
        (Inl err, w1) \<Rightarrow> ((Some (Wrapf ''failed to list pods for job: '' err), [], []), w1)
      | (Inr [], w1) \<Rightarrow> ((Some (Errorf ''no pods found''), [], []), w1)
      | (Inr (pod # pods), w1) \<Rightarrow> (case kc_Stream (kss_client s) k8sRequestTimeout (kss_namespace s) pod w1 of
          (Inl err, w2) \<Rightarrow> ((Some (Wrapf ''failed to get pod logs: '' err), [], []), w2)
        | (Inr (text, e), w2) \<Rightarrow> (case e of
            Some err \<Rightarrow> ((Some (Wrapf ''failed to copy data from stream: '' err), [], text), w2)
          | None \<Rightarrow> ((None, [], text), w2))))"

definition K8s_Shutdown :: "('w, 'rr) K8sService \<Rightarrow> 'w \<Rightarrow> goerr option \<times> 'w" where
  "K8s_Shutdown s w = (None, w)"

section \<open>Creating a job\<close>

definition K8s_admit :: "('w, 'v) host \<Rightarrow> ('w, 'rr) K8sService \<Rightarrow> JobConfig \<Rightarrow> bool \<Rightarrow> ('w, unit) proc" where
  "K8s_admit h s cfg hasCb =
     andThen (wrapping ''invalid job config: ''
         (check (JobConfig_IsValid (h_job h) cfg (ks_ImageRegistry (kss_cfg s))))) (\<lambda>_.
     if \<not> hasCb then fail (Errorf ''onStopCb should not be nil'')
     else andThen (wrapping ''failed to list jobs: ''
         (call (kc_List (kss_client s) k8sRequestTimeout (kss_namespace s)))) (\<lambda>items.
     if ks_MaxConcurrentJobs (kss_cfg s) > 0 \<and> getActiveJobs items \<ge> ks_MaxConcurrentJobs (kss_cfg s) \<and>
        \<not> devMode (host_env h)
     then fail (Errorf ''max concurrent jobs reached'')
     else ret ()))"

text \<open>Both cases of the switch set the site URL, the identifier and the environment.\<close>

definition k8s_input :: "('w, 'v) host \<Rightarrow> JobConfig \<Rightarrow> InputData" where
  "k8s_input h cfg =
     SetSiteURL (cfg_InputData cfg) (k8s_getSiteURLForJob h (GetSiteURL (cfg_InputData cfg)))"

definition k8s_env :: "('w, 'v) host \<Rightarrow> JobConfig \<Rightarrow> EnvVar list" where
  "k8s_env h cfg =
     getEnvFromJobInputData (h_float h) (h_range h (k8s_input h cfg)) (k8s_input h cfg) @
     (if devMode (host_env h) then [\<lparr>env_Name = ''DEV_MODE'', env_Value = ''true''\<rparr>] else [])"

definition k8s_image :: "('w, 'v) host \<Rightarrow> JobConfig \<Rightarrow> string" where
  "k8s_image h cfg =
     (if devMode (host_env h) then jobPrefix (cfg_Type cfg) @ '':master'' else cfg_Runner cfg)"

definition k8s_jobID :: "JobConfig \<Rightarrow> string \<Rightarrow> string" where
  "k8s_jobID cfg nid = jobPrefix (cfg_Type cfg) @ ''-job-'' @ nid"

definition k8s_labels :: "string \<Rightarrow> (string \<times> string) list" where
  "k8s_labels jobID = [(''job_name'', jobID), (''app'', ''mattermost-calls-offloader'')]"

definition k8s_spec ::
  "('w, 'v) host \<Rightarrow> 'w k8s_host \<Rightarrow> ('w, 'rr) K8sService \<Rightarrow> JobConfig \<Rightarrow> string \<Rightarrow> 'rr k8s_container list \<Rightarrow>
   Toleration list \<Rightarrow> 'rr k8s_job" where
  "k8s_spec h kh s cfg jobID initContainers tolerations =
     \<lparr>kj_Name = jobID, kj_Namespace = kss_namespace s, kj_Labels = k8s_labels jobID,
      kj_Parallelism = 1, kj_Completions = 1, kj_BackoffLimit = 0,
      kj_TTLSecondsAfterFinished =
        (if ks_FailedJobsRetentionTime (kss_cfg s) > 0
         then Some (kh_Seconds32 kh (ks_FailedJobsRetentionTime (kss_cfg s))) else None),
      kj_PodLabels = k8s_labels jobID,
      kj_InitContainers = initContainers,
      kj_Containers =
        [\<lparr>kc_Name = jobID, kc_Image = k8s_image h cfg, kc_ImagePullPolicy = ''IfNotPresent'', kc_Command = [],
          kc_VolumeMounts = [(jobID, k8sVolumePath)], kc_Env = k8s_env h cfg,
          kc_Resources = map_of (ks_JobsResourceRequirements (kss_cfg s)) (cfg_Type cfg),
          kc_Privileged = getJobPodSecurityContext (host_env h)\<rparr>],
      kj_Volumes =
        [(jobID, if ks_PersistentVolumeClaimName (kss_cfg s) \<noteq> []
                 then Some (ks_PersistentVolumeClaimName (kss_cfg s)) else None)],
      kj_Tolerations = tolerations,
      kj_RestartPolicy = ''Never'',
      kj_TerminationGracePeriodSeconds = k8sJobStopTimeout div time_Second,
      kj_ActiveDeadlineSeconds = cfg_MaxDurationSec cfg,
      kj_HostNetwork = devMode (host_env h)\<rparr>"

definition K8s_launch ::
  "('w, 'v) host \<Rightarrow> 'w k8s_host \<Rightarrow> ('w, 'rr) K8sService \<Rightarrow> JobConfig \<Rightarrow> ('w, Job) proc" where
  "K8s_launch h kh s cfg =
     andThen (random_NewID h) (\<lambda>nid.
     andThen (if ks_NodeSysctls (kss_cfg s) = [] then ret []
              else wrapping ''failed to generate init containers: ''
                (call (\<lambda>w. (genInitContainers (host_env h) (k8s_jobID cfg nid) k8sInitContainerImage
                   (ks_NodeSysctls (kss_cfg s)), w)))) (\<lambda>initContainers.
     andThen (wrapping ''failed to get job pod tolerations: '' (getJobPodTolerations kh (host_env h))) (\<lambda>tolerations.
     andThen (wrapping ''failed to create job: ''
         (call_err (kc_Create (kss_client s) k8sRequestTimeout (kss_namespace s)
            (k8s_spec h kh s cfg (k8s_jobID cfg nid) initContainers tolerations)))) (\<lambda>_.
     andThen (UnixMilli h) (\<lambda>now.
     ret \<lparr>job_Config = cfg\<lparr>cfg_Runner := k8s_image h cfg, cfg_InputData := k8s_input h cfg\<rparr>,
          job_ID = k8s_jobID cfg nid, job_StartAt = now, job_StopAt = 0, job_OutputData = None\<rparr>)))))"

definition K8s_CreateJob ::
  "('w, 'v) host \<Rightarrow> 'w k8s_host \<Rightarrow> ('w, 'rr) K8sService \<Rightarrow> JobConfig \<Rightarrow> bool \<Rightarrow> ('w, Job) proc" where
  "K8s_CreateJob h kh s cfg hasCb = andThen (K8s_admit h s cfg hasCb) (\<lambda>_. K8s_launch h kh s cfg)"

text \<open>
  The loop over the events of the watch. \<open>Some success\<close>: the callback is called with \<open>success\<close>;
  \<open>None\<close>: the goroutine returns without it. The closing of the channel ends the loop with \<^verbatim>\<open>false\<close>.
\<close>

fun watch_loop :: "watch_event list \<Rightarrow> bool option" where
  "watch_loop [] = Some False"
| "watch_loop (ev # evs) =
     (case ev_Object ev of
        None \<Rightarrow> watch_loop evs
      | Some jb \<Rightarrow>
          if st_Failed jb > 0 then Some False
          else if st_Succeeded jb > 0 then Some True
          else if ev_Type ev = watch_Deleted then None
          else watch_loop evs)"

definition K8s_watch :: "('w, 'rr) K8sService \<Rightarrow> JobConfig \<Rightarrow> string \<Rightarrow> 'w \<Rightarrow> bool option \<times> 'w" where
  "K8s_watch s cfg jobID w =
     (let timeoutSecs = add64 (cfg_MaxDurationSec cfg) (k8sJobStopTimeout div time_Second)
      in case kc_Watch (kss_client s) (mul64 timeoutSecs time_Second) (kss_namespace s) timeoutSecs
           (job_selector jobID) w of
           (Inl err, w1) \<Rightarrow> (None, w1)
         | (Inr evs, w1) \<Rightarrow> (watch_loop evs, w1))"

section \<open>What the helpers compute\<close>

lemma privileged_iff:
  "getJobPodSecurityContext env \<longleftrightarrow>
     env ''SECURITY_CONTEXT_PRIVILEGED'' \<in> {''1'', ''t'', ''T'', ''true'', ''TRUE'', ''True''}"
  unfolding getJobPodSecurityContext_def ParseBool_def
  by (cases "env ''SECURITY_CONTEXT_PRIVILEGED'' \<in> {''1'', ''t'', ''T'', ''true'', ''TRUE'', ''True''}")
    (simp_all del: insert_iff)

lemma count_active_eq:
  "count_active jbs n = n + int (length (filter (\<lambda>jb. st_Failed jb \<le> 0 \<and> st_Succeeded jb \<le> 0) jbs))"
  by (induction jbs arbitrary: n) auto

lemma getActiveJobs_eq:
  "getActiveJobs jbs = int (length (filter (\<lambda>jb. st_Failed jb \<le> 0 \<and> st_Succeeded jb \<le> 0) jbs))"
  by (simp add: getActiveJobs_def count_active_eq)

lemma length_init_containers [simp]: "length (init_containers env jobID img i ctls) = length ctls"
  by (induction ctls arbitrary: i) auto

lemma nth_init_containers:
  "k < length ctls \<Longrightarrow> init_containers env jobID img i ctls ! k =
     \<lparr>kc_Name = jobID @ ''-init-'' @ nat_dec (i + k), kc_Image = img, kc_ImagePullPolicy = ''IfNotPresent'',
      kc_Command = [''sysctl'', ''-w'', ctls ! k], kc_VolumeMounts = [], kc_Env = [], kc_Resources = None,
      kc_Privileged = getJobPodSecurityContext env\<rparr>"
proof (induction ctls arbitrary: i k)
  case (Cons c ctls)
  then show ?case by (cases k) simp_all
qed simp

lemma init_containers_names: "distinct (map kc_Name (init_containers env jobID img i ctls))"
  by (auto simp: distinct_conv_nth nth_init_containers)

text \<open>An event that ends the loop: which one decides, and how.\<close>

definition decisive :: "watch_event \<Rightarrow> bool" where
  "decisive ev \<longleftrightarrow>
     (case ev_Object ev of
        None \<Rightarrow> False
      | Some jb \<Rightarrow> st_Failed jb > 0 \<or> st_Succeeded jb > 0 \<or> ev_Type ev = watch_Deleted)"

definition verdict :: "watch_event \<Rightarrow> bool option" where
  "verdict ev =
     (case ev_Object ev of
        None \<Rightarrow> Some False
      | Some jb \<Rightarrow> if st_Failed jb > 0 then Some False else if st_Succeeded jb > 0 then Some True else None)"

lemma watch_loop_decisive:
  "watch_loop evs = (case find decisive evs of None \<Rightarrow> Some False | Some ev \<Rightarrow> verdict ev)"
  by (induction evs) (auto simp: decisive_def verdict_def split: option.splits)

end
