(* ===== verification/Kubernetes_Sim.thy ===== *)
theory Kubernetes_Sim
  imports Kubernetes Docker_Sim
begin

text \<open>
  The properties of the Kubernetes job service, and a simulated cluster (a list of jobs with their
  status, and the events the next watch delivers) on which they are evaluated.
\<close>

section \<open>A simulated cluster\<close>

record cluster =
  cl_jobs :: "(unit k8s_job \<times> job_status) list"
  cl_events :: "watch_event list"
  cl_clock :: instant

definition cluster_client :: "(cluster, unit) k8s_client" where
  "cluster_client =
     \<lparr>kc_Config = (\<lambda>w. (None, w)), kc_NewForConfig = (\<lambda>w. (None, w)),
      kc_ServerVersion = (\<lambda>w. (Inr ''1.27'', w)),
      kc_List = (\<lambda>t ns w. (Inr (map snd (filter (\<lambda>(j, st). kj_Namespace j = ns) (cl_jobs w))), w)),
      kc_Create = (\<lambda>t ns j w.
        if j \<in> fst ` set (cl_jobs w) then (Some (Foreign ''k8s'' ''already exists''), w)
        else (None, w\<lparr>cl_jobs := cl_jobs w @ [(j, \<lparr>st_Failed = 0, st_Succeeded = 0\<rparr>)]\<rparr>)),
      kc_Watch = (\<lambda>t ns secs sel w. (Inr (cl_events w), w\<lparr>cl_events := []\<rparr>)),
      kc_Delete = (\<lambda>t ns i p w.
        if list_ex (\<lambda>(j, st). kj_Name j = i) (cl_jobs w)
        then (None, w\<lparr>cl_jobs := filter (\<lambda>(j, st). kj_Name j \<noteq> i) (cl_jobs w)\<rparr>)
        else (Some (Foreign ''k8s'' ''not found''), w)),
      kc_ListPods = (\<lambda>t ns sel w.
        (Inr (map (kj_Name \<circ> fst) (filter (\<lambda>(j, st). job_selector (kj_Name j) = sel) (cl_jobs w))), w)),
      kc_Stream = (\<lambda>t ns pod w. (Inr (''logs'', None), w))\<rparr>"

definition cluster_host :: "environ \<Rightarrow> (cluster, version) host" where
  "cluster_host env =
     \<lparr>h_job = triple_lib env, h_GOOS = ''linux'', h_NewRandom = (\<lambda>w. (replicate 16 0, w)),
      h_Now = (\<lambda>w. (cl_clock w, w)),
      h_range = (\<lambda>d. case d of None \<Rightarrow> [] | Some m \<Rightarrow> map fst m), h_float = (\<lambda>f. ''0''),
      h_url = \<lparr>ul_Parse = (\<lambda>u. Inl (Foreign ''url'' ''unsupported'')), ul_String = url_Rest\<rparr>,
      h_ParseTime = (\<lambda>t. Inl (Foreign ''time'' ''unsupported'')),
      h_StdCopy = (\<lambda>t. (([], t), None))\<rparr>"

definition cluster_k8s :: "cluster k8s_host" where
  "cluster_k8s =
     \<lparr>kh_Tolerations = (\<lambda>t. if t = ''[]'' then Inr [] else Inl (Foreign ''yaml'' ''unsupported'')),
      kh_Open = (\<lambda>p w. (Inl (Foreign ''os.ErrNotExist'' ''no such file''), w)),
      kh_Seconds32 = (\<lambda>d. d div time_Second)\<rparr>"

definition cluster_service :: "(cluster, unit) K8sService" where
  "cluster_service =
     \<lparr>kss_cfg = \<lparr>ks_MaxConcurrentJobs = 1, ks_FailedJobsRetentionTime = time_Hour, ks_ImageRegistry = ''mattermost'',
        ks_JobsResourceRequirements = [], ks_PersistentVolumeClaimName = [], ks_NodeSysctls = ''a=1,b=2''\<rparr>,
      kss_namespace = ''default'', kss_client = cluster_client\<rparr>"

definition empty_cluster :: cluster where
  "empty_cluster = \<lparr>cl_jobs = [], cl_events = [], cl_clock = 5000000\<rparr>"

section \<open>Properties\<close>


lemma cluster_env: "\<not> devMode (host_env (cluster_host test_env))"
  by (simp add: cluster_host_def triple_lib_def test_env_def)

lemma cluster_CreateJob:
  "\<exists>jb w'. K8s_CreateJob (cluster_host test_env) cluster_k8s cluster_service sample_JobConfig True empty_cluster =
     (Done (Inr jb), w')"
proof -
  have adm: "K8s_admit (cluster_host test_env) cluster_service sample_JobConfig True empty_cluster =
      (Done (Inr ()), empty_cluster)"
    by (simp add: K8s_admit_def andThen_def wrapping_def check_def call_def cluster_service_def cluster_client_def
        empty_cluster_def getActiveJobs_def JobConfig_IsValid_def RunnerIsValid_def sample_JobConfig_def
        cluster_host_def triple_lib_def test_env_def TypeRecording_def ret_def)
  have nid: "random_NewID (cluster_host test_env) empty_cluster = (Done (Inr (replicate 26 (CHR ''y''))), empty_cluster)"
    by (simp add: random_NewID_def go_eval cluster_host_def sample_NewID del: replicate_Suc)
  have tol: "getJobPodTolerations cluster_k8s (host_env (cluster_host test_env)) w = (Done (Inr defaultTolerations), w)" for w
    by (simp add: getJobPodTolerations_def cluster_host_def triple_lib_def test_env_def ret_def)
  have cfg: "ks_NodeSysctls (kss_cfg cluster_service) = ''a=1,b=2''" "kss_client cluster_service = cluster_client"
    by (simp_all add: cluster_service_def)
  have nz: "k8s_jobID sample_JobConfig nid \<noteq> []" "k8sInitContainerImage \<noteq> []" for nid
    by (simp_all add: k8s_jobID_def k8sInitContainerImage_def)
  have create: "\<exists>w1. kc_Create cluster_client t ns j empty_cluster = (None, w1)" for t ns j
    by (simp add: cluster_client_def empty_cluster_def)
  have clock: "UnixMilli (cluster_host test_env) w = (Done (Inr (cl_clock w div 1000000)), w)" for w
    by (simp add: UnixMilli_def get_def cluster_host_def)
  let ?inits = "init_containers (host_env (cluster_host test_env)) (k8s_jobID sample_JobConfig (replicate 26 (CHR ''y'')))
      k8sInitContainerImage 0 (Split ''a=1,b=2'' (CHR '','')) :: unit k8s_container list"
  obtain w1 where w1: "kc_Create cluster_client k8sRequestTimeout (kss_namespace cluster_service)
      (k8s_spec (cluster_host test_env) cluster_k8s cluster_service sample_JobConfig
        (k8s_jobID sample_JobConfig (replicate 26 (CHR ''y''))) ?inits defaultTolerations) empty_cluster = (None, w1)"
    using create by blast
  show ?thesis
    unfolding K8s_CreateJob_def K8s_launch_def
    using w1
    by (simp add: go_eval adm nid tol cfg nz clock genInitContainers_def del: replicate_Suc Split.simps init_containers.simps)
qed


text \<open>
  C22: the watcher of a Kubernetes job: the first event whose job failed, succeeded or was deleted
  decides; a failure wins over a success in one status, and either wins over a deletion, which ends
  the watch without the callback; when the watch closes without such an event the callback is told
  that the job failed; when the watch cannot be made there is no callback at all. The timeout is the
  maximum duration and five minutes, as long as that fits in the integers.
\<close>

theorem K8s_watch_correct:
  assumes "0 < cfg_MaxDurationSec cfg" "cfg_MaxDurationSec cfg \<le> 9223371736"
  defines "T \<equiv> cfg_MaxDurationSec cfg + 300"
  shows "K8s_watch s cfg jobID w =
    (case kc_Watch (kss_client s) (T * time_Second) (kss_namespace s) T (job_selector jobID) w of
       (Inl err, w1) \<Rightarrow> (None, w1)
     | (Inr evs, w1) \<Rightarrow> (case find decisive evs of
         None \<Rightarrow> (Some False, w1)
       | Some ev \<Rightarrow> (verdict ev, w1)))"
proof -
  have "add64 (cfg_MaxDurationSec cfg) (k8sJobStopTimeout div time_Second) = T"
    using assms by (simp add: add64_def int64_range_def)
  moreover have "mul64 T time_Second = T * time_Second"
    using assms by (simp add: mul64_def int64_range_def)
  ultimately show ?thesis
    by (simp add: K8s_watch_def watch_loop_decisive split: prod.splits sum.splits option.splits)
qed

theorem K8s_watch_correct_witness:
  "fst (K8s_watch cluster_service sample_JobConfig ''j''
     (empty_cluster\<lparr>cl_events := [\<lparr>ev_Type = ''ADDED'', ev_Object = None\<rparr>,
       \<lparr>ev_Type = ''DELETED'', ev_Object = Some \<lparr>st_Failed = 0, st_Succeeded = 1\<rparr>\<rparr>]\<rparr>)) = Some True"
  using K8s_watch_correct [of sample_JobConfig cluster_service "''j''"
      "empty_cluster\<lparr>cl_events := [\<lparr>ev_Type = ''ADDED'', ev_Object = None\<rparr>,
        \<lparr>ev_Type = ''DELETED'', ev_Object = Some \<lparr>st_Failed = 0, st_Succeeded = 1\<rparr>\<rparr>]\<rparr>"]
  by (simp add: sample_JobConfig_def cluster_service_def cluster_client_def decisive_def verdict_def)

text \<open>
  The init containers: one for each comma separated setting, in order (joining their arguments
  gives the setting back), with distinct names and the privilege of the environment, which is off
  unless \<^verbatim>\<open>SECURITY_CONTEXT_PRIVILEGED\<close> reads as true.
\<close>

theorem genInitContainers_correct:
  assumes "genInitContainers env jobID img sysctls = Inr cs"
  shows "jobID \<noteq> [] \<and> img \<noteq> [] \<and> sysctls \<noteq> [] \<and> length cs = Suc (count_list sysctls (CHR '','')) \<and>
    Join (map (\<lambda>c. kc_Command c ! 2) cs) (CHR '','') = sysctls \<and> distinct (map kc_Name cs) \<and>
    (\<forall>c \<in> set cs. kc_Image c = img \<and> take 2 (kc_Command c) = [''sysctl'', ''-w''] \<and>
      (kc_Privileged c \<longleftrightarrow> env ''SECURITY_CONTEXT_PRIVILEGED'' \<in> {''1'', ''t'', ''T'', ''true'', ''TRUE'', ''True''}))"
proof -
  from assms have cs: "cs = init_containers env jobID img 0 (Split sysctls (CHR '',''))"
    and ne: "jobID \<noteq> []" "img \<noteq> []" "sysctls \<noteq> []"
    by (auto simp: genInitContainers_def split: if_splits)
  have "map (\<lambda>c. kc_Command c ! 2) cs = Split sysctls (CHR '','')"
    unfolding cs by (rule nth_equalityI) (simp_all add: nth_init_containers)
  then have "Join (map (\<lambda>c. kc_Command c ! 2) cs) (CHR '','') = sysctls"
    by (simp add: Join_Split)
  moreover have "kc_Image c = img \<and> take 2 (kc_Command c) = [''sysctl'', ''-w''] \<and>
      (kc_Privileged c \<longleftrightarrow> env ''SECURITY_CONTEXT_PRIVILEGED'' \<in> {''1'', ''t'', ''T'', ''true'', ''TRUE'', ''True''})"
    if "c \<in> set cs" for c
    using that unfolding cs in_set_conv_nth
    by (auto simp: nth_init_containers privileged_iff)
  ultimately show ?thesis using ne by (simp add: cs length_Split init_containers_names)
qed

theorem genInitContainers_correct_witness:
  "\<exists>cs. genInitContainers (\<lambda>_. []) ''j'' ''busybox:1.36'' ''a=1,b=2'' = Inr (cs :: unit k8s_container list) \<and>
     length cs = 2 \<and> map kc_Name cs = [''j-init-0'', ''j-init-1'']"
  using genInitContainers_correct [of "\<lambda>_. []" "''j''" "''busybox:1.36''" "''a=1,b=2''"
      "init_containers (\<lambda>_. []) ''j'' ''busybox:1.36'' 0 [''a=1'', ''b=2''] :: unit k8s_container list"]
  by (simp add: genInitContainers_def nat_dec.simps)

end
