(* ===== verification/Json_Strings.thy ===== *)
theory Json_Strings
  imports Go_Prelude
begin

text \<open>
  Strings of \<^verbatim>\<open>encoding/json\<close>: UTF-8, the escapes the encoder writes (with its HTML escapes), and
  the decoder of string literals. A Go string is any sequence of bytes; what is not UTF-8 becomes the
  replacement character, in both directions.
\<close>

section \<open>UTF-8\<close>

abbreviation byte :: "char \<Rightarrow> nat" where
  "byte c \<equiv> of_char c"

abbreviation cont_byte :: "char \<Rightarrow> bool" where
  "cont_byte c \<equiv> 0x80 \<le> byte c \<and> byte c \<le> 0xBF"

text \<open>The sequences of two, three and four bytes that encode a character.\<close>

definition two_bytes :: "char \<Rightarrow> char \<Rightarrow> bool" where
  "two_bytes a b \<longleftrightarrow> 0xC2 \<le> byte a \<and> byte a \<le> 0xDF \<and> cont_byte b"

definition three_bytes :: "char \<Rightarrow> char \<Rightarrow> char \<Rightarrow> bool" where
  "three_bytes a b c \<longleftrightarrow>
     0xE0 \<le> byte a \<and> byte a \<le> 0xEF \<and> cont_byte b \<and> cont_byte c \<and>
     (byte a = 0xE0 \<longrightarrow> 0xA0 \<le> byte b) \<and> (byte a = 0xED \<longrightarrow> byte b \<le> 0x9F)"

definition four_bytes :: "char \<Rightarrow> char \<Rightarrow> char \<Rightarrow> char \<Rightarrow> bool" where
  "four_bytes a b c d \<longleftrightarrow>
     0xF0 \<le> byte a \<and> byte a \<le> 0xF4 \<and> cont_byte b \<and> cont_byte c \<and> cont_byte d \<and>
     (byte a = 0xF0 \<longrightarrow> 0x90 \<le> byte b) \<and> (byte a = 0xF4 \<longrightarrow> byte b \<le> 0x8F)"

text \<open>The number of bytes of the character a text begins with; 0: it does not begin with one.\<close>

fun utf8_size :: "string \<Rightarrow> nat" where
  "utf8_size [] = 0"
| "utf8_size (a # s) =
     (if byte a < 0x80 then 1
      else (case s of
        [] \<Rightarrow> 0
      | b # s1 \<Rightarrow> if two_bytes a b then 2 else (case s1 of
          [] \<Rightarrow> 0
        | c # s2 \<Rightarrow> if three_bytes a b c then 3 else (case s2 of
            [] \<Rightarrow> 0
          | d # s3 \<Rightarrow> if four_bytes a b c d then 4 else 0))))"

declare utf8_size.simps [simp del]

definition utf8_encode :: "nat \<Rightarrow> string" where
  "utf8_encode r =
     (if r < 0x80 then [char_of r]
      else if r < 0x800 then [char_of (0xC0 + r div 64), char_of (0x80 + r mod 64)]
      else if r < 0x10000 then
        [char_of (0xE0 + r div 4096), char_of (0x80 + r div 64 mod 64), char_of (0x80 + r mod 64)]
      else
        [char_of (0xF0 + r div 262144), char_of (0x80 + r div 4096 mod 64), char_of (0x80 + r div 64 mod 64),
         char_of (0x80 + r mod 64)])"

definition replacement :: string where
  "replacement = [CHR 0xEF, CHR 0xBF, CHR 0xBD]"

text \<open>A text with every byte that is not part of a valid character replaced.\<close>

function to_utf8 :: "string \<Rightarrow> string" where
  "to_utf8 [] = []"
| "to_utf8 (c # s) =
     (if utf8_size (c # s) = 0 then replacement @ to_utf8 s
      else take (utf8_size (c # s)) (c # s) @ to_utf8 (drop (utf8_size (c # s)) (c # s)))"
  by pat_completeness auto

termination
  by (relation "measure length") (auto simp: less_Suc_eq_le)

declare to_utf8.simps [simp del]

function valid_utf8 :: "string \<Rightarrow> bool" where
  "valid_utf8 [] = True"
| "valid_utf8 (c # s) =
     (if utf8_size (c # s) = 0 then False
      else valid_utf8 (drop (utf8_size (c # s)) (c # s)))"
  by pat_completeness auto

termination
  by (relation "measure length") (auto simp: less_Suc_eq_le)

declare valid_utf8.simps [simp del]

lemma to_utf8_valid: "valid_utf8 s \<Longrightarrow> to_utf8 s = s"
proof (induction s rule: to_utf8.induct)
  case (2 c s)
  then show ?case
    by (simp add: valid_utf8.simps(2) to_utf8.simps(2) split: if_splits)
qed (simp add: to_utf8.simps)

section \<open>Writing string literals\<close>

abbreviation quote_char :: char where "quote_char \<equiv> CHR 0x22"
abbreviation backslash :: char where "backslash \<equiv> CHR 0x5C"

definition hex_digit :: "nat \<Rightarrow> char" where
  "hex_digit n = ''0123456789abcdef'' ! n"

text \<open>One ASCII character as the encoder writes it.\<close>

definition escape_char :: "char \<Rightarrow> string" where
  "escape_char c =
     (if c = quote_char \<or> c = backslash then [backslash, c]
      else if byte c = 8 then [backslash, CHR ''b'']
      else if byte c = 12 then [backslash, CHR ''f'']
      else if byte c = 10 then [backslash, CHR ''n'']
      else if byte c = 13 then [backslash, CHR ''r'']
      else if byte c = 9 then [backslash, CHR ''t'']
      else if byte c < 32 \<or> c \<in> {CHR ''<'', CHR ''>'', CHR ''&''}
      then [backslash, CHR ''u'', CHR ''0'', CHR ''0'', hex_digit (byte c div 16), hex_digit (byte c mod 16)]
      else [c])"

definition line_separators :: "string list" where
  "line_separators = [[CHR 0xE2, CHR 0x80, CHR 0xA8], [CHR 0xE2, CHR 0x80, CHR 0xA9]]"

text \<open>\<^verbatim>\<open>appendString\<close>, between the quotes.\<close>

function json_escape :: "string \<Rightarrow> string" where
  "json_escape [] = []"
| "json_escape (c # s) =
     (if byte c < 0x80 then escape_char c @ json_escape s
      else if utf8_size (c # s) = 0 then backslash # ''ufffd'' @ json_escape s
      else if take 3 (c # s) = line_separators ! 0 then backslash # ''u2028'' @ json_escape (drop 3 (c # s))
      else if take 3 (c # s) = line_separators ! 1 then backslash # ''u2029'' @ json_escape (drop 3 (c # s))
      else take (utf8_size (c # s)) (c # s) @ json_escape (drop (utf8_size (c # s)) (c # s)))"
  by pat_completeness auto

termination
  by (relation "measure length") (auto simp: less_Suc_eq_le)

declare json_escape.simps [simp del]

definition json_string :: "string \<Rightarrow> string" where
  "json_string s = quote_char # json_escape s @ [quote_char]"

section \<open>Reading string literals\<close>

definition hex_val :: "char \<Rightarrow> nat option" where
  "hex_val c =
     (if is_digit c then Some (byte c - 48)
      else if 97 \<le> byte c \<and> byte c \<le> 102 then Some (byte c - 87)
      else if 65 \<le> byte c \<and> byte c \<le> 70 then Some (byte c - 55)
      else None)"

definition hex4 :: "char \<Rightarrow> char \<Rightarrow> char \<Rightarrow> char \<Rightarrow> nat option" where
  "hex4 a b c d =
     (case (hex_val a, hex_val b, hex_val c, hex_val d) of
        (Some w, Some x, Some y, Some z) \<Rightarrow> Some (((w * 16 + x) * 16 + y) * 16 + z)
      | _ \<Rightarrow> None)"

definition simple_escape :: "char \<Rightarrow> char option" where
  "simple_escape e =
     map_of [(quote_char, quote_char), (backslash, backslash), (CHR ''/'', CHR ''/''), (CHR ''b'', CHR 0x08),
             (CHR ''f'', CHR 0x0C), (CHR ''n'', CHR 0x0A), (CHR ''r'', CHR 0x0D), (CHR ''t'', CHR 0x09)] e"

definition is_surrogate :: "nat \<Rightarrow> bool" where
  "is_surrogate r \<longleftrightarrow> 0xD800 \<le> r \<and> r < 0xE000"

text \<open>\<^verbatim>\<open>utf16.DecodeRune\<close>: two halves of a pair; \<open>None\<close>: they are not one.\<close>

definition surrogate_pair :: "nat \<Rightarrow> nat \<Rightarrow> nat option" where
  "surrogate_pair r1 r2 =
     (if 0xD800 \<le> r1 \<and> r1 < 0xDC00 \<and> 0xDC00 \<le> r2 \<and> r2 < 0xE000
      then Some ((r1 - 0xD800) * 1024 + (r2 - 0xDC00) + 0x10000) else None)"

text \<open>
  The text of a \<^verbatim>\<open>\u\<close> escape with value \<open>r\<close>, looking at the text that follows for the second half of a
  pair, and how much of that text it used.
\<close>

fun unicode_escape :: "nat \<Rightarrow> string \<Rightarrow> string \<times> nat" where
  "unicode_escape r (e # u # a # b # c # d # s) =
     (if is_surrogate r then
        (if e = backslash \<and> u = CHR ''u'' then
           (case hex4 a b c d of
              Some r2 \<Rightarrow> (case surrogate_pair r r2 of
                  Some r' \<Rightarrow> (utf8_encode r', 6)
                | None \<Rightarrow> (replacement, 0))
            | None \<Rightarrow> (replacement, 0))
         else (replacement, 0))
      else (utf8_encode r, 0))"
| "unicode_escape r s = (if is_surrogate r then (replacement, 0) else (utf8_encode r, 0))"

definition prepend :: "string \<Rightarrow> (string \<times> string) option \<Rightarrow> (string \<times> string) option" where
  "prepend p r = map_option (\<lambda>(t, rest). (p @ t, rest)) r"

text \<open>The text behind the opening quote: the bytes of the string and what follows the closing quote.\<close>

function parse_string :: "string \<Rightarrow> (string \<times> string) option" where
  "parse_string [] = None"
| "parse_string (c # s) =
     (if c = quote_char then Some ([], s)
      else if c = backslash then
        (case s of
           [] \<Rightarrow> None
         | e # s1 \<Rightarrow> (case simple_escape e of
             Some b \<Rightarrow> prepend [b] (parse_string s1)
           | None \<Rightarrow>
               if e = CHR ''u'' then
                 (case s1 of
                    h1 # h2 # h3 # h4 # s2 \<Rightarrow> (case hex4 h1 h2 h3 h4 of
                      None \<Rightarrow> None
                    | Some r \<Rightarrow> (case unicode_escape r s2 of
                        (t, n) \<Rightarrow> prepend t (parse_string (drop n s2))))
                  | _ \<Rightarrow> None)
               else None))
      else if byte c < 32 then None
      else if utf8_size (c # s) = 0 then prepend replacement (parse_string s)
      else prepend (take (utf8_size (c # s)) (c # s)) (parse_string (drop (utf8_size (c # s)) (c # s))))"
  by pat_completeness auto

termination
  by (relation "measure length") (auto simp: less_Suc_eq_le)

declare parse_string.simps [simp del]

section \<open>What is written is read back\<close>

lemma utf8_size_ascii: "byte c < 0x80 \<Longrightarrow> utf8_size (c # s) = 1"
  by (simp add: utf8_size.simps)

lemma utf8_size_cases:
  obtains (zero) "utf8_size s = 0"
    | (one) a t where "s = a # t" "byte a < 0x80" "utf8_size s = 1"
    | (two) a b t where "s = a # b # t" "\<not> byte a < 0x80" "two_bytes a b" "utf8_size s = 2"
    | (three) a b c t where "s = a # b # c # t" "\<not> byte a < 0x80" "\<not> two_bytes a b" "three_bytes a b c"
        "utf8_size s = 3"
    | (four) a b c d t where "s = a # b # c # d # t" "\<not> byte a < 0x80" "\<not> two_bytes a b"
        "\<not> three_bytes a b c" "four_bytes a b c d" "utf8_size s = 4"
proof (cases s)
  case Nil
  then show ?thesis using zero by (simp add: utf8_size.simps)
next
  case (Cons a s1)
  show ?thesis
  proof (cases "byte a < 0x80")
    case True
    with Cons show ?thesis using one by (simp add: utf8_size.simps)
  next
    case False
    consider "s1 = []" | b where "s1 = [b]" | b c where "s1 = [b, c]" | b c d t where "s1 = b # c # d # t"
      by (metis list.exhaust)
    then have "utf8_size s = 0 \<or> (\<exists>b t. s = a # b # t \<and> two_bytes a b \<and> utf8_size s = 2) \<or>
      (\<exists>b c t. s = a # b # c # t \<and> \<not> two_bytes a b \<and> three_bytes a b c \<and> utf8_size s = 3) \<or>
      (\<exists>b c d t. s = a # b # c # d # t \<and> \<not> two_bytes a b \<and> \<not> three_bytes a b c \<and> four_bytes a b c d \<and>
        utf8_size s = 4)"
      by cases (simp_all add: Cons utf8_size.simps False)
    then show ?thesis
      by (elim disjE exE conjE) (rule zero, assumption, rule two [OF _ False], assumption+,
        rule three [OF _ False], assumption+, rule four [OF _ False], assumption+)
  qed
qed

lemma utf8_size_append: "utf8_size s \<noteq> 0 \<Longrightarrow> utf8_size (take (utf8_size s) s @ t) = utf8_size s"
  by (cases s rule: utf8_size_cases) (simp_all add: utf8_size.simps)

lemma utf8_size_le: "utf8_size s \<le> length s"
  by (cases s rule: utf8_size_cases) auto

lemma hex_val_digit: "n < 16 \<Longrightarrow> hex_val (hex_digit n) = Some n"
proof -
  have "list_all (\<lambda>n. hex_val (hex_digit n) = Some n) [0..<16]" by code_simp
  then show "n < 16 \<Longrightarrow> ?thesis" by (simp add: list_all_iff)
qed

lemma unicode_escape_plain: "\<not> is_surrogate r \<Longrightarrow> unicode_escape r s = (utf8_encode r, 0)"
  by (cases "(r, s)" rule: unicode_escape.cases) auto

lemma parse_u00:
  assumes "x < 8" "y < 16"
  shows "parse_string (backslash # CHR ''u'' # CHR ''0'' # CHR ''0'' # hex_digit x # hex_digit y # s) =
    prepend [char_of (x * 16 + y)] (parse_string s)"
proof -
  have "hex_val (CHR ''0'') = Some 0" by (simp add: hex_val_def is_digit_def)
  then have "hex4 (CHR ''0'') (CHR ''0'') (hex_digit x) (hex_digit y) = Some (x * 16 + y)"
    using assms by (simp add: hex4_def hex_val_digit)
  moreover have "x * 16 + y < 0x80" using assms by linarith
  ultimately show ?thesis
    by (simp add: parse_string.simps(2) [of backslash] simple_escape_def unicode_escape_plain is_surrogate_def
        utf8_encode_def)
qed

lemma parse_escape_char:
  assumes "byte c < 0x80"
  shows "parse_string (escape_char c @ s) = prepend [c] (parse_string s)"
proof -
  have named: "parse_string (backslash # e # s) = prepend [b] (parse_string s)"
    if "simple_escape e = Some b" for e b
    using that by (simp add: parse_string.simps(2) [of backslash])
  have char_eq: "byte c = byte d \<longleftrightarrow> c = d" for d
    by (simp only: of_char_eq_iff)
  have u: "parse_string (backslash # CHR ''u'' # CHR ''0'' # CHR ''0'' # hex_digit (byte c div 16) #
      hex_digit (byte c mod 16) # s) = prepend [c] (parse_string s)"
    using assms by (subst parse_u00) (simp_all add: less_mult_imp_div_less)
  have "byte c = 8 \<Longrightarrow> c = CHR 0x08" "byte c = 12 \<Longrightarrow> c = CHR 0x0C" "byte c = 10 \<Longrightarrow> c = CHR 0x0A"
    "byte c = 13 \<Longrightarrow> c = CHR 0x0D" "byte c = 9 \<Longrightarrow> c = CHR 0x09"
    by (simp_all add: char_eq [symmetric])
  then consider "c = quote_char" | "c = backslash" | "c = CHR 0x08" | "c = CHR 0x0C" | "c = CHR 0x0A" | "c = CHR 0x0D"
    | "c = CHR 0x09"
    | (hex) "c \<noteq> quote_char" "c \<noteq> backslash" "byte c \<noteq> 8" "byte c \<noteq> 12" "byte c \<noteq> 10" "byte c \<noteq> 13" "byte c \<noteq> 9"
      "byte c < 32 \<or> c \<in> {CHR ''<'', CHR ''>'', CHR ''&''}"
    | (plain) "c \<noteq> quote_char" "c \<noteq> backslash" "byte c \<noteq> 8" "byte c \<noteq> 12" "byte c \<noteq> 10" "byte c \<noteq> 13" "byte c \<noteq> 9"
      "\<not> (byte c < 32 \<or> c \<in> {CHR ''<'', CHR ''>'', CHR ''&''})"
    by argo
  then show ?thesis
  proof cases
    case hex
    then have "escape_char c = [backslash, CHR ''u'', CHR ''0'', CHR ''0'', hex_digit (byte c div 16),
        hex_digit (byte c mod 16)]"
      unfolding escape_char_def by simp
    with u show ?thesis by simp
  next
    case plain
    then have "escape_char c = [c]" "\<not> byte c < 32" unfolding escape_char_def by simp_all
    with plain(1,2) assms show ?thesis by (simp add: parse_string.simps(2) [of c] utf8_size_ascii)
  qed (simp_all add: escape_char_def, simp_all add: named simple_escape_def)
qed

lemma utf8_encode_marks:
  "utf8_encode 0xFFFD = replacement" "utf8_encode 0x2028 = line_separators ! 0"
  "utf8_encode 0x2029 = line_separators ! 1"
  by (simp_all add: utf8_encode_def replacement_def line_separators_def char_of_eq_iff take_bit_eq_mod)

lemma parse_u_mark:
  "parse_string (backslash # CHR ''u'' # CHR ''f'' # CHR ''f'' # CHR ''f'' # CHR ''d'' # s) =
     prepend replacement (parse_string s)"
  "parse_string (backslash # CHR ''u'' # CHR ''2'' # CHR ''0'' # CHR ''2'' # CHR ''8'' # s) =
     prepend (line_separators ! 0) (parse_string s)"
  "parse_string (backslash # CHR ''u'' # CHR ''2'' # CHR ''0'' # CHR ''2'' # CHR ''9'' # s) =
     prepend (line_separators ! 1) (parse_string s)"
proof -
  have h: "hex4 (CHR ''f'') (CHR ''f'') (CHR ''f'') (CHR ''d'') = Some 0xFFFD"
    "hex4 (CHR ''2'') (CHR ''0'') (CHR ''2'') (CHR ''8'') = Some 0x2028"
    "hex4 (CHR ''2'') (CHR ''0'') (CHR ''2'') (CHR ''9'') = Some 0x2029"
    by (simp_all add: hex4_def hex_val_def is_digit_def)
  show "parse_string (backslash # CHR ''u'' # CHR ''f'' # CHR ''f'' # CHR ''f'' # CHR ''d'' # s) =
     prepend replacement (parse_string s)"
    "parse_string (backslash # CHR ''u'' # CHR ''2'' # CHR ''0'' # CHR ''2'' # CHR ''8'' # s) =
     prepend (line_separators ! 0) (parse_string s)"
    "parse_string (backslash # CHR ''u'' # CHR ''2'' # CHR ''0'' # CHR ''2'' # CHR ''9'' # s) =
     prepend (line_separators ! 1) (parse_string s)"
    by (simp_all add: parse_string.simps(2) [of backslash] simple_escape_def h unicode_escape_plain
        is_surrogate_def utf8_encode_marks)
qed

lemma prepend_Some [simp]: "prepend p (Some (t, r)) = Some (p @ t, r)"
  by (simp add: prepend_def)

text \<open>The bytes read back are those written, with what is not UTF-8 replaced.\<close>

lemma parse_json_escape: "parse_string (json_escape s @ quote_char # rest) = Some (to_utf8 s, rest)"
proof (induction s rule: json_escape.induct)
  case 1
  then show ?case by (simp add: json_escape.simps parse_string.simps to_utf8.simps)
next
  case (2 c s)
  note E = json_escape.simps(2) [of c s] and U = to_utf8.simps(2) [of c s]
  let ?n = "utf8_size (c # s)"
  consider (ascii) "byte c < 0x80" | (invalid) "\<not> byte c < 0x80" "?n = 0"
    | (sep) i where "\<not> byte c < 0x80" "?n \<noteq> 0" "i < 2" "take 3 (c # s) = line_separators ! i"
    | (valid) "\<not> byte c < 0x80" "?n \<noteq> 0" "take 3 (c # s) \<noteq> line_separators ! 0" "take 3 (c # s) \<noteq> line_separators ! 1"
    by (metis One_nat_def less_2_cases_iff zero_less_Suc numeral_2_eq_2 lessI)
  then show ?case
  proof cases
    case ascii
    with 2 show ?thesis by (simp add: E U utf8_size_ascii parse_escape_char)
  next
    case invalid
    with 2 show ?thesis by (simp add: E U parse_u_mark)
  next
    case sep
    from sep(4) obtain t where cs: "c # s = line_separators ! i @ t"
      by (metis append_take_drop_id)
    with sep(3) have size: "?n = 3" and l3: "length (line_separators ! i) = 3"
      by (auto simp: less_2_cases_iff line_separators_def utf8_size.simps two_bytes_def three_bytes_def)
    from sep(3) consider "i = 0" | "i = 1" by linarith
    then show ?thesis
    proof cases
      case 1
      with sep 2 size l3 show ?thesis by (simp add: E U parse_u_mark)
    next
      case i: 2
      have "line_separators ! 0 \<noteq> line_separators ! 1" by (simp add: line_separators_def)
      with sep 2 size l3 i show ?thesis by (simp add: E U parse_u_mark)
    qed
  next
    case valid
    have size: "utf8_size (take ?n (c # s) @ t) = ?n" for t by (rule utf8_size_append [OF valid(2)])
    obtain m where m: "?n = Suc m" using valid(2) by (cases ?n) auto
    have len: "length (take ?n (c # s)) = ?n" using utf8_size_le [of "c # s"] by simp
    let ?r = "json_escape (drop ?n (c # s)) @ quote_char # rest"
    have hd: "take ?n (c # s) @ ?r = c # (take m s @ ?r)" by (simp add: m)
    have "c \<noteq> quote_char" "c \<noteq> backslash" "\<not> byte c < 32" using valid(1) by auto
    then have "parse_string (take ?n (c # s) @ ?r) = prepend (take ?n (c # s)) (parse_string ?r)"
      using size [of ?r] len valid(2)
      by (simp add: hd parse_string.simps(2) [of c "take m s @ ?r"]) (simp add: hd [symmetric] del: take_Suc_Cons)
    with valid 2 show ?thesis by (simp add: E U)
  qed
qed

end
