(* ===== verification/Json_Text.thy ===== *)
theory Json_Text
  imports Json_Strings
begin

text \<open>
  JSON texts: the values, the compact text \<^verbatim>\<open>json.Marshal\<close> writes for them, and the parser behind
  \<^verbatim>\<open>json.Unmarshal\<close> and \<^verbatim>\<open>Decoder.Decode\<close>. The parser takes fuel; the length of the text is enough. The
  texts of syntax errors and the limit of 10000 nested values are not modelled.
\<close>

datatype json =
    JNull
  | JBool bool
  | JNum string
  | JStr string
  | JArr "json list"
  | JObj "(string \<times> json) list"

fun json_text :: "json \<Rightarrow> string" where
  "json_text JNull = ''null''"
| "json_text (JBool b) = (if b then ''true'' else ''false'')"
| "json_text (JNum t) = t"
| "json_text (JStr s) = json_string s"
| "json_text (JArr xs) = ''['' @ Join (map json_text xs) (CHR '','') @ '']''"
| "json_text (JObj ms) =
     ''{'' @ Join (map (\<lambda>(k, v). json_string k @ '':'' @ json_text v) ms) (CHR '','') @ ''}''"

section \<open>Numbers\<close>

definition scan_int :: "string \<Rightarrow> (string \<times> string) option" where
  "scan_int s =
     (case s of
        [] \<Rightarrow> None
      | c # r \<Rightarrow>
          if c = CHR ''0'' then Some ([c], r)
          else if is_digit c then Some (c # takeWhile is_digit r, dropWhile is_digit r)
          else None)"

definition scan_frac :: "string \<Rightarrow> (string \<times> string) option" where
  "scan_frac s =
     (case s of
        [] \<Rightarrow> Some ([], [])
      | c # r \<Rightarrow>
          if c = CHR ''.'' then
            (if takeWhile is_digit r = [] then None else Some (c # takeWhile is_digit r, dropWhile is_digit r))
          else Some ([], s))"

definition scan_exp :: "string \<Rightarrow> (string \<times> string) option" where
  "scan_exp s =
     (case s of
        [] \<Rightarrow> Some ([], [])
      | c # r \<Rightarrow>
          if c = CHR ''e'' \<or> c = CHR ''E'' then
            (case r of
               [] \<Rightarrow> None
             | d # r1 \<Rightarrow>
                 if d = CHR ''+'' \<or> d = CHR ''-'' then
                   (if takeWhile is_digit r1 = [] then None
                    else Some (c # d # takeWhile is_digit r1, dropWhile is_digit r1))
                 else if is_digit d then Some (c # d # takeWhile is_digit r1, dropWhile is_digit r1)
                 else None)
          else Some ([], s))"

definition scan_sign :: "string \<Rightarrow> string \<times> string" where
  "scan_sign s = (if s \<noteq> [] \<and> hd s = CHR ''-'' then ([hd s], tl s) else ([], s))"

definition scan_number :: "string \<Rightarrow> (string \<times> string) option" where
  "scan_number s =
     (case scan_sign s of (sg, s1) \<Rightarrow> (case scan_int s1 of
        None \<Rightarrow> None
      | Some (i, s2) \<Rightarrow> (case scan_frac s2 of
          None \<Rightarrow> None
        | Some (f, s3) \<Rightarrow> (case scan_exp s3 of
            None \<Rightarrow> None
          | Some (e, s4) \<Rightarrow> Some (sg @ i @ f @ e, s4)))))"

definition number_text :: "string \<Rightarrow> bool" where
  "number_text t \<longleftrightarrow> scan_number t = Some (t, [])"

section \<open>The parser\<close>

definition is_space :: "char \<Rightarrow> bool" where
  "is_space c \<longleftrightarrow> c = CHR '' '' \<or> c = CHR 0x09 \<or> c = CHR 0x0A \<or> c = CHR 0x0D"

definition skip_ws :: "string \<Rightarrow> string" where
  "skip_ws s = dropWhile is_space s"

definition expect :: "char \<Rightarrow> string \<Rightarrow> string option" where
  "expect c s = (if skip_ws s \<noteq> [] \<and> hd (skip_ws s) = c then Some (tl (skip_ws s)) else None)"

fun parse_value :: "nat \<Rightarrow> string \<Rightarrow> (json \<times> string) option"
  and parse_elems :: "nat \<Rightarrow> string \<Rightarrow> (json list \<times> string) option"
  and parse_members :: "nat \<Rightarrow> string \<Rightarrow> ((string \<times> json) list \<times> string) option" where
  "parse_value 0 s = None"
| "parse_value (Suc n) s =
     (let t = skip_ws s
      in if t = [] then None
         else if hd t = CHR ''{'' then
           (case expect (CHR ''}'') (tl t) of
              Some r \<Rightarrow> Some (JObj [], r)
            | None \<Rightarrow> map_option (\<lambda>(ms, r). (JObj ms, r)) (parse_members n (tl t)))
         else if hd t = CHR ''['' then
           (case expect (CHR '']'') (tl t) of
              Some r \<Rightarrow> Some (JArr [], r)
            | None \<Rightarrow> map_option (\<lambda>(xs, r). (JArr xs, r)) (parse_elems n (tl t)))
         else if hd t = quote_char then map_option (\<lambda>(x, r). (JStr x, r)) (parse_string (tl t))
         else if HasPrefix t ''null'' then Some (JNull, drop 4 t)
         else if HasPrefix t ''true'' then Some (JBool True, drop 4 t)
         else if HasPrefix t ''false'' then Some (JBool False, drop 5 t)
         else map_option (\<lambda>(x, r). (JNum x, r)) (scan_number t))"
| "parse_elems 0 s = None"
| "parse_elems (Suc n) s =
     (case parse_value n s of
        None \<Rightarrow> None
      | Some (v, r) \<Rightarrow> (case expect (CHR '','') r of
          Some r1 \<Rightarrow> map_option (\<lambda>(vs, t). (v # vs, t)) (parse_elems n r1)
        | None \<Rightarrow> (case expect (CHR '']'') r of
            Some r1 \<Rightarrow> Some ([v], r1)
          | None \<Rightarrow> None)))"
| "parse_members 0 s = None"
| "parse_members (Suc n) s =
     (case expect quote_char s of
        None \<Rightarrow> None
      | Some r0 \<Rightarrow> (case parse_string r0 of
          None \<Rightarrow> None
        | Some (k, r1) \<Rightarrow> (case expect (CHR '':'') r1 of
            None \<Rightarrow> None
          | Some r2 \<Rightarrow> (case parse_value n r2 of
              None \<Rightarrow> None
            | Some (v, r3) \<Rightarrow> (case expect (CHR '','') r3 of
                Some r4 \<Rightarrow> map_option (\<lambda>(ms, t). ((k, v) # ms, t)) (parse_members n r4)
              | None \<Rightarrow> (case expect (CHR ''}'') r3 of
                  Some r4 \<Rightarrow> Some ([(k, v)], r4)
                | None \<Rightarrow> None))))))"

text \<open>\<^verbatim>\<open>json.Unmarshal\<close>: one value and white space; \<^verbatim>\<open>Decoder.Decode\<close>: the first value, the rest stays.\<close>

definition json_parse :: "string \<Rightarrow> json option" where
  "json_parse s =
     (case parse_value (Suc (length s)) s of
        Some (v, r) \<Rightarrow> if skip_ws r = [] then Some v else None
      | None \<Rightarrow> None)"

definition json_decode :: "string \<Rightarrow> json option" where
  "json_decode s = map_option fst (parse_value (Suc (length s)) s)"

text \<open>Strings as they are after a round trip, and the values whose numbers are JSON numbers.\<close>

fun json_utf8 :: "json \<Rightarrow> json" where
  "json_utf8 (JStr s) = JStr (to_utf8 s)"
| "json_utf8 (JArr xs) = JArr (map json_utf8 xs)"
| "json_utf8 (JObj ms) = JObj (map (\<lambda>(k, v). (to_utf8 k, json_utf8 v)) ms)"
| "json_utf8 v = v"

fun json_numbers :: "json \<Rightarrow> bool" where
  "json_numbers (JNum t) = number_text t"
| "json_numbers (JArr xs) = (\<forall>x \<in> set xs. json_numbers x)"
| "json_numbers (JObj ms) = (\<forall>(k, v) \<in> set ms. json_numbers v)"
| "json_numbers v = True"

section \<open>Round trip\<close>

text \<open>What may follow a value in a text.\<close>

definition follows :: "string \<Rightarrow> bool" where
  "follows r \<longleftrightarrow> r = [] \<or> (\<not> is_digit (hd r) \<and> hd r \<notin> {CHR ''.'', CHR ''e'', CHR ''E'', CHR ''+'', CHR ''-''})"

lemma follows_Nil [simp]: "follows []"
  by (simp add: follows_def)

lemma follows_char [simp]:
  "follows (CHR '','' # r)" "follows (CHR '']'' # r)" "follows (CHR ''}'' # r)" "follows (CHR 0x0A # r)"
  by (simp_all add: follows_def is_digit_def)

lemma while_follows:
  assumes "follows r"
  shows "takeWhile is_digit (s @ r) = takeWhile is_digit s" "dropWhile is_digit (s @ r) = dropWhile is_digit s @ r"
proof -
  have "takeWhile is_digit r = []" "dropWhile is_digit r = r"
    using assms by (cases r; simp add: follows_def)+
  then show "takeWhile is_digit (s @ r) = takeWhile is_digit s" "dropWhile is_digit (s @ r) = dropWhile is_digit s @ r"
    by (induction s) auto
qed

lemma scan_int_follows: "scan_int s = Some (i, t) \<Longrightarrow> follows r \<Longrightarrow> scan_int (s @ r) = Some (i, t @ r)"
  by (cases s) (auto simp: scan_int_def while_follows split: if_splits)

lemma scan_frac_follows: "scan_frac s = Some (i, t) \<Longrightarrow> follows r \<Longrightarrow> scan_frac (s @ r) = Some (i, t @ r)"
proof (cases s)
  case Nil
  then show "scan_frac s = Some (i, t) \<Longrightarrow> follows r \<Longrightarrow> ?thesis"
    by (cases r) (auto simp: scan_frac_def follows_def)
qed (auto simp: scan_frac_def while_follows split: if_splits)

lemma scan_exp_follows: "scan_exp s = Some (i, t) \<Longrightarrow> follows r \<Longrightarrow> scan_exp (s @ r) = Some (i, t @ r)"
proof (cases s)
  case Nil
  then show "scan_exp s = Some (i, t) \<Longrightarrow> follows r \<Longrightarrow> ?thesis"
    by (cases r) (auto simp: scan_exp_def follows_def)
next
  case (Cons c s1)
  then show "scan_exp s = Some (i, t) \<Longrightarrow> follows r \<Longrightarrow> ?thesis"
    by (cases s1) (auto simp: scan_exp_def while_follows split: if_splits)
qed

lemma scan_number_follows:
  assumes "number_text t" "follows r"
  shows "scan_number (t @ r) = Some (t, r)"
proof -
  obtain sg s1 where sg: "scan_sign t = (sg, s1)" by (cases "scan_sign t")
  from assms(1) sg obtain i s2 f s3 e where
    parts: "scan_int s1 = Some (i, s2)" "scan_frac s2 = Some (f, s3)" "scan_exp s3 = Some (e, [])"
    and t: "t = sg @ i @ f @ e"
    by (auto simp: number_text_def scan_number_def split: option.splits)
  have "t \<noteq> []" using assms(1) by (auto simp: number_text_def scan_number_def scan_sign_def scan_int_def)
  then have "scan_sign (t @ r) = (sg, s1 @ r)"
    using sg by (cases t) (auto simp: scan_sign_def split: if_splits)
  with scan_int_follows [OF parts(1) assms(2)] scan_frac_follows [OF parts(2) assms(2)]
    scan_exp_follows [OF parts(3) assms(2)] t show ?thesis
    by (simp add: scan_number_def)
qed

lemma expect_Cons [simp]: "\<not> is_space c \<Longrightarrow> expect d (c # s) = (if c = d then Some s else None)"
  by (auto simp: expect_def skip_ws_def)

lemma skip_ws_Cons [simp]: "\<not> is_space c \<Longrightarrow> skip_ws (c # s) = c # s"
  by (simp add: skip_ws_def)

lemma not_space [simp]:
  "\<not> is_space (CHR '','')" "\<not> is_space (CHR '']'')" "\<not> is_space (CHR ''}'')" "\<not> is_space (CHR '':'')"
  "\<not> is_space (CHR ''['')" "\<not> is_space (CHR ''{'')" "\<not> is_space quote_char"
  by (simp_all add: is_space_def)

lemma number_head:
  assumes "number_text t"
  obtains c s where "t = c # s" "is_digit c \<or> c = CHR ''-''"
proof (cases t)
  case Nil
  with assms show thesis by (simp add: number_text_def scan_number_def scan_sign_def scan_int_def)
next
  case (Cons c s)
  have "is_digit c \<or> c = CHR ''-''"
  proof (rule ccontr)
    assume no: "\<not> ?thesis"
    then have "c \<noteq> CHR ''0''" by (auto simp: is_digit_def)
    with no have "scan_number t = None"
      by (simp add: Cons scan_number_def scan_sign_def scan_int_def)
    with assms show False by (simp add: number_text_def)
  qed
  with Cons show thesis by (rule that)
qed

text \<open>No value starts with white space or with a closing bracket.\<close>

lemma json_text_head:
  assumes "json_numbers j"
  obtains c s where "json_text j = c # s" "\<not> is_space c" "c \<noteq> CHR '']''"
proof (cases j)
  case (JNum t)
  with assms have "number_text t" by simp
  then obtain c s where "t = c # s" "is_digit c \<or> c = CHR ''-''" by (rule number_head)
  with JNum show thesis by (intro that) (auto simp: is_space_def is_digit_def)
next
  case (JBool b)
  then show thesis by (cases b) (auto intro!: that simp: is_space_def)
qed (auto intro!: that simp: is_space_def json_string_def)

lemma json_text_not_Nil: "json_numbers j \<Longrightarrow> 0 < length (json_text j)"
  by (metis json_text_head length_greater_0_conv list.discI)

lemma parse_number:
  assumes "number_text t" "follows r"
  shows "parse_value (Suc n) (t @ r) = Some (JNum t, r)"
proof -
  from assms(1) obtain c s where t: "t = c # s" and c: "is_digit c \<or> c = CHR ''-''" by (rule number_head)
  then have "\<not> is_space c" "c \<notin> {CHR ''{'', CHR ''['', quote_char, CHR ''n'', CHR ''t'', CHR ''f''}"
    by (auto simp: is_space_def is_digit_def)
  with scan_number_follows [OF assms] t show ?thesis by (auto simp: Let_def)
qed

definition parses_back :: "json \<Rightarrow> bool" where
  "parses_back j \<longleftrightarrow>
     (\<forall>n r. length (json_text j) < n \<longrightarrow> follows r \<longrightarrow> parse_value n (json_text j @ r) = Some (json_utf8 j, r))"

lemma parses_backI:
  assumes "\<And>n r. length (json_text j) \<le> n \<Longrightarrow> follows r \<Longrightarrow> parse_value (Suc n) (json_text j @ r) = Some (json_utf8 j, r)"
  shows "parses_back j"
  unfolding parses_back_def using assms by (metis Suc_le_D less_Suc_eq_le Suc_leI)

lemma parse_elems_printed:
  assumes "xs \<noteq> []" "\<And>x. x \<in> set xs \<Longrightarrow> parses_back x" "length (Join (map json_text xs) (CHR '','')) + 2 \<le> n"
  shows "parse_elems n (Join (map json_text xs) (CHR '','') @ CHR '']'' # r) = Some (map json_utf8 xs, r)"
  using assms
proof (induction xs arbitrary: n)
  case (Cons x xs)
  from Cons.prems(3) obtain m where n: "n = Suc m" by (cases n) auto
  have x: "parses_back x" using Cons.prems(2) by simp
  show ?case
  proof (cases "xs = []")
    case True
    with x Cons.prems(3) show ?thesis by (simp add: n parses_back_def)
  next
    case False
    let ?J = "Join (map json_text xs) (CHR '','')"
    have "length (json_text x) < m" "length ?J + 2 \<le> m"
      using Cons.prems(3) False by (auto simp: n Join_Cons)
    moreover from this False Cons.prems(2) have "parse_elems m (?J @ CHR '']'' # r) = Some (map json_utf8 xs, r)"
      by (intro Cons.IH) auto
    ultimately show ?thesis using x False by (simp add: n parses_back_def Join_Cons)
  qed
qed simp

abbreviation member_text :: "string \<times> json \<Rightarrow> string" where
  "member_text \<equiv> \<lambda>(k, v). json_string k @ '':'' @ json_text v"

lemma parse_members_printed:
  assumes "ms \<noteq> []" "\<And>k v. (k, v) \<in> set ms \<Longrightarrow> parses_back v" "length (Join (map member_text ms) (CHR '','')) + 2 \<le> n"
  shows "parse_members n (Join (map member_text ms) (CHR '','') @ CHR ''}'' # r) =
    Some (map (\<lambda>(k, v). (to_utf8 k, json_utf8 v)) ms, r)"
  using assms
proof (induction ms arbitrary: n)
  case (Cons kv ms)
  obtain k v where kv: "kv = (k, v)" by (cases kv)
  from Cons.prems(3) obtain m where n: "n = Suc m" by (cases n) auto
  have v: "parses_back v" using Cons.prems(2) [of k v] kv by simp
  show ?case
  proof (cases "ms = []")
    case True
    with v Cons.prems(3) show ?thesis by (simp add: n kv parses_back_def json_string_def parse_json_escape)
  next
    case False
    let ?J = "Join (map member_text ms) (CHR '','')"
    have "length (json_text v) < m" "length ?J + 2 \<le> m"
      using Cons.prems(3) False by (auto simp: n kv Join_Cons json_string_def)
    moreover from this False Cons.prems(2) have
      "parse_members m (?J @ CHR ''}'' # r) = Some (map (\<lambda>(k, v). (to_utf8 k, json_utf8 v)) ms, r)"
      by (intro Cons.IH) auto
    ultimately show ?thesis using v False
      by (simp add: n kv parses_back_def Join_Cons json_string_def parse_json_escape)
  qed
qed simp

lemma parse_printed: "json_numbers j \<Longrightarrow> parses_back j"
proof (induction j)
  case (JArr xs)
  show ?case
  proof (cases "xs = []")
    case False
    then obtain x ys where xs: "xs = x # ys" by (cases xs) auto
    with JArr.prems obtain c s where hd: "json_text x = c # s" "\<not> is_space c" "c \<noteq> CHR '']''"
      using json_text_head [of x] by auto
    have "\<exists>t. Join (map json_text xs) (CHR '','') = c # t" using hd(1) by (cases ys) (simp_all add: xs)
    then obtain t where t: "Join (map json_text xs) (CHR '','') = c # t" ..
    show ?thesis
    proof (rule parses_backI)
      fix m r assume m: "length (json_text (JArr xs)) \<le> m"
      have "parse_elems m (Join (map json_text xs) (CHR '','') @ CHR '']'' # r) = Some (map json_utf8 xs, r)"
        using JArr m by (intro parse_elems_printed False) auto
      with t hd show "parse_value (Suc m) (json_text (JArr xs) @ r) = Some (json_utf8 (JArr xs), r)"
        by (simp add: Let_def)
    qed
  qed (auto intro!: parses_backI simp: Let_def)
next
  case (JObj ms)
  show ?case
  proof (cases "ms = []")
    case False
    then obtain k v ys where ms: "ms = (k, v) # ys" by (cases ms) auto
    have "\<exists>t. Join (map member_text ms) (CHR '','') = quote_char # t"
      by (cases ys) (simp_all add: ms json_string_def)
    then obtain t where t: "Join (map member_text ms) (CHR '','') = quote_char # t" ..
    have each: "\<And>k v. (k, v) \<in> set ms \<Longrightarrow> parses_back v"
      using JObj by (fastforce intro: JObj.IH)
    show ?thesis
    proof (rule parses_backI)
      fix m r assume m: "length (json_text (JObj ms)) \<le> m"
      have "parse_members m (Join (map member_text ms) (CHR '','') @ CHR ''}'' # r) =
          Some (map (\<lambda>(k, v). (to_utf8 k, json_utf8 v)) ms, r)"
        using each m by (intro parse_members_printed False) auto
      with t show "parse_value (Suc m) (json_text (JObj ms) @ r) = Some (json_utf8 (JObj ms), r)"
        by (simp add: Let_def)
    qed
  qed (auto intro!: parses_backI simp: Let_def)
next
  case (JNum t)
  then have "number_text t" by simp
  then show ?case by (auto intro!: parses_backI simp: parse_number simp del: parse_value.simps)
next
  case (JStr s)
  then show ?case by (auto intro!: parses_backI simp: json_string_def Let_def parse_json_escape)
next
  case (JBool b)
  then show ?case by (cases b) (auto intro!: parses_backI simp: Let_def is_space_def)
next
  case JNull
  then show ?case by (auto intro!: parses_backI simp: Let_def is_space_def)
qed

declare parse_value.simps [simp del]

text \<open>Behind the text of a value only white space may follow; \<^verbatim>\<open>Encode\<close> writes a newline.\<close>

theorem json_parse_text:
  assumes "json_numbers j"
  shows "json_parse (json_text j) = Some (json_utf8 j)"
    and "\<forall>r. follows r \<longrightarrow> json_decode (json_text j @ r) = Some (json_utf8 j)"
proof -
  have parsed: "length (json_text j) < n \<Longrightarrow> follows r \<Longrightarrow>
      parse_value n (json_text j @ r) = Some (json_utf8 j, r)" for n r
    using parse_printed [OF assms] by (simp add: parses_back_def)
  show "json_parse (json_text j) = Some (json_utf8 j)"
    using parsed [of "Suc (length (json_text j))" "[]"] by (simp add: json_parse_def skip_ws_def)
  show "\<forall>r. follows r \<longrightarrow> json_decode (json_text j @ r) = Some (json_utf8 j)"
    by (simp add: json_decode_def parsed)
qed

end
