(* ===== verification/Json_Codec.thy ===== *)
theory Json_Codec
  imports Json_Text Job
begin

text \<open>
  How the data of the service is written as JSON and read back: \<^verbatim>\<open>encoding/json\<close> driven by the field
  tags of \<^verbatim>\<open>public/job/job.go\<close> and \<^verbatim>\<open>public/version.go\<close>. The decimal texts of floats and the texts of
  decoding errors are parameters.
\<close>

section \<open>Values of type any\<close>

text \<open>
  \<open>cd_FormatFloat\<close> writes a float; \<open>Inl\<close> is the text of one JSON cannot hold (\<^verbatim>\<open>NaN\<close>, \<^verbatim>\<open>+Inf\<close>, \<^verbatim>\<open>-Inf\<close>).
  \<open>cd_ParseFloat\<close> is \<open>None\<close> out of range. \<open>cd_error\<close> is the text of the error for a target type and an
  input.
\<close>

record codec =
  cd_FormatFloat :: "float64 \<Rightarrow> string + string"
  cd_ParseFloat :: "string \<Rightarrow> float64 option"
  cd_error :: "string \<Rightarrow> string \<Rightarrow> string"

fun collect :: "'a res list \<Rightarrow> 'a list res" where
  "collect [] = Inr []"
| "collect (r # rs) =
     (case r of
        Inl e \<Rightarrow> Inl e
      | Inr x \<Rightarrow> (case collect rs of Inl e \<Rightarrow> Inl e | Inr xs \<Rightarrow> Inr (x # xs)))"

definition map_res :: "('a \<Rightarrow> 'b) \<Rightarrow> 'a res \<Rightarrow> 'b res" where
  "map_res f r = (case r of Inl e \<Rightarrow> Inl e | Inr x \<Rightarrow> Inr (f x))"

text \<open>Maps are written with their keys sorted.\<close>

fun any_json :: "codec \<Rightarrow> goany \<Rightarrow> json res" where
  "any_json cd AnyNil = Inr JNull"
| "any_json cd (AnyBool b) = Inr (JBool b)"
| "any_json cd (AnyNum f) =
     (case cd_FormatFloat cd f of
        Inl t \<Rightarrow> Inl (Foreign ''json'' (''json: unsupported value: '' @ t))
      | Inr t \<Rightarrow> Inr (JNum t))"
| "any_json cd (AnyStr s) = Inr (JStr s)"
| "any_json cd (AnyArr xs) = map_res JArr (collect (map (any_json cd) xs))"
| "any_json cd (AnyMap kvs) =
     map_res JObj (collect (map (\<lambda>(k, r). map_res (Pair k) r)
       (sort_key fst (map (\<lambda>(k, v). (k, any_json cd v)) kvs))))"

text \<open>Of two members with the same key the last one stays.\<close>

definition dict :: "(string \<times> 'a) list \<Rightarrow> (string \<times> 'a) list \<Rightarrow> (string \<times> 'a) list" where
  "dict ms m = fold (\<lambda>(k, v). AList.update k v) ms m"

fun json_any :: "codec \<Rightarrow> json \<Rightarrow> goany option" where
  "json_any cd JNull = Some AnyNil"
| "json_any cd (JBool b) = Some (AnyBool b)"
| "json_any cd (JNum t) = map_option AnyNum (cd_ParseFloat cd t)"
| "json_any cd (JStr s) = Some (AnyStr s)"
| "json_any cd (JArr xs) = map_option AnyArr (those (map (json_any cd) xs))"
| "json_any cd (JObj ms) =
     map_option (\<lambda>ms. AnyMap (dict ms [])) (those (map (\<lambda>(k, v). map_option (Pair k) (json_any cd v)) ms))"

section \<open>Targets of the decoder\<close>

text \<open>
  Decoding one field, given its old value: \<^verbatim>\<open>null\<close> leaves strings and numbers alone and makes maps and
  slices nil; \<open>None\<close> is an error about the type.
\<close>

definition set_string :: "json \<Rightarrow> string \<Rightarrow> string option" where
  "set_string v old = (case v of JStr s \<Rightarrow> Some s | JNull \<Rightarrow> Some old | _ \<Rightarrow> None)"

definition ParseInt64 :: "string \<Rightarrow> int option" where
  "ParseInt64 t =
     (case scan_sign t of (sg, ds) \<Rightarrow>
        let n = (if sg = [] then int (dec_val ds) else - int (dec_val ds))
        in if ds \<noteq> [] \<and> (\<forall>c \<in> set ds. is_digit c) \<and> int64_range n then Some n else None)"

definition set_int64 :: "json \<Rightarrow> int \<Rightarrow> int option" where
  "set_int64 v old = (case v of JNum t \<Rightarrow> ParseInt64 t | JNull \<Rightarrow> Some old | _ \<Rightarrow> None)"

text \<open>A map that exists already is extended.\<close>

definition set_any_map :: "codec \<Rightarrow> json \<Rightarrow> InputData \<Rightarrow> InputData option" where
  "set_any_map cd v old =
     (case v of
        JObj ms \<Rightarrow>
          map_option (\<lambda>kvs. Some (dict kvs (case old of None \<Rightarrow> [] | Some m \<Rightarrow> m)))
            (those (map (\<lambda>(k, v). map_option (Pair k) (json_any cd v)) ms))
      | JNull \<Rightarrow> Some None
      | _ \<Rightarrow> None)"

text \<open>
  A map of strings, with whether there was no error: a member of another type is reported, and set to
  the empty string like \<^verbatim>\<open>null\<close>.
\<close>

definition string_members :: "(string \<times> json) list \<Rightarrow> (string \<times> string) list" where
  "string_members ms = map (\<lambda>(k, v). (k, case v of JStr s \<Rightarrow> s | _ \<Rightarrow> [])) ms"

definition set_string_map ::
  "json \<Rightarrow> (string \<times> string) list option \<Rightarrow> bool \<times> (string \<times> string) list option" where
  "set_string_map v old =
     (case v of
        JObj ms \<Rightarrow>
          (\<forall>(k, v) \<in> set ms. set_string v [] \<noteq> None,
           Some (dict (string_members ms) (case old of None \<Rightarrow> [] | Some m \<Rightarrow> m)))
      | JNull \<Rightarrow> (True, None)
      | _ \<Rightarrow> (False, old))"

text \<open>
  A slice of strings is its memory and its length: elements are decoded into the memory that is there,
  and a \<^verbatim>\<open>null\<close> leaves what it finds.
\<close>

fun fill :: "string list \<Rightarrow> json list \<Rightarrow> string list option" where
  "fill mem [] = Some mem"
| "fill mem (v # vs) =
     (case set_string v (if mem = [] then [] else hd mem) of
        None \<Rightarrow> None
      | Some s \<Rightarrow> map_option ((#) s) (fill (tl mem) vs))"

definition set_slice :: "json \<Rightarrow> string list \<times> nat \<Rightarrow> (string list \<times> nat) option" where
  "set_slice v old =
     (case v of
        JArr vs \<Rightarrow> if vs = [] then Some ([], 0) else map_option (\<lambda>mem. (mem, length vs)) (fill (fst old) vs)
      | JNull \<Rightarrow> Some ([], 0)
      | _ \<Rightarrow> None)"

text \<open>A structure: its members in order; \<open>f\<close> decodes a member into the field its name stands for.\<close>

fun decode_members :: "(string \<Rightarrow> json \<Rightarrow> 'a \<Rightarrow> 'a option) \<Rightarrow> (string \<times> json) list \<Rightarrow> 'a \<Rightarrow> 'a option" where
  "decode_members f [] x = Some x"
| "decode_members f ((k, v) # ms) x =
     (case f k v x of None \<Rightarrow> None | Some y \<Rightarrow> decode_members f ms y)"

definition decode_struct :: "(string \<Rightarrow> json \<Rightarrow> 'a \<Rightarrow> 'a option) \<Rightarrow> 'a \<Rightarrow> json \<Rightarrow> 'a option" where
  "decode_struct f x j =
     (case j of JObj ms \<Rightarrow> decode_members f ms x | JNull \<Rightarrow> Some x | _ \<Rightarrow> None)"

section \<open>Jobs and their configurations\<close>

definition omitempty :: "codec \<Rightarrow> string \<Rightarrow> InputData \<Rightarrow> (string \<times> json) list res" where
  "omitempty cd name d =
     (case d of
        None \<Rightarrow> Inr []
      | Some m \<Rightarrow> if m = [] then Inr [] else map_res (\<lambda>j. [(name, j)]) (any_json cd (AnyMap m)))"

definition config_members :: "codec \<Rightarrow> JobConfig \<Rightarrow> (string \<times> json) list res" where
  "config_members cd c =
     map_res (\<lambda>d.
       [(''type'', JStr (cfg_Type c)), (''max_duration_sec'', JNum (int_dec (cfg_MaxDurationSec c))),
        (''runner'', JStr (cfg_Runner c))] @ d)
       (omitempty cd ''input_data'' (cfg_InputData c))"

definition job_members :: "codec \<Rightarrow> Job \<Rightarrow> (string \<times> json) list res" where
  "job_members cd jb =
     (case config_members cd (job_Config jb) of
        Inl e \<Rightarrow> Inl e
      | Inr cs \<Rightarrow>
          map_res (\<lambda>d.
            cs @ [(''id'', JStr (job_ID jb)), (''start_at'', JNum (int_dec (job_StartAt jb)))] @
            (if job_StopAt jb = 0 then [] else [(''stop_at'', JNum (int_dec (job_StopAt jb)))]) @ d)
            (omitempty cd ''output_data'' (job_OutputData jb)))"

definition Marshal_JobConfig :: "codec \<Rightarrow> JobConfig \<Rightarrow> string res" where
  "Marshal_JobConfig cd c = map_res (\<lambda>ms. json_text (JObj ms)) (config_members cd c)"

definition Marshal_Job :: "codec \<Rightarrow> Job \<Rightarrow> string res" where
  "Marshal_Job cd jb = map_res (\<lambda>ms. json_text (JObj ms)) (job_members cd jb)"

definition config_field :: "codec \<Rightarrow> string \<Rightarrow> json \<Rightarrow> JobConfig \<Rightarrow> JobConfig option" where
  "config_field cd k v c =
     (if EqualFold k ''type''
      then map_option (\<lambda>x. c\<lparr>cfg_Type := x\<rparr>) (set_string v (cfg_Type c))
      else if EqualFold k ''max_duration_sec''
      then map_option (\<lambda>x. c\<lparr>cfg_MaxDurationSec := x\<rparr>) (set_int64 v (cfg_MaxDurationSec c))
      else if EqualFold k ''runner''
      then map_option (\<lambda>x. c\<lparr>cfg_Runner := x\<rparr>) (set_string v (cfg_Runner c))
      else if EqualFold k ''input_data''
      then map_option (\<lambda>x. c\<lparr>cfg_InputData := x\<rparr>) (set_any_map cd v (cfg_InputData c))
      else Some c)"

definition job_field :: "codec \<Rightarrow> string \<Rightarrow> json \<Rightarrow> Job \<Rightarrow> Job option" where
  "job_field cd k v jb =
     (if EqualFold k ''id''
      then map_option (\<lambda>x. jb\<lparr>job_ID := x\<rparr>) (set_string v (job_ID jb))
      else if EqualFold k ''start_at''
      then map_option (\<lambda>x. jb\<lparr>job_StartAt := x\<rparr>) (set_int64 v (job_StartAt jb))
      else if EqualFold k ''stop_at''
      then map_option (\<lambda>x. jb\<lparr>job_StopAt := x\<rparr>) (set_int64 v (job_StopAt jb))
      else if EqualFold k ''output_data''
      then map_option (\<lambda>x. jb\<lparr>job_OutputData := x\<rparr>) (set_any_map cd v (job_OutputData jb))
      else map_option (\<lambda>x. jb\<lparr>job_Config := x\<rparr>) (config_field cd k v (job_Config jb)))"

text \<open>\<^verbatim>\<open>json.Unmarshal\<close> into a new job.\<close>

definition decode_error :: "codec \<Rightarrow> string \<Rightarrow> string \<Rightarrow> goerr" where
  "decode_error cd target text = Foreign ''json'' (cd_error cd target text)"

definition or_error :: "goerr \<Rightarrow> 'a option \<Rightarrow> 'a res" where
  "or_error e r = (case r of None \<Rightarrow> Inl e | Some x \<Rightarrow> Inr x)"

definition Unmarshal_Job :: "codec \<Rightarrow> string \<Rightarrow> Job res" where
  "Unmarshal_Job cd js =
     or_error (decode_error cd ''Job'' js)
       (Option.bind (json_parse js) (decode_struct (job_field cd) empty_Job))"

section \<open>Requests and responses\<close>

text \<open>
  \<^verbatim>\<open>NewDecoder(r).Decode\<close>: the first value of a text. \<open>decode_limited\<close> reads through
  \<^verbatim>\<open>http.MaxBytesReader\<close>: a longer text ends with an error, and a value that is not an object or an
  array is only complete when the byte behind it was read.
\<close>

fun bracketed :: "json \<Rightarrow> bool" where
  "bracketed (JArr xs) = True"
| "bracketed (JObj ms) = True"
| "bracketed j = False"

definition decode_limited :: "nat \<Rightarrow> string \<Rightarrow> json option" where
  "decode_limited limit body =
     (if length body \<le> limit then json_decode body
      else (case parse_value (Suc limit) (take limit body) of
        None \<Rightarrow> None
      | Some (v, r) \<Rightarrow> if r = [] \<and> \<not> bracketed v then None else Some v))"

definition Decode_Job :: "codec \<Rightarrow> string \<Rightarrow> Job res" where
  "Decode_Job cd body =
     or_error (decode_error cd ''Job'' body)
       (Option.bind (json_decode body) (decode_struct (job_field cd) empty_Job))"

definition Decode_JobConfig :: "codec \<Rightarrow> nat \<Rightarrow> string \<Rightarrow> JobConfig res" where
  "Decode_JobConfig cd limit body =
     or_error (decode_error cd ''Config'' body)
       (Option.bind (decode_limited limit body) (decode_struct (config_field cd) empty_JobConfig))"

definition service_field :: "string \<Rightarrow> json \<Rightarrow> string list \<times> nat \<Rightarrow> (string list \<times> nat) option" where
  "service_field k v sl = (if EqualFold k ''Runners'' then set_slice v sl else Some sl)"

definition Decode_ServiceConfig :: "codec \<Rightarrow> nat \<Rightarrow> string \<Rightarrow> ServiceConfig res" where
  "Decode_ServiceConfig cd limit body =
     or_error (decode_error cd ''ServiceConfig'' body)
       (Option.bind (decode_limited limit body)
         (\<lambda>j. map_option (\<lambda>(mem, n). \<lparr>Runners = take n mem\<rparr>) (decode_struct service_field ([], 0) j)))"

text \<open>
  Decoding into an empty \<^verbatim>\<open>map[string]string\<close>: the error and what is in the map then. Decoding into an
  empty \<^verbatim>\<open>map[string]any\<close>.
\<close>

definition Decode_strings :: "codec \<Rightarrow> string \<Rightarrow> goerr option \<times> (string \<times> string) list option" where
  "Decode_strings cd body =
     (let err = decode_error cd ''map[string]string'' body
      in case json_decode body of
           None \<Rightarrow> (Some err, Some [])
         | Some j \<Rightarrow> (case set_string_map j (Some []) of (ok, m) \<Rightarrow> (if ok then None else Some err, m)))"

definition Decode_any_map :: "codec \<Rightarrow> string \<Rightarrow> InputData res" where
  "Decode_any_map cd body =
     or_error (decode_error cd ''map[string]interface {}'' body)
       (Option.bind (json_decode body) (\<lambda>j. set_any_map cd j (Some [])))"

text \<open>The value of a key: the zero value when the map is nil or has no such key.\<close>

definition get_string :: "(string \<times> string) list option \<Rightarrow> string \<Rightarrow> string" where
  "get_string m k =
     (case m of
        None \<Rightarrow> []
      | Some kvs \<Rightarrow> (case map_of kvs k of None \<Rightarrow> [] | Some s \<Rightarrow> s))"

text \<open>\<^verbatim>\<open>NewEncoder(w).Encode\<close> writes a newline behind the value.\<close>

definition Encode_Job :: "codec \<Rightarrow> Job \<Rightarrow> string res" where
  "Encode_Job cd jb = map_res (\<lambda>t. t @ [CHR 0x0A]) (Marshal_Job cd jb)"

definition Encode_JobConfig :: "codec \<Rightarrow> JobConfig \<Rightarrow> string res" where
  "Encode_JobConfig cd c = map_res (\<lambda>t. t @ [CHR 0x0A]) (Marshal_JobConfig cd c)"

definition Encode_strings :: "(string \<times> string) list \<Rightarrow> string" where
  "Encode_strings m = json_text (JObj (sort_key fst (map (\<lambda>(k, v). (k, JStr v)) m))) @ [CHR 0x0A]"

text \<open>A slice without elements is taken to be nil.\<close>

definition Encode_ServiceConfig :: "ServiceConfig \<Rightarrow> string" where
  "Encode_ServiceConfig c =
     json_text (JObj [(''Runners'', if Runners c = [] then JNull else JArr (map JStr (Runners c)))]) @ [CHR 0x0A]"

section \<open>Round trips\<close>

lemma map_res_Inr [simp]: "map_res f (Inr x) = Inr (f x)"
  by (simp add: map_res_def)

lemma map_res_eq_Inr [simp]: "map_res f r = Inr y \<longleftrightarrow> (\<exists>x. r = Inr x \<and> y = f x)"
  by (auto simp: map_res_def split: sum.splits)

lemma or_error_simps [simp]: "or_error e (Some x) = Inr x" "or_error e None = Inl e"
  by (simp_all add: or_error_def)

lemma or_error_eq_Inr [simp]: "or_error e r = Inr x \<longleftrightarrow> r = Some x"
  by (auto simp: or_error_def split: option.splits)

lemma collect_all:
  "\<forall>x \<in> set xs. \<exists>y. f x = Inr y \<and> P x y \<Longrightarrow> \<exists>ys. collect (map f xs) = Inr ys \<and> list_all2 P xs ys"
  by (induction xs) fastforce+

lemma those_all: "list_all2 (\<lambda>x y. f x = Some y) xs ys \<Longrightarrow> those (map f xs) = Some ys"
  by (induction rule: list_all2_induct) auto

lemma insort_key_map: "insort_key f (g x) (map g xs) = map g (insort_key (\<lambda>x. f (g x)) x xs)"
  by (induction xs) auto

lemma sort_key_map: "sort_key f (map g xs) = map g (sort_key (\<lambda>x. f (g x)) xs)"
  by (induction xs) (auto simp: insort_key_map)

lemma dict_fresh: "distinct (map fst (m @ ms)) \<Longrightarrow> dict ms m = m @ ms"
proof (induction ms arbitrary: m)
  case (Cons kv ms)
  obtain k v where kv: "kv = (k, v)" by (cases kv)
  have "k \<notin> fst ` set m \<Longrightarrow> AList.update k v m = m @ [(k, v)]" by (induction m) auto
  with Cons.prems kv have "AList.update k v m = m @ [(k, v)]" by auto
  with Cons.IH [of "m @ [(k, v)]"] Cons.prems kv show ?case by (simp add: dict_def)
qed (simp add: dict_def)

lemma dict_distinct: "distinct (map fst ms) \<Longrightarrow> dict ms [] = ms"
  using dict_fresh [of "[]"] by simp

lemma distinct_keys_map [simp]: "distinct (map fst (map (\<lambda>(k, v). (k, g v)) kvs)) = distinct (map fst kvs)"
  by (simp add: comp_def case_prod_unfold)

lemma distinct_keys_sort [simp]: "distinct (map fst (sort_key fst kvs)) = distinct (map fst kvs)"
  by (metis distinct_map distinct_sort set_sort)

text \<open>
  The values that survive: floats with a text that is read back, strings in UTF-8, distinct keys. What
  comes back is the same value with its maps listed in the order of their keys.
\<close>

fun any_ok :: "codec \<Rightarrow> goany \<Rightarrow> bool" where
  "any_ok cd (AnyNum f) =
     (case cd_FormatFloat cd f of Inl t \<Rightarrow> False | Inr t \<Rightarrow> number_text t \<and> cd_ParseFloat cd t = Some f)"
| "any_ok cd (AnyStr s) = valid_utf8 s"
| "any_ok cd (AnyArr xs) = (\<forall>x \<in> set xs. any_ok cd x)"
| "any_ok cd (AnyMap kvs) = (distinct (map fst kvs) \<and> (\<forall>(k, v) \<in> set kvs. valid_utf8 k \<and> any_ok cd v))"
| "any_ok cd v = True"

fun any_sorted :: "goany \<Rightarrow> goany" where
  "any_sorted (AnyArr xs) = AnyArr (map any_sorted xs)"
| "any_sorted (AnyMap kvs) = AnyMap (sort_key fst (map (\<lambda>(k, v). (k, any_sorted v)) kvs))"
| "any_sorted v = v"

text \<open>A value and its JSON value, which is not changed by writing and reading strings.\<close>

definition any_back :: "codec \<Rightarrow> goany \<Rightarrow> json \<Rightarrow> bool" where
  "any_back cd v j \<longleftrightarrow> json_numbers j \<and> json_utf8 j = j \<and> json_any cd j = Some (any_sorted v)"

lemma any_back_arr: "list_all2 (any_back cd) xs js \<Longrightarrow> any_back cd (AnyArr xs) (JArr js)"
  by (induction rule: list_all2_induct) (auto simp: any_back_def)

definition member_back :: "codec \<Rightarrow> string \<times> goany \<Rightarrow> string \<times> json \<Rightarrow> bool" where
  "member_back cd kv m \<longleftrightarrow> fst m = fst kv \<and> to_utf8 (fst kv) = fst kv \<and> any_back cd (snd kv) (snd m)"

lemma members_back:
  assumes "list_all2 (member_back cd) kvs ms"
  shows "map fst ms = map fst kvs" "\<forall>(k, j) \<in> set ms. json_numbers j"
    "map (\<lambda>(k, j). (to_utf8 k, json_utf8 j)) ms = ms"
    "those (map (\<lambda>(k, j). map_option (Pair k) (json_any cd j)) ms) = Some (map (\<lambda>(k, v). (k, any_sorted v)) kvs)"
  using assms by (induction rule: list_all2_induct) (auto simp: member_back_def any_back_def)

lemma any_json_map:
  assumes "distinct (map fst kvs)" "\<forall>(k, v) \<in> set kvs. valid_utf8 k \<and> (\<exists>j. any_json cd v = Inr j \<and> any_back cd v j)"
  shows "\<exists>ms. any_json cd (AnyMap kvs) = Inr (JObj ms) \<and> any_back cd (AnyMap kvs) (JObj ms) \<and>
    those (map (\<lambda>(k, j). map_option (Pair k) (json_any cd j)) ms) =
      Some (sort_key fst (map (\<lambda>(k, v). (k, any_sorted v)) kvs)) \<and>
    distinct (map fst ms)"
proof -
  let ?kvs = "sort_key fst kvs"
  let ?f = "\<lambda>(k, v). map_res (Pair k) (any_json cd v)"
  have sorted: "sort_key fst (map (\<lambda>(k, v). (k, g v)) kvs) = map (\<lambda>(k, v). (k, g v)) ?kvs" for g :: "goany \<Rightarrow> 'b"
    by (subst sort_key_map) (simp add: case_prod_unfold)
  have dist: "distinct (map fst ?kvs)"
    using assms(1) by simp
  have "\<forall>kv \<in> set ?kvs. \<exists>m. ?f kv = Inr m \<and> member_back cd kv m"
    using assms(2) by (fastforce simp: member_back_def to_utf8_valid)
  from collect_all [OF this] obtain ms where ms: "collect (map ?f ?kvs) = Inr ms" "list_all2 (member_back cd) ?kvs ms"
    by auto
  have "any_json cd (AnyMap kvs) = Inr (JObj ms)"
    using ms(1) by (simp only: any_json.simps sorted) (simp add: comp_def case_prod_unfold)
  moreover have "any_back cd (AnyMap kvs) (JObj ms)"
    using members_back [OF ms(2)] dist unfolding any_sorted.simps sorted any_back_def
    by (simp add: dict_distinct del: map_map)
  ultimately show ?thesis using members_back [OF ms(2)] dist by (auto simp: sorted)
qed

lemma any_json_back: "any_ok cd v \<Longrightarrow> \<exists>j. any_json cd v = Inr j \<and> any_back cd v j"
proof (induction v)
  case (AnyArr xs)
  then have "\<forall>x \<in> set xs. \<exists>j. any_json cd x = Inr j \<and> any_back cd x j" by auto
  from collect_all [OF this] any_back_arr show ?case by fastforce
next
  case (AnyMap kvs)
  then have "\<forall>(k, v) \<in> set kvs. valid_utf8 k \<and> (\<exists>j. any_json cd v = Inr j \<and> any_back cd v j)"
    by (fastforce intro: AnyMap.IH)
  with any_json_map [of kvs cd] AnyMap.prems show ?case by auto
qed (auto simp: any_back_def to_utf8_valid split: sum.splits)

section \<open>Reading back a job\<close>

text \<open>The maps of a job as they come back: an empty one is omitted and becomes nil.\<close>

definition data_ok :: "codec \<Rightarrow> InputData \<Rightarrow> bool" where
  "data_ok cd d = (case d of None \<Rightarrow> True | Some m \<Rightarrow> any_ok cd (AnyMap m))"

definition data_sorted :: "InputData \<Rightarrow> InputData" where
  "data_sorted d =
     (case d of
        None \<Rightarrow> None
      | Some m \<Rightarrow> if m = [] then None else Some (sort_key fst (map (\<lambda>(k, v). (k, any_sorted v)) m)))"

definition config_ok :: "codec \<Rightarrow> JobConfig \<Rightarrow> bool" where
  "config_ok cd c \<longleftrightarrow>
     valid_utf8 (cfg_Type c) \<and> valid_utf8 (cfg_Runner c) \<and> int64_range (cfg_MaxDurationSec c) \<and>
     data_ok cd (cfg_InputData c)"

definition job_ok :: "codec \<Rightarrow> Job \<Rightarrow> bool" where
  "job_ok cd jb \<longleftrightarrow>
     config_ok cd (job_Config jb) \<and> valid_utf8 (job_ID jb) \<and> int64_range (job_StartAt jb) \<and>
     int64_range (job_StopAt jb) \<and> data_ok cd (job_OutputData jb)"

definition config_sorted :: "JobConfig \<Rightarrow> JobConfig" where
  "config_sorted c = c\<lparr>cfg_InputData := data_sorted (cfg_InputData c)\<rparr>"

definition job_sorted :: "Job \<Rightarrow> Job" where
  "job_sorted jb =
     jb\<lparr>job_Config := config_sorted (job_Config jb), job_OutputData := data_sorted (job_OutputData jb)\<rparr>"

lemma sort_values: "sort_key fst (map (\<lambda>(k, v). (k, g v)) kvs) = map (\<lambda>(k, v). (k, g v)) (sort_key fst kvs)"
  by (subst sort_key_map) (simp add: case_prod_unfold)

lemma sort_key_idem: "sort_key f (sort_key f xs) = sort_key f xs"
  by (rule sort_key_id_if_sorted) simp

lemma any_sorted_map:
  assumes "\<forall>(k, v) \<in> set kvs. any_sorted (any_sorted v) = any_sorted v"
  shows "sort_key fst (map (\<lambda>(k, v). (k, any_sorted v)) (sort_key fst (map (\<lambda>(k, v). (k, any_sorted v)) kvs))) =
    sort_key fst (map (\<lambda>(k, v). (k, any_sorted v)) kvs)"
proof -
  have "map (\<lambda>(k, v). (k, any_sorted v)) (map (\<lambda>(k, v). (k, any_sorted v)) (sort_key fst kvs)) =
    map (\<lambda>(k, v). (k, any_sorted v)) (sort_key fst kvs)"
    using assms by auto
  then show ?thesis unfolding sort_values sort_key_idem .
qed

lemma any_sorted_sorted [simp]: "any_sorted (any_sorted v) = any_sorted v"
proof (induction v)
  case (AnyMap kvs)
  then have "\<forall>(k, v) \<in> set kvs. any_sorted (any_sorted v) = any_sorted v" by auto
  from any_sorted_map [OF this] show ?case by (simp del: map_map)
qed auto

lemma data_sorted_sorted [simp]: "data_sorted (data_sorted d) = data_sorted d"
proof (cases d)
  case (Some m)
  let ?m = "sort_key fst (map (\<lambda>(k, v). (k, any_sorted v)) m)"
  have "length ?m = length m" by simp
  then have "?m = [] \<longleftrightarrow> m = []" by (metis length_0_conv)
  moreover have "sort_key fst (map (\<lambda>(k, v). (k, any_sorted v)) ?m) = ?m" by (rule any_sorted_map) auto
  ultimately show ?thesis unfolding Some data_sorted_def by (simp del: map_map length_sort)
qed (simp add: data_sorted_def)

lemma config_sorted_sorted [simp]: "config_sorted (config_sorted c) = config_sorted c"
  by (simp add: config_sorted_def)

lemma job_sorted_sorted [simp]: "job_sorted (job_sorted jb) = job_sorted jb"
  by (simp add: job_sorted_def)
lemma any_ok_sorted: "any_ok cd v \<Longrightarrow> any_ok cd (any_sorted v)"
proof (induction v)
  case (AnyMap kvs)
  have "distinct (map fst (sort_key fst (map (\<lambda>(k, v). (k, any_sorted v)) kvs)))"
    using AnyMap.prems by (simp del: map_map)
  moreover have "valid_utf8 k \<and> any_ok cd (any_sorted v)" if "(k, v) \<in> set kvs" for k v
    using AnyMap.prems that AnyMap.IH [OF that, of v] by auto
  ultimately show ?case by auto
qed auto

lemma data_ok_sorted: "data_ok cd d \<Longrightarrow> data_ok cd (data_sorted d)"
  using any_ok_sorted [of cd "AnyMap m" for m]
  by (auto simp: data_ok_def data_sorted_def split: option.splits simp del: any_ok.simps)

lemma job_ok_sorted: "job_ok cd jb \<Longrightarrow> job_ok cd (job_sorted jb)"
  by (simp add: job_ok_def job_sorted_def config_ok_def config_sorted_def data_ok_sorted)

lemma job_sorted_simps [simp]: "job_ID (job_sorted jb) = job_ID jb" "job_StopAt (job_sorted jb) = job_StopAt jb"
  by (simp_all add: job_sorted_def)

lemma scan_digits: "\<forall>c \<in> set s. is_digit c \<Longrightarrow> s \<noteq> [] \<Longrightarrow> hd s \<noteq> CHR ''0'' \<or> tl s = [] \<Longrightarrow> scan_int s = Some (s, [])"
  by (cases s) (auto simp: scan_int_def)

lemma nat_dec_hd: "n \<noteq> 0 \<Longrightarrow> hd (nat_dec n) \<noteq> CHR ''0''"
proof (induction n rule: nat_dec.induct)
  case (1 n)
  show ?case
  proof (cases "n < 10")
    case True
    have "digit_char n \<noteq> CHR ''0''"
    proof
      assume "digit_char n = CHR ''0''"
      then have "(of_char (digit_char n) :: nat) = 48" by simp
      with True 1(2) show False by simp
    qed
    with True show ?thesis by (simp add: nat_dec.simps [of n])
  next
    case False
    with 1(1) show ?thesis by (simp add: nat_dec.simps [of n])
  qed
qed

lemma scan_nat_dec: "scan_int (nat_dec n) = Some (nat_dec n, [])"
proof (rule scan_digits)
  show "hd (nat_dec n) \<noteq> CHR ''0'' \<or> tl (nat_dec n) = []"
    by (cases "n = 0") (auto simp: nat_dec_hd nat_dec.simps [of 0])
qed (auto simp: nat_dec_digits)

lemma nat_dec_no_sign: "scan_sign (nat_dec n) = ([], nat_dec n)"
proof -
  have "is_digit (hd (nat_dec n))" by (rule nat_dec_digits [of _ n]) simp
  then show ?thesis by (auto simp: scan_sign_def is_digit_def)
qed

lemma number_int_dec: "number_text (int_dec i)"
  by (auto simp: number_text_def scan_number_def int_dec_def nat_dec_no_sign scan_nat_dec scan_frac_def scan_exp_def)
    (simp_all add: scan_sign_def scan_nat_dec scan_frac_def scan_exp_def)

lemma ParseInt64_int_dec: "int64_range i \<Longrightarrow> ParseInt64 (int_dec i) = Some i"
  by (auto simp: ParseInt64_def int_dec_def nat_dec_no_sign nat_dec_digits)
    (auto simp: scan_sign_def nat_dec_digits)

lemma members_append: "decode_members f (ms @ ns) x = Option.bind (decode_members f ms x) (decode_members f ns)"
  by (induction f ms x rule: decode_members.induct) (auto split: option.splits)

lemma omitempty_back:
  assumes "data_ok cd d"
  shows "\<exists>ms. omitempty cd name d = Inr ms \<and> json_numbers (JObj ms) \<and>
    (valid_utf8 name \<longrightarrow> json_utf8 (JObj ms) = JObj ms) \<and>
    (if data_sorted d = None then ms = [] else \<exists>v. ms = [(name, v)] \<and> set_any_map cd v None = Some (data_sorted d))"
proof (cases "\<exists>m. d = Some m \<and> m \<noteq> []")
  case True
  then obtain m where m: "d = Some m" "m \<noteq> []" by auto
  with assms have ok: "distinct (map fst m)" "\<forall>(k, v) \<in> set m. valid_utf8 k \<and> any_ok cd v"
    by (auto simp: data_ok_def)
  from ok(2) have "\<forall>(k, v) \<in> set m. valid_utf8 k \<and> (\<exists>j. any_json cd v = Inr j \<and> any_back cd v j)"
    using any_json_back by fastforce
  from any_json_map [OF ok(1) this] obtain ms where ms: "any_json cd (AnyMap m) = Inr (JObj ms)"
    "any_back cd (AnyMap m) (JObj ms)"
    "those (map (\<lambda>(k, j). map_option (Pair k) (json_any cd j)) ms) =
      Some (sort_key fst (map (\<lambda>(k, v). (k, any_sorted v)) m))" "distinct (map fst ms)"
    by auto
  from ok(1) have "distinct (map fst (sort_key fst (map (\<lambda>(k, v). (k, any_sorted v)) m)))"
    by (simp del: map_map)
  with m ms show ?thesis
    by (auto simp: omitempty_def data_sorted_def set_any_map_def any_back_def dict_distinct to_utf8_valid
        simp del: any_json.simps)
next
  case False
  then show ?thesis by (cases d) (auto simp: omitempty_def data_sorted_def)
qed

lemma valid_names [simp]:
  "valid_utf8 ''type''" "valid_utf8 ''max_duration_sec''" "valid_utf8 ''runner''" "valid_utf8 ''input_data''"
  "valid_utf8 ''id''" "valid_utf8 ''start_at''" "valid_utf8 ''stop_at''" "valid_utf8 ''output_data''"
  by code_simp+

lemma names_differ [simp]:
  "\<not> EqualFold ''max_duration_sec'' ''type''" "\<not> EqualFold ''runner'' ''type''"
  "\<not> EqualFold ''runner'' ''max_duration_sec''" "\<not> EqualFold ''input_data'' ''type''"
  "\<not> EqualFold ''input_data'' ''max_duration_sec''" "\<not> EqualFold ''input_data'' ''runner''"
  "\<not> EqualFold ''start_at'' ''id''" "\<not> EqualFold ''stop_at'' ''id''" "\<not> EqualFold ''stop_at'' ''start_at''"
  "\<not> EqualFold ''output_data'' ''id''" "\<not> EqualFold ''output_data'' ''start_at''"
  "\<not> EqualFold ''output_data'' ''stop_at''"
  by (simp_all add: EqualFold_def ToLower_def list_eq_iff_nth_eq)

lemma config_names_differ [simp]:
  "k \<in> {''type'', ''max_duration_sec'', ''runner'', ''input_data''} \<Longrightarrow>
     \<not> EqualFold k ''id'' \<and> \<not> EqualFold k ''start_at'' \<and> \<not> EqualFold k ''stop_at'' \<and> \<not> EqualFold k ''output_data''"
  by (auto simp: EqualFold_def ToLower_def lower_char_def is_upper_def)

lemma config_back:
  assumes "config_ok cd c"
  shows "\<exists>ms. config_members cd c = Inr ms \<and> json_numbers (JObj ms) \<and> json_utf8 (JObj ms) = JObj ms \<and>
    decode_members (config_field cd) ms empty_JobConfig = Some (config_sorted c) \<and>
    fst ` set ms \<subseteq> {''type'', ''max_duration_sec'', ''runner'', ''input_data''}"
proof -
  from assms have "data_ok cd (cfg_InputData c)" by (simp add: config_ok_def)
  from omitempty_back [OF this, of "''input_data''"] obtain ds where
    ds: "omitempty cd ''input_data'' (cfg_InputData c) = Inr ds" "json_numbers (JObj ds)" "json_utf8 (JObj ds) = JObj ds"
    and rest: "if data_sorted (cfg_InputData c) = None then ds = []
      else \<exists>v. ds = [(''input_data'', v)] \<and> set_any_map cd v None = Some (data_sorted (cfg_InputData c))"
    by auto
  let ?ms = "[(''type'', JStr (cfg_Type c)), (''max_duration_sec'', JNum (int_dec (cfg_MaxDurationSec c))),
        (''runner'', JStr (cfg_Runner c))] @ ds"
  have "config_members cd c = Inr ?ms" by (simp add: config_members_def ds)
  moreover have "json_numbers (JObj ?ms)" using ds by (simp add: number_int_dec)
  moreover have "json_utf8 (JObj ?ms) = JObj ?ms"
    using ds assms by (simp add: config_ok_def to_utf8_valid)
  moreover have "decode_members (config_field cd) ?ms empty_JobConfig = Some (config_sorted c)"
    using rest assms
    by (cases "data_sorted (cfg_InputData c)")
      (auto simp: config_field_def set_string_def set_int64_def ParseInt64_int_dec empty_JobConfig_def
        config_sorted_def config_ok_def simp del: members_append)
  moreover have "fst ` set ?ms \<subseteq> {''type'', ''max_duration_sec'', ''runner'', ''input_data''}"
    using rest by (auto split: if_splits)
  ultimately show ?thesis by blast
qed

lemma job_config_members:
  assumes "fst ` set ms \<subseteq> {''type'', ''max_duration_sec'', ''runner'', ''input_data''}"
  shows "decode_members (job_field cd) ms jb =
    map_option (\<lambda>c. jb\<lparr>job_Config := c\<rparr>) (decode_members (config_field cd) ms (job_Config jb))"
  using assms
proof (induction ms arbitrary: jb)
  case (Cons m ms)
  obtain k v where m: "m = (k, v)" by (cases m)
  with Cons.prems have "job_field cd k v jb = map_option (\<lambda>c. jb\<lparr>job_Config := c\<rparr>) (config_field cd k v (job_Config jb))"
    using config_names_differ [of k] by (simp add: job_field_def)
  with Cons m show ?case by (cases "config_field cd k v (job_Config jb)") auto
qed simp

lemma job_back:
  assumes "job_ok cd jb"
  shows "\<exists>ms. job_members cd jb = Inr ms \<and> json_numbers (JObj ms) \<and> json_utf8 (JObj ms) = JObj ms \<and>
    decode_members (job_field cd) ms empty_Job = Some (job_sorted jb)"
proof -
  from assms have ok: "config_ok cd (job_Config jb)" "data_ok cd (job_OutputData jb)" by (simp_all add: job_ok_def)
  from config_back [OF ok(1)] obtain cs where cs: "config_members cd (job_Config jb) = Inr cs"
    "json_numbers (JObj cs)" "json_utf8 (JObj cs) = JObj cs"
    "decode_members (config_field cd) cs empty_JobConfig = Some (config_sorted (job_Config jb))"
    "fst ` set cs \<subseteq> {''type'', ''max_duration_sec'', ''runner'', ''input_data''}" by auto
  from omitempty_back [OF ok(2), of "''output_data''"] obtain ds where
    ds: "omitempty cd ''output_data'' (job_OutputData jb) = Inr ds" "json_numbers (JObj ds)" "json_utf8 (JObj ds) = JObj ds"
    and rest: "if data_sorted (job_OutputData jb) = None then ds = []
      else \<exists>v. ds = [(''output_data'', v)] \<and> set_any_map cd v None = Some (data_sorted (job_OutputData jb))"
    by auto
  let ?own = "[(''id'', JStr (job_ID jb)), (''start_at'', JNum (int_dec (job_StartAt jb)))] @
            (if job_StopAt jb = 0 then [] else [(''stop_at'', JNum (int_dec (job_StopAt jb)))]) @ ds"
  have "job_members cd jb = Inr (cs @ ?own)" by (simp add: job_members_def cs ds)
  moreover have "json_numbers (JObj (cs @ ?own))" using cs ds by (auto simp: number_int_dec)
  moreover have "json_utf8 (JObj (cs @ ?own)) = JObj (cs @ ?own)"
    using cs ds assms by (simp add: job_ok_def to_utf8_valid)
  moreover have "decode_members (job_field cd) (cs @ ?own) empty_Job = Some (job_sorted jb)"
    using rest assms cs(4)
    by (cases "data_sorted (job_OutputData jb)")
      (auto simp: members_append job_config_members [OF cs(5)] job_field_def set_string_def set_int64_def
        ParseInt64_int_dec empty_Job_def job_sorted_def job_ok_def)
  ultimately show ?thesis by blast
qed

theorem Unmarshal_Marshal_Job:
  assumes "job_ok cd jb"
  shows "\<exists>js. Marshal_Job cd jb = Inr js \<and> Unmarshal_Job cd js = Inr (job_sorted jb) \<and>
    Decode_Job cd (js @ [CHR 0x0A]) = Inr (job_sorted jb)"
proof -
  from job_back [OF assms] obtain ms where ms: "job_members cd jb = Inr ms" "json_numbers (JObj ms)"
    "json_utf8 (JObj ms) = JObj ms" "decode_members (job_field cd) ms empty_Job = Some (job_sorted jb)" by auto
  then have "json_parse (json_text (JObj ms)) = Some (JObj ms)"
    "json_decode (json_text (JObj ms) @ [CHR 0x0A]) = Some (JObj ms)"
    using json_parse_text [OF ms(2)] by (simp_all del: json_text.simps)
  with ms show ?thesis
    by (simp add: Marshal_Job_def Unmarshal_Job_def Decode_Job_def decode_struct_def del: json_text.simps)
qed

lemma decode_limited_text:
  assumes "json_numbers j" "json_utf8 j = j" "follows r" "length (json_text j @ r) \<le> limit"
  shows "decode_limited limit (json_text j @ r) = Some j"
  using json_parse_text(2) [OF assms(1)] assms by (simp add: decode_limited_def)

theorem Decode_Encode_JobConfig:
  assumes "config_ok cd c"
  shows "\<exists>body. Encode_JobConfig cd c = Inr body \<and>
    (length body \<le> limit \<longrightarrow> Decode_JobConfig cd limit body = Inr (config_sorted c))"
proof -
  from config_back [OF assms] obtain ms where ms: "config_members cd c = Inr ms" "json_numbers (JObj ms)"
    "json_utf8 (JObj ms) = JObj ms" "decode_members (config_field cd) ms empty_JobConfig = Some (config_sorted c)" by auto
  then show ?thesis
    by (auto simp: Encode_JobConfig_def Marshal_JobConfig_def Decode_JobConfig_def decode_struct_def
        decode_limited_text simp del: json_text.simps)
qed

text \<open>Maps of strings: requests and responses.\<close>

lemma string_members_JStr: "string_members (map (\<lambda>(k, v). (k, JStr v)) m) = m"
  by (induction m) (auto simp: string_members_def)

theorem Decode_Encode_strings:
  assumes "distinct (map fst m)" "\<forall>(k, v) \<in> set m. valid_utf8 k \<and> valid_utf8 v"
  shows "\<exists>m'. Decode_strings cd (Encode_strings m) = (None, Some m') \<and> (\<forall>k. map_of m' k = map_of m k)"
proof -
  let ?m = "sort_key fst m"
  have sorted: "sort_key fst (map (\<lambda>(k, v). (k, JStr v)) m) = map (\<lambda>(k, v). (k, JStr v)) ?m"
    by (subst sort_key_map) (simp add: case_prod_unfold)
  let ?j = "JObj (map (\<lambda>(k, v). (k, JStr v)) ?m)"
  have "json_numbers ?j" by auto
  moreover have "json_utf8 ?j = ?j" using assms(2) by (auto simp: to_utf8_valid)
  ultimately have "json_decode (Encode_strings m) = Some ?j"
    using json_parse_text(2) [of ?j] unfolding Encode_strings_def sorted by auto
  then have "Decode_strings cd (Encode_strings m) = (None, Some ?m)"
    using assms(1)
    by (auto simp: Decode_strings_def set_string_map_def string_members_JStr dict_distinct set_string_def Let_def
        simp del: map_map)
  moreover have "map_of ?m k = map_of m k" for k
    using assms(1) by (intro map_of_inject_set [THEN iffD2, THEN fun_cong]) simp_all
  ultimately show ?thesis by blast
qed

end
