(* ===== verification/Http.thy ===== *)
theory Http
  imports Random_Crypto Json_Codec
begin

text \<open>
  What the handlers see of \<^verbatim>\<open>net/http\<close>: requests, the response writer with its rule that the first
  write sends the header, and the credentials of the \<^verbatim>\<open>Authorization\<close> header, which the client of
  \<^verbatim>\<open>public/client.go\<close> writes and \<^verbatim>\<open>service/auth.go\<close> reads.
\<close>

section \<open>Requests and responses\<close>

text \<open>
  A header maps canonical names to their values, \<^verbatim>\<open>Get\<close> reads the first one. \<open>rq_Path\<close> is \<^verbatim>\<open>URL.Path\<close>,
  \<open>rq_URL\<close> the text of the whole URL, \<open>rq_id\<close> the variable \<^verbatim>\<open>id\<close> of the route, empty if it has none.
\<close>

type_synonym header = "(string \<times> string list) list"

record request =
  rq_Method :: string
  rq_Path :: string
  rq_URL :: string
  rq_Host :: string
  rq_RemoteAddr :: string
  rq_Header :: header
  rq_Body :: string
  rq_id :: string

definition Header_Get :: "request \<Rightarrow> string \<Rightarrow> string" where
  "Header_Get r k = (case map_of (rq_Header r) k of Some (v # vs) \<Rightarrow> v | _ \<Rightarrow> [])"

text \<open>
  \<open>rw_ContentType\<close> is the header to be sent, \<open>rw_sent\<close> the status and content type that were sent. An
  empty content type is one the server works out from the body.
\<close>

record writer =
  rw_ContentType :: string
  rw_sent :: "(int \<times> string) option"
  rw_body :: string

definition new_writer :: writer where
  "new_writer = \<lparr>rw_ContentType = [], rw_sent = None, rw_body = []\<rparr>"

text \<open>
  A second \<^verbatim>\<open>WriteHeader\<close> does nothing; \<^verbatim>\<open>Write\<close> sends the status 200 if none was sent. \<open>Write\<close> is all
  that is written of a text: an empty text is no call of \<^verbatim>\<open>Write\<close>.
\<close>

definition WriteHeader :: "int \<Rightarrow> writer \<Rightarrow> writer" where
  "WriteHeader code w = (if rw_sent w = None then w\<lparr>rw_sent := Some (code, rw_ContentType w)\<rparr> else w)"

definition Write :: "string \<Rightarrow> writer \<Rightarrow> writer" where
  "Write text w =
     (if text = [] then w else (let w' = WriteHeader 200 w in w'\<lparr>rw_body := rw_body w' @ text\<rparr>))"

text \<open>The first value of a header is the one that counts.\<close>

definition Add_ContentType :: "string \<Rightarrow> writer \<Rightarrow> writer" where
  "Add_ContentType t w = (if rw_ContentType w = [] then w\<lparr>rw_ContentType := t\<rparr> else w)"

definition status :: "writer \<Rightarrow> int" where
  "status w = (case rw_sent w of None \<Rightarrow> 200 | Some (code, t) \<Rightarrow> code)"

definition NotFound :: "writer \<Rightarrow> writer" where
  "NotFound w =
     Write (''404 page not found'' @ [CHR 0x0A])
       (WriteHeader 404 (w\<lparr>rw_ContentType := ''text/plain; charset=utf-8''\<rparr>))"

lemmas writer_defs = new_writer_def WriteHeader_def Write_def Add_ContentType_def NotFound_def status_def

section \<open>Base64 with padding\<close>

definition b64s_alphabet :: string where
  "b64s_alphabet = ''ABCDEFGHIJKLMNOPQRSTUVWXYZabcdefghijklmnopqrstuvwxyz0123456789+/''"

definition b64s_char :: "nat \<Rightarrow> char" where
  "b64s_char n = b64s_alphabet ! n"

abbreviation pad :: char where "pad \<equiv> CHR ''=''"

fun b64s_enc :: "nat list \<Rightarrow> string" where
  "b64s_enc [] = []"
| "b64s_enc [a] = [b64s_char (a div 4), b64s_char (a mod 4 * 16), pad, pad]"
| "b64s_enc [a, b] =
     [b64s_char (a div 4), b64s_char (a mod 4 * 16 + b div 16), b64s_char (b mod 16 * 4), pad]"
| "b64s_enc (a # b # c # r) =
     b64s_char (a div 4) # b64s_char (a mod 4 * 16 + b div 16) #
     b64s_char (b mod 16 * 4 + c div 64) # b64s_char (c mod 64) # b64s_enc r"

definition StdEncode :: "string \<Rightarrow> string" where
  "StdEncode s = b64s_enc (map of_char s)"

definition b64s_val :: "char \<Rightarrow> nat option" where
  "b64s_val c = map_of (zip b64s_alphabet [0..<64]) c"

text \<open>
  The decoder: carriage returns and newlines are ignored, padding ends the text, the bits the padding
  leaves over are not checked.
\<close>

fun b64s_dec :: "string \<Rightarrow> nat list option" where
  "b64s_dec [] = Some []"
| "b64s_dec (a # b # c # d # r) =
     (case (b64s_val a, b64s_val b) of
        (Some s, Some t) \<Rightarrow>
          if c = pad then (if d = pad \<and> r = [] then Some [(s * 4 + t div 16) mod 256] else None)
          else (case b64s_val c of
            None \<Rightarrow> None
          | Some u \<Rightarrow>
              if d = pad then
                (if r = [] then Some [s * 4 + t div 16, t mod 16 * 16 + u div 4] else None)
              else (case b64s_val d of
                None \<Rightarrow> None
              | Some v \<Rightarrow> map_option
                  (\<lambda>bs. [s * 4 + t div 16, t mod 16 * 16 + u div 4, u mod 4 * 64 + v] @ bs) (b64s_dec r)))
      | _ \<Rightarrow> None)"
| "b64s_dec _ = None"

definition StdDecode :: "string \<Rightarrow> string option" where
  "StdDecode s =
     map_option (map char_of) (b64s_dec (filter (\<lambda>c. c \<noteq> CHR 0x0A \<and> c \<noteq> CHR 0x0D) s))"

section \<open>Credentials\<close>

definition basicPrefix :: string where "basicPrefix = ''Basic ''"
definition bearerPrefix :: string where "bearerPrefix = ''Bearer ''"

text \<open>\<^verbatim>\<open>Request.SetBasicAuth\<close> and \<^verbatim>\<open>Request.BasicAuth\<close>.\<close>

definition SetBasicAuth :: "string \<Rightarrow> string \<Rightarrow> string" where
  "SetBasicAuth user password = basicPrefix @ StdEncode (user @ '':'' @ password)"

definition BasicAuth :: "string \<Rightarrow> (string \<times> string) option" where
  "BasicAuth auth =
     (if length auth < length basicPrefix \<or> \<not> EqualFold (take (length basicPrefix) auth) basicPrefix then None
      else (case StdDecode (drop (length basicPrefix) auth) of
        None \<Rightarrow> None
      | Some cs \<Rightarrow>
          if CHR '':'' \<in> set cs
          then Some (takeWhile (\<lambda>c. c \<noteq> CHR '':'') cs, tl (dropWhile (\<lambda>c. c \<noteq> CHR '':'') cs))
          else None))"

definition parseBearerAuth :: "string \<Rightarrow> string option" where
  "parseBearerAuth auth =
     (if length auth < length bearerPrefix \<or> \<not> EqualFold (take (length bearerPrefix) auth) bearerPrefix then None
      else Some (drop (length bearerPrefix) auth))"

section \<open>What is read back\<close>

lemma length_b64s_alphabet [simp]: "length b64s_alphabet = 64"
  by (simp add: b64s_alphabet_def)

lemma distinct_b64s_alphabet: "distinct b64s_alphabet"
  by (simp add: b64s_alphabet_def)

lemma b64s_val_char [simp]: "n < 64 \<Longrightarrow> b64s_val (b64s_char n) = Some n"
  using map_of_zip_nth [of b64s_alphabet "[0..<64]" n] distinct_b64s_alphabet
  by (simp add: b64s_val_def b64s_char_def)

lemma b64s_alphabet_plain: "c \<in> set b64s_alphabet \<Longrightarrow> c \<noteq> pad \<and> c \<noteq> CHR 0x0A \<and> c \<noteq> CHR 0x0D"
  by (auto simp: b64s_alphabet_def)

lemma b64s_char_plain:
  assumes "n < 64"
  shows "b64s_char n \<noteq> pad" "b64s_char n \<noteq> CHR 0x0A" "b64s_char n \<noteq> CHR 0x0D"
proof -
  have "b64s_char n \<in> set b64s_alphabet" using assms by (simp add: b64s_char_def)
  then show "b64s_char n \<noteq> pad" "b64s_char n \<noteq> CHR 0x0A" "b64s_char n \<noteq> CHR 0x0D"
    using b64s_alphabet_plain by blast+
qed

lemma sextets:
  assumes "a < 256" "b < 256" "c < (256::nat)"
  shows "a div 4 < 64" "a mod 4 * 16 + b div 16 < 64" "b mod 16 * 4 + c div 64 < 64" "c mod 64 < 64"
    "a mod 4 * 16 < 64" "b mod 16 * 4 < 64"
  using assms by (simp_all add: less_mult_imp_div_less)

lemma octets:
  assumes "a < 256" "b < 256" "c < (256::nat)"
  shows "a div 4 * 4 + (a mod 4 * 16 + b div 16) div 16 = a"
    "(a mod 4 * 16 + b div 16) mod 16 * 16 + (b mod 16 * 4 + c div 64) div 4 = b"
    "(b mod 16 * 4 + c div 64) mod 4 * 64 + c mod 64 = c"
  using assms by (simp_all add: less_mult_imp_div_less div_mult2_eq [symmetric] mod_mult2_eq [symmetric])

lemma b64s_dec_enc: "byte_vals xs \<Longrightarrow> b64s_dec (b64s_enc xs) = Some xs"
proof (induction xs rule: b64s_enc.induct)
  case (2 a)
  then show ?case using sextets [of a 0 0] octets [of a 0 0] by (simp add: b64s_char_plain)
next
  case (3 a b)
  then show ?case using sextets [of a b 0] octets [of a b 0] by (simp add: b64s_char_plain)
next
  case (4 a b c r)
  moreover from this have "b div 16 < 16" "c div 64 < 4" by auto
  ultimately show ?case using sextets [of a b c] octets [of a b c] by (simp add: b64s_char_plain)
qed simp

lemma b64s_enc_plain: "byte_vals xs \<Longrightarrow> c \<in> set (b64s_enc xs) \<Longrightarrow> c \<noteq> CHR 0x0A \<and> c \<noteq> CHR 0x0D"
proof (induction xs rule: b64s_enc.induct)
  case (2 a)
  then show ?case using sextets [of a 0 0] by (auto simp: b64s_char_plain)
next
  case (3 a b)
  then show ?case using sextets [of a b 0] by (auto simp: b64s_char_plain)
next
  case (4 a b c r)
  then show ?case using sextets [of a b c] by (auto simp: b64s_char_plain)
qed simp

lemma StdDecode_StdEncode: "StdDecode (StdEncode s) = Some s"
proof -
  have bytes: "byte_vals (map of_char s)" by auto
  have "filter (\<lambda>c. c \<noteq> CHR 0x0A \<and> c \<noteq> CHR 0x0D) (b64s_enc (map of_char s)) = b64s_enc (map of_char s)"
    using b64s_enc_plain [OF bytes] by (simp add: filter_id_conv)
  with b64s_dec_enc [OF bytes] show ?thesis by (simp add: StdDecode_def StdEncode_def comp_def)
qed

lemma BasicAuth_SetBasicAuth:
  "BasicAuth (SetBasicAuth user password) =
     Some (takeWhile (\<lambda>c. c \<noteq> CHR '':'') (user @ '':'' @ password), tl (dropWhile (\<lambda>c. c \<noteq> CHR '':'') (user @ '':'' @ password)))"
  by (simp add: BasicAuth_def SetBasicAuth_def StdDecode_StdEncode)

lemma BasicAuth_user:
  assumes "CHR '':'' \<notin> set user"
  shows "BasicAuth (SetBasicAuth user password) = Some (user, password)"
proof -
  from assms have "takeWhile (\<lambda>c. c \<noteq> CHR '':'') (user @ s) = user @ takeWhile (\<lambda>c. c \<noteq> CHR '':'') s"
    "dropWhile (\<lambda>c. c \<noteq> CHR '':'') (user @ s) = dropWhile (\<lambda>c. c \<noteq> CHR '':'') s" for s
    by (induction user) auto
  then show ?thesis by (simp add: BasicAuth_SetBasicAuth)
qed

lemma SetBasicAuth_not_bearer: "\<not> HasPrefix (SetBasicAuth user password) bearerPrefix"
  by (simp add: SetBasicAuth_def basicPrefix_def bearerPrefix_def)

lemma parseBearerAuth_prefix: "HasPrefix auth bearerPrefix \<Longrightarrow> parseBearerAuth auth = Some (drop 7 auth)"
  by (auto simp: HasPrefix_iff parseBearerAuth_def bearerPrefix_def)

end
