(* ===== verification/Job_Store.thy ===== *)
theory Job_Store
  imports Json_Codec Kv_Store
begin

text \<open>
  Job records, \<^verbatim>\<open>service/job_store.go\<close>: a job is kept in the store as its JSON text under the prefix
  \<^verbatim>\<open>job_\<close> and its identifier, in the same key space as the clients of the authentication service.
\<close>

section \<open>Operations\<close>

definition jobKeyPrefix :: string where "jobKeyPrefix = ''job_''"

definition SaveJob :: "'d store_ops \<Rightarrow> codec \<Rightarrow> 'd \<Rightarrow> Job \<Rightarrow> goerr option \<times> 'd" where
  "SaveJob S cd d jb =
     (case Marshal_Job cd jb of
        Inl err \<Rightarrow> (Some (Wrapf ''failed to marshal: '' err), d)
      | Inr js \<Rightarrow> (case st_Set S d (jobKeyPrefix @ job_ID jb) js of
          (Some err, d') \<Rightarrow> (Some (Wrapf ''failed to save to store: '' err), d')
        | (None, d') \<Rightarrow> (None, d')))"

definition GetJob :: "'d store_ops \<Rightarrow> codec \<Rightarrow> 'd \<Rightarrow> string \<Rightarrow> Job res" where
  "GetJob S cd d jobID =
     (case st_Get S d (jobKeyPrefix @ jobID) of
        Inl err \<Rightarrow> Inl (Wrapf ''failed to get job: '' err)
      | Inr js \<Rightarrow> (case Unmarshal_Job cd js of
          Inl err \<Rightarrow> Inl (Wrapf ''failed to unmarshal: '' err)
        | Inr j \<Rightarrow> Inr j))"

definition store_DeleteJob :: "'d store_ops \<Rightarrow> 'd \<Rightarrow> string \<Rightarrow> goerr option \<times> 'd" where
  "store_DeleteJob S d jobID =
     (case st_Delete S d (jobKeyPrefix @ jobID) of
        (Some err, d') \<Rightarrow> (Some (Wrapf ''failed to delete job: '' err), d')
      | (None, d') \<Rightarrow> (None, d'))"

lemmas Job_Store_defs = SaveJob_def GetJob_def store_DeleteJob_def

lemma jobKeyPrefix_not_Nil [simp]: "jobKeyPrefix \<noteq> []"
  by (simp add: jobKeyPrefix_def)

lemma jobKey_inject [simp]: "jobKeyPrefix @ i = jobKeyPrefix @ j \<longleftrightarrow> i = j"
  by simp

section \<open>Over the contract of the store\<close>

text \<open>The job an entry holds.\<close>

definition stored :: "codec \<Rightarrow> (string \<Rightarrow> string option) \<Rightarrow> string \<Rightarrow> Job option" where
  "stored cd m jobID =
     (case m (jobKeyPrefix @ jobID) of
        None \<Rightarrow> None
      | Some js \<Rightarrow> (case Unmarshal_Job cd js of Inl e \<Rightarrow> None | Inr j \<Rightarrow> Some j))"

context kv_store
begin

lemma SaveJob_ok:
  assumes "SaveJob S cd d jb = (None, d')"
  shows "\<exists>js. Marshal_Job cd jb = Inr js \<and> ct d' = (ct d)(jobKeyPrefix @ job_ID jb \<mapsto> js)"
  using assms set_ok by (auto simp: SaveJob_def split: sum.splits prod.splits option.splits)

lemma SaveJob_frame:
  assumes "SaveJob S cd d jb = (r, d')" "k \<noteq> jobKeyPrefix @ job_ID jb"
  shows "ct d' k = ct d k"
  using assms set_frame by (fastforce simp: SaveJob_def split: sum.splits prod.splits option.splits)

lemma GetJob_stored:
  assumes "GetJob S cd d i = Inr jb"
  shows "stored cd (ct d) i = Some jb"
  using assms by (auto simp: GetJob_def stored_def split: sum.splits dest: get_value)

lemma GetJob_missing:
  assumes "ct d (jobKeyPrefix @ i) = None"
  shows "\<exists>e. GetJob S cd d i = Inl e \<and> errors_Is e ErrNotFound"
  using assms get_missing [of d "jobKeyPrefix @ i"] get_value [of d "jobKeyPrefix @ i"]
  by (cases "st_Get S d (jobKeyPrefix @ i)") (auto simp: GetJob_def)

lemma SaveJob_stored:
  assumes "job_ok cd jb" "SaveJob S cd d jb = (None, d')"
  shows "stored cd (ct d') (job_ID jb) = Some (job_sorted jb)"
  using SaveJob_ok [OF assms(2)] Unmarshal_Marshal_Job [OF assms(1)] by (auto simp: stored_def)

lemma GetJob_cases:
  assumes "stored cd (ct d) i = Some jb"
  shows "GetJob S cd d i = Inr jb \<or> (\<exists>e. st_Get S d (jobKeyPrefix @ i) = Inl e)"
  using assms get_value [of d "jobKeyPrefix @ i"]
  by (cases "st_Get S d (jobKeyPrefix @ i)") (auto simp: GetJob_def stored_def split: option.splits sum.splits)

lemma store_DeleteJob_ok:
  assumes "store_DeleteJob S d i = (None, d')"
  shows "ct d' = (ct d)(jobKeyPrefix @ i := None)"
  using assms delete_ok by (auto simp: store_DeleteJob_def split: prod.splits option.splits)

lemma store_DeleteJob_frame:
  assumes "store_DeleteJob S d i = (r, d')" "k \<noteq> jobKeyPrefix @ i"
  shows "ct d' k = ct d k"
  using assms delete_frame by (fastforce simp: store_DeleteJob_def split: prod.splits option.splits)

end

section \<open>Properties\<close>

text \<open>
  C17: a job that was saved is read back as it was, whatever is in the store besides: the reader gets
  the same job (maps listed by key, empty maps nil) or an error of the database, never another job;
  saving touches no other job and no client whose name lacks the prefix \<^verbatim>\<open>job_\<close>; after a deletion the
  job is not found.
\<close>

theorem SaveJob_GetJob:
  assumes "bitcask_db bc ct" "job_ok cd jb" "SaveJob (bitcaskStore bc) cd d jb = (None, d')"
  shows "(GetJob (bitcaskStore bc) cd d' (job_ID jb) = Inr (job_sorted jb) \<or>
      (\<exists>e. bitcaskStore_Get bc d' (''job_'' @ job_ID jb) = Inl e)) \<and>
    (\<forall>j. GetJob (bitcaskStore bc) cd d' (job_ID jb) = Inr j \<longrightarrow> j = job_sorted jb) \<and>
    (\<forall>k. k \<noteq> ''job_'' @ job_ID jb \<longrightarrow> ct d' k = ct d k) \<and>
    (\<forall>d''. store_DeleteJob (bitcaskStore bc) d' (job_ID jb) = (None, d'') \<longrightarrow>
      (\<exists>e. GetJob (bitcaskStore bc) cd d'' (job_ID jb) = Inl e \<and> errors_Is e ErrNotFound))"
proof -
  note K = bitcask_db.bitcaskStore_kv_store [OF assms(1)]
  note st = kv_store.SaveJob_stored [OF K assms(2,3)]
  have "GetJob (bitcaskStore bc) cd d' (job_ID jb) = Inr (job_sorted jb) \<or>
      (\<exists>e. bitcaskStore_Get bc d' (''job_'' @ job_ID jb) = Inl e)"
    using kv_store.GetJob_cases [OF K st] by (auto simp: bitcaskStore_def jobKeyPrefix_def)
  moreover have "\<forall>j. GetJob (bitcaskStore bc) cd d' (job_ID jb) = Inr j \<longrightarrow> j = job_sorted jb"
    using kv_store.GetJob_stored [OF K] st by fastforce
  moreover have "\<forall>k. k \<noteq> ''job_'' @ job_ID jb \<longrightarrow> ct d' k = ct d k"
    using kv_store.SaveJob_frame [OF K assms(3)] by (simp add: jobKeyPrefix_def)
  moreover have "\<forall>d''. store_DeleteJob (bitcaskStore bc) d' (job_ID jb) = (None, d'') \<longrightarrow>
      (\<exists>e. GetJob (bitcaskStore bc) cd d'' (job_ID jb) = Inl e \<and> errors_Is e ErrNotFound)"
    using kv_store.store_DeleteJob_ok [OF K] kv_store.GetJob_missing [OF K] by fastforce
  ultimately show ?thesis by blast
qed

text \<open>A job with input data in the database in memory. Floats are written as whole numbers.\<close>

definition whole_codec :: codec where
  "whole_codec =
     \<lparr>cd_FormatFloat = (\<lambda>f. Inr (nat_dec (unat f))), cd_ParseFloat = (\<lambda>t. Some (word_of_nat (dec_val t))),
      cd_error = (\<lambda>target text. ''cannot decode '' @ target)\<rparr>"

definition stored_Job :: "int \<Rightarrow> Job" where
  "stored_Job stop =
     \<lparr>job_Config = \<lparr>cfg_Type = ''recording'', cfg_MaxDurationSec = 60, cfg_Runner = ''mattermost/calls-recorder:v0.6.0'',
        cfg_InputData = Some [(''site_url'', AnyStr ''http://localhost:8065''), (''rate'', AnyNum 30)]\<rparr>,
      job_ID = ''c0ffee123456'', job_StartAt = 5, job_StopAt = stop, job_OutputData = None\<rparr>"

definition mem_ok :: "(string \<rightharpoonup> string) \<Rightarrow> memdb" where
  "mem_ok m = \<lparr>md_map = m, md_faults = []\<rparr>"

lemma stored_Job_ok: "int64_range stop \<Longrightarrow> job_ok whole_codec (stored_Job stop)"
proof -
  have "config_ok whole_codec (job_Config (stored_Job 0))" "valid_utf8 (job_ID (stored_Job 0))"
    by code_simp+
  then show "int64_range stop \<Longrightarrow> ?thesis"
    by (simp add: job_ok_def stored_Job_def data_ok_def) (simp add: int64_range_def)
qed

lemma mem_SaveJob:
  assumes "job_ok cd jb"
  shows "\<exists>js. Marshal_Job cd jb = Inr js \<and>
    SaveJob (bitcaskStore mem_bitcask) cd (mem_ok m) jb = (None, mem_ok (m(jobKeyPrefix @ job_ID jb \<mapsto> js)))"
  using Unmarshal_Marshal_Job [OF assms]
  by (auto simp: SaveJob_def bitcaskStore_defs mem_bitcask_def mem_ok_def jobKeyPrefix_def)

lemma mem_Get: "k \<noteq> [] \<Longrightarrow> m k = Some v \<Longrightarrow> bitcaskStore_Get mem_bitcask (mem_ok m) k = Inr v"
  by (simp add: bitcaskStore_defs mem_bitcask_def mem_ok_def)

lemma stored_Job_ID [simp]: "job_ID (stored_Job stop) = ''c0ffee123456''"
  by (simp add: stored_Job_def)

theorem SaveJob_GetJob_witness:
  "\<exists>d'. SaveJob (bitcaskStore mem_bitcask) whole_codec (mem_ok Map.empty) (stored_Job 0) = (None, d') \<and>
    GetJob (bitcaskStore mem_bitcask) whole_codec d' ''c0ffee123456'' = Inr (job_sorted (stored_Job 0))"
proof -
  have ok: "job_ok whole_codec (stored_Job 0)" by (rule stored_Job_ok) (simp add: int64_range_def)
  from mem_SaveJob [OF ok] obtain js where
    save: "SaveJob (bitcaskStore mem_bitcask) whole_codec (mem_ok Map.empty) (stored_Job 0) =
      (None, mem_ok [jobKeyPrefix @ ''c0ffee123456'' \<mapsto> js])" by (metis stored_Job_ID)
  have "bitcaskStore_Get mem_bitcask (mem_ok [jobKeyPrefix @ ''c0ffee123456'' \<mapsto> js]) (''job_'' @ job_ID (stored_Job 0)) = Inr js"
    by (rule mem_Get) (simp_all add: jobKeyPrefix_def)
  with SaveJob_GetJob [OF mem_bitcask_db ok save, THEN conjunct1] save show ?thesis
    by (metis stored_Job_ID sum.distinct(1))
qed

end
