(* ===== verification/Jobs_Service.thy ===== *)
theory Jobs_Service
  imports Docker_Sim Kubernetes_Sim
begin

text \<open>
  \<^verbatim>\<open>service/jobs_service.go\<close>: the interface \<^verbatim>\<open>JobService\<close>, as a record of operations with the contract
  \<open>job_provider\<close> that the handlers rely on, its two implementations, and the choice between them.
\<close>

section \<open>The interface\<close>

text \<open>
  \<open>js_CreateJob\<close> is the call up to its return; \<open>js_watch\<close> is the goroutine it leaves behind, up to its
  call of the callback (\<open>Some success\<close>) or its end without one. \<open>None\<close> as the result of \<open>js_Shutdown\<close>
  is a call that does not return.
\<close>

record 'w job_service =
  js_Init :: "ServiceConfig \<Rightarrow> 'w \<Rightarrow> (goerr option) outcome \<times> 'w"
  js_CreateJob :: "JobConfig \<Rightarrow> bool \<Rightarrow> ('w, Job) proc"
  js_watch :: "JobConfig \<Rightarrow> string \<Rightarrow> 'w \<Rightarrow> bool option \<times> 'w"
  js_DeleteJob :: "string \<Rightarrow> ('w, unit) proc"
  js_GetJobLogs :: "string \<Rightarrow> 'w \<Rightarrow> (goerr option \<times> string \<times> string) \<times> 'w"
  js_Shutdown :: "'w \<Rightarrow> (goerr option) option \<times> 'w"

text \<open>
  The service over Docker: \<open>order\<close> is the order in which the pulls of \<^verbatim>\<open>Init\<close> end, \<open>started\<close> says whether
  the retention job runs and \<open>pending\<close> is what it still receives before \<^verbatim>\<open>stopCh\<close> is closed.
\<close>

definition docker_jobs ::
  "('w, 'v) host \<Rightarrow> (string list \<Rightarrow> string list) \<Rightarrow> bool \<Rightarrow> 'w retention_event list \<Rightarrow> 'w DockerService \<Rightarrow> 'w job_service" where
  "docker_jobs h order started pending s =
     \<lparr>js_Init = (\<lambda>cfg. Docker_Init h s (order (Runners cfg))),
      js_CreateJob = Docker_CreateJob h s,
      js_watch = docker_watch s,
      js_DeleteJob = Docker_DeleteJob s,
      js_GetJobLogs = Docker_GetJobLogs h s,
      js_Shutdown = Docker_Shutdown h s started pending\<rparr>"

definition k8s_jobs :: "('w, 'v) host \<Rightarrow> 'w k8s_host \<Rightarrow> ('w, 'rr) K8sService \<Rightarrow> 'w job_service" where
  "k8s_jobs h kh s =
     \<lparr>js_Init = K8s_Init s,
      js_CreateJob = K8s_CreateJob h kh s,
      js_watch = K8s_watch s,
      js_DeleteJob = K8s_DeleteJob s,
      js_GetJobLogs = K8s_GetJobLogs s,
      js_Shutdown = (\<lambda>w. case K8s_Shutdown s w of (r, w') \<Rightarrow> (Some r, w'))\<rparr>"

section \<open>The choice\<close>

datatype ('w, 'rr) job_impl = DockerJobs "'w DockerService" bool | K8sJobs "('w, 'rr) K8sService"

definition NewJobService ::
  "environ \<Rightarrow> 'w docker_client \<Rightarrow> ('w, 'rr) k8s_client \<Rightarrow> 'rr JobsConfig \<Rightarrow> ('w, ('w, 'rr) job_impl) proc" where
  "NewJobService env dc kc cfg =
     (case JobsConfig_IsValid cfg of
        Some err \<Rightarrow> fail (Wrapf ''failed to validate config: '' err)
      | None \<Rightarrow>
          if jobs_APIType cfg = JobAPITypeDocker then
            andThen (Docker_NewJobService dc
              ((jobs_Docker cfg)\<lparr>dk_MaxConcurrentJobs := jobs_MaxConcurrentJobs cfg,
                dk_FailedJobsRetentionTime := jobs_FailedJobsRetentionTime cfg,
                dk_ImageRegistry := jobs_ImageRegistry cfg\<rparr>))
              (\<lambda>(s, started). ret (DockerJobs s started))
          else if jobs_APIType cfg = JobAPITypeKubernetes then
            andThen (K8s_NewJobService env kc
              ((jobs_Kubernetes cfg)\<lparr>ks_MaxConcurrentJobs := jobs_MaxConcurrentJobs cfg,
                ks_FailedJobsRetentionTime := jobs_FailedJobsRetentionTime cfg,
                ks_ImageRegistry := jobs_ImageRegistry cfg\<rparr>))
              (\<lambda>s. ret (K8sJobs s))
          else fail (Errorf (jobs_APIType cfg @ '' API is not implemeneted'')))"

section \<open>The contract of a job service\<close>

text \<open>
  What the handlers rely on: only valid configurations with a callback become jobs, a new job is
  running, has the type and the maximum duration of its configuration and an identifier; a refused
  configuration changes nothing.
\<close>

locale job_provider =
  fixes J :: "'w job_service"
    and lib :: "'v joblib"
    and registry :: string
  assumes create_valid: "js_CreateJob J cfg cb w = (Done (Inr jb), w') \<Longrightarrow>
      JobConfig_IsValid lib cfg registry = Done None \<and> cb"
    and create_running: "js_CreateJob J cfg cb w = (Done (Inr jb), w') \<Longrightarrow>
      job_StopAt jb = 0 \<and> job_OutputData jb = None \<and> job_ID jb \<noteq> [] \<and>
      cfg_Type (job_Config jb) = cfg_Type cfg \<and> cfg_MaxDurationSec (job_Config jb) = cfg_MaxDurationSec cfg"
    and create_refused: "JobConfig_IsValid lib cfg registry = Done (Some e) \<Longrightarrow>
      js_CreateJob J cfg cb w = (Done (Inl (Wrapf ''invalid job config: '' e)), w)"
begin

lemma create_needs_callback: "js_CreateJob J cfg False w \<noteq> (Done (Inr jb), w')"
  using create_valid [of cfg False w jb w'] by auto

lemma create_type:
  assumes "js_CreateJob J cfg cb w = (Done (Inr jb), w')"
  shows "cfg_Type (job_Config jb) \<in> {TypeRecording, TypeTranscribing} \<and> 0 < cfg_MaxDurationSec (job_Config jb)"
  using create_valid [OF assms] create_running [OF assms]
  by (auto simp: JobConfig_IsValid_def split: if_splits outcome.splits option.splits)

end

lemma Docker_CreateJob_refused:
  assumes "JobConfig_IsValid (h_job h) cfg (dk_ImageRegistry (ds_cfg s)) = Done (Some e)"
  shows "Docker_CreateJob h s cfg cb w = (Done (Inl (Wrapf ''invalid job config: '' e)), w)"
  using assms by (simp add: Docker_CreateJob_def Docker_admit_def andThen_def wrapping_def check_def)

lemma K8s_CreateJob_refused:
  assumes "JobConfig_IsValid (h_job h) cfg (ks_ImageRegistry (kss_cfg s)) = Done (Some e)"
  shows "K8s_CreateJob h kh s cfg cb w = (Done (Inl (Wrapf ''invalid job config: '' e)), w)"
  using assms by (simp add: K8s_CreateJob_def K8s_admit_def andThen_def wrapping_def check_def)

lemma Docker_job_provider:
  "job_provider (docker_jobs h order started pending s) (h_job h) (dk_ImageRegistry (ds_cfg s))"
proof (unfold_locales, simp_all add: docker_jobs_def Docker_CreateJob_refused)
  fix cfg cb w jb w'
  assume *: "Docker_CreateJob h s cfg cb w = (Done (Inr jb), w')"
  then show "JobConfig_IsValid (h_job h) cfg (dk_ImageRegistry (ds_cfg s)) = Done None \<and> cb"
    by (auto simp: Docker_CreateJob_def Docker_admit_def go_run split: if_splits)
  from * have "\<exists>w1. Docker_launch h s cfg w1 = (Done (Inr jb), w')"
    by (auto simp: Docker_CreateJob_def go_run)
  then show "job_StopAt jb = 0 \<and> job_OutputData jb = None \<and> job_ID jb \<noteq> [] \<and>
      cfg_Type (job_Config jb) = cfg_Type cfg \<and> cfg_MaxDurationSec (job_Config jb) = cfg_MaxDurationSec cfg"
    by (auto simp: Docker_launch_def go_run split: if_splits)
qed

lemma K8s_job_provider:
  "job_provider (k8s_jobs h kh s) (h_job h) (ks_ImageRegistry (kss_cfg s))"
proof (unfold_locales, simp_all add: k8s_jobs_def K8s_CreateJob_refused)
  fix cfg cb w jb w'
  assume *: "K8s_CreateJob h kh s cfg cb w = (Done (Inr jb), w')"
  then show "JobConfig_IsValid (h_job h) cfg (ks_ImageRegistry (kss_cfg s)) = Done None \<and> cb"
    by (auto simp: K8s_CreateJob_def K8s_admit_def go_run split: if_splits)
  from * have "\<exists>w1. K8s_launch h kh s cfg w1 = (Done (Inr jb), w')"
    by (auto simp: K8s_CreateJob_def go_run)
  then show "job_StopAt jb = 0 \<and> job_OutputData jb = None \<and> job_ID jb \<noteq> [] \<and>
      cfg_Type (job_Config jb) = cfg_Type cfg \<and> cfg_MaxDurationSec (job_Config jb) = cfg_MaxDurationSec cfg"
    by (auto simp: K8s_launch_def k8s_jobID_def go_run)
qed

interpretation dj: job_provider "docker_jobs h order started pending s" "h_job h" "dk_ImageRegistry (ds_cfg s)"
  for h order started pending s by (rule Docker_job_provider)

interpretation kj: job_provider "k8s_jobs h kh s" "h_job h" "ks_ImageRegistry (kss_cfg s)"
  for h kh s by (rule K8s_job_provider)

text \<open>The service a choice stands for, and the registry it checks runners against.\<close>

definition jobs_of ::
  "('w, 'v) host \<Rightarrow> 'w k8s_host \<Rightarrow> (string list \<Rightarrow> string list) \<Rightarrow> 'w retention_event list \<Rightarrow>
   ('w, 'rr) job_impl \<Rightarrow> 'w job_service" where
  "jobs_of h kh order pending impl =
     (case impl of
        DockerJobs s started \<Rightarrow> docker_jobs h order started pending s
      | K8sJobs s \<Rightarrow> k8s_jobs h kh s)"

definition impl_registry :: "('w, 'rr) job_impl \<Rightarrow> string" where
  "impl_registry impl =
     (case impl of DockerJobs s started \<Rightarrow> dk_ImageRegistry (ds_cfg s) | K8sJobs s \<Rightarrow> ks_ImageRegistry (kss_cfg s))"

lemma jobs_of_provider: "job_provider (jobs_of h kh order pending impl) (h_job h) (impl_registry impl)"
  by (cases impl) (simp_all add: jobs_of_def impl_registry_def Docker_job_provider K8s_job_provider)

section \<open>Properties\<close>

lemma JobsConfig_bounds:
  assumes "JobsConfig_IsValid cfg = None"
  shows "0 < jobs_MaxConcurrentJobs cfg" "retention_ok (jobs_FailedJobsRetentionTime cfg)"
  using assms by (auto simp: JobsConfig_IsValid_def retention_ok_def split: if_splits)

text \<open>
  The service that is created is the configured one, with the limit, the retention time and the
  registry of the configuration of jobs, so that its own configuration is valid and has a limit;
  the retention job of Docker runs exactly when a retention time is set. Every job it then creates has
  a configuration that is valid for that registry, whichever service it is. An invalid configuration
  is refused without a call to either service.
\<close>

theorem NewJobService_correct:
  assumes "NewJobService env dc kc cfg w = (Done (Inr impl), w')"
  shows "JobsConfig_IsValid cfg = None \<and> impl_registry impl = jobs_ImageRegistry cfg \<and>
    (case impl of
       DockerJobs s started \<Rightarrow> jobs_APIType cfg = ''docker'' \<and> DockerConfig_IsValid (ds_cfg s) = None \<and>
         0 < dk_MaxConcurrentJobs (ds_cfg s) \<and> dk_MaxConcurrentJobs (ds_cfg s) = jobs_MaxConcurrentJobs cfg \<and>
         (started \<longleftrightarrow> 0 < jobs_FailedJobsRetentionTime cfg) \<and>
         dk_FailedJobsRetentionTime (ds_cfg s) = jobs_FailedJobsRetentionTime cfg
     | K8sJobs s \<Rightarrow> jobs_APIType cfg = ''kubernetes'' \<and> K8sConfig_IsValid (kss_cfg s) = None \<and>
         0 < ks_MaxConcurrentJobs (kss_cfg s) \<and> ks_MaxConcurrentJobs (kss_cfg s) = jobs_MaxConcurrentJobs cfg \<and>
         ks_FailedJobsRetentionTime (kss_cfg s) = jobs_FailedJobsRetentionTime cfg \<and> kss_namespace s \<noteq> []) \<and>
    (\<forall>h kh order pending jc cb u jb u'.
      js_CreateJob (jobs_of h kh order pending impl) jc cb u = (Done (Inr jb), u') \<longrightarrow>
      JobConfig_IsValid (h_job h) jc (jobs_ImageRegistry cfg) = Done None)"
proof -
  have valid: "JobsConfig_IsValid cfg = None"
    using assms by (auto simp: NewJobService_def split: option.splits)
  note ok = JobsConfig_bounds [OF valid]
  have reg: "impl_registry impl = jobs_ImageRegistry cfg"
    using assms valid
    by (auto simp: NewJobService_def Docker_NewJobService_def K8s_NewJobService_def impl_registry_def go_run
        split: if_splits)
  have "js_CreateJob (jobs_of h kh order pending impl) jc cb u = (Done (Inr jb), u') \<Longrightarrow>
      JobConfig_IsValid (h_job h) jc (jobs_ImageRegistry cfg) = Done None" for h kh order pending jc cb u jb u'
    using job_provider.create_valid [OF jobs_of_provider] reg by metis
  moreover have "case impl of
       DockerJobs s started \<Rightarrow> jobs_APIType cfg = ''docker'' \<and> DockerConfig_IsValid (ds_cfg s) = None \<and>
         0 < dk_MaxConcurrentJobs (ds_cfg s) \<and> dk_MaxConcurrentJobs (ds_cfg s) = jobs_MaxConcurrentJobs cfg \<and>
         (started \<longleftrightarrow> 0 < jobs_FailedJobsRetentionTime cfg) \<and>
         dk_FailedJobsRetentionTime (ds_cfg s) = jobs_FailedJobsRetentionTime cfg
     | K8sJobs s \<Rightarrow> jobs_APIType cfg = ''kubernetes'' \<and> K8sConfig_IsValid (kss_cfg s) = None \<and>
         0 < ks_MaxConcurrentJobs (kss_cfg s) \<and> ks_MaxConcurrentJobs (kss_cfg s) = jobs_MaxConcurrentJobs cfg \<and>
         ks_FailedJobsRetentionTime (kss_cfg s) = jobs_FailedJobsRetentionTime cfg \<and> kss_namespace s \<noteq> []"
    using assms valid ok
    by (auto simp: NewJobService_def Docker_NewJobService_def K8s_NewJobService_def go_run k8sDefaultNamespace_def
        JobAPITypeDocker_def JobAPITypeKubernetes_def DockerConfig_IsValid_def K8sConfig_IsValid_def retention_ok_def
        split: if_splits)
  ultimately show ?thesis using valid reg by blast
qed

text \<open>The default configuration on the engine of the Docker properties.\<close>

definition sample_JobsConfig :: "unit JobsConfig" where
  "sample_JobsConfig = cf_Jobs (SetDefaults zero_Config)"

lemma sample_NewJobService:
  "\<exists>s w'. NewJobService test_env sim_client kc sample_JobsConfig sample_sim = (Done (Inr (DockerJobs s False)), w')"
proof -
  have "JobsConfig_IsValid sample_JobsConfig = None" "jobs_APIType sample_JobsConfig = JobAPITypeDocker"
    "\<not> 0 < jobs_FailedJobsRetentionTime sample_JobsConfig"
    by code_simp+
  then show ?thesis
    by (simp add: NewJobService_def Docker_NewJobService_def andThen_def wrapping_def call_def call_err_def sim_client_def ret_def)
qed

theorem NewJobService_correct_witness:
  "\<forall>kc. \<exists>s w'. NewJobService test_env sim_client kc sample_JobsConfig sample_sim = (Done (Inr (DockerJobs s False)), w') \<and>
    dk_MaxConcurrentJobs (ds_cfg s) = 2"
proof
  fix kc :: "(sim, unit) k8s_client"
  from sample_NewJobService obtain s w' where
    new: "NewJobService test_env sim_client kc sample_JobsConfig sample_sim = (Done (Inr (DockerJobs s False)), w')"
    by blast
  have "jobs_MaxConcurrentJobs sample_JobsConfig = 2" by code_simp
  with NewJobService_correct [OF new] new
  show "\<exists>s w'. NewJobService test_env sim_client kc sample_JobsConfig sample_sim = (Done (Inr (DockerJobs s False)), w') \<and>
    dk_MaxConcurrentJobs (ds_cfg s) = 2" by auto
qed

end
