(* ===== verification/Service_Auth.thy ===== *)
theory Service_Auth
  imports Http Auth_Service Job_Store Jobs_Service
begin

text \<open>
  The HTTP handlers of \<^verbatim>\<open>service/auth.go\<close> with the audit of \<^verbatim>\<open>service/audit.go\<close>: who is let in, and the
  registration, removal and login of clients. A handler takes a request and the state of the service
  to what was written and the new state; the header of the response is sent by its first write.
\<close>

section \<open>The service and its state\<close>

text \<open>
  What does not change while the service runs, \<^verbatim>\<open>Service\<close> in \<^verbatim>\<open>service/service.go\<close>: the configuration, the
  store, the job service and the libraries.
\<close>

record ('d, 'w, 'v, 'rr) server =
  sr_cfg :: "'rr Config"
  sr_store :: "'d store_ops"
  sr_jobs :: "'w job_service"
  sr_bcrypt :: bcrypt
  sr_codec :: codec
  sr_lib :: "'v joblib"

text \<open>The state: the database, the session cache, the world of the job service, the audit trail.\<close>

datatype field =
    FStr string string
  | FInt string int
  | FErr string
  | FHeader header

record ('d, 'w) svc =
  sv_db :: 'd
  sv_cache :: SessionCache
  sv_world :: 'w
  sv_audit :: "(string \<times> field list) list"

text \<open>What one request draws: a salt, random bytes, an order of the sessions, the time.\<close>

record chance =
  ch_salt :: nat
  ch_rand :: rand_read
  ch_order :: "string list"
  ch_now :: instant

abbreviation security :: "('d, 'w, 'v, 'rr) server \<Rightarrow> SecurityConfig" where
  "security sr \<equiv> api_Security (cf_API (sr_cfg sr))"

section \<open>Audit\<close>

record httpData =
  hd_err :: string
  hd_code :: int
  hd_clientID :: string
  hd_reqData :: "(string \<times> string) list option"
  hd_resData :: "(string \<times> string) list"

definition newHTTPData :: httpData where
  "newHTTPData = \<lparr>hd_err = [], hd_code = 0, hd_clientID = [], hd_reqData = Some [], hd_resData = []\<rparr>"

definition reqAuditFields :: "request \<Rightarrow> field list" where
  "reqAuditFields r =
     [FStr ''remoteAddr'' (rq_RemoteAddr r), FStr ''method'' (rq_Method r), FStr ''url'' (rq_URL r),
      FHeader (AList.delete ''Authorization'' (rq_Header r)), FStr ''host'' (rq_Host r)]"

definition audit_fields :: "httpData \<Rightarrow> request \<Rightarrow> field list" where
  "audit_fields data r =
     (let cID = get_string (hd_reqData data) ''clientID''
      in reqAuditFields r @ [FInt ''code'' (hd_code data)] @
         (if hd_err data = [] then [] else [FErr (hd_err data)]) @
         [FStr ''clientID'' (if cID \<noteq> [] then cID else hd_clientID data),
          FStr ''status'' (if hd_err data = [] then ''success'' else ''fail'')])"

definition audit_response :: "httpData \<Rightarrow> writer \<Rightarrow> writer" where
  "audit_response data w =
     (let resData = (if hd_err data = [] then hd_resData data
                     else AList.update ''error'' (hd_err data) (hd_resData data))
      in if resData = [] then w
         else Write (Encode_strings (AList.update ''code'' (int_dec (hd_code data)) resData))
                (WriteHeader (hd_code data) (Add_ContentType ''application/json'' w)))"

text \<open>
  \<^verbatim>\<open>httpAudit\<close>, with the writer the handler deferred it with, or none. The trail gets one entry, then
  the response is written if there is something to say.
\<close>

definition httpAudit ::
  "string \<Rightarrow> httpData \<Rightarrow> writer option \<Rightarrow> request \<Rightarrow> ('d, 'w) svc \<Rightarrow> writer option \<times> ('d, 'w) svc" where
  "httpAudit handler data w r st =
     (map_option (audit_response data) w, st\<lparr>sv_audit := sv_audit st @ [(handler, audit_fields data r)]\<rparr>)"

text \<open>A handler that returns, and one whose goroutine panics: the audit is deferred, so both run it.\<close>

definition finish ::
  "string \<Rightarrow> request \<Rightarrow> httpData \<Rightarrow> writer \<Rightarrow> ('d, 'w) svc \<Rightarrow> writer outcome \<times> ('d, 'w) svc" where
  "finish handler r data w st =
     (case httpAudit handler data (Some w) r st of
        (Some w', st') \<Rightarrow> (Done w', st')
      | (None, st') \<Rightarrow> (Done w, st'))"

definition panicking ::
  "string \<Rightarrow> request \<Rightarrow> httpData \<Rightarrow> string \<Rightarrow> ('d, 'w) svc \<Rightarrow> writer outcome \<times> ('d, 'w) svc" where
  "panicking handler r data p st = (Panic p, snd (httpAudit handler data None r st))"

abbreviation failed :: "httpData \<Rightarrow> string \<Rightarrow> int \<Rightarrow> httpData" where
  "failed data err code \<equiv> data\<lparr>hd_err := err, hd_code := code\<rparr>"

section \<open>Who is asking\<close>

text \<open>A client (the empty name is the administrator), a status code, and an error if nobody is let in.\<close>

type_synonym auth_result = "string \<times> int \<times> goerr option"

definition basicAuthHandler ::
  "('d, 'w, 'v, 'rr) server \<Rightarrow> chance \<Rightarrow> request \<Rightarrow> ('d, 'w) svc \<Rightarrow> auth_result \<times> ('d, 'w) svc" where
  "basicAuthHandler sr ch r st =
     (case BasicAuth (Header_Get r ''Authorization'') of
        None \<Rightarrow> (([], 401, Some (Errorf ''authentication failed: invalid auth header'')), st)
      | Some (clientID, authKey) \<Rightarrow>
          if sec_EnableAdmin (security sr) \<and> authKey = sec_AdminSecretKey (security sr)
          then (([], 200, None), st)
          else if clientID = []
          then (([], 401, Some (Errorf ''authentication failed: unauthorized'')), st)
          else
            (let (err, d) =
               (if sec_AllowSelfRegistration (security sr) \<and> rq_Path r \<noteq> ''/unregister''
                then Register (sr_store sr) (sr_bcrypt sr) (ch_salt ch) (sv_db st) clientID authKey
                else (None, sv_db st));
              st' = st\<lparr>sv_db := d\<rparr>
             in if err \<noteq> None \<and> err \<noteq> Some (Sentinel ErrAlreadyRegistered)
                then (([], 401, Some (Errorf ''unauthorized'')), st')
                else (case Authenticate (sr_store sr) (sr_bcrypt sr) (sv_db st') clientID authKey of
                    Some err \<Rightarrow> (([], 401, Some (Errorf ''authentication failed'')), st')
                  | None \<Rightarrow> ((clientID, 200, None), st'))))"

definition bearerAuthHandler ::
  "chance \<Rightarrow> request \<Rightarrow> ('d, 'w) svc \<Rightarrow> auth_result \<times> ('d, 'w) svc" where
  "bearerAuthHandler ch r st =
     (case parseBearerAuth (Header_Get r ''Authorization'') of
        None \<Rightarrow> (([], 401, Some (Errorf ''authentication failed: invalid auth header'')), st)
      | Some bearerToken \<Rightarrow> (case SessionCache_Get (sv_cache st) (ch_now ch) bearerToken of
          (Inl err, c) \<Rightarrow> (([], 401, Some (Wrapf ''authentication failed: '' err)), st\<lparr>sv_cache := c\<rparr>)
        | (Inr session, c) \<Rightarrow>
            if session_ClientID session = []
            then (([], 401, Some (Errorf ''authentication failed: unauthorized'')), st\<lparr>sv_cache := c\<rparr>)
            else ((session_ClientID session, 200, None), st\<lparr>sv_cache := c\<rparr>)))"

definition err_string :: "goerr option \<Rightarrow> string" where
  "err_string e = (case e of None \<Rightarrow> [] | Some err \<Rightarrow> err_text err)"

definition authHandler ::
  "('d, 'w, 'v, 'rr) server \<Rightarrow> chance \<Rightarrow> request \<Rightarrow> ('d, 'w) svc \<Rightarrow> auth_result \<times> ('d, 'w) svc" where
  "authHandler sr ch r st =
     (case (if HasPrefix (Header_Get r ''Authorization'') bearerPrefix
            then bearerAuthHandler ch r st else basicAuthHandler sr ch r st) of
        ((clientID, code, err), st') \<Rightarrow>
          ((clientID, code, err),
           snd (httpAudit ''authHandler''
             (newHTTPData\<lparr>hd_code := code, hd_err := err_string err, hd_reqData := Some [(''clientID'', clientID)]\<rparr>)
             None r st')))"

section \<open>Clients\<close>

text \<open>
  Each handler is its body, which fills in the data of the audit, and the deferred audit. \<open>register_as\<close>
  and \<open>unregister_as\<close> are what is left to do for a request that was let in.
\<close>

definition register_as ::
  "('d, 'w, 'v, 'rr) server \<Rightarrow> chance \<Rightarrow> request \<Rightarrow> ('d, 'w) svc \<Rightarrow> httpData \<times> ('d, 'w) svc" where
  "register_as sr ch r st =
     (case Decode_strings (sr_codec sr) (rq_Body r) of (err, reqData) \<Rightarrow>
       let data = newHTTPData\<lparr>hd_reqData := reqData\<rparr>;
           clientID = get_string reqData ''clientID''; authKey = get_string reqData ''authKey''
       in case err of
            Some err \<Rightarrow> (failed data (err_text err) 400, st)
          | None \<Rightarrow>
              (case Register (sr_store sr) (sr_bcrypt sr) (ch_salt ch) (sv_db st) clientID authKey of
                 (Some err, d) \<Rightarrow> (failed data (err_text err) 400, st\<lparr>sv_db := d\<rparr>)
               | (None, d) \<Rightarrow> (data\<lparr>hd_code := 201, hd_resData := [(''clientID'', clientID)]\<rparr>, st\<lparr>sv_db := d\<rparr>)))"

definition register_body ::
  "('d, 'w, 'v, 'rr) server \<Rightarrow> chance \<Rightarrow> request \<Rightarrow> ('d, 'w) svc \<Rightarrow> httpData \<times> ('d, 'w) svc" where
  "register_body sr ch r st =
     (if \<not> sec_AllowSelfRegistration (security sr) then
        (case authHandler sr ch r st of
           ((_, code, Some err), st1) \<Rightarrow> (failed newHTTPData (err_text err) code, st1)
         | ((_, code, None), st1) \<Rightarrow> register_as sr ch r st1)
      else register_as sr ch r st)"

definition registerClient ::
  "('d, 'w, 'v, 'rr) server \<Rightarrow> chance \<Rightarrow> request \<Rightarrow> writer \<Rightarrow> ('d, 'w) svc \<Rightarrow> writer outcome \<times> ('d, 'w) svc" where
  "registerClient sr ch r w st =
     (if rq_Method r \<noteq> ''POST'' then (Done (NotFound w), st)
      else (case register_body sr ch r st of (data, st') \<Rightarrow> finish ''registerClient'' r data w st'))"

definition unregister_as ::
  "('d, 'w, 'v, 'rr) server \<Rightarrow> chance \<Rightarrow> request \<Rightarrow> string \<Rightarrow> ('d, 'w) svc \<Rightarrow> httpData \<times> ('d, 'w) svc" where
  "unregister_as sr ch r authedClientID st =
     (case Decode_strings (sr_codec sr) (rq_Body r) of (err, reqData) \<Rightarrow>
       let data = newHTTPData\<lparr>hd_reqData := reqData\<rparr>; clientID = get_string reqData ''clientID''
       in case err of
            Some err \<Rightarrow> (failed data (err_text err) 400, st)
          | None \<Rightarrow>
              if clientID = [] then (failed data ''client id should not be empty'' 400, st)
              else if authedClientID \<noteq> [] \<and> authedClientID \<noteq> clientID
              then (failed data ''client id not valid'' 403, st)
              else (case Unregister (sr_store sr) (ch_order ch) (sv_db st) (sv_cache st) clientID of
                  (Some err, d, c) \<Rightarrow> (failed data (err_text err) 400, st\<lparr>sv_db := d, sv_cache := c\<rparr>)
                | (None, d, c) \<Rightarrow> (data\<lparr>hd_code := 200\<rparr>, st\<lparr>sv_db := d, sv_cache := c\<rparr>)))"

definition unregister_body ::
  "('d, 'w, 'v, 'rr) server \<Rightarrow> chance \<Rightarrow> request \<Rightarrow> ('d, 'w) svc \<Rightarrow> httpData \<times> ('d, 'w) svc" where
  "unregister_body sr ch r st =
     (if \<not> sec_EnableAdmin (security sr) \<and> \<not> sec_AllowSelfRegistration (security sr)
      then (failed newHTTPData ''unregister not enabled'' 403, st)
      else (case authHandler sr ch r st of
          ((_, code, Some err), st1) \<Rightarrow> (failed newHTTPData (err_text err) code, st1)
        | ((authedClientID, code, None), st1) \<Rightarrow> unregister_as sr ch r authedClientID st1))"

definition unregisterClient ::
  "('d, 'w, 'v, 'rr) server \<Rightarrow> chance \<Rightarrow> request \<Rightarrow> writer \<Rightarrow> ('d, 'w) svc \<Rightarrow> writer outcome \<times> ('d, 'w) svc" where
  "unregisterClient sr ch r w st =
     (if rq_Method r \<noteq> ''POST'' then (Done (NotFound w), st)
      else (case unregister_body sr ch r st of (data, st') \<Rightarrow> finish ''unregisterClient'' r data w st'))"

definition loginClient ::
  "('d, 'w, 'v, 'rr) server \<Rightarrow> chance \<Rightarrow> request \<Rightarrow> writer \<Rightarrow> ('d, 'w) svc \<Rightarrow> writer outcome \<times> ('d, 'w) svc" where
  "loginClient sr ch r w st =
     (if rq_Method r \<noteq> ''POST'' then (Done (NotFound w), st)
      else
        (case Decode_strings (sr_codec sr) (rq_Body r) of (err, reqData) \<Rightarrow>
          let data = newHTTPData\<lparr>hd_reqData := reqData\<rparr>; fin = finish ''loginClient'' r
          in case err of
               Some err \<Rightarrow> fin (failed data (err_text err) 400) w st
             | None \<Rightarrow>
                 (case Login (sr_store sr) (sr_bcrypt sr) (ch_rand ch) (ch_order ch) (sv_db st) (sv_cache st) (ch_now ch)
                     (get_string reqData ''clientID'') (get_string reqData ''authKey'') of
                    (Panic p, c) \<Rightarrow> panicking ''loginClient'' r data p (st\<lparr>sv_cache := c\<rparr>)
                  | (Done (Inl err), c) \<Rightarrow> fin (failed data (err_text err) 400) w (st\<lparr>sv_cache := c\<rparr>)
                  | (Done (Inr bearerToken), c) \<Rightarrow>
                      fin (data\<lparr>hd_code := 200, hd_resData := [(''bearerToken'', bearerToken)]\<rparr>) w
                        (st\<lparr>sv_cache := c\<rparr>))))"

section \<open>The audit changes nothing else\<close>

lemma httpAudit_state [simp]:
  "sv_db (snd (httpAudit n d w r st)) = sv_db st" "sv_cache (snd (httpAudit n d w r st)) = sv_cache st"
  "sv_world (snd (httpAudit n d w r st)) = sv_world st"
  "sv_audit (snd (httpAudit n d w r st)) = sv_audit st @ [(n, audit_fields d r)]"
  by (simp_all add: httpAudit_def)

lemma finish_eq:
  "finish n r d w st = (Done (audit_response d w), st\<lparr>sv_audit := sv_audit st @ [(n, audit_fields d r)]\<rparr>)"
  by (simp add: finish_def httpAudit_def)

lemma finish_state:
  "finish n r d w st = (x, st') \<Longrightarrow> sv_db st' = sv_db st \<and> sv_cache st' = sv_cache st \<and> sv_world st' = sv_world st"
  by (auto simp: finish_eq)

section \<open>What lets a request in\<close>

text \<open>
  The client a request has the credentials of, over a database and a cache: a session for a bearer
  token, otherwise a name and a key, where the key of the administrator wins over any name.
\<close>

definition credentials ::
  "('d, 'w, 'v, 'rr) server \<Rightarrow> instant \<Rightarrow> request \<Rightarrow> SessionCache \<Rightarrow> 'd \<Rightarrow> string \<Rightarrow> bool" where
  "credentials sr now r cache d cid \<longleftrightarrow>
     (let auth = Header_Get r ''Authorization''
      in if HasPrefix auth bearerPrefix then
           (\<exists>s. sessionMap cache (drop 7 auth) = Some s \<and> now \<le> session_ExpirationDate s \<and>
             session_ClientID s = cid \<and> cid \<noteq> [])
         else
           (case BasicAuth auth of
              None \<Rightarrow> False
            | Some (user, key) \<Rightarrow>
                if sec_EnableAdmin (security sr) \<and> key = sec_AdminSecretKey (security sr) then cid = []
                else cid = user \<and> cid \<noteq> [] \<and> Authenticate (sr_store sr) (sr_bcrypt sr) d user key = None))"

lemma bearerAuthHandler_result:
  assumes "HasPrefix (Header_Get r ''Authorization'') bearerPrefix" "bearerAuthHandler ch r st = ((cid, code, e), st')"
  shows "(e = None \<longrightarrow> code = 200 \<and> credentials sr (ch_now ch) r (sv_cache st) d cid) \<and>
    (e \<noteq> None \<longrightarrow> code = 401 \<and> cid = []) \<and>
    (\<forall>c. credentials sr (ch_now ch) r (sv_cache st) d c \<longrightarrow> e = None \<and> cid = c) \<and>
    sv_db st' = sv_db st \<and> sv_world st' = sv_world st \<and> sv_audit st' = sv_audit st"
  using assms
  by (auto simp: bearerAuthHandler_def credentials_def parseBearerAuth_prefix SessionCache_Get_def Get_read_def
      Let_def split: option.splits if_splits)

context auth_backend
begin

lemma registered_again:
  assumes "Authenticate S bcr d user key = None" "MinKeyLen \<le> int (length key)"
  shows "Register S bcr salt d user key = (Some (Sentinel ErrAlreadyRegistered), d)"
  using assms by (auto simp: Authenticate_None_iff Register_def Register_check_def)

lemma basicAuthHandler_result:
  assumes "sr_store sr = S" "sr_bcrypt sr = bcr" "\<not> HasPrefix (Header_Get r ''Authorization'') bearerPrefix"
    and "basicAuthHandler sr ch r st = ((cid, code, e), st')"
  shows "(e = None \<longrightarrow> code = 200 \<and> credentials sr (ch_now ch) r (sv_cache st) (sv_db st') cid)"
    "e \<noteq> None \<longrightarrow> code = 401 \<and> cid = []"
    "\<forall>user key c. BasicAuth (Header_Get r ''Authorization'') = Some (user, key) \<longrightarrow> c = [] \<or> MinKeyLen \<le> int (length key) \<longrightarrow>
      credentials sr (ch_now ch) r (sv_cache st) (sv_db st) c \<longrightarrow> e = None \<and> cid = c"
    "sv_world st' = sv_world st" "sv_cache st' = sv_cache st" "sv_audit st' = sv_audit st"
    "\<not> sec_AllowSelfRegistration (security sr) \<or> rq_Path r = ''/unregister'' \<longrightarrow> sv_db st' = sv_db st"
    "\<forall>k h. ct (sv_db st) k = Some h \<longrightarrow> ct (sv_db st') k = Some h"
proof -
  show "(e = None \<longrightarrow> code = 200 \<and> credentials sr (ch_now ch) r (sv_cache st) (sv_db st') cid)"
    using assms(3,4)
    by (auto simp: basicAuthHandler_def credentials_def Let_def split: option.splits if_splits prod.splits)
  show "e \<noteq> None \<longrightarrow> code = 401 \<and> cid = []"
    using assms(4) by (auto simp: basicAuthHandler_def Let_def split: option.splits if_splits prod.splits)
  show "\<forall>user key c. BasicAuth (Header_Get r ''Authorization'') = Some (user, key) \<longrightarrow> c = [] \<or> MinKeyLen \<le> int (length key) \<longrightarrow>
      credentials sr (ch_now ch) r (sv_cache st) (sv_db st) c \<longrightarrow> e = None \<and> cid = c"
    using assms registered_again [of "sv_db st"]
    by (auto simp: basicAuthHandler_def credentials_def Let_def split: if_splits)
  show "sv_world st' = sv_world st" "sv_cache st' = sv_cache st" "sv_audit st' = sv_audit st"
    using assms(4) by (auto simp: basicAuthHandler_def Let_def split: option.splits if_splits prod.splits)
  show "\<not> sec_AllowSelfRegistration (security sr) \<or> rq_Path r = ''/unregister'' \<longrightarrow> sv_db st' = sv_db st"
    using assms(4) by (auto simp: basicAuthHandler_def Let_def split: option.splits if_splits prod.splits)
  show "\<forall>k h. ct (sv_db st) k = Some h \<longrightarrow> ct (sv_db st') k = Some h"
    using assms(1,2,4) Register_keeps
    by (auto simp: basicAuthHandler_def Let_def split: option.splits if_splits prod.splits)
qed

end

lemma authHandler_parts:
  assumes "authHandler sr ch r st = ((cid, code, e), st')"
  shows "\<exists>st1 d. (if HasPrefix (Header_Get r ''Authorization'') bearerPrefix
      then bearerAuthHandler ch r st else basicAuthHandler sr ch r st) = ((cid, code, e), st1) \<and>
    st' = st1\<lparr>sv_audit := sv_audit st1 @ [(''authHandler'', audit_fields d r)]\<rparr>"
  using assms by (auto simp: authHandler_def httpAudit_def split: prod.splits)

context auth_backend
begin

lemma authHandler_result:
  assumes "sr_store sr = S" "sr_bcrypt sr = bcr" "authHandler sr ch r st = ((cid, code, e), st')"
  shows "(e = None \<longrightarrow> code = 200 \<and> credentials sr (ch_now ch) r (sv_cache st) (sv_db st') cid) \<and>
    (e \<noteq> None \<longrightarrow> code = 401 \<and> cid = []) \<and>
    (\<forall>c. credentials sr (ch_now ch) r (sv_cache st) (sv_db st) c \<longrightarrow>
      (\<forall>user key. BasicAuth (Header_Get r ''Authorization'') = Some (user, key) \<longrightarrow> c = [] \<or> MinKeyLen \<le> int (length key)) \<longrightarrow>
      e = None \<and> cid = c) \<and>
    sv_world st' = sv_world st \<and>
    (\<not> sec_AllowSelfRegistration (security sr) \<or> rq_Path r = ''/unregister'' \<longrightarrow> sv_db st' = sv_db st) \<and>
    (\<forall>k h. ct (sv_db st) k = Some h \<longrightarrow> ct (sv_db st') k = Some h)"
proof -
  from authHandler_parts [OF assms(3)] obtain st1 d where st1:
    "(if HasPrefix (Header_Get r ''Authorization'') bearerPrefix
      then bearerAuthHandler ch r st else basicAuthHandler sr ch r st) = ((cid, code, e), st1)"
    "st' = st1\<lparr>sv_audit := sv_audit st1 @ [(''authHandler'', audit_fields d r)]\<rparr>" by blast
  show ?thesis
  proof (cases "HasPrefix (Header_Get r ''Authorization'') bearerPrefix")
    case True
    with st1(1) have b: "bearerAuthHandler ch r st = ((cid, code, e), st1)" by simp
    from bearerAuthHandler_result [OF True b, of sr "sv_db st"] st1(2) show ?thesis by auto
  next
    case False
    with st1(1) have b: "basicAuthHandler sr ch r st = ((cid, code, e), st1)" by simp
    from False have some: "credentials sr (ch_now ch) r (sv_cache st) (sv_db st) c \<Longrightarrow>
        \<exists>user key. BasicAuth (Header_Get r ''Authorization'') = Some (user, key)" for c
      by (auto simp: credentials_def Let_def split: option.splits)
    note B = basicAuthHandler_result [OF assms(1,2) False b]
    have "\<forall>c. credentials sr (ch_now ch) r (sv_cache st) (sv_db st) c \<longrightarrow>
      (\<forall>user key. BasicAuth (Header_Get r ''Authorization'') = Some (user, key) \<longrightarrow> c = [] \<or> MinKeyLen \<le> int (length key)) \<longrightarrow>
      e = None \<and> cid = c"
    proof (intro allI impI)
      fix c
      assume c: "credentials sr (ch_now ch) r (sv_cache st) (sv_db st) c"
        "\<forall>user key. BasicAuth (Header_Get r ''Authorization'') = Some (user, key) \<longrightarrow> c = [] \<or> MinKeyLen \<le> int (length key)"
      from some [OF c(1)] obtain user key where uk: "BasicAuth (Header_Get r ''Authorization'') = Some (user, key)" by blast
      with c(2) have "c = [] \<or> MinKeyLen \<le> int (length key)" by blast
      from B(3) [rule_format, OF uk this c(1)] show "e = None \<and> cid = c" .
    qed
    with B(1,2,4,7,8) st1(2) show ?thesis by simp
  qed
qed

end

section \<open>Who changes the clients\<close>

lemma register_as_effect:
  assumes "register_as sr ch r st = (data, st')"
  shows "\<exists>k key res. sv_db st' = sv_db st \<or>
    Register (sr_store sr) (sr_bcrypt sr) (ch_salt ch) (sv_db st) k key = (res, sv_db st')"
proof (cases "Decode_strings (sr_codec sr) (rq_Body r)")
  case (Pair err reqData)
  with assms show ?thesis
    by (cases err) (auto simp: register_as_def Let_def split: prod.splits option.splits)
qed

lemma unregister_as_effect:
  assumes "unregister_as sr ch r cid st = (data, st')"
  shows "sv_db st' = sv_db st \<or> (\<exists>k res c. (cid = [] \<or> cid = k) \<and>
    Unregister (sr_store sr) (ch_order ch) (sv_db st) (sv_cache st) k = (res, sv_db st', c))"
proof (cases "Decode_strings (sr_codec sr) (rq_Body r)")
  case (Pair err reqData)
  let ?k = "get_string reqData ''clientID''"
  show ?thesis
  proof (cases "err = None \<and> ?k \<noteq> [] \<and> (cid = [] \<or> cid = ?k)")
    case True
    obtain res d c where u: "Unregister (sr_store sr) (ch_order ch) (sv_db st) (sv_cache st) ?k = (res, d, c)"
      by (cases "Unregister (sr_store sr) (ch_order ch) (sv_db st) (sv_cache st) ?k")
    with assms Pair True have "sv_db st' = d" by (cases res) (auto simp: unregister_as_def Let_def)
    with u True show ?thesis by blast
  next
    case False
    with assms Pair show ?thesis by (auto simp: unregister_as_def Let_def split: if_splits option.splits)
  qed
qed

lemma registerClient_effect:
  assumes "registerClient sr ch r w st = (x, st')" "authHandler sr ch r st = ((cid, code, e), st1)"
  shows "sv_db st' = sv_db st \<or>
    (rq_Method r = ''POST'' \<and>
     (if sec_AllowSelfRegistration (security sr) then sv_db st' = sv_db (snd (register_as sr ch r st))
      else if e = None then sv_db st' = sv_db (snd (register_as sr ch r st1))
      else sv_db st' = sv_db st1))"
proof (cases "rq_Method r = ''POST''")
  case True
  obtain data st2 where body: "register_body sr ch r st = (data, st2)" by (cases "register_body sr ch r st")
  with assms(1) True have "st2\<lparr>sv_audit := sv_audit st2 @ [(''registerClient'', audit_fields data r)]\<rparr> = st'" by (simp add: registerClient_def finish_eq)
  then have "sv_db st' = sv_db st2" by auto
  moreover have "st2 = snd (register_body sr ch r st)" using body by simp
  ultimately show ?thesis
    using True assms(2) by (cases e) (simp_all add: register_body_def)
qed (use assms in \<open>simp add: registerClient_def\<close>)

lemma unregisterClient_effect:
  assumes "unregisterClient sr ch r w st = (x, st')" "authHandler sr ch r st = ((cid, code, e), st1)"
  shows "sv_db st' = sv_db st \<or>
    (rq_Method r = ''POST'' \<and> (sec_EnableAdmin (security sr) \<or> sec_AllowSelfRegistration (security sr)) \<and>
     (if e = None then sv_db st' = sv_db (snd (unregister_as sr ch r cid st1)) else sv_db st' = sv_db st1))"
proof (cases "rq_Method r = ''POST''")
  case True
  obtain data st2 where body: "unregister_body sr ch r st = (data, st2)" by (cases "unregister_body sr ch r st")
  with assms(1) True have "st2\<lparr>sv_audit := sv_audit st2 @ [(''unregisterClient'', audit_fields data r)]\<rparr> = st'" by (simp add: unregisterClient_def finish_eq)
  then have "sv_db st' = sv_db st2" by auto
  moreover have "st2 = snd (unregister_body sr ch r st)" using body by simp
  ultimately show ?thesis
    using True assms(2) by (cases e) (simp_all add: unregister_body_def)
qed (use assms in \<open>simp add: unregisterClient_def\<close>)

text \<open>
  The two handlers over the contracts: what they change in the database they change for a request
  that was let in.
\<close>

context auth_backend
begin

lemma register_as_new:
  assumes "sr_store sr = S" "sr_bcrypt sr = bcr" "ct (sv_db (snd (register_as sr ch r st))) k \<noteq> ct (sv_db st) k"
  shows "ct (sv_db st) k = None"
proof (rule ccontr)
  assume "ct (sv_db st) k \<noteq> None"
  with register_as_effect [OF surjective_pairing, of sr ch r st] assms show False
    using Register_keeps by fastforce
qed

lemma registerClient_allowed:
  assumes "sr_store sr = S" "sr_bcrypt sr = bcr" "registerClient sr ch r w st = (x, st')"
    and "ct (sv_db st') k \<noteq> ct (sv_db st) k"
  shows "rq_Method r = ''POST'' \<and> ct (sv_db st) k = None \<and>
    (sec_AllowSelfRegistration (security sr) \<or> (\<exists>c. credentials sr (ch_now ch) r (sv_cache st) (sv_db st) c))"
proof -
  obtain cid code e st1 where auth: "authHandler sr ch r st = ((cid, code, e), st1)" by (metis prod_cases3 surj_pair)
  note A = authHandler_result [OF assms(1,2) auth]
  note E = registerClient_effect [OF assms(3) auth]
  from assms(4) E have post: "rq_Method r = ''POST''" by auto
  show ?thesis
  proof (cases "sec_AllowSelfRegistration (security sr)")
    case True
    with E assms(4) register_as_new [OF assms(1,2), of ch r st k] post show ?thesis by auto
  next
    case False
    with A have db: "sv_db st1 = sv_db st" by blast
    with E assms(4) False have e: "e = None" "sv_db st' = sv_db (snd (register_as sr ch r st1))"
      by (auto split: if_splits)
    with register_as_new [OF assms(1,2), of ch r st1 k] assms(4) db have "ct (sv_db st) k = None" by simp
    with A e(1) db post show ?thesis by auto
  qed
qed

lemma unregisterClient_allowed:
  assumes "sr_store sr = S" "sr_bcrypt sr = bcr" "rq_Path r = ''/unregister''"
    and "unregisterClient sr ch r w st = (x, st')" "ct (sv_db st') k \<noteq> ct (sv_db st) k"
  shows "rq_Method r = ''POST'' \<and> (sec_EnableAdmin (security sr) \<or> sec_AllowSelfRegistration (security sr)) \<and>
    ct (sv_db st') k = None \<and>
    (\<exists>c. credentials sr (ch_now ch) r (sv_cache st) (sv_db st) c \<and> (c = [] \<or> c = k))"
proof -
  obtain cid code e st1 where auth: "authHandler sr ch r st = ((cid, code, e), st1)" by (metis prod_cases3 surj_pair)
  note A = authHandler_result [OF assms(1,2) auth]
  note E = unregisterClient_effect [OF assms(4) auth]
  from A assms(3) have db: "sv_db st1 = sv_db st" by blast
  with E assms(5) have e: "e = None" and st2: "sv_db st' = sv_db (snd (unregister_as sr ch r cid st1))"
    and allowed: "rq_Method r = ''POST''" "sec_EnableAdmin (security sr) \<or> sec_AllowSelfRegistration (security sr)"
    by (auto split: if_splits)
  from unregister_as_effect [OF surjective_pairing, of sr ch r cid st1] assms(5) st2 db obtain j res c where
    j: "cid = [] \<or> cid = j" "Unregister S (ch_order ch) (sv_db st) (sv_cache st1) j = (res, sv_db st', c)"
    using assms(1) by auto
  from Unregister_frame [OF j(2), of k] assms(5) have k: "j = k" by blast
  have "ct (sv_db st') k = None"
  proof (rule ccontr)
    assume "ct (sv_db st') k \<noteq> None"
    with j(2) k assms(5) show False
      by (auto simp: Unregister_def dest!: delete_ok delete_err split: sum.splits prod.splits option.splits)
  qed
  moreover from A e db have "credentials sr (ch_now ch) r (sv_cache st) (sv_db st) cid" by auto
  ultimately show ?thesis using allowed j(1) k by blast
qed

end

section \<open>Properties\<close>

text \<open>
  C3: a request is let in exactly as somebody whose credentials it has: with the secret of an enabled
  administrator as the administrator (the empty name, which nothing else gives), with a live bearer
  token as the client of its session, with a registered name and key as that client. It is refused
  with the status 401 otherwise. Letting a request in never changes the entry of a registered client or
  the jobs, and writes to the database only to register the client of the request itself, which it
  does neither when self registration is off nor on the way to \<^verbatim>\<open>/unregister\<close>.
\<close>

theorem authHandler_correct:
  assumes "bitcask_db bc ct" "bcrypt_lib bcr" "sr_store sr = bitcaskStore bc" "sr_bcrypt sr = bcr"
    and "authHandler sr ch r st = ((cid, code, e), st')"
  shows "(e = None \<longrightarrow> code = 200 \<and> credentials sr (ch_now ch) r (sv_cache st) (sv_db st') cid) \<and>
    (e \<noteq> None \<longrightarrow> code = 401 \<and> cid = []) \<and>
    (\<forall>c. credentials sr (ch_now ch) r (sv_cache st) (sv_db st) c \<longrightarrow>
      (\<forall>user key. BasicAuth (Header_Get r ''Authorization'') = Some (user, key) \<longrightarrow> c = [] \<or> MinKeyLen \<le> int (length key)) \<longrightarrow>
      e = None \<and> cid = c) \<and>
    sv_world st' = sv_world st \<and>
    (\<not> sec_AllowSelfRegistration (security sr) \<or> rq_Path r = ''/unregister'' \<longrightarrow> sv_db st' = sv_db st) \<and>
    (\<forall>k h. ct (sv_db st) k = Some h \<longrightarrow> ct (sv_db st') k = Some h)"
  by (rule auth_backend.authHandler_result [OF auth_backendI [OF assms(1,2)] assms(3,4,5)])

text \<open>A service in memory with a client \<^verbatim>\<open>alice\<close>, and requests with basic authentication.\<close>

definition sample_security :: "bool \<Rightarrow> SecurityConfig" where
  "sample_security self =
     \<lparr>sec_EnableAdmin = True, sec_AdminSecretKey = ''secret'', sec_AllowSelfRegistration = self,
      sec_SessionCache = \<lparr>ExpirationMinutes = 1440\<rparr>\<rparr>"

definition sample_server :: "bool \<Rightarrow> (memdb, sim, version, unit) server" where
  "sample_server self =
     \<lparr>sr_cfg = (SetDefaults zero_Config)\<lparr>cf_API :=
        \<lparr>api_HTTP = \<lparr>http_ListenAddress = '':4545'', http_TLS = \<lparr>tls_Enable = False, tls_CertFile = [], tls_CertKey = []\<rparr>\<rparr>,
         api_Security = sample_security self\<rparr>\<rparr>,
      sr_store = bitcaskStore mem_bitcask, sr_jobs = docker_jobs test_host (\<lambda>rs. rs) False [] (sim_service 1),
      sr_bcrypt = mark_bcrypt, sr_codec = whole_codec, sr_lib = triple_lib test_env\<rparr>"

definition sample_svc :: "memdb \<Rightarrow> (memdb, sim) svc" where
  "sample_svc db = \<lparr>sv_db = db, sv_cache = sample_cache, sv_world = sample_sim, sv_audit = []\<rparr>"

definition sample_chance :: chance where
  "sample_chance = \<lparr>ch_salt = 0, ch_rand = zero_read, ch_order = [''t1''], ch_now = 8\<rparr>"

definition basic_request :: "string \<Rightarrow> string \<Rightarrow> string \<Rightarrow> string \<Rightarrow> string \<Rightarrow> string \<Rightarrow> request" where
  "basic_request method path user key body i =
     \<lparr>rq_Method = method, rq_Path = path, rq_URL = path, rq_Host = ''localhost'', rq_RemoteAddr = ''127.0.0.1'',
      rq_Header = [(''Authorization'', [SetBasicAuth user key])], rq_Body = body, rq_id = i\<rparr>"

lemma sample_server_simps [simp]:
  "sr_store (sample_server self) = bitcaskStore mem_bitcask" "sr_bcrypt (sample_server self) = mark_bcrypt"
  "sr_codec (sample_server self) = whole_codec" "security (sample_server self) = sample_security self"
  "sr_jobs (sample_server self) = docker_jobs test_host (\<lambda>rs. rs) False [] (sim_service 1)"
  "sr_lib (sample_server self) = triple_lib test_env"
  by (simp_all add: sample_server_def)

lemma sample_svc_simps [simp]:
  "sv_db (sample_svc db) = db" "sv_cache (sample_svc db) = sample_cache" "sv_world (sample_svc db) = sample_sim"
  "sv_audit (sample_svc db) = []" "ch_salt sample_chance = 0" "ch_order sample_chance = [''t1'']"
  "ch_now sample_chance = 8" "ch_rand sample_chance = zero_read"
  by (simp_all add: sample_svc_def sample_chance_def)

lemma basic_request_simps [simp]:
  "rq_Method (basic_request m p u k b i) = m" "rq_Path (basic_request m p u k b i) = p"
  "rq_Body (basic_request m p u k b i) = b" "rq_id (basic_request m p u k b i) = i"
  "Header_Get (basic_request m p u k b i) ''Authorization'' = SetBasicAuth u k"
  by (simp_all add: basic_request_def Header_Get_def)

lemma sample_key_not_secret: "sample_key \<noteq> ''secret''"
proof
  assume "sample_key = ''secret''"
  then have "length sample_key = length ''secret''" by (rule arg_cong)
  then show False by simp
qed

lemma alice_auth:
  assumes "p = ''/unregister'' \<or> \<not> self"
  shows "authHandler (sample_server self) sample_chance (basic_request m p ''alice'' sample_key b i) (sample_svc registered_memdb) =
    ((''alice'', 200, None), (sample_svc registered_memdb)\<lparr>sv_audit :=
      [(''authHandler'', audit_fields (newHTTPData\<lparr>hd_code := 200, hd_err := [], hd_reqData := Some [(''clientID'', ''alice'')]\<rparr>)
         (basic_request m p ''alice'' sample_key b i))]\<rparr>)"
  using assms sample_key_not_secret
  by (auto simp: authHandler_def SetBasicAuth_not_bearer basicAuthHandler_def BasicAuth_user sample_security_def
      sample_Authenticate sample_svc_def httpAudit_def err_string_def)

theorem authHandler_correct_witness:
  "\<exists>st'. authHandler (sample_server False) sample_chance (basic_request ''GET'' ''/jobs'' ''alice'' sample_key [] [])
      (sample_svc registered_memdb) = ((''alice'', 200, None), st') \<and>
    credentials (sample_server False) 8 (basic_request ''GET'' ''/jobs'' ''alice'' sample_key [] []) sample_cache
      (sv_db st') ''alice''"
proof -
  note auth = alice_auth [of "''/jobs''" False "''GET''" "[]" "[]", simplified]
  from authHandler_correct [OF mem_bitcask_db mark_bcrypt_lib _ _ auth] show ?thesis
    unfolding auth by simp
qed

text \<open>
  C6: whatever a call of \<^verbatim>\<open>/unregister\<close> changes in the database, it removes the entry of a client whose own
  credentials, or those of the administrator, came with the request; and nothing at all is changed
  unless an administrator or self registration is enabled.
\<close>

theorem unregisterClient_authorised:
  assumes "bitcask_db bc ct" "bcrypt_lib bcr" "sr_store sr = bitcaskStore bc" "sr_bcrypt sr = bcr"
    and "rq_Path r = ''/unregister''" "unregisterClient sr ch r w st = (x, st')"
    and "ct (sv_db st') k \<noteq> ct (sv_db st) k"
  shows "rq_Method r = ''POST'' \<and> (sec_EnableAdmin (security sr) \<or> sec_AllowSelfRegistration (security sr)) \<and>
    ct (sv_db st') k = None \<and>
    (\<exists>c. credentials sr (ch_now ch) r (sv_cache st) (sv_db st) c \<and> (c = [] \<or> c = k))"
  by (rule auth_backend.unregisterClient_allowed [OF auth_backendI [OF assms(1,2)] assms(3-)])

lemma sample_body:
  "\<exists>m'. Decode_strings cd (Encode_strings [(''authKey'', sample_key), (''clientID'', ''alice'')]) = (None, Some m') \<and>
    get_string (Some m') ''clientID'' = ''alice'' \<and> get_string (Some m') ''authKey'' = sample_key"
proof -
  have "valid_utf8 ''clientID''" "valid_utf8 ''authKey''" "valid_utf8 sample_key" "valid_utf8 ''alice''"
    unfolding sample_key_def by code_simp+
  then show ?thesis
    using Decode_Encode_strings [of "[(''authKey'', sample_key), (''clientID'', ''alice'')]" cd]
    by (fastforce simp: get_string_def)
qed

abbreviation alice_body :: string where
  "alice_body \<equiv> Encode_strings [(''authKey'', sample_key), (''clientID'', ''alice'')]"

lemma alice_unregisters:
  "\<exists>x st'. unregisterClient (sample_server False) sample_chance
      (basic_request ''POST'' ''/unregister'' ''alice'' sample_key alice_body []) new_writer
      (sample_svc registered_memdb) = (x, st') \<and> md_map (sv_db st') ''alice'' = None"
proof -
  from sample_body obtain m' where m': "Decode_strings whole_codec alice_body = (None, Some m')"
    "get_string (Some m') ''clientID'' = ''alice''" by blast
  show ?thesis
    by (simp add: unregisterClient_def unregister_body_def alice_auth sample_security_def unregister_as_def m' Let_def
        finish_eq sample_Unregister)
qed

theorem unregisterClient_authorised_witness:
  "\<exists>c. credentials (sample_server False) 8 (basic_request ''POST'' ''/unregister'' ''alice'' sample_key alice_body [])
     sample_cache registered_memdb c \<and> (c = [] \<or> c = ''alice'')"
proof -
  from alice_unregisters obtain x st' where un: "unregisterClient (sample_server False) sample_chance
      (basic_request ''POST'' ''/unregister'' ''alice'' sample_key alice_body []) new_writer
      (sample_svc registered_memdb) = (x, st')" "md_map (sv_db st') ''alice'' = None" by blast
  have "md_map (sv_db st') ''alice'' \<noteq> md_map (sv_db (sample_svc registered_memdb)) ''alice''"
    by (simp add: un(2) registered_memdb_def)
  from unregisterClient_authorised [OF mem_bitcask_db mark_bcrypt_lib _ _ _ un(1) this]
  show ?thesis by simp
qed

text \<open>
  C18: whatever a call of \<^verbatim>\<open>/register\<close> changes in the database, it adds an entry for a client that had
  none, and without self registration only for a request that has the credentials of somebody. The
  somebody can be any client: a registered client may register others.
\<close>

theorem registerClient_authorised:
  assumes "bitcask_db bc ct" "bcrypt_lib bcr" "sr_store sr = bitcaskStore bc" "sr_bcrypt sr = bcr"
    and "registerClient sr ch r w st = (x, st')" "ct (sv_db st') k \<noteq> ct (sv_db st) k"
  shows "rq_Method r = ''POST'' \<and> ct (sv_db st) k = None \<and>
    (sec_AllowSelfRegistration (security sr) \<or> (\<exists>c. credentials sr (ch_now ch) r (sv_cache st) (sv_db st) c))"
  by (rule auth_backend.registerClient_allowed [OF auth_backendI [OF assms(1,2)] assms(3-)])

lemma alice_registers:
  "\<exists>x st'. registerClient (sample_server True) sample_chance
      (basic_request ''POST'' ''/register'' ''alice'' sample_key alice_body []) new_writer
      (sample_svc empty_memdb) = (x, st') \<and> md_map (sv_db st') ''alice'' \<noteq> None"
proof -
  from sample_body obtain m' where m': "Decode_strings whole_codec alice_body = (None, Some m')"
    "get_string (Some m') ''clientID'' = ''alice''" "get_string (Some m') ''authKey'' = sample_key" by blast
  have "md_map registered_memdb ''alice'' \<noteq> None" by (simp add: registered_memdb_def)
  then show ?thesis
    by (simp add: registerClient_def register_body_def sample_security_def register_as_def m' Let_def
        finish_eq sample_Register)
qed

theorem registerClient_authorised_witness: "md_map (sv_db (sample_svc empty_memdb)) ''alice'' = None"
proof -
  from alice_registers obtain x st' where reg: "registerClient (sample_server True) sample_chance
      (basic_request ''POST'' ''/register'' ''alice'' sample_key alice_body []) new_writer
      (sample_svc empty_memdb) = (x, st')" "md_map (sv_db st') ''alice'' \<noteq> None" by blast
  then have "md_map (sv_db st') ''alice'' \<noteq> md_map (sv_db (sample_svc empty_memdb)) ''alice''"
    by (simp add: empty_memdb_def)
  from registerClient_authorised [OF mem_bitcask_db mark_bcrypt_lib _ _ reg(1) this] show ?thesis by simp
qed

end
