(* ===== verification/Jobs_Api.thy ===== *)
theory Jobs_Api
  imports Service_Auth
begin

text \<open>
  The handlers of \<^verbatim>\<open>service/jobs_api.go\<close> over the job service, the store and the authentication, the
  version handler of \<^verbatim>\<open>service/version.go\<close>, and the routes of \<^verbatim>\<open>service/service.go\<close>. Handlers run whole here;
  how the callback of a job interleaves with them is in \<open>Job_Lifecycle\<close>.
\<close>

definition apiRequestBodyMaxSizeBytes :: nat where
  "apiRequestBodyMaxSizeBytes = 1024 * 1024"

abbreviation registry :: "('d, 'w, 'v, 'rr) server \<Rightarrow> string" where
  "registry sr \<equiv> jobs_ImageRegistry (cf_Jobs (sr_cfg sr))"

section \<open>Creating jobs\<close>

text \<open>
  A valid configuration: the job is created, then saved, then written to the response. A value that
  cannot be encoded is only logged.
\<close>

definition save_created ::
  "('d, 'w, 'v, 'rr) server \<Rightarrow> request \<Rightarrow> httpData \<Rightarrow> Job \<Rightarrow> writer \<Rightarrow> ('d, 'w) svc \<Rightarrow> writer outcome \<times> ('d, 'w) svc" where
  "save_created sr r data jb w st =
     (case SaveJob (sr_store sr) (sr_codec sr) (sv_db st) jb of
        (Some err, d) \<Rightarrow>
          finish ''handleCreateJob'' r (failed data (''failed to save job: '' @ err_text err) 500) w (st\<lparr>sv_db := d\<rparr>)
      | (None, d) \<Rightarrow>
          finish ''handleCreateJob'' r (data\<lparr>hd_code := 200\<rparr>)
            (case Encode_Job (sr_codec sr) jb of Inl err \<Rightarrow> w | Inr text \<Rightarrow> Write text w) (st\<lparr>sv_db := d\<rparr>))"

definition create_valid ::
  "('d, 'w, 'v, 'rr) server \<Rightarrow> request \<Rightarrow> httpData \<Rightarrow> JobConfig \<Rightarrow> writer \<Rightarrow> ('d, 'w) svc \<Rightarrow> writer outcome \<times> ('d, 'w) svc" where
  "create_valid sr r data cfg w st =
     (case js_CreateJob (sr_jobs sr) cfg True (sv_world st) of
        (Panic p, u) \<Rightarrow> panicking ''handleCreateJob'' r data p (st\<lparr>sv_world := u\<rparr>)
      | (Done (Inl err), u) \<Rightarrow>
          finish ''handleCreateJob'' r (failed data (''failed to create recording job: '' @ err_text err) 500) w
            (st\<lparr>sv_world := u\<rparr>)
      | (Done (Inr jb), u) \<Rightarrow> save_created sr r data jb w (st\<lparr>sv_world := u\<rparr>))"

definition create_decoded ::
  "('d, 'w, 'v, 'rr) server \<Rightarrow> request \<Rightarrow> httpData \<Rightarrow> writer \<Rightarrow> ('d, 'w) svc \<Rightarrow> writer outcome \<times> ('d, 'w) svc" where
  "create_decoded sr r data w st =
     (case Decode_JobConfig (sr_codec sr) apiRequestBodyMaxSizeBytes (rq_Body r) of
        Inl err \<Rightarrow>
          finish ''handleCreateJob'' r (failed data (''failed to decode request body: '' @ err_text err) 400) w st
      | Inr cfg \<Rightarrow> (case JobConfig_IsValid (sr_lib sr) cfg (registry sr) of
          Panic p \<Rightarrow> panicking ''handleCreateJob'' r data p st
        | Done (Some err) \<Rightarrow> finish ''handleCreateJob'' r (failed data (err_text err) 400) w st
        | Done None \<Rightarrow> create_valid sr r data cfg w st))"

text \<open>The beginning all handlers of jobs share: what to do for the client that was let in.\<close>

definition with_auth ::
  "('d, 'w, 'v, 'rr) server \<Rightarrow> chance \<Rightarrow> string \<Rightarrow> request \<Rightarrow> writer \<Rightarrow>
   (httpData \<Rightarrow> ('d, 'w) svc \<Rightarrow> writer outcome \<times> ('d, 'w) svc) \<Rightarrow> ('d, 'w) svc \<Rightarrow> writer outcome \<times> ('d, 'w) svc" where
  "with_auth sr ch name r w rest st =
     (case authHandler sr ch r st of
        ((clientID, code, Some err), st1) \<Rightarrow> finish name r (failed newHTTPData (err_text err) code) w st1
      | ((clientID, code, None), st1) \<Rightarrow> rest (newHTTPData\<lparr>hd_clientID := clientID\<rparr>) st1)"

definition handleCreateJob ::
  "('d, 'w, 'v, 'rr) server \<Rightarrow> chance \<Rightarrow> request \<Rightarrow> writer \<Rightarrow> ('d, 'w) svc \<Rightarrow> writer outcome \<times> ('d, 'w) svc" where
  "handleCreateJob sr ch r w st =
     with_auth sr ch ''handleCreateJob'' r w (\<lambda>data. create_decoded sr r data w) st"

text \<open>
  The callback the handler passes to \<^verbatim>\<open>CreateJob\<close>: \<open>now\<close> is the time of the call. The identifier of the
  job that was read is used from then on.
\<close>

definition onStop_remove ::
  "('d, 'w, 'v, 'rr) server \<Rightarrow> string \<Rightarrow> ('d, 'w) svc \<Rightarrow> (goerr option) outcome \<times> ('d, 'w) svc" where
  "onStop_remove sr jobID st =
     (case js_DeleteJob (sr_jobs sr) jobID (sv_world st) of
        (Panic p, u) \<Rightarrow> (Panic p, st\<lparr>sv_world := u\<rparr>)
      | (Done (Inl err), u) \<Rightarrow>
          (Done (Some (Wrapf ''failed to delete recording job: '' err)), st\<lparr>sv_world := u\<rparr>)
      | (Done (Inr x), u) \<Rightarrow> (case store_DeleteJob (sr_store sr) (sv_db st) jobID of
          (e, d) \<Rightarrow> (Done e, st\<lparr>sv_world := u, sv_db := d\<rparr>)))"

definition onStop ::
  "('d, 'w, 'v, 'rr) server \<Rightarrow> instant \<Rightarrow> string \<Rightarrow> bool \<Rightarrow> ('d, 'w) svc \<Rightarrow> (goerr option) outcome \<times> ('d, 'w) svc" where
  "onStop sr now jobID success st =
     (case GetJob (sr_store sr) (sr_codec sr) (sv_db st) jobID of
        Inl err \<Rightarrow> (Done (Some err), st)
      | Inr jb \<Rightarrow>
          (case (if job_StopAt jb = 0
                 then SaveJob (sr_store sr) (sr_codec sr) (sv_db st) (jb\<lparr>job_StopAt := now div 1000000\<rparr>)
                 else (None, sv_db st)) of
             (Some err, d) \<Rightarrow> (Done (Some err), st\<lparr>sv_db := d\<rparr>)
           | (None, d) \<Rightarrow>
               if success then onStop_remove sr (job_ID jb) (st\<lparr>sv_db := d\<rparr>)
               else (Done None, st\<lparr>sv_db := d\<rparr>)))"

section \<open>Jobs by identifier\<close>

definition handleGetJob ::
  "('d, 'w, 'v, 'rr) server \<Rightarrow> chance \<Rightarrow> request \<Rightarrow> writer \<Rightarrow> ('d, 'w) svc \<Rightarrow> writer outcome \<times> ('d, 'w) svc" where
  "handleGetJob sr ch r w st =
     with_auth sr ch ''handleGetJob'' r w (\<lambda>data st1.
       if rq_id r = [] then finish ''handleGetJob'' r (failed data ''missing job ID'' 400) w st1
       else (case GetJob (sr_store sr) (sr_codec sr) (sv_db st1) (rq_id r) of
           Inl err \<Rightarrow> finish ''handleGetJob'' r (failed data (''failed to get job '' @ err_text err) 404) w st1
         | Inr jb \<Rightarrow>
             finish ''handleGetJob'' r (data\<lparr>hd_code := 200\<rparr>)
               (case Encode_Job (sr_codec sr) jb of Inl err \<Rightarrow> w | Inr text \<Rightarrow> Write text w) st1)) st"

text \<open>The standard output of the job is discarded, its error output is the response.\<close>

definition handleJobGetLogs ::
  "('d, 'w, 'v, 'rr) server \<Rightarrow> chance \<Rightarrow> request \<Rightarrow> writer \<Rightarrow> ('d, 'w) svc \<Rightarrow> writer outcome \<times> ('d, 'w) svc" where
  "handleJobGetLogs sr ch r w st =
     with_auth sr ch ''handleJobGetLogs'' r w (\<lambda>data st1.
       if rq_id r = [] then finish ''handleJobGetLogs'' r (failed data ''missing job ID'' 400) w st1
       else (case js_GetJobLogs (sr_jobs sr) (rq_id r) (sv_world st1) of
           ((Some err, out, text), u) \<Rightarrow>
             finish ''handleJobGetLogs'' r (failed data (''failed to get recording job logs: '' @ err_text err) 403)
               (Write text w) (st1\<lparr>sv_world := u\<rparr>)
         | ((None, out, text), u) \<Rightarrow>
             finish ''handleJobGetLogs'' r (data\<lparr>hd_code := 200\<rparr>) (Write text w) (st1\<lparr>sv_world := u\<rparr>))) st"

definition delete_stopped ::
  "('d, 'w, 'v, 'rr) server \<Rightarrow> request \<Rightarrow> httpData \<Rightarrow> writer \<Rightarrow> ('d, 'w) svc \<Rightarrow> writer outcome \<times> ('d, 'w) svc" where
  "delete_stopped sr r data w st =
     (case GetJob (sr_store sr) (sr_codec sr) (sv_db st) (rq_id r) of
        Inl err \<Rightarrow> finish ''handleDeleteJob'' r (failed data (''failed to get job '' @ err_text err) 404) w st
      | Inr jb \<Rightarrow>
          if job_StopAt jb = 0 then finish ''handleDeleteJob'' r (failed data ''job is running'' 400) w st
          else (case js_DeleteJob (sr_jobs sr) (rq_id r) (sv_world st) of
              (Panic p, u) \<Rightarrow> panicking ''handleDeleteJob'' r data p (st\<lparr>sv_world := u\<rparr>)
            | (Done (Inl err), u) \<Rightarrow>
                finish ''handleDeleteJob'' r (failed data (''failed to delete recording job: '' @ err_text err) 500) w
                  (st\<lparr>sv_world := u\<rparr>)
            | (Done (Inr x), u) \<Rightarrow>
                finish ''handleDeleteJob'' r (data\<lparr>hd_code := 200\<rparr>) w (st\<lparr>sv_world := u\<rparr>)))"

definition handleDeleteJob ::
  "('d, 'w, 'v, 'rr) server \<Rightarrow> chance \<Rightarrow> request \<Rightarrow> writer \<Rightarrow> ('d, 'w) svc \<Rightarrow> writer outcome \<times> ('d, 'w) svc" where
  "handleDeleteJob sr ch r w st =
     with_auth sr ch ''handleDeleteJob'' r w (\<lambda>data st1.
       if rq_id r = [] then finish ''handleDeleteJob'' r (failed data ''missing job ID'' 400) w st1
       else delete_stopped sr r data w st1) st"

section \<open>Preparing runners\<close>

definition init_decoded ::
  "('d, 'w, 'v, 'rr) server \<Rightarrow> request \<Rightarrow> httpData \<Rightarrow> writer \<Rightarrow> ('d, 'w) svc \<Rightarrow> writer outcome \<times> ('d, 'w) svc" where
  "init_decoded sr r data w st =
     (case Decode_ServiceConfig (sr_codec sr) apiRequestBodyMaxSizeBytes (rq_Body r) of
        Inl err \<Rightarrow> finish ''handleInit'' r (failed data (''failed to decode request body: '' @ err_text err) 400) w st
      | Inr cfg \<Rightarrow> (case ServiceConfig_IsValid (sr_lib sr) cfg (registry sr) of
          Panic p \<Rightarrow> panicking ''handleInit'' r data p st
        | Done (Some err) \<Rightarrow>
            finish ''handleInit'' r (failed data (''invalid job service config: '' @ err_text err) 400) w st
        | Done None \<Rightarrow> (case js_Init (sr_jobs sr) cfg (sv_world st) of
            (Panic p, u) \<Rightarrow> panicking ''handleInit'' r data p (st\<lparr>sv_world := u\<rparr>)
          | (Done (Some err), u) \<Rightarrow>
              finish ''handleInit'' r (failed data (''failed to update job runner: '' @ err_text err) 500) w
                (st\<lparr>sv_world := u\<rparr>)
          | (Done None, u) \<Rightarrow> finish ''handleInit'' r (data\<lparr>hd_code := 200\<rparr>) w (st\<lparr>sv_world := u\<rparr>))))"

definition handleInit ::
  "('d, 'w, 'v, 'rr) server \<Rightarrow> chance \<Rightarrow> request \<Rightarrow> writer \<Rightarrow> ('d, 'w) svc \<Rightarrow> writer outcome \<times> ('d, 'w) svc" where
  "handleInit sr ch r w st = with_auth sr ch ''handleInit'' r w (\<lambda>data. init_decoded sr r data w) st"

section \<open>The version\<close>

record VersionInfo =
  vi_BuildDate :: string
  vi_BuildVersion :: string
  vi_BuildHash :: string
  vi_GoVersion :: string

text \<open>The three variables the build sets, and \<^verbatim>\<open>runtime.Version()\<close>.\<close>

definition getVersionInfo :: "string \<Rightarrow> string \<Rightarrow> string \<Rightarrow> string \<Rightarrow> VersionInfo" where
  "getVersionInfo buildDate buildVersion buildHash go =
     \<lparr>vi_BuildDate = buildDate, vi_BuildVersion = buildVersion, vi_BuildHash = buildHash, vi_GoVersion = go\<rparr>"

definition LogFields :: "VersionInfo \<Rightarrow> field list" where
  "LogFields v =
     [FStr ''buildDate'' (vi_BuildDate v), FStr ''buildVersion'' (vi_BuildVersion v),
      FStr ''buildHash'' (vi_BuildHash v), FStr ''goVersion'' (vi_GoVersion v)]"

definition version_json :: "VersionInfo \<Rightarrow> json" where
  "version_json v =
     JObj [(''buildDate'', JStr (vi_BuildDate v)), (''buildVersion'', JStr (vi_BuildVersion v)),
           (''buildHash'', JStr (vi_BuildHash v)), (''goVersion'', JStr (vi_GoVersion v))]"

definition getVersion :: "VersionInfo \<Rightarrow> request \<Rightarrow> writer \<Rightarrow> writer" where
  "getVersion v r w =
     (if rq_Method r \<noteq> ''GET'' then NotFound w
      else Write (json_text (version_json v) @ [CHR 0x0A]) (Add_ContentType ''application/json'' w))"

section \<open>Routes\<close>

text \<open>
  The routes of \<^verbatim>\<open>New\<close> in the order they are tried, for a path the router has cleaned. \<open>Profiling\<close> stands
  for the handlers of \<^verbatim>\<open>net/http/pprof\<close>. A path that only other methods have is answered with 405.
\<close>

datatype route =
    RVersion | RLogin | RRegister | RUnregister
  | RCreateJob | RJobLogs string | RGetJob string | RDeleteJob string | RInit
  | RProfiling string | RMethodNotAllowed | RNotFound

text \<open>The pattern \<^verbatim>\<open>[a-z0-9]{12,26}\<close>.\<close>

definition job_id :: "string \<Rightarrow> bool" where
  "job_id i \<longleftrightarrow> (\<forall>c \<in> set i. is_lower c \<or> is_digit c) \<and> 12 \<le> length i \<and> length i \<le> 26"

definition route :: "string \<Rightarrow> string \<Rightarrow> route" where
  "route method path =
     (case Split path (CHR ''/'') of
        [[], a] \<Rightarrow>
          if a = ''version'' then RVersion
          else if a = ''login'' then RLogin
          else if a = ''register'' then RRegister
          else if a = ''unregister'' then RUnregister
          else if a = ''jobs'' then (if method = ''POST'' then RCreateJob else RMethodNotAllowed)
          else RNotFound
      | [[], a, b] \<Rightarrow>
          if a = ''jobs'' then
            (if job_id b then
               (if method = ''GET'' then RGetJob b
                else if method = ''DELETE'' then RDeleteJob b
                else RMethodNotAllowed)
             else if b = ''init'' then (if method = ''POST'' then RInit else RMethodNotAllowed)
             else RNotFound)
          else RNotFound
      | [[], a, b, c] \<Rightarrow>
          if a = ''jobs'' \<and> job_id b \<and> c = ''logs''
          then (if method = ''GET'' then RJobLogs b else RMethodNotAllowed)
          else if a = ''debug'' \<and> b = ''pprof'' \<and> c \<in> {''heap'', ''goroutine'', ''mutex'', ''profile'', ''trace''}
          then RProfiling c
          else RNotFound
      | _ \<Rightarrow> RNotFound)"

text \<open>The router runs the handler of the route with the variable of the route in the request.\<close>

definition serve ::
  "('d, 'w, 'v, 'rr) server \<Rightarrow> VersionInfo \<Rightarrow> (string \<Rightarrow> request \<Rightarrow> writer) \<Rightarrow> chance \<Rightarrow> request \<Rightarrow> ('d, 'w) svc \<Rightarrow>
   writer outcome \<times> ('d, 'w) svc" where
  "serve sr v profiling ch r st =
     (let w = new_writer
      in case route (rq_Method r) (rq_Path r) of
           RVersion \<Rightarrow> (Done (getVersion v r w), st)
         | RLogin \<Rightarrow> loginClient sr ch r w st
         | RRegister \<Rightarrow> registerClient sr ch r w st
         | RUnregister \<Rightarrow> unregisterClient sr ch r w st
         | RCreateJob \<Rightarrow> handleCreateJob sr ch r w st
         | RJobLogs i \<Rightarrow> handleJobGetLogs sr ch (r\<lparr>rq_id := i\<rparr>) w st
         | RGetJob i \<Rightarrow> handleGetJob sr ch (r\<lparr>rq_id := i\<rparr>) w st
         | RDeleteJob i \<Rightarrow> handleDeleteJob sr ch (r\<lparr>rq_id := i\<rparr>) w st
         | RInit \<Rightarrow> handleInit sr ch r w st
         | RProfiling p \<Rightarrow> (Done (profiling p r), st)
         | RMethodNotAllowed \<Rightarrow> (Done (WriteHeader 405 w), st)
         | RNotFound \<Rightarrow> (Done (NotFound w), st))"

section \<open>What the handlers do\<close>

lemma status_new [simp]: "status new_writer = 200"
  by (simp add: status_def new_writer_def)

lemma rw_body_new [simp]: "rw_body new_writer = []"
  by (simp add: new_writer_def)

lemma Encode_strings_not_Nil: "Encode_strings m \<noteq> []"
  by (simp add: Encode_strings_def)

text \<open>An error always reaches a client that got nothing before: with its code and its text.\<close>

lemma audit_response_error:
  assumes "hd_err data \<noteq> []" "hd_resData data = []"
  shows "status (audit_response data new_writer) = hd_code data"
    "rw_body (audit_response data new_writer) =
       Encode_strings [(''error'', hd_err data), (''code'', int_dec (hd_code data))]"
  using assms Encode_strings_not_Nil
  by (simp_all add: audit_response_def Let_def writer_defs)

lemma audit_response_silent [simp]: "hd_err data = [] \<Longrightarrow> hd_resData data = [] \<Longrightarrow> audit_response data w = w"
  by (simp add: audit_response_def)

lemma status_Write: "status (Write text new_writer) = 200"
  by (simp add: writer_defs Let_def)

lemma rw_body_Write: "rw_body (Write text new_writer) = text"
  by (simp add: writer_defs Let_def)

lemma with_auth_cases:
  assumes "with_auth sr ch name r w rest st = (x, st')"
  obtains (refused) code e st1 where
      "\<exists>cid. authHandler sr ch r st = ((cid, code, Some e), st1)"
      "finish name r (failed newHTTPData (err_text e) code) w st1 = (x, st')"
    | (admitted) cid code st1 where "authHandler sr ch r st = ((cid, code, None), st1)"
      "rest (newHTTPData\<lparr>hd_clientID := cid\<rparr>) st1 = (x, st')"
proof -
  obtain cid code e st1 where auth: "authHandler sr ch r st = ((cid, code, e), st1)" by (metis prod_cases3 surj_pair)
  show thesis
  proof (cases e)
    case None
    with auth assms show thesis by (intro admitted) (auto simp: with_auth_def)
  next
    case (Some err)
    with auth assms show thesis by (intro refused) (auto simp: with_auth_def)
  qed
qed

lemma save_created_result:
  assumes "save_created sr r data jb new_writer st = (x, st')" "hd_err data = []" "hd_resData data = []"
  shows "\<exists>w'. x = Done w' \<and> sv_world st' = sv_world st \<and> sv_cache st' = sv_cache st \<and>
    (\<exists>e. SaveJob (sr_store sr) (sr_codec sr) (sv_db st) jb = (e, sv_db st') \<and>
      (if e = None then status w' = 200 \<and> Encode_Job (sr_codec sr) jb = Inr (rw_body w') else status w' = 500))"
proof (cases "SaveJob (sr_store sr) (sr_codec sr) (sv_db st) jb")
  case (Pair e d)
  show ?thesis
  proof (cases e)
    case None
    with Pair have "\<exists>js. Marshal_Job (sr_codec sr) jb = Inr js" by (auto simp: SaveJob_def split: sum.splits)
    then obtain body where "Encode_Job (sr_codec sr) jb = Inr body" by (auto simp: Encode_Job_def)
    with assms Pair None show ?thesis
      by (auto simp: save_created_def finish_eq status_Write rw_body_Write)
  next
    case (Some err)
    with assms Pair show ?thesis by (auto simp: save_created_def finish_eq audit_response_error)
  qed
qed

lemma create_valid_result:
  assumes "create_valid sr r data cfg new_writer st = (Done w', st')" "hd_err data = []" "hd_resData data = []"
  shows "\<exists>y. js_CreateJob (sr_jobs sr) cfg True (sv_world st) = (Done y, sv_world st') \<and>
    (case y of
       Inl err \<Rightarrow> status w' = 500
     | Inr jb \<Rightarrow> \<exists>e. SaveJob (sr_store sr) (sr_codec sr) (sv_db st) jb = (e, sv_db st') \<and>
         (if e = None then status w' = 200 \<and> Encode_Job (sr_codec sr) jb = Inr (rw_body w') else status w' = 500))"
proof -
  obtain z u where z: "js_CreateJob (sr_jobs sr) cfg True (sv_world st) = (z, u)"
    by (cases "js_CreateJob (sr_jobs sr) cfg True (sv_world st)")
  with assms(1) obtain y where y: "z = Done y" by (cases z) (auto simp: create_valid_def panicking_def)
  show ?thesis
  proof (cases y)
    case (Inl err)
    with assms z y show ?thesis by (auto simp: create_valid_def finish_eq audit_response_error)
  next
    case (Inr jb)
    with assms(1) z y have "save_created sr r data jb new_writer (st\<lparr>sv_world := u\<rparr>) = (Done w', st')"
      by (simp add: create_valid_def)
    from save_created_result [OF this assms(2,3)] z y Inr show ?thesis by auto
  qed
qed

text \<open>How the creation of a job ended, by the status of the response.\<close>

lemma create_decoded_result:
  assumes "create_decoded sr r data new_writer st = (Done w', st')" "hd_err data = []" "hd_resData data = []"
  shows "(status w' = 400 \<and> sv_world st' = sv_world st \<and> sv_db st' = sv_db st) \<or>
    (\<exists>cfg. Decode_JobConfig (sr_codec sr) apiRequestBodyMaxSizeBytes (rq_Body r) = Inr cfg \<and>
      JobConfig_IsValid (sr_lib sr) cfg (registry sr) = Done None \<and>
      create_valid sr r data cfg new_writer st = (Done w', st'))"
proof (cases "Decode_JobConfig (sr_codec sr) apiRequestBodyMaxSizeBytes (rq_Body r)")
  case (Inl err)
  with assms show ?thesis by (auto simp: create_decoded_def finish_eq audit_response_error)
next
  case (Inr cfg)
  have "JobConfig_IsValid (sr_lib sr) cfg (registry sr) = Done (Some err) \<Longrightarrow> err_text err \<noteq> []" for err
    by (auto simp: JobConfig_IsValid_def split: if_splits outcome.splits option.splits)
  with assms Inr show ?thesis
    by (auto simp: create_decoded_def finish_eq audit_response_error panicking_def split: outcome.splits option.splits)
qed

lemma err_text_auth:
  assumes "authHandler sr ch r st = ((cid, code, Some e), st1)"
  shows "err_text e \<noteq> []"
proof -
  from authHandler_parts [OF assms] obtain st2 where
    "(if HasPrefix (Header_Get r ''Authorization'') bearerPrefix
      then bearerAuthHandler ch r st else basicAuthHandler sr ch r st) = ((cid, code, Some e), st2)" by blast
  then show ?thesis
    by (auto simp: bearerAuthHandler_def basicAuthHandler_def Let_def
        split: if_splits option.splits prod.splits sum.splits)
qed

context auth_backend
begin

lemma with_auth_result:
  assumes "sr_store sr = S" "sr_bcrypt sr = bcr" "with_auth sr ch name r new_writer rest st = (x, st')"
  shows "(\<exists>w'. x = Done w' \<and> status w' = 401 \<and> sv_world st' = sv_world st) \<or>
    (\<exists>cid st1. credentials sr (ch_now ch) r (sv_cache st) (sv_db st1) cid \<and> sv_world st1 = sv_world st \<and>
      rest (newHTTPData\<lparr>hd_clientID := cid\<rparr>) st1 = (x, st'))"
  using assms(3)
proof (cases rule: with_auth_cases)
  case (refused code e st1)
  then obtain cid where auth: "authHandler sr ch r st = ((cid, code, Some e), st1)" by blast
  from authHandler_result [OF assms(1,2) auth] have "code = 401" "sv_world st1 = sv_world st" by auto
  with refused(2) err_text_auth [OF auth] show ?thesis
    by (auto simp: finish_eq audit_response_error newHTTPData_def)
next
  case (admitted cid code st1)
  note A = authHandler_result [OF assms(1,2) admitted(1)]
  then have "credentials sr (ch_now ch) r (sv_cache st) (sv_db st1) cid" "sv_world st1 = sv_world st" by simp_all
  with admitted(2) show ?thesis by blast
qed

end

section \<open>Properties\<close>

lemma handleCreateJob_result:
  assumes "bitcask_db bc ct" "bcrypt_lib bcr" "sr_store sr = bitcaskStore bc" "sr_bcrypt sr = bcr"
    and "job_provider (sr_jobs sr) (sr_lib sr) (registry sr)"
    and "handleCreateJob sr ch r new_writer st = (Done w', st')"
  shows "status w' \<in> {200, 400, 401, 500} \<and>
    (status w' = 200 \<longrightarrow>
      (\<exists>d c cfg jb js. credentials sr (ch_now ch) r (sv_cache st) d c \<and>
        Decode_JobConfig (sr_codec sr) 1048576 (rq_Body r) = Inr cfg \<and>
        js_CreateJob (sr_jobs sr) cfg True (sv_world st) = (Done (Inr jb), sv_world st') \<and> job_StopAt jb = 0 \<and>
        Marshal_Job (sr_codec sr) jb = Inr js \<and> rw_body w' = js @ [CHR 0x0A] \<and>
        ct (sv_db st') (''job_'' @ job_ID jb) = Some js)) \<and>
    (sv_world st' \<noteq> sv_world st \<longrightarrow>
      (\<exists>d c cfg. credentials sr (ch_now ch) r (sv_cache st) d c \<and>
        Decode_JobConfig (sr_codec sr) 1048576 (rq_Body r) = Inr cfg \<and>
        JobConfig_IsValid (sr_lib sr) cfg (registry sr) = Done None))"
proof -
  note B = auth_backendI [OF assms(1,2)]
  note K = bitcask_db.bitcaskStore_kv_store [OF assms(1)]
  have "with_auth sr ch ''handleCreateJob'' r new_writer (\<lambda>data. create_decoded sr r data new_writer) st = (Done w', st')"
    using assms(6) by (simp add: handleCreateJob_def)
  from auth_backend.with_auth_result [OF B assms(3,4) this]
  consider (refused) "status w' = 401" "sv_world st' = sv_world st"
    | (admitted) cid st1 where "credentials sr (ch_now ch) r (sv_cache st) (sv_db st1) cid" "sv_world st1 = sv_world st"
      "create_decoded sr r (newHTTPData\<lparr>hd_clientID := cid\<rparr>) new_writer st1 = (Done w', st')" by auto
  then show ?thesis
  proof cases
    case refused
    then show ?thesis by simp
  next
    case admitted
    from create_decoded_result [OF admitted(3)]
    consider (bad) "status w' = 400" "sv_world st' = sv_world st1"
      | (valid) cfg where "Decode_JobConfig (sr_codec sr) apiRequestBodyMaxSizeBytes (rq_Body r) = Inr cfg"
        "JobConfig_IsValid (sr_lib sr) cfg (registry sr) = Done None"
        "create_valid sr r (newHTTPData\<lparr>hd_clientID := cid\<rparr>) cfg new_writer st1 = (Done w', st')"
      by (auto simp: newHTTPData_def)
    then show ?thesis
    proof cases
      case bad
      with admitted show ?thesis by simp
    next
      case valid
      have cfg: "Decode_JobConfig (sr_codec sr) 1048576 (rq_Body r) = Inr cfg"
        using valid(1) by (simp add: apiRequestBodyMaxSizeBytes_def)
      from create_valid_result [OF valid(3)] admitted(2) obtain y where
        y: "js_CreateJob (sr_jobs sr) cfg True (sv_world st) = (Done y, sv_world st')"
        and res: "case y of Inl err \<Rightarrow> status w' = 500
          | Inr jb \<Rightarrow> \<exists>e. SaveJob (sr_store sr) (sr_codec sr) (sv_db st1) jb = (e, sv_db st') \<and>
            (if e = None then status w' = 200 \<and> Encode_Job (sr_codec sr) jb = Inr (rw_body w') else status w' = 500)"
        by (auto simp: newHTTPData_def)
      have ok: "\<exists>jb js. js_CreateJob (sr_jobs sr) cfg True (sv_world st) = (Done (Inr jb), sv_world st') \<and>
          job_StopAt jb = 0 \<and> Marshal_Job (sr_codec sr) jb = Inr js \<and> rw_body w' = js @ [CHR 0x0A] \<and>
          ct (sv_db st') (''job_'' @ job_ID jb) = Some js" if "status w' = 200"
      proof -
        from that res obtain jb where jb: "y = Inr jb" "SaveJob (bitcaskStore bc) (sr_codec sr) (sv_db st1) jb = (None, sv_db st')"
          "Encode_Job (sr_codec sr) jb = Inr (rw_body w')"
          using assms(3) by (auto split: sum.splits if_splits)
        from job_provider.create_running [OF assms(5)] y jb(1) have "job_StopAt jb = 0" by blast
        with kv_store.SaveJob_ok [OF K jb(2)] jb y show ?thesis by (auto simp: Encode_Job_def jobKeyPrefix_def)
      qed
      have "status w' \<in> {200, 500}" using res by (auto split: sum.splits if_splits)
      with ok admitted(1) cfg valid(2) show ?thesis by blast
    qed
  qed
qed

lemma handleGetJob_result:
  assumes "bitcask_db bc ct" "bcrypt_lib bcr" "sr_store sr = bitcaskStore bc" "sr_bcrypt sr = bcr"
    and "handleGetJob sr ch r new_writer st = (Done w', st')" "status w' = 200"
  shows "\<exists>jb. stored (sr_codec sr) (ct (sv_db st')) (rq_id r) = Some jb \<and>
    (case Encode_Job (sr_codec sr) jb of Inl e \<Rightarrow> rw_body w' = [] | Inr body \<Rightarrow> rw_body w' = body) \<and>
    (\<forall>k v. ct (sv_db st) k = Some v \<longrightarrow> ct (sv_db st') k = Some v)"
proof -
  note B = auth_backendI [OF assms(1,2)]
  note K = bitcask_db.bitcaskStore_kv_store [OF assms(1)]
  from assms(5) [unfolded handleGetJob_def] show ?thesis
  proof (cases rule: with_auth_cases)
    case (refused code e st1)
    then obtain cid where auth: "authHandler sr ch r st = ((cid, code, Some e), st1)" by blast
    note A = auth_backend.authHandler_result [OF B assms(3,4) auth]
    with refused(2) err_text_auth [OF auth] assms(6) show ?thesis
      by (auto simp: finish_eq audit_response_error newHTTPData_def)
  next
    case (admitted cid code st1)
    note A = auth_backend.authHandler_result [OF B assms(3,4) admitted(1)]
    then have keep: "\<forall>k v. ct (sv_db st) k = Some v \<longrightarrow> ct (sv_db st1) k = Some v" by simp
    show ?thesis
    proof (cases "rq_id r = []")
      case True
      with admitted(2) assms(6) show ?thesis by (auto simp: finish_eq audit_response_error newHTTPData_def)
    next
      case False
      show ?thesis
      proof (cases "GetJob (sr_store sr) (sr_codec sr) (sv_db st1) (rq_id r)")
        case (Inl err)
        with admitted(2) assms(6) False show ?thesis
          by (auto simp: finish_eq audit_response_error newHTTPData_def)
      next
        case (Inr jb)
        with admitted(2) False have "sv_db st' = sv_db st1"
          "case Encode_Job (sr_codec sr) jb of Inl e \<Rightarrow> rw_body w' = [] | Inr body \<Rightarrow> rw_body w' = body"
          by (auto simp: finish_eq newHTTPData_def rw_body_Write split: sum.splits)
        with Inr keep kv_store.GetJob_stored [OF K] assms(3) show ?thesis by auto
      qed
    qed
  qed
qed


text \<open>A request of the client \<^verbatim>\<open>alice\<close> for a recording.\<close>

definition sample_config_body :: string where
  "sample_config_body = (case Encode_JobConfig whole_codec sample_JobConfig of Inl e \<Rightarrow> [] | Inr body \<Rightarrow> body)"

abbreviation create_request :: request where
  "create_request \<equiv> basic_request ''POST'' ''/jobs'' ''alice'' sample_key sample_config_body []"

lemma sample_config_decodes:
  "Decode_JobConfig whole_codec apiRequestBodyMaxSizeBytes sample_config_body = Inr sample_JobConfig"
proof -
  have "config_ok whole_codec sample_JobConfig" "length sample_config_body \<le> 1000"
    by code_simp+
  moreover have "config_sorted sample_JobConfig = sample_JobConfig"
    by (simp add: config_sorted_def sample_JobConfig_def data_sorted_def)
  ultimately show ?thesis
    using Decode_Encode_JobConfig [of whole_codec sample_JobConfig apiRequestBodyMaxSizeBytes]
    by (auto simp: sample_config_body_def apiRequestBodyMaxSizeBytes_def)
qed

lemma sample_config_valid: "JobConfig_IsValid (triple_lib test_env) sample_JobConfig r = Done None"
  by (simp add: JobConfig_IsValid_def RunnerIsValid_def sample_JobConfig_def triple_lib_def test_env_def TypeRecording_def)

lemma sample_Job_ok: "job_ok whole_codec (sample_Job ''aaaaaaaaaaaa'')"
  by code_simp

lemma sample_provider: "job_provider (sr_jobs (sample_server self)) (sr_lib (sample_server self)) (registry (sample_server self))"
proof -
  have "registry (sample_server self) = dk_ImageRegistry (ds_cfg (sim_service 1))"
    by (simp add: sample_server_def SetDefaults_def ImageRegistryDefault_def sim_service_def)
  then show ?thesis
    using Docker_job_provider [of test_host "\<lambda>rs. rs" False "[]" "sim_service 1"]
    by (simp add: sim_host_def)
qed

lemma sample_handleCreateJob:
  "\<exists>w' st'. handleCreateJob (sample_server False) sample_chance create_request new_writer
      (sample_svc (mem_ok (md_map registered_memdb))) = (Done w', st') \<and> status w' = 200"
proof -
  have db: "mem_ok (md_map registered_memdb) = registered_memdb" by (simp add: mem_ok_def registered_memdb_def)
  from mem_SaveJob [OF sample_Job_ok, of "md_map registered_memdb"] obtain js where
    save: "Marshal_Job whole_codec (sample_Job ''aaaaaaaaaaaa'') = Inr js"
      "SaveJob (bitcaskStore mem_bitcask) whole_codec registered_memdb (sample_Job ''aaaaaaaaaaaa'') =
        (None, mem_ok ((md_map registered_memdb)(jobKeyPrefix @ ''aaaaaaaaaaaa'' \<mapsto> js)))"
    by (auto simp: db sample_Job_def)
  show ?thesis
    by (simp add: db handleCreateJob_def with_auth_def alice_auth create_decoded_def sample_config_decodes
        sample_config_valid create_valid_def docker_jobs_def sample_CreateJob save_created_def save Encode_Job_def
        finish_eq newHTTPData_def status_Write)
qed


lemma delete_stopped_result:
  assumes "delete_stopped sr r data new_writer st = (Done w', st')" "hd_err data = []" "hd_resData data = []"
  shows "sv_db st' = sv_db st \<and>
    ((status w' \<in> {400, 404} \<and> sv_world st' = sv_world st) \<or>
     (\<exists>jb res. GetJob (sr_store sr) (sr_codec sr) (sv_db st) (rq_id r) = Inr jb \<and> job_StopAt jb \<noteq> 0 \<and>
       js_DeleteJob (sr_jobs sr) (rq_id r) (sv_world st) = (Done res, sv_world st') \<and>
       status w' = (if is_ok res then 200 else 500)))"
proof (cases "GetJob (sr_store sr) (sr_codec sr) (sv_db st) (rq_id r)")
  case (Inl err)
  with assms show ?thesis by (auto simp: delete_stopped_def finish_eq audit_response_error)
next
  case (Inr jb)
  show ?thesis
  proof (cases "job_StopAt jb = 0")
    case True
    with Inr assms show ?thesis by (auto simp: delete_stopped_def finish_eq audit_response_error)
  next
    case False
    obtain z u where z: "js_DeleteJob (sr_jobs sr) (rq_id r) (sv_world st) = (z, u)"
      by (cases "js_DeleteJob (sr_jobs sr) (rq_id r) (sv_world st)")
    with Inr False assms(1) obtain res where res: "z = Done res"
      by (cases z) (auto simp: delete_stopped_def panicking_def)
    with Inr False assms z show ?thesis
      by (cases res) (auto simp: delete_stopped_def finish_eq audit_response_error)
  qed
qed

lemma handleDeleteJob_cases:
  assumes "bitcask_db bc ct" "bcrypt_lib bcr" "sr_store sr = bitcaskStore bc" "sr_bcrypt sr = bcr"
    and "handleDeleteJob sr ch r new_writer st = (Done w', st')"
  obtains (refused) "status w' \<in> {400, 401}" "sv_world st' = sv_world st"
      "\<forall>k v. ct (sv_db st) k = Some v \<longrightarrow> ct (sv_db st') k = Some v"
    | (admitted) cid st1 where "credentials sr (ch_now ch) r (sv_cache st) (sv_db st1) cid" "sv_world st1 = sv_world st"
      "\<forall>k v. ct (sv_db st) k = Some v \<longrightarrow> ct (sv_db st1) k = Some v"
      "delete_stopped sr r (newHTTPData\<lparr>hd_clientID := cid\<rparr>) new_writer st1 = (Done w', st')"
proof -
  note B = auth_backendI [OF assms(1,2)]
  from assms(5) [unfolded handleDeleteJob_def] show thesis
  proof (cases rule: with_auth_cases)
    case (refused code e st1)
    then obtain cid where auth: "authHandler sr ch r st = ((cid, code, Some e), st1)" by blast
    note A = auth_backend.authHandler_result [OF B assms(3,4) auth]
    with refused(2) err_text_auth [OF auth] show ?thesis
      by (intro that(1)) (auto simp: finish_eq audit_response_error newHTTPData_def)
  next
    case (admitted cid code st1)
    from auth_backend.authHandler_result [OF B assms(3,4) admitted(1)]
    have A: "credentials sr (ch_now ch) r (sv_cache st) (sv_db st1) cid" "sv_world st1 = sv_world st"
      "\<forall>k v. ct (sv_db st) k = Some v \<longrightarrow> ct (sv_db st1) k = Some v" by simp_all
    show ?thesis
    proof (cases "rq_id r = []")
      case True
      with admitted(2) have "status w' = 400" "sv_world st' = sv_world st1" "sv_db st' = sv_db st1"
        by (auto simp: finish_eq audit_response_error newHTTPData_def)
      with A show ?thesis by (intro that(1)) simp_all
    next
      case False
      with admitted(2) A show ?thesis by (intro that(2)) simp_all
    qed
  qed
qed



end
