(* ===== verification/Service_Safety.thy ===== *)
theory Service_Safety
  imports Jobs_Api
begin

text \<open>
  What holds for every request the service may get, whatever its route: the audit trail, the session
  cache and the responses. One lemma per handler, over a relation that all of them keep.
\<close>

section \<open>What a request may change\<close>

definition statuses :: "int set" where
  "statuses = {200, 201, 400, 401, 403, 404, 405, 500}"

text \<open>The audit trail grows by entries made of the request, the session cache stays well formed.\<close>

definition kept :: "request \<Rightarrow> ('d, 'w) svc \<Rightarrow> ('d, 'w) svc \<Rightarrow> bool" where
  "kept r st st' \<longleftrightarrow>
     (\<exists>new. sv_audit st' = sv_audit st @ new \<and> (\<forall>e \<in> set new. \<exists>d. snd e = audit_fields d r)) \<and>
     (cache_inv (sv_cache st) \<longrightarrow> cache_inv (sv_cache st'))"

definition handled :: "request \<Rightarrow> ('d, 'w) svc \<Rightarrow> writer outcome \<times> ('d, 'w) svc \<Rightarrow> bool" where
  "handled r st p \<longleftrightarrow>
     kept r st (snd p) \<and> (case fst p of Panic t \<Rightarrow> True | Done w \<Rightarrow> status w \<in> statuses)"

lemma kept_refl [simp]: "kept r st st"
  by (auto simp: kept_def)

lemma kept_trans:
  assumes "kept r st st1" "kept r st1 st2"
  shows "kept r st st2"
proof -
  from assms obtain n1 n2 where "sv_audit st1 = sv_audit st @ n1" "sv_audit st2 = sv_audit st1 @ n2"
    "\<forall>e \<in> set n1. \<exists>d. snd e = audit_fields d r" "\<forall>e \<in> set n2. \<exists>d. snd e = audit_fields d r"
    by (auto simp: kept_def)
  then have "sv_audit st2 = sv_audit st @ (n1 @ n2) \<and> (\<forall>e \<in> set (n1 @ n2). \<exists>d. snd e = audit_fields d r)" by auto
  with assms show ?thesis unfolding kept_def by blast
qed

lemma kept_same: "kept r st st1 \<Longrightarrow> sv_audit st2 = sv_audit st1 \<Longrightarrow> sv_cache st2 = sv_cache st1 \<Longrightarrow> kept r st st2"
  by (simp add: kept_def)

lemma kept_audit: "kept r st (st\<lparr>sv_audit := sv_audit st @ [(n, audit_fields d r)]\<rparr>)"
  by (auto simp: kept_def)

lemma status_audit: "status (audit_response d w) \<in> {status w, hd_code d}"
  by (auto simp: audit_response_def writer_defs Let_def split: option.splits)

lemma finish_handled:
  assumes "kept r st st1" "status w \<in> statuses" "hd_code d \<in> statuses"
  shows "handled r st (finish n r d w st1)"
  using kept_trans [OF assms(1) kept_audit, of n d] status_audit [of d w] assms(2,3)
  by (auto simp: handled_def finish_eq)

lemma panicking_handled: "kept r st st1 \<Longrightarrow> handled r st (panicking n r d p st1)"
  using kept_trans [OF _ kept_audit, of r st st1 n d] by (simp add: handled_def panicking_def httpAudit_def)

lemma codes [simp]: "200 \<in> statuses" "201 \<in> statuses" "400 \<in> statuses" "401 \<in> statuses" "403 \<in> statuses"
  "404 \<in> statuses" "405 \<in> statuses" "500 \<in> statuses"
  by (simp_all add: statuses_def)

section \<open>The handlers\<close>

lemma authHandler_kept:
  assumes "authHandler sr ch r st = ((cid, code, e), st1)"
  shows "kept r st st1" "code \<in> statuses"
proof -
  from authHandler_parts [OF assms] obtain st2 d where
    run: "(if HasPrefix (Header_Get r ''Authorization'') bearerPrefix
      then bearerAuthHandler ch r st else basicAuthHandler sr ch r st) = ((cid, code, e), st2)"
    and st1: "st1 = st2\<lparr>sv_audit := sv_audit st2 @ [(''authHandler'', audit_fields d r)]\<rparr>" by blast
  have "kept r st st2 \<and> code \<in> statuses"
  proof (cases "HasPrefix (Header_Get r ''Authorization'') bearerPrefix")
    case True
    with run Get_inv show ?thesis
      by (fastforce simp: bearerAuthHandler_def kept_def split: option.splits if_splits prod.splits sum.splits)
  next
    case False
    with run show ?thesis
      by (auto simp: basicAuthHandler_def kept_def Let_def split: option.splits if_splits prod.splits)
  qed
  then show "kept r st st1" "code \<in> statuses" using kept_trans [OF _ kept_audit] st1 by blast+
qed

lemma with_auth_handled:
  assumes "\<And>d st1. kept r st st1 \<Longrightarrow> hd_code d = 0 \<Longrightarrow> handled r st (rest d st1)" "status w \<in> statuses"
  shows "handled r st (with_auth sr ch n r w rest st)"
proof -
  obtain cid code e st1 where auth: "authHandler sr ch r st = ((cid, code, e), st1)" by (metis prod_cases3 surj_pair)
  note K = authHandler_kept [OF auth]
  show ?thesis
    using assms K by (cases e) (auto simp: with_auth_def auth newHTTPData_def intro!: finish_handled)
qed

lemma handled_NotFound: "handled r st (Done (NotFound new_writer), st)"
  by (simp add: handled_def writer_defs Let_def statuses_def)

lemma registerClient_handled: "handled r st (registerClient sr ch r new_writer st)"
proof (cases "rq_Method r = ''POST''")
  case True
  have as: "kept r st (snd (register_as sr ch r st1)) \<and> hd_code (fst (register_as sr ch r st1)) \<in> statuses"
    if "kept r st st1" for st1
    using that by (auto simp: register_as_def Let_def split: prod.splits option.splits intro: kept_same)
  have "kept r st (snd (register_body sr ch r st)) \<and> hd_code (fst (register_body sr ch r st)) \<in> statuses"
  proof (cases "sec_AllowSelfRegistration (security sr)")
    case False
    obtain cid code e st1 where auth: "authHandler sr ch r st = ((cid, code, e), st1)" by (metis prod_cases3 surj_pair)
    with authHandler_kept [OF auth] as False show ?thesis by (cases e) (simp_all add: register_body_def)
  qed (simp add: register_body_def as)
  with True show ?thesis
    by (auto simp: registerClient_def split: prod.splits intro!: finish_handled)
qed (simp add: registerClient_def handled_NotFound)

lemma unregisterClient_handled: "handled r st (unregisterClient sr ch r new_writer st)"
proof (cases "rq_Method r = ''POST''")
  case True
  have as: "kept r st (snd (unregister_as sr ch r cid st1)) \<and> hd_code (fst (unregister_as sr ch r cid st1)) \<in> statuses"
    if "kept r st st1" for st1 cid
  proof -
    obtain e m where dec: "Decode_strings (sr_codec sr) (rq_Body r) = (e, m)" by fastforce
    obtain e' d c where un: "Unregister (sr_store sr) (ch_order ch) (sv_db st1) (sv_cache st1) (get_string m ''clientID'') = (e', d, c)"
      by (metis prod_cases3)
    have "kept r st (st1\<lparr>sv_db := d, sv_cache := c\<rparr>)"
      using that Unregister_inv [OF _ un] by (auto simp: kept_def)
    with that dec un show ?thesis
      by (cases e; cases e') (simp_all add: unregister_as_def Let_def)
  qed
  have "kept r st (snd (unregister_body sr ch r st)) \<and> hd_code (fst (unregister_body sr ch r st)) \<in> statuses"
  proof (cases "\<not> sec_EnableAdmin (security sr) \<and> \<not> sec_AllowSelfRegistration (security sr)")
    case False
    obtain cid code e st1 where auth: "authHandler sr ch r st = ((cid, code, e), st1)" by (metis prod_cases3 surj_pair)
    with authHandler_kept [OF auth] as False show ?thesis by (cases e) (simp_all add: unregister_body_def)
  qed (simp add: unregister_body_def)
  with True show ?thesis
    by (auto simp: unregisterClient_def split: prod.splits intro!: finish_handled)
qed (simp add: unregisterClient_def handled_NotFound)

lemma loginClient_handled:
  assumes "range_order (ch_order ch) (sessionMap (sv_cache st))"
  shows "handled r st (loginClient sr ch r new_writer st)"
proof (cases "rq_Method r = ''POST''")
  case True
  obtain e m where dec: "Decode_strings (sr_codec sr) (rq_Body r) = (e, m)" by fastforce
  obtain x c where login: "Login (sr_store sr) (sr_bcrypt sr) (ch_rand ch) (ch_order ch) (sv_db st) (sv_cache st) (ch_now ch)
      (get_string m ''clientID'') (get_string m ''authKey'') = (x, c)" by fastforce
  have kept: "kept r st (st\<lparr>sv_cache := c\<rparr>)"
    using Login_inv [OF _ assms login] by (auto simp: kept_def)
  consider (undecoded) err where "e = Some err" | (panic) p where "e = None" "x = Panic p"
    | (refused) err where "e = None" "x = Done (Inl err)" | (ok) t where "e = None" "x = Done (Inr t)"
    by (metis outcome.exhaust sum.exhaust_sel option.exhaust)
  then show ?thesis
    by cases (use True dec login kept in
      \<open>auto simp: loginClient_def Let_def intro!: finish_handled panicking_handled\<close>)
qed (simp add: loginClient_def handled_NotFound)

lemma save_created_handled:
  assumes "kept r st st1" "status w \<in> statuses" "status w = 200"
  shows "handled r st (save_created sr r d jb w st1)"
proof -
  have "status (case Encode_Job (sr_codec sr) jb of Inl err \<Rightarrow> w | Inr t \<Rightarrow> Write t w) \<in> statuses"
    using assms(2,3) by (auto simp: writer_defs Let_def split: sum.splits option.splits prod.splits)
  with assms show ?thesis
    by (auto simp: save_created_def split: prod.splits option.splits intro!: finish_handled intro: kept_same)
qed

lemma status_Write_ok [simp]: "status w = 200 \<Longrightarrow> status (Write t w) = 200"
  by (auto simp: writer_defs Let_def split: option.splits prod.splits)

lemma create_valid_handled:
  assumes "kept r st st1"
  shows "handled r st (create_valid sr r d cfg new_writer st1)"
proof -
  obtain x u where run: "js_CreateJob (sr_jobs sr) cfg True (sv_world st1) = (x, u)" by fastforce
  have kept: "kept r st (st1\<lparr>sv_world := u\<rparr>)" by (rule kept_same [OF assms]) simp_all
  consider (panic) p where "x = Panic p" | (refused) err where "x = Done (Inl err)" | (ok) jb where "x = Done (Inr jb)"
    by (metis outcome.exhaust sum.exhaust_sel)
  then show ?thesis
    by cases (use run kept in
      \<open>auto simp: create_valid_def intro!: finish_handled panicking_handled save_created_handled\<close>)
qed

lemma create_decoded_handled:
  assumes "kept r st st1"
  shows "handled r st (create_decoded sr r d new_writer st1)"
  using assms
  by (auto simp: create_decoded_def intro!: finish_handled panicking_handled create_valid_handled
      split: sum.splits outcome.splits option.splits)

lemma handleCreateJob_handled: "handled r st (handleCreateJob sr ch r new_writer st)"
  unfolding handleCreateJob_def by (rule with_auth_handled) (simp_all add: create_decoded_handled)

lemma handleGetJob_handled: "handled r st (handleGetJob sr ch r new_writer st)"
  unfolding handleGetJob_def
  by (rule with_auth_handled) (auto intro!: finish_handled split: sum.splits)

lemma handleJobGetLogs_handled: "handled r st (handleJobGetLogs sr ch r new_writer st)"
  unfolding handleJobGetLogs_def
proof (rule with_auth_handled)
  fix d and st1 :: "('a, 'b) svc"
  assume kept: "kept r st st1"
  obtain e out t u where logs: "js_GetJobLogs (sr_jobs sr) (rq_id r) (sv_world st1) = ((e, out, t), u)"
    by (metis prod_cases3 surj_pair)
  have "kept r st (st1\<lparr>sv_world := u\<rparr>)" by (rule kept_same [OF kept]) simp_all
  with kept logs show "handled r st (if rq_id r = [] then finish ''handleJobGetLogs'' r (failed d ''missing job ID'' 400) new_writer st1
    else (case js_GetJobLogs (sr_jobs sr) (rq_id r) (sv_world st1) of
        ((Some err, out, text), u) \<Rightarrow>
          finish ''handleJobGetLogs'' r (failed d (''failed to get recording job logs: '' @ err_text err) 403)
            (Write text new_writer) (st1\<lparr>sv_world := u\<rparr>)
      | ((None, out, text), u) \<Rightarrow>
          finish ''handleJobGetLogs'' r (d\<lparr>hd_code := 200\<rparr>) (Write text new_writer) (st1\<lparr>sv_world := u\<rparr>)))"
    by (cases e) (auto intro!: finish_handled)
qed simp

lemma delete_stopped_handled:
  assumes "kept r st st1"
  shows "handled r st (delete_stopped sr r d new_writer st1)"
proof (cases "GetJob (sr_store sr) (sr_codec sr) (sv_db st1) (rq_id r)")
  case (Inr jb)
  obtain x u where run: "js_DeleteJob (sr_jobs sr) (rq_id r) (sv_world st1) = (x, u)" by fastforce
  have kept: "kept r st (st1\<lparr>sv_world := u\<rparr>)" by (rule kept_same [OF assms]) simp_all
  consider (panic) p where "x = Panic p" | (refused) err where "x = Done (Inl err)" | (ok) y where "x = Done (Inr y)"
    by (metis outcome.exhaust sum.exhaust_sel)
  then show ?thesis
    by cases (use assms run kept Inr in \<open>auto simp: delete_stopped_def intro!: finish_handled panicking_handled\<close>)
qed (use assms in \<open>auto simp: delete_stopped_def intro!: finish_handled\<close>)

lemma handleDeleteJob_handled: "handled r st (handleDeleteJob sr ch r new_writer st)"
  unfolding handleDeleteJob_def
  by (rule with_auth_handled) (auto intro!: finish_handled delete_stopped_handled)

lemma init_decoded_handled:
  assumes "kept r st st1"
  shows "handled r st (init_decoded sr r d new_writer st1)"
proof -
  have run: "handled r st (case js_Init (sr_jobs sr) cfg (sv_world st1) of
      (Panic p, u) \<Rightarrow> panicking ''handleInit'' r d p (st1\<lparr>sv_world := u\<rparr>)
    | (Done (Some err), u) \<Rightarrow>
        finish ''handleInit'' r (failed d (''failed to update job runner: '' @ err_text err) 500) new_writer (st1\<lparr>sv_world := u\<rparr>)
    | (Done None, u) \<Rightarrow> finish ''handleInit'' r (d\<lparr>hd_code := 200\<rparr>) new_writer (st1\<lparr>sv_world := u\<rparr>))" for cfg
  proof -
    obtain x u where init: "js_Init (sr_jobs sr) cfg (sv_world st1) = (x, u)" by fastforce
    have kept: "kept r st (st1\<lparr>sv_world := u\<rparr>)" by (rule kept_same [OF assms]) simp_all
    consider (panic) p where "x = Panic p" | (refused) err where "x = Done (Some err)" | (ok) "x = Done None"
      by (metis outcome.exhaust option.exhaust)
    then show ?thesis
      by cases (use init kept in \<open>auto intro!: finish_handled panicking_handled\<close>)
  qed
  show ?thesis
    unfolding init_decoded_def
    using assms run
    by (auto intro!: finish_handled panicking_handled split: sum.split outcome.split option.split)
qed

lemma handleInit_handled: "handled r st (handleInit sr ch r new_writer st)"
  unfolding handleInit_def by (rule with_auth_handled) (simp_all add: init_decoded_handled)

section \<open>Properties\<close>

lemma audit_route [simp]: "audit_fields d (r\<lparr>rq_id := i\<rparr>) = audit_fields d r"
  by (simp add: audit_fields_def reqAuditFields_def)

lemma handled_route: "handled (r\<lparr>rq_id := i\<rparr>) st p \<longleftrightarrow> handled r st p"
  by (simp add: handled_def kept_def)

lemma audit_no_credentials: "FHeader h \<in> set (audit_fields d r) \<Longrightarrow> ''Authorization'' \<notin> fst ` set h"
  by (auto simp: audit_fields_def reqAuditFields_def Let_def AList.delete_eq split: if_splits)

lemma serve_handled:
  assumes "range_order (ch_order ch) (sessionMap (sv_cache st))" "\<And>p q. status (profiling p q) \<in> statuses"
  shows "handled r st (serve sr v profiling ch r st)"
proof (cases "route (rq_Method r) (rq_Path r)")
  case RVersion
  have "status (getVersion v r new_writer) \<in> statuses"
    by (simp add: getVersion_def writer_defs Let_def statuses_def)
  with RVersion show ?thesis by (simp add: serve_def handled_def)
next
  case (RJobLogs i)
  then show ?thesis using handleJobGetLogs_handled handled_route by (fastforce simp: serve_def Let_def)
next
  case (RGetJob i)
  then show ?thesis using handleGetJob_handled handled_route by (fastforce simp: serve_def Let_def)
next
  case (RDeleteJob i)
  then show ?thesis using handleDeleteJob_handled handled_route by (fastforce simp: serve_def Let_def)
next
  case (RProfiling p)
  with assms(2) show ?thesis by (simp add: serve_def handled_def)
next
  case RMethodNotAllowed
  then show ?thesis by (simp add: serve_def handled_def writer_defs statuses_def)
qed (use loginClient_handled [OF assms(1)] registerClient_handled unregisterClient_handled handleCreateJob_handled
    handleInit_handled handled_NotFound in \<open>simp_all add: serve_def Let_def\<close>)



end
