(* ===== verification/Job_Lifecycle.thy ===== *)
theory Job_Lifecycle
  imports Jobs_Api
begin

text \<open>
  The life of jobs across goroutines: the request that creates a job saves its record after the job was
  started, while the watcher of the job may call the callback at any time from then on. The steps
  between which the others may run are those of \<^verbatim>\<open>handleCreateJob\<close> and of the callback in
  \<^verbatim>\<open>service/jobs_api.go\<close>.
\<close>

section \<open>Steps\<close>

text \<open>
  \<open>lc_created\<close> are the jobs started and not yet saved, \<open>lc_watched\<close> those whose watcher has not yet called
  the callback.
\<close>

record ('d, 'w) lifecycle =
  lc_svc :: "('d, 'w) svc"
  lc_created :: "Job set"
  lc_watched :: "Job set"

text \<open>
  \<open>ordered\<close> restricts the callback to jobs whose request has saved them; the code does not. The other
  requests and the world may change what does not belong to jobs.
\<close>

inductive lc_step ::
  "('d, 'w, 'v, 'rr) server \<Rightarrow> ('d \<Rightarrow> string \<Rightarrow> string option) \<Rightarrow> bool \<Rightarrow> ('d, 'w) lifecycle \<Rightarrow> ('d, 'w) lifecycle \<Rightarrow> bool"
  for sr ct ordered where
  lc_create: "js_CreateJob (sr_jobs sr) cfg True (sv_world (lc_svc s)) = (Done (Inr jb), u) \<Longrightarrow>
    job_ok (sr_codec sr) jb \<Longrightarrow>
    lc_step sr ct ordered s
      (s\<lparr>lc_svc := (lc_svc s)\<lparr>sv_world := u\<rparr>, lc_created := insert jb (lc_created s),
         lc_watched := insert jb (lc_watched s)\<rparr>)"
| lc_save: "jb \<in> lc_created s \<Longrightarrow>
    save_created sr r data jb new_writer (lc_svc s) = (x, st') \<Longrightarrow>
    lc_step sr ct ordered s (s\<lparr>lc_svc := st', lc_created := lc_created s - {jb}\<rparr>)"
| lc_stop: "jb \<in> lc_watched s \<Longrightarrow> (ordered \<Longrightarrow> jb \<notin> lc_created s) \<Longrightarrow>
    0 < now div 1000000 \<Longrightarrow> int64_range (now div 1000000) \<Longrightarrow>
    onStop sr now (job_ID jb) success (lc_svc s) = (y, st') \<Longrightarrow>
    lc_step sr ct ordered s (s\<lparr>lc_svc := st', lc_watched := lc_watched s - {jb}\<rparr>)"
| lc_other: "(\<And>i. ct d' (jobKeyPrefix @ i) = ct (sv_db (lc_svc s)) (jobKeyPrefix @ i)) \<Longrightarrow>
    lc_step sr ct ordered s
      (s\<lparr>lc_svc := (lc_svc s)\<lparr>sv_db := d', sv_cache := c', sv_world := u', sv_audit := a'\<rparr>\<rparr>)"

inductive_cases lc_stepE: "lc_step sr ct ordered s t"

inductive lc_reach ::
  "('d, 'w, 'v, 'rr) server \<Rightarrow> ('d \<Rightarrow> string \<Rightarrow> string option) \<Rightarrow> bool \<Rightarrow> ('d, 'w) lifecycle \<Rightarrow> ('d, 'w) lifecycle \<Rightarrow> bool"
  for sr ct ordered s0 where
  lc_refl: "lc_reach sr ct ordered s0 s0"
| lc_next: "lc_reach sr ct ordered s0 s \<Longrightarrow> lc_step sr ct ordered s t \<Longrightarrow> lc_reach sr ct ordered s0 t"

definition lc_start :: "('d, 'w) svc \<Rightarrow> ('d, 'w) lifecycle" where
  "lc_start st = \<lparr>lc_svc = st, lc_created = {}, lc_watched = {}\<rparr>"

section \<open>No job is left running in the records\<close>

text \<open>A store without faults.\<close>

definition reliable :: "'d store_ops \<Rightarrow> ('d \<Rightarrow> string \<Rightarrow> string option) \<Rightarrow> bool" where
  "reliable S ct \<longleftrightarrow>
     (\<forall>d k v. k \<noteq> [] \<longrightarrow> fst (st_Set S d k v) = None) \<and>
     (\<forall>d k v. k \<noteq> [] \<longrightarrow> ct d k = Some v \<longrightarrow> st_Get S d k = Inr v)"

text \<open>
  A record that says its job is running has a watcher that will still call the callback; records are
  under the identifier of their job and can be written again.
\<close>

definition records_ok :: "codec \<Rightarrow> (string \<Rightarrow> string option) \<Rightarrow> string set \<Rightarrow> bool" where
  "records_ok cd m watched \<longleftrightarrow>
     (\<forall>i jb. stored cd m i = Some jb \<longrightarrow>
        job_ID jb = i \<and> job_ok cd jb \<and> (job_StopAt jb = 0 \<longrightarrow> i \<in> watched))"

definition lc_inv :: "codec \<Rightarrow> ('d \<Rightarrow> string \<Rightarrow> string option) \<Rightarrow> ('d, 'w) lifecycle \<Rightarrow> bool" where
  "lc_inv cd ct s \<longleftrightarrow>
     lc_created s \<subseteq> lc_watched s \<and> (\<forall>jb \<in> lc_created s. job_ok cd jb) \<and>
     records_ok cd (ct (sv_db (lc_svc s))) (job_ID ` lc_watched s)"

lemma job_ok_StopAt: "job_ok cd jb \<Longrightarrow> int64_range t \<Longrightarrow> job_ok cd (jb\<lparr>job_StopAt := t\<rparr>)"
  by (simp add: job_ok_def)

lemma records_ok_mono: "records_ok cd m W \<Longrightarrow> W \<subseteq> W' \<Longrightarrow> records_ok cd m W'"
  by (auto simp: records_ok_def)

lemma save_created_db:
  assumes "save_created sr r data jb w st = (x, st')"
  shows "\<exists>e. SaveJob (sr_store sr) (sr_codec sr) (sv_db st) jb = (e, sv_db st')"
  using assms by (auto simp: save_created_def split: prod.splits option.splits dest: finish_state)

context kv_store
begin

lemma SaveJob_records:
  assumes "records_ok cd (ct d) W" "job_ok cd jb" "SaveJob S cd d jb = (r, d')" "reliable S ct"
  shows "records_ok cd (ct d') (if job_StopAt jb = 0 then insert (job_ID jb) W else W - {job_ID jb})" "r = None"
proof -
  from Unmarshal_Marshal_Job [OF assms(2)] obtain js where js: "Marshal_Job cd jb = Inr js"
    "Unmarshal_Job cd js = Inr (job_sorted jb)" by blast
  with assms(3,4) show r: "r = None"
    by (auto simp: SaveJob_def reliable_def split: prod.splits option.splits)
      (metis append_is_Nil_conv fst_conv jobKeyPrefix_not_Nil option.distinct(1))
  from SaveJob_ok [OF assms(3) [unfolded r]] js(1) have d': "ct d' = (ct d)(jobKeyPrefix @ job_ID jb \<mapsto> js)" by auto
  have "stored cd (ct d') i = (if i = job_ID jb then Some (job_sorted jb) else stored cd (ct d) i)" for i
    using js(2) by (auto simp: stored_def d')
  with assms(1,2) show "records_ok cd (ct d') (if job_StopAt jb = 0 then insert (job_ID jb) W else W - {job_ID jb})"
    by (auto simp: records_ok_def job_ok_sorted)
qed

lemma store_DeleteJob_records:
  assumes "records_ok cd (ct d) W" "store_DeleteJob S d i = (r, d')"
  shows "records_ok cd (ct d') W"
proof -
  have "stored cd (ct d') j = Some jb \<Longrightarrow> stored cd (ct d) j = Some jb" for j jb
  proof (cases "j = i")
    case True
    assume "stored cd (ct d') j = Some jb"
    moreover have "ct d' = ct d \<or> ct d' = (ct d)(jobKeyPrefix @ i := None)"
      using assms(2) delete_ok delete_err
      by (fastforce simp: store_DeleteJob_def split: prod.splits option.splits)
    ultimately show ?thesis using True by (auto simp: stored_def)
  next
    case False
    assume "stored cd (ct d') j = Some jb"
    with store_DeleteJob_frame [OF assms(2), of "jobKeyPrefix @ j"] False show ?thesis by (simp add: stored_def)
  qed
  with assms(1) show ?thesis unfolding records_ok_def by blast
qed

text \<open>After the callback the record of the job no longer says that it is running.\<close>

lemma onStop_records:
  assumes "sr_store sr = S" "sr_codec sr = cd" "reliable S ct"
    and "records_ok cd (ct (sv_db st)) W" "0 < now div 1000000" "int64_range (now div 1000000)"
    and "onStop sr now i success st = (y, st')"
  shows "records_ok cd (ct (sv_db st')) (W - {i})"
proof (cases "GetJob S cd (sv_db st) i")
  case (Inl err)
  have "stored cd (ct (sv_db st)) i = None"
  proof (rule ccontr)
    assume "stored cd (ct (sv_db st)) i \<noteq> None"
    then obtain jb where jb: "stored cd (ct (sv_db st)) i = Some jb" by blast
    with GetJob_cases [OF jb] Inl assms(3) show False
      by (auto simp: stored_def reliable_def split: option.splits)
  qed
  moreover have "sv_db st' = sv_db st" using assms(1,2,7) Inl by (simp add: onStop_def)
  ultimately show ?thesis using assms(4) by (auto simp: records_ok_def)
next
  case (Inr jb)
  from GetJob_stored [OF Inr] assms(4) have jb: "job_ID jb = i" "job_ok cd jb" "stored cd (ct (sv_db st)) i = Some jb"
    by (auto simp: records_ok_def)
  let ?jb = "jb\<lparr>job_StopAt := now div 1000000\<rparr>"
  obtain e d where save: "(if job_StopAt jb = 0 then SaveJob S cd (sv_db st) ?jb else (None, sv_db st)) = (e, d)"
    by (cases "if job_StopAt jb = 0 then SaveJob S cd (sv_db st) ?jb else (None, sv_db st)")
  have d: "records_ok cd (ct d) (W - {i})" "e = None"
  proof -
    show "records_ok cd (ct d) (W - {i})"
    proof (cases "job_StopAt jb = 0")
      case True
      with save have "SaveJob S cd (sv_db st) ?jb = (e, d)" by simp
      from SaveJob_records(1) [OF assms(4) job_ok_StopAt [OF jb(2) assms(6)] this assms(3)] assms(5) jb(1)
      show ?thesis by simp
    next
      case False
      with save assms(4) jb(3) show ?thesis by (auto simp: records_ok_def)
    qed
    show "e = None"
      using save SaveJob_records(2) [OF assms(4) job_ok_StopAt [OF jb(2) assms(6)] _ assms(3), of e d]
      by (auto split: if_splits)
  qed
  have step: "(if success then onStop_remove sr i (st\<lparr>sv_db := d\<rparr>) else (Done None, st\<lparr>sv_db := d\<rparr>)) = (y, st')"
    using assms(7) save d(2) jb(1) Inr unfolding onStop_def assms(1,2)
    by (cases success) simp_all
  have "sv_db st' = d \<or> (\<exists>r. store_DeleteJob S d i = (r, sv_db st'))"
    using step assms(1) by (auto simp: onStop_remove_def split: if_splits prod.splits outcome.splits sum.splits)
  with d(1) store_DeleteJob_records [OF d(1)] show ?thesis by auto
qed

lemma lc_step_inv:
  assumes "lc_step sr ct True s t" "sr_store sr = S" "reliable S ct" "lc_inv (sr_codec sr) ct s"
  shows "lc_inv (sr_codec sr) ct t"
  using assms
proof (cases rule: lc_step.cases)
  case (lc_create cfg jb u)
  then show ?thesis
    using assms(4) by (auto simp: lc_inv_def intro: records_ok_mono)
next
  case (lc_save jb r data x st')
  from save_created_db [OF lc_save(3)] assms(2) obtain e where
    save: "SaveJob S (sr_codec sr) (sv_db (lc_svc s)) jb = (e, sv_db st')" by auto
  have jb: "job_ok (sr_codec sr) jb" "jb \<in> lc_watched s"
    and rec: "records_ok (sr_codec sr) (ct (sv_db (lc_svc s))) (job_ID ` lc_watched s)"
    and sub: "lc_created s \<subseteq> lc_watched s" "\<forall>jb \<in> lc_created s. job_ok (sr_codec sr) jb"
    using assms(4) lc_save(2) by (auto simp: lc_inv_def)
  have "records_ok (sr_codec sr) (ct (sv_db st')) (job_ID ` lc_watched s)"
    by (rule records_ok_mono [OF SaveJob_records(1) [OF rec jb(1) save assms(3)]]) (use jb(2) in auto)
  with lc_save(1) sub show ?thesis by (auto simp: lc_inv_def)
next
  case (lc_stop jb now success y st')
  have rec: "records_ok (sr_codec sr) (ct (sv_db (lc_svc s))) (job_ID ` lc_watched s)"
    and sub: "lc_created s \<subseteq> lc_watched s" "\<forall>jb \<in> lc_created s. job_ok (sr_codec sr) jb"
    using assms(4) by (auto simp: lc_inv_def)
  have "records_ok (sr_codec sr) (ct (sv_db st')) (job_ID ` (lc_watched s - {jb}))"
    by (rule records_ok_mono [OF onStop_records [OF assms(2) refl assms(3) rec lc_stop(4,5,6)]]) auto
  with lc_stop(1,3) sub show ?thesis by (auto simp: lc_inv_def)
next
  case (lc_other d' c' u' a')
  then have "stored (sr_codec sr) (ct d') i = stored (sr_codec sr) (ct (sv_db (lc_svc s))) i" for i
    by (simp add: stored_def)
  with lc_other assms(4) show ?thesis by (simp add: lc_inv_def records_ok_def)
qed

lemma lc_reach_inv:
  assumes "lc_reach sr ct True s0 s" "sr_store sr = S" "reliable S ct" "lc_inv (sr_codec sr) ct s0"
  shows "lc_inv (sr_codec sr) ct s"
  using assms(1) by (induction rule: lc_reach.induct) (use assms lc_step_inv in blast)+

text \<open>A watcher whose job is saved can call the callback, and then the record is not running.\<close>

lemma lc_stop_enabled:
  assumes "lc_inv (sr_codec sr) ct s" "sr_store sr = S" "reliable S ct" "jb \<in> lc_watched s" "jb \<notin> lc_created s"
  shows "\<exists>t. lc_step sr ct True s t \<and>
    (\<forall>j. stored (sr_codec sr) (ct (sv_db (lc_svc t))) (job_ID jb) = Some j \<longrightarrow> job_StopAt j \<noteq> 0)"
proof -
  have now: "0 < (1000000 :: int) div 1000000" "int64_range (1000000 div 1000000)" by (simp_all add: int64_range_def)
  obtain y st' where stop: "onStop sr 1000000 (job_ID jb) False (lc_svc s) = (y, st')" by fastforce
  from lc_step.lc_stop [OF assms(4) _ now stop, of True ct] assms(5)
  have "lc_step sr ct True s (s\<lparr>lc_svc := st', lc_watched := lc_watched s - {jb}\<rparr>)" by simp
  moreover have "records_ok (sr_codec sr) (ct (sv_db st')) (job_ID ` lc_watched s - {job_ID jb})"
    by (rule onStop_records [OF assms(2) refl assms(3) _ now stop]) (use assms(1) in \<open>simp add: lc_inv_def\<close>)
  then have "\<forall>j. stored (sr_codec sr) (ct (sv_db st')) (job_ID jb) = Some j \<longrightarrow> job_StopAt j \<noteq> 0"
    unfolding records_ok_def by blast
  ultimately show ?thesis
    by (intro exI [of _ "s\<lparr>lc_svc := st', lc_watched := lc_watched s - {jb}\<rparr>"]) simp
qed

lemma lc_stop_reachable:
  assumes "lc_inv (sr_codec sr) ct s" "sr_store sr = S" "reliable S ct" "jb \<in> lc_watched s"
  shows "\<exists>t. lc_reach sr ct True s t \<and>
    (\<forall>j. stored (sr_codec sr) (ct (sv_db (lc_svc t))) (job_ID jb) = Some j \<longrightarrow> job_StopAt j \<noteq> 0)"
proof (cases "jb \<in> lc_created s")
  case False
  from lc_stop_enabled [OF assms False] show ?thesis by (blast intro: lc_reach.intros)
next
  case True
  obtain x st' where save: "save_created sr undefined newHTTPData jb new_writer (lc_svc s) = (x, st')" by fastforce
  let ?s = "s\<lparr>lc_svc := st', lc_created := lc_created s - {jb}\<rparr>"
  have step: "lc_step sr ct True s ?s" by (rule lc_step.lc_save [OF True save])
  note inv = lc_step_inv [OF step assms(2,3,1)]
  from lc_stop_enabled [OF inv assms(2,3), of jb] assms(4) obtain t where
    t: "lc_step sr ct True ?s t"
      "\<forall>j. stored (sr_codec sr) (ct (sv_db (lc_svc t))) (job_ID jb) = Some j \<longrightarrow> job_StopAt j \<noteq> 0"
    by auto
  have "lc_reach sr ct True s t" by (rule lc_next [OF lc_next [OF lc_refl step] t(1)])
  with t(2) show ?thesis by blast
qed

end

section \<open>Properties\<close>

lemma lc_start_inv: "records_ok cd (ct (sv_db st)) {} \<Longrightarrow> lc_inv cd ct (lc_start st)"
  by (simp add: lc_inv_def lc_start_def)

lemma lc_inv_running:
  assumes "lc_inv cd ct s" "stored cd (ct (sv_db (lc_svc s))) i = Some jb"
  shows "job_ID jb = i" "job_StopAt jb = 0 \<Longrightarrow> \<exists>jb' \<in> lc_watched s. job_ID jb' = i"
proof -
  from assms have "job_ID jb = i \<and> (job_StopAt jb = 0 \<longrightarrow> i \<in> job_ID ` lc_watched s)"
    unfolding lc_inv_def records_ok_def by blast
  then show "job_ID jb = i" "job_StopAt jb = 0 \<Longrightarrow> \<exists>jb' \<in> lc_watched s. job_ID jb' = i" by auto
qed



text \<open>A database that never fails, and a server over it.\<close>

definition plain_bitcask :: "(string \<rightharpoonup> string) bitcask" where
  "plain_bitcask =
     \<lparr>db_Has = (\<lambda>d k. d k \<noteq> None),
      db_Get = (\<lambda>d k. case d k of None \<Rightarrow> Inl (Foreign bitcask_ErrKeyNotFound ''error: key not found'') | Some v \<Rightarrow> Inr v),
      db_Put = (\<lambda>d k v. (None, d(k \<mapsto> v))), db_Delete = (\<lambda>d k. (None, d(k := None))),
      db_Sync = (\<lambda>d. (None, d)), db_Close = (\<lambda>d. (None, d))\<rparr>"

interpretation plain: bitcask_db plain_bitcask "\<lambda>d. d"
  by unfold_locales (auto simp: plain_bitcask_def split: option.splits)

lemma plain_bitcask_db: "bitcask_db plain_bitcask (\<lambda>d. d)"
  by (rule plain.bitcask_db_axioms)

lemma plain_reliable: "reliable (bitcaskStore plain_bitcask) (\<lambda>d. d)"
  by (simp add: reliable_def bitcaskStore_defs plain_bitcask_def)

definition plain_server :: "(string \<rightharpoonup> string, sim, version, unit) server" where
  "plain_server =
     \<lparr>sr_cfg = sr_cfg (sample_server False), sr_store = bitcaskStore plain_bitcask, sr_jobs = sr_jobs (sample_server False),
      sr_bcrypt = mark_bcrypt, sr_codec = whole_codec, sr_lib = triple_lib test_env\<rparr>"

definition plain_svc :: "(string \<rightharpoonup> string) \<Rightarrow> sim \<Rightarrow> (string \<rightharpoonup> string, sim) svc" where
  "plain_svc m u = \<lparr>sv_db = m, sv_cache = sample_cache, sv_world = u, sv_audit = []\<rparr>"

lemma plain_server_simps [simp]:
  "sr_store plain_server = bitcaskStore plain_bitcask" "sr_codec plain_server = whole_codec"
  "sr_jobs plain_server = docker_jobs test_host (\<lambda>rs. rs) False [] (sim_service 1)"
  "security plain_server = sample_security False"
  by (simp_all add: plain_server_def)

lemma plain_svc_simps [simp]:
  "sv_db (plain_svc m u) = m" "sv_world (plain_svc m u) = u" "sv_cache (plain_svc m u) = sample_cache"
  by (simp_all add: plain_svc_def)

abbreviation first_job :: Job where
  "first_job \<equiv> sample_Job ''aaaaaaaaaaaa''"

abbreviation after_create :: sim where
  "after_create \<equiv> sample_started ''aaaaaaaaaaaa1111'' [''bbbbbbbbbbbb2222''] sample_sim"

lemma plain_create:
  "lc_step plain_server (\<lambda>d. d) ordered (lc_start (plain_svc Map.empty sample_sim))
    \<lparr>lc_svc = plain_svc Map.empty after_create, lc_created = {first_job}, lc_watched = {first_job}\<rparr>"
proof -
  have "js_CreateJob (sr_jobs plain_server) sample_JobConfig True (sv_world (lc_svc (lc_start (plain_svc Map.empty sample_sim)))) =
    (Done (Inr first_job), after_create)"
    by (simp add: lc_start_def docker_jobs_def sample_CreateJob)
  from lc_step.lc_create [OF this] sample_Job_ok show ?thesis
    by (simp add: lc_start_def plain_svc_def)
qed

lemma first_job_simps [simp]: "job_ID first_job = ''aaaaaaaaaaaa''" "job_StopAt first_job = 0"
  by (simp_all add: sample_Job_def)

lemma plain_SaveJob:
  assumes "job_ok cd jb"
  obtains js where "\<And>m. SaveJob (bitcaskStore plain_bitcask) cd m jb = (None, m(jobKeyPrefix @ job_ID jb \<mapsto> js))"
    "\<And>m. stored cd (m(jobKeyPrefix @ job_ID jb \<mapsto> js)) (job_ID jb) = Some (job_sorted jb)"
    "\<And>m. GetJob (bitcaskStore plain_bitcask) cd (m(jobKeyPrefix @ job_ID jb \<mapsto> js)) (job_ID jb) = Inr (job_sorted jb)"
  using Unmarshal_Marshal_Job [OF assms]
  by (auto simp: SaveJob_def GetJob_def stored_def bitcaskStore_defs plain_bitcask_def jobKeyPrefix_def)

lemma plain_save:
  assumes "jb \<in> lc_created s" "job_ok whole_codec jb"
  obtains st' where "lc_step plain_server (\<lambda>d. d) ordered s (s\<lparr>lc_svc := st', lc_created := lc_created s - {jb}\<rparr>)"
    "sv_world st' = sv_world (lc_svc s)" "sv_cache st' = sv_cache (lc_svc s)"
    "stored whole_codec (sv_db st') (job_ID jb) = Some (job_sorted jb)"
    "GetJob (bitcaskStore plain_bitcask) whole_codec (sv_db st') (job_ID jb) = Inr (job_sorted jb)"
proof -
  obtain x st' where save: "save_created plain_server (basic_request ''POST'' ''/jobs'' [] [] [] []) newHTTPData jb new_writer (lc_svc s) = (x, st')"
    by fastforce
  from save_created_result [OF save] save_created_db [OF save] obtain e where
    e: "SaveJob (bitcaskStore plain_bitcask) whole_codec (sv_db (lc_svc s)) jb = (e, sv_db st')"
      "sv_world st' = sv_world (lc_svc s)" "sv_cache st' = sv_cache (lc_svc s)"
    by (auto simp: newHTTPData_def)
  obtain js where js: "\<And>m. SaveJob (bitcaskStore plain_bitcask) whole_codec m jb = (None, m(jobKeyPrefix @ job_ID jb \<mapsto> js))"
    "\<And>m. stored whole_codec (m(jobKeyPrefix @ job_ID jb \<mapsto> js)) (job_ID jb) = Some (job_sorted jb)"
    "\<And>m. GetJob (bitcaskStore plain_bitcask) whole_codec (m(jobKeyPrefix @ job_ID jb \<mapsto> js)) (job_ID jb) = Inr (job_sorted jb)"
    using plain_SaveJob [OF assms(2)] by blast
  from e(1) js(1) have "sv_db st' = (sv_db (lc_svc s))(jobKeyPrefix @ job_ID jb \<mapsto> js)" by simp
  with that [OF lc_step.lc_save [OF assms(1) save] e(2,3)] js(2,3) show thesis by simp
qed

text \<open>The job in memory is created and saved; its watcher is still to call.\<close>

lemma plain_run:
  obtains s where "lc_reach plain_server (\<lambda>d. d) True (lc_start (plain_svc Map.empty sample_sim)) s"
    "stored whole_codec (sv_db (lc_svc s)) ''aaaaaaaaaaaa'' = Some (job_sorted first_job)"
proof -
  let ?s = "\<lparr>lc_svc = plain_svc Map.empty after_create, lc_created = {first_job}, lc_watched = {first_job}\<rparr> :: (string \<rightharpoonup> string, sim) lifecycle"
  obtain st' where st': "lc_step plain_server (\<lambda>d. d) True ?s (?s\<lparr>lc_svc := st', lc_created := lc_created ?s - {first_job}\<rparr>)"
    "stored whole_codec (sv_db st') (job_ID first_job) = Some (job_sorted first_job)"
    using plain_save [of first_job ?s True] sample_Job_ok by auto
  with that [OF lc_next [OF lc_next [OF lc_refl plain_create] st'(1)]] show thesis by simp
qed




end
