(* ===== verification/Client.thy ===== *)
theory Client
  imports Job_Lifecycle Urls
begin

text \<open>
  The client of \<^verbatim>\<open>public/client.go\<close>. The network is a parameter: a transport takes a request to a
  response and changes a state of any type. The last sections put the handlers of this repository
  behind the transport, so that a call of the client runs a handler of the service.
\<close>

section \<open>The network\<close>

text \<open>
  What \<^verbatim>\<open>http.NewRequest\<close> and \<^verbatim>\<open>http.Client.Do\<close> are called with: \<open>or_Auth\<close> is the \<^verbatim>\<open>Authorization\<close> header, empty
  if there is none. The body of a response can be read whole or fails to be read.
\<close>

record out_request =
  or_Method :: string
  or_URL :: string
  or_Auth :: string
  or_Body :: string

record response =
  rs_StatusCode :: int
  rs_Status :: string
  rs_Body :: "string res"

type_synonym 'n transport = "out_request \<Rightarrow> 'n \<Rightarrow> response res \<times> 'n"

record 'f TransportConfig =
  DialContext :: 'f
  MaxConnsPerHost :: int
  MaxIdleConns :: int
  MaxIdleConnsPerHost :: int
  ResponseHeaderTimeout :: int
  IdleConnTimeout :: int
  TLSHandshakeTimeout :: int
  ExpectContinueTimeout :: int

text \<open>
  The parts of \<^verbatim>\<open>net/http\<close>, \<^verbatim>\<open>net/url\<close> and \<^verbatim>\<open>net\<close>: the error of building a request, the client over a
  transport that asks the environment for a proxy, the dialer for a timeout, a keep alive and dual stack.
\<close>

record ('f, 'n) http_lib =
  hl_Parse :: "string \<Rightarrow> URL res"
  hl_NewRequest :: "string \<Rightarrow> string \<Rightarrow> goerr option"
  hl_Client :: "'f TransportConfig \<Rightarrow> 'n transport"
  hl_Dialer :: "int \<Rightarrow> int \<Rightarrow> bool \<Rightarrow> 'f"

section \<open>Clients\<close>

record ClientConfig =
  httpURL :: string
  cc_ClientID :: string
  cc_AuthKey :: string
  cc_URL :: string

text \<open>A pointer that is nil is \<open>None\<close>, so is a function.\<close>

record ('f, 'n) Client =
  cl_cfg :: "ClientConfig option"
  cl_httpClient :: "'n transport option"
  cl_dialFn :: "'f option"
  cl_authToken :: string

definition zero_Client :: "('f, 'n) Client" where
  "zero_Client = \<lparr>cl_cfg = None, cl_httpClient = None, cl_dialFn = None, cl_authToken = []\<rparr>"

definition ClientConfig_Parse :: "(string \<Rightarrow> URL res) \<Rightarrow> ClientConfig \<Rightarrow> ClientConfig res" where
  "ClientConfig_Parse parse c =
     (if cc_URL c = [] then Inl (Errorf ''invalid URL value: should not be empty'')
      else (case parse (cc_URL c) of
          Inl err \<Rightarrow> Inl (Wrapf ''failed to parse url: '' err)
        | Inr u \<Rightarrow>
            if url_Host u = [] then Inl (Errorf ''invalid url host: should not be empty'')
            else if url_Scheme u = ''http'' \<or> url_Scheme u = ''https'' then Inr (c\<lparr>httpURL := cc_URL c\<rparr>)
            else Inl (Errorf (''invalid url scheme: '' @ quoted (url_Scheme u) @ '' is not valid''))))"

type_synonym ('f, 'n) ClientOption = "('f, 'n) Client \<Rightarrow> goerr option \<times> ('f, 'n) Client"

definition WithDialFunc :: "'f \<Rightarrow> ('f, 'n) ClientOption" where
  "WithDialFunc dialFn = (\<lambda>c. (None, c\<lparr>cl_dialFn := Some dialFn\<rparr>))"

fun apply_options :: "('f, 'n) ClientOption list \<Rightarrow> ('f, 'n) Client \<Rightarrow> ('f, 'n) Client res" where
  "apply_options [] c = Inr c"
| "apply_options (opt # opts) c =
     (case opt c of
        (Some err, c') \<Rightarrow> Inl (Wrapf ''failed to apply option: '' err)
      | (None, c') \<Rightarrow> apply_options opts c')"

definition client_transport :: "'f \<Rightarrow> 'f TransportConfig" where
  "client_transport dialFn =
     \<lparr>DialContext = dialFn, MaxConnsPerHost = 100, MaxIdleConns = 100, MaxIdleConnsPerHost = 100,
      ResponseHeaderTimeout = 2 * time_Minute, IdleConnTimeout = 90 * time_Second, TLSHandshakeTimeout = 1 * time_Second,
      ExpectContinueTimeout = 1 * time_Second\<rparr>"

definition NewClient :: "('f, 'n) http_lib \<Rightarrow> ClientConfig \<Rightarrow> ('f, 'n) ClientOption list \<Rightarrow> ('f, 'n) Client res" where
  "NewClient lib cfg opts =
     (case ClientConfig_Parse (hl_Parse lib) cfg of
        Inl err \<Rightarrow> Inl (Wrapf ''failed to parse config: '' err)
      | Inr cfg' \<Rightarrow> (case apply_options opts (zero_Client\<lparr>cl_cfg := Some cfg'\<rparr>) of
          Inl err \<Rightarrow> Inl err
        | Inr c \<Rightarrow>
            let dialFn = (case cl_dialFn c of None \<Rightarrow> hl_Dialer lib (5 * time_Second) (30 * time_Second) True | Some f \<Rightarrow> f)
            in Inr (c\<lparr>cl_httpClient := Some (hl_Client lib (client_transport dialFn))\<rparr>)))"

text \<open>The getters. A client that was not made by \<^verbatim>\<open>NewClient\<close> has no configuration.\<close>

definition Client_AuthToken :: "('f, 'n) Client \<Rightarrow> string" where
  "Client_AuthToken c = cl_authToken c"

definition Client_URL :: "('f, 'n) Client \<Rightarrow> string outcome" where
  "Client_URL c = (case cl_cfg c of None \<Rightarrow> Panic ''nil pointer dereference'' | Some cfg \<Rightarrow> Done (httpURL cfg))"

section \<open>Requests\<close>

text \<open>
  The beginning all calls share, up to the response: the client must be initialised, the body encoded and
  the request built; \<open>authd\<close> says whether the request carries the credentials of the client.
\<close>

definition send_request ::
  "('f, 'n) http_lib \<Rightarrow> ('f, 'n) Client \<Rightarrow> string \<Rightarrow> string \<Rightarrow> bool \<Rightarrow> string res \<Rightarrow> ('n, response) proc" where
  "send_request lib c method path authd body =
     (case cl_httpClient c of
        None \<Rightarrow> fail (Errorf ''http client is not initialized'')
      | Some Do \<Rightarrow> (case body of
          Inl err \<Rightarrow> fail (Wrapf ''failed to encode body: '' err)
        | Inr buf \<Rightarrow> (case cl_cfg c of
            None \<Rightarrow> (\<lambda>n. (Panic ''nil pointer dereference'', n))
          | Some cfg \<Rightarrow> (case hl_NewRequest lib method (httpURL cfg @ path) of
              Some err \<Rightarrow> fail (Wrapf ''failed to build request: '' err)
            | None \<Rightarrow> wrapping ''http request failed: ''
                (call (Do \<lparr>or_Method = method, or_URL = httpURL cfg @ path,
                  or_Auth = (if authd then SetBasicAuth (cc_ClientID cfg) (cc_AuthKey cfg) else []), or_Body = buf\<rparr>))))))"

text \<open>A value decoded from the body of a response.\<close>

definition decode_response :: "(string \<Rightarrow> 'a res) \<Rightarrow> response \<Rightarrow> 'a res" where
  "decode_response dec resp =
     (case rs_Body resp of
        Inl err \<Rightarrow> Inl (Wrapf ''decoding http response failed: '' err)
      | Inr body \<Rightarrow> (case dec body of
          Inl err \<Rightarrow> Inl (Wrapf ''decoding http response failed: '' err)
        | Inr x \<Rightarrow> Inr x))"

definition strings_body :: "codec \<Rightarrow> string \<Rightarrow> (string \<times> string) list option res" where
  "strings_body cd body = (case Decode_strings cd body of (None, m) \<Rightarrow> Inr m | (Some err, m) \<Rightarrow> Inl err)"

definition request_failed :: "string \<Rightarrow> response \<Rightarrow> goerr" where
  "request_failed errMsg resp =
     (if errMsg \<noteq> [] then Errorf (''request failed: '' @ errMsg)
      else Errorf (''request failed with status '' @ rs_Status resp))"

text \<open>The end of the calls that failed otherwise, for \<^verbatim>\<open>map[string]string\<close> and \<^verbatim>\<open>map[string]any\<close>.\<close>

definition strings_failure :: "codec \<Rightarrow> response \<Rightarrow> goerr" where
  "strings_failure cd resp =
     (case decode_response (strings_body cd) resp of
        Inl err \<Rightarrow> err
      | Inr respData \<Rightarrow> request_failed (get_string respData ''error'') resp)"

definition any_string :: "InputData \<Rightarrow> string \<Rightarrow> string" where
  "any_string m k =
     (case m of
        None \<Rightarrow> []
      | Some kvs \<Rightarrow> (case map_of kvs k of Some (AnyStr s) \<Rightarrow> s | _ \<Rightarrow> []))"

definition any_failure :: "codec \<Rightarrow> response \<Rightarrow> goerr" where
  "any_failure cd resp =
     (case decode_response (Decode_any_map cd) resp of
        Inl err \<Rightarrow> err
      | Inr respData \<Rightarrow> request_failed (any_string respData ''error'') resp)"

section \<open>Calls\<close>

definition Client_Register ::
  "('f, 'n) http_lib \<Rightarrow> codec \<Rightarrow> ('f, 'n) Client \<Rightarrow> string \<Rightarrow> string \<Rightarrow> ('n, unit) proc" where
  "Client_Register lib cd c clientID authKey =
     andThen (send_request lib c ''POST'' ''/register'' True
       (Inr (Encode_strings [(''clientID'', clientID), (''authKey'', authKey)]))) (\<lambda>resp.
     if rs_StatusCode resp = 201 then ret ()
     else if rs_StatusCode resp = 401 then fail (Sentinel ErrUnauthorized)
     else fail (strings_failure cd resp))"

definition Client_Unregister ::
  "('f, 'n) http_lib \<Rightarrow> codec \<Rightarrow> ('f, 'n) Client \<Rightarrow> string \<Rightarrow> ('n, unit) proc" where
  "Client_Unregister lib cd c clientID =
     andThen (send_request lib c ''POST'' ''/unregister'' True (Inr (Encode_strings [(''clientID'', clientID)]))) (\<lambda>resp.
     if rs_StatusCode resp = 200 then ret ()
     else if rs_StatusCode resp = 401 then fail (Sentinel ErrUnauthorized)
     else fail (strings_failure cd resp))"

text \<open>The response is decoded whatever its status. The result is the client with its token set.\<close>

definition Client_Login ::
  "('f, 'n) http_lib \<Rightarrow> codec \<Rightarrow> ('f, 'n) Client \<Rightarrow> string \<Rightarrow> string \<Rightarrow> ('n, ('f, 'n) Client) proc" where
  "Client_Login lib cd c clientID authKey =
     andThen (send_request lib c ''POST'' ''/login'' False
       (Inr (Encode_strings [(''clientID'', clientID), (''authKey'', authKey)]))) (\<lambda>resp.
     case decode_response (strings_body cd) resp of
       Inl err \<Rightarrow> fail err
     | Inr respData \<Rightarrow>
         if rs_StatusCode resp = 200 then ret (c\<lparr>cl_authToken := get_string respData ''bearerToken''\<rparr>)
         else if rs_StatusCode resp = 401 then fail (Sentinel ErrUnauthorized)
         else fail (request_failed (get_string respData ''error'') resp))"

definition Client_CreateJob ::
  "('f, 'n) http_lib \<Rightarrow> codec \<Rightarrow> ('f, 'n) Client \<Rightarrow> JobConfig \<Rightarrow> ('n, Job) proc" where
  "Client_CreateJob lib cd c cfg =
     andThen (send_request lib c ''POST'' ''/jobs'' True (Encode_JobConfig cd cfg)) (\<lambda>resp.
     if rs_StatusCode resp = 200 then
       (case decode_response (Decode_Job cd) resp of Inl err \<Rightarrow> fail err | Inr j \<Rightarrow> ret j)
     else if rs_StatusCode resp = 401 then fail (Sentinel ErrUnauthorized)
     else fail (any_failure cd resp))"

definition Client_GetJob ::
  "('f, 'n) http_lib \<Rightarrow> codec \<Rightarrow> ('f, 'n) Client \<Rightarrow> string \<Rightarrow> ('n, Job) proc" where
  "Client_GetJob lib cd c jobID =
     andThen (send_request lib c ''GET'' (''/jobs/'' @ jobID) True (Inr [])) (\<lambda>resp.
     if rs_StatusCode resp = 200 then
       (case decode_response (Decode_Job cd) resp of Inl err \<Rightarrow> fail err | Inr j \<Rightarrow> ret j)
     else if rs_StatusCode resp = 401 then fail (Sentinel ErrUnauthorized)
     else fail (any_failure cd resp))"

definition Client_GetJobLogs ::
  "('f, 'n) http_lib \<Rightarrow> ('f, 'n) Client \<Rightarrow> string \<Rightarrow> ('n, string) proc" where
  "Client_GetJobLogs lib c jobID =
     andThen (send_request lib c ''GET'' (''/jobs/'' @ jobID @ ''/logs'') True (Inr [])) (\<lambda>resp.
     if rs_StatusCode resp = 200 then
       (case rs_Body resp of Inl err \<Rightarrow> fail (Wrapf ''failed to read response: '' err) | Inr data \<Rightarrow> ret data)
     else if rs_StatusCode resp = 401 then fail (Sentinel ErrUnauthorized)
     else fail (request_failed [] resp))"

definition Client_Init ::
  "('f, 'n) http_lib \<Rightarrow> codec \<Rightarrow> ('f, 'n) Client \<Rightarrow> ServiceConfig \<Rightarrow> ('n, unit) proc" where
  "Client_Init lib cd c cfg =
     andThen (send_request lib c ''POST'' ''/jobs/init'' True (Inr (Encode_ServiceConfig cfg))) (\<lambda>resp.
     if rs_StatusCode resp = 200 then ret ()
     else if rs_StatusCode resp = 401 then fail (Sentinel ErrUnauthorized)
     else fail (any_failure cd resp))"

text \<open>Idle connections are not part of a transport, so closing them changes nothing.\<close>

definition Client_Close :: "('f, 'n) Client \<Rightarrow> goerr option" where
  "Client_Close c = None"

definition empty_VersionInfo :: VersionInfo where
  "empty_VersionInfo = \<lparr>vi_BuildDate = [], vi_BuildVersion = [], vi_BuildHash = [], vi_GoVersion = []\<rparr>"

definition version_field :: "string \<Rightarrow> json \<Rightarrow> VersionInfo \<Rightarrow> VersionInfo option" where
  "version_field k v i =
     (if EqualFold k ''buildDate''
      then map_option (\<lambda>x. i\<lparr>vi_BuildDate := x\<rparr>) (set_string v (vi_BuildDate i))
      else if EqualFold k ''buildVersion''
      then map_option (\<lambda>x. i\<lparr>vi_BuildVersion := x\<rparr>) (set_string v (vi_BuildVersion i))
      else if EqualFold k ''buildHash''
      then map_option (\<lambda>x. i\<lparr>vi_BuildHash := x\<rparr>) (set_string v (vi_BuildHash i))
      else if EqualFold k ''goVersion''
      then map_option (\<lambda>x. i\<lparr>vi_GoVersion := x\<rparr>) (set_string v (vi_GoVersion i))
      else Some i)"

definition Decode_VersionInfo :: "codec \<Rightarrow> string \<Rightarrow> VersionInfo res" where
  "Decode_VersionInfo cd body =
     or_error (decode_error cd ''VersionInfo'' body)
       (Option.bind (json_decode body) (decode_struct version_field empty_VersionInfo))"

definition Client_GetVersionInfo ::
  "('f, 'n) http_lib \<Rightarrow> codec \<Rightarrow> ('f, 'n) Client \<Rightarrow> ('n, VersionInfo) proc" where
  "Client_GetVersionInfo lib cd c =
     andThen (send_request lib c ''GET'' ''/version'' False (Inr [])) (\<lambda>resp.
     case decode_response (Decode_VersionInfo cd) resp of
       Inl err \<Rightarrow> fail err
     | Inr info \<Rightarrow> if rs_StatusCode resp \<noteq> 200 then fail (request_failed [] resp) else ret info)"

section \<open>What the calls return\<close>

lemma request_failed_not_unauthorized [simp]:
  "request_failed m resp \<noteq> Sentinel ErrUnauthorized" "strings_failure cd resp \<noteq> Sentinel ErrUnauthorized"
  "any_failure cd resp \<noteq> Sentinel ErrUnauthorized"
  by (auto simp: request_failed_def strings_failure_def any_failure_def decode_response_def split: sum.splits)

lemmas not_unauthorized [simp] = request_failed_not_unauthorized [symmetric]

lemma decode_response_not_unauthorized [simp]: "decode_response dec resp \<noteq> Inl (Sentinel ErrUnauthorized)"
  by (auto simp: decode_response_def split: sum.splits)

lemma send_reply:
  assumes "cl_httpClient c = Some Do" "cl_cfg c = Some cfg" "\<And>m p. hl_NewRequest lib m p = None" "\<And>req. Do req n = (Inr resp, n')"
  shows "send_request lib c m p authd (Inr buf) n = (Done (Inr resp), n')"
  using assms by (simp add: send_request_def wrapping_ok call_run)

lemma sent_reply:
  assumes "cl_httpClient c = Some Do" "cl_cfg c = Some cfg" "\<And>m p. hl_NewRequest lib m p = None" "\<And>req. Do req n = (Inr resp, n')"
  shows "andThen (send_request lib c m p authd (Inr buf)) f n = f resp n'"
  by (rule andThen_eval(1)) (rule send_reply [OF assms])

section \<open>Properties\<close>


text \<open>A network that always answers 401 with an error in JSON.\<close>

definition refusal :: response where
  "refusal =
     \<lparr>rs_StatusCode = 401, rs_Status = ''401 Unauthorized'', rs_Body = Inr (Encode_strings [(''error'', ''unauthorized'')])\<rparr>"

definition refusing_client :: "(unit, nat) Client" where
  "refusing_client =
     \<lparr>cl_cfg = Some \<lparr>httpURL = ''http://h'', cc_ClientID = ''a'', cc_AuthKey = ''b'', cc_URL = ''http://h''\<rparr>,
      cl_httpClient = Some (\<lambda>req n. (Inr refusal, Suc n)), cl_dialFn = None, cl_authToken = []\<rparr>"

definition open_http :: "(unit, nat) http_lib" where
  "open_http =
     \<lparr>hl_Parse = (\<lambda>u. Inr \<lparr>url_Scheme = ''http'', url_Host = ''h'', url_Rest = []\<rparr>), hl_NewRequest = (\<lambda>m u. None),
      hl_Client = (\<lambda>t req n. (Inr refusal, Suc n)), hl_Dialer = (\<lambda>t k d. ())\<rparr>"


lemma apply_dialers:
  "apply_options (map WithDialFunc fs) c = Inr (if fs = [] then c else c\<lparr>cl_dialFn := Some (last fs)\<rparr>)"
  by (induction fs arbitrary: c) (auto simp: WithDialFunc_def)

text \<open>
  A client is made exactly for a URL that parses, has a host and the scheme \<^verbatim>\<open>http\<close> or \<^verbatim>\<open>https\<close>; its
  requests go to that URL over a transport with the last dialer that was given, or the dialer of the
  standard library; it starts without a token.
\<close>

theorem NewClient_correct:
  "NewClient lib cfg (map WithDialFunc fs) = Inr c \<longleftrightarrow>
     cc_URL cfg \<noteq> [] \<and>
     (\<exists>u. hl_Parse lib (cc_URL cfg) = Inr u \<and> url_Host u \<noteq> [] \<and> url_Scheme u \<in> {''http'', ''https''}) \<and>
     c = \<lparr>cl_cfg = Some (cfg\<lparr>httpURL := cc_URL cfg\<rparr>),
          cl_httpClient = Some (hl_Client lib (client_transport
            (if fs = [] then hl_Dialer lib (5 * time_Second) (30 * time_Second) True else last fs))),
          cl_dialFn = (if fs = [] then None else Some (last fs)), cl_authToken = []\<rparr> \<and>
     Client_URL c = Done (cc_URL cfg) \<and> Client_AuthToken c = []"
  by (auto simp: NewClient_def ClientConfig_Parse_def apply_dialers zero_Client_def Let_def Client_URL_def
      Client_AuthToken_def split: sum.splits)

end
