(* ===== verification/Client_Server.thy ===== *)
theory Client_Server
  imports Client
begin

text \<open>
  The client of \<^verbatim>\<open>public/client.go\<close> against the handlers of \<^verbatim>\<open>service/\<close>: the transport of the client runs
  the routes of the service. What the client gets is stated over the state of the service.
\<close>

section \<open>The service behind a transport\<close>

text \<open>
  A request as the service receives it, for a client whose URL has no path. The state counts the
  requests, each of which has its own \<open>chance\<close>; a handler that panics closes the connection.
\<close>

definition incoming :: "string \<Rightarrow> out_request \<Rightarrow> request" where
  "incoming base req =
     \<lparr>rq_Method = or_Method req, rq_Path = drop (length base) (or_URL req), rq_URL = drop (length base) (or_URL req),
      rq_Host = base, rq_RemoteAddr = ''127.0.0.1'',
      rq_Header = (if or_Auth req = [] then [] else [(''Authorization'', [or_Auth req])]),
      rq_Body = or_Body req, rq_id = []\<rparr>"

definition service_transport ::
  "('d, 'w, 'v, 'rr) server \<Rightarrow> VersionInfo \<Rightarrow> (string \<Rightarrow> request \<Rightarrow> writer) \<Rightarrow> (nat \<Rightarrow> chance) \<Rightarrow> string \<Rightarrow>
   (nat \<times> ('d, 'w) svc) transport" where
  "service_transport sr v profiling chances base req ns =
     (case ns of (n, st) \<Rightarrow>
       (case serve sr v profiling (chances n) (incoming base req) st of
          (Panic p, st') \<Rightarrow> (Inl (Foreign ''http'' ''EOF''), (Suc n, st'))
        | (Done w, st') \<Rightarrow>
            (Inr \<lparr>rs_StatusCode = status w, rs_Status = int_dec (status w), rs_Body = Inr (rw_body w)\<rparr>, (Suc n, st'))))"

text \<open>A client made for a URL, whose requests can be built, over a transport.\<close>

definition connected :: "('f, 'n) http_lib \<Rightarrow> ('f, 'n) Client \<Rightarrow> string \<Rightarrow> 'n transport \<Rightarrow> bool" where
  "connected lib c base tr \<longleftrightarrow>
     cl_httpClient c = Some tr \<and> (case cl_cfg c of None \<Rightarrow> False | Some cfg \<Rightarrow> httpURL cfg = base) \<and>
     (\<forall>m p. hl_NewRequest lib m (base @ p) = None)"

definition client_auth :: "('f, 'n) Client \<Rightarrow> string" where
  "client_auth c = (case cl_cfg c of None \<Rightarrow> [] | Some cfg \<Rightarrow> SetBasicAuth (cc_ClientID cfg) (cc_AuthKey cfg))"

lemma send_connected:
  assumes "connected lib c base tr"
  shows "send_request lib c m p authd (Inr buf) =
    wrapping ''http request failed: '' (call (tr \<lparr>or_Method = m, or_URL = base @ p,
      or_Auth = (if authd then client_auth c else []), or_Body = buf\<rparr>))"
  using assms by (auto simp: send_request_def connected_def client_auth_def split: option.splits)

section \<open>Routes\<close>

lemma Split_jobs: "Split (''/jobs/'' @ s) (CHR ''/'') = [[], ''jobs''] @ Split s (CHR ''/'')"
  by (simp split: list.splits)

lemma route_job:
  assumes "CHR ''/'' \<notin> set i" "i \<noteq> ''init''"
  shows "route m (''/jobs/'' @ i) =
      (if job_id i then (if m = ''GET'' then RGetJob i else if m = ''DELETE'' then RDeleteJob i else RMethodNotAllowed)
       else RNotFound)"
    "route m (''/jobs/'' @ i @ ''/logs'') =
      (if job_id i then (if m = ''GET'' then RJobLogs i else RMethodNotAllowed) else RNotFound)"
  using assms unfolding route_def Split_jobs by (simp_all add: Split_single Split_append)

lemma route_fixed [simp]:
  "route m ''/version'' = RVersion" "route m ''/login'' = RLogin" "route m ''/register'' = RRegister"
  "route m ''/unregister'' = RUnregister" "route ''POST'' ''/jobs'' = RCreateJob" "route ''POST'' ''/jobs/init'' = RInit"
  by (simp_all add: route_def job_id_def)

lemma job_id_path: "job_id i \<Longrightarrow> CHR ''/'' \<notin> set i \<and> i \<noteq> ''init'' \<and> i \<noteq> []"
  by (auto simp: job_id_def is_lower_def is_digit_def)

section \<open>What a call runs\<close>

lemma send_ok:
  assumes "connected lib c base tr" "send_request lib c m p authd (Inr buf) n = (Done (Inr resp), n')"
  shows "tr \<lparr>or_Method = m, or_URL = base @ p, or_Auth = (if authd then client_auth c else []), or_Body = buf\<rparr> n = (Inr resp, n')"
  using assms(2) unfolding send_connected [OF assms(1)] by (simp add: go_run)

lemma service_ok:
  assumes "service_transport sr v profiling chances base req (n, st) = (Inr resp, ns)"
  shows "\<exists>w st'. serve sr v profiling (chances n) (incoming base req) st = (Done w, st') \<and> ns = (Suc n, st') \<and>
    rs_StatusCode resp = status w \<and> rs_Body resp = Inr (rw_body w)"
  using assms by (auto simp: service_transport_def split: prod.splits outcome.splits)

lemma incoming_simps [simp]:
  "rq_Method (incoming base req) = or_Method req" "rq_Body (incoming base req) = or_Body req"
  "or_URL req = base @ p \<Longrightarrow> rq_Path (incoming base req) = p"
  by (simp_all add: incoming_def)

text \<open>A call that succeeded, as a run of the handler of its route.\<close>

lemma CreateJob_run:
  assumes "connected lib c base (service_transport sr v profiling chances base)"
    and "Encode_JobConfig cd cfg = Inr body"
    and "Client_CreateJob lib cd c cfg (n, st) = (Done (Inr jb), ns)"
  shows "\<exists>w' st' r. handleCreateJob sr (chances n) r new_writer st = (Done w', st') \<and> ns = (Suc n, st') \<and>
    rq_Body r = body \<and> status w' = 200 \<and> Decode_Job cd (rw_body w') = Inr jb"
proof -
  from assms(3) obtain resp where
    resp: "send_request lib c ''POST'' ''/jobs'' True (Inr body) (n, st) = (Done (Inr resp), ns)"
      "rs_StatusCode resp = 200" "decode_response (Decode_Job cd) resp = Inr jb"
    by (auto simp: Client_CreateJob_def assms(2) go_run split: if_splits sum.splits)
  let ?req = "\<lparr>or_Method = ''POST'', or_URL = base @ ''/jobs'', or_Auth = client_auth c, or_Body = body\<rparr>"
  from send_ok [OF assms(1) resp(1)]
  have "service_transport sr v profiling chances base ?req (n, st) = (Inr resp, ns)" by simp
  from service_ok [OF this] obtain w st' where w: "serve sr v profiling (chances n) (incoming base ?req) st = (Done w, st')"
    "ns = (Suc n, st')" "rs_StatusCode resp = status w" "rs_Body resp = Inr (rw_body w)" by blast
  from w(1) have "handleCreateJob sr (chances n) (incoming base ?req) new_writer st = (Done w, st')"
    by (simp add: serve_def Let_def)
  moreover have "Decode_Job cd (rw_body w) = Inr jb"
    using resp(3) w(4) by (simp add: decode_response_def split: sum.splits)
  ultimately show ?thesis
    using w(2,3) resp(2) by (intro exI [of _ w] exI [of _ st'] exI [of _ "incoming base ?req"]) simp
qed

lemma GetJob_run:
  assumes "connected lib c base (service_transport sr v profiling chances base)" "job_id i"
    and "Client_GetJob lib cd c i (n, st) = (Done (Inr jb), ns)"
  shows "\<exists>w' st' r. handleGetJob sr (chances n) r new_writer st = (Done w', st') \<and> ns = (Suc n, st') \<and>
    rq_id r = i \<and> status w' = 200 \<and> Decode_Job cd (rw_body w') = Inr jb"
proof -
  from assms(3) obtain resp where
    resp: "send_request lib c ''GET'' (''/jobs/'' @ i) True (Inr []) (n, st) = (Done (Inr resp), ns)"
      "rs_StatusCode resp = 200" "decode_response (Decode_Job cd) resp = Inr jb"
    unfolding Client_GetJob_def by (auto simp only: go_run split: if_splits sum.splits)
  let ?req = "\<lparr>or_Method = ''GET'', or_URL = base @ ''/jobs/'' @ i, or_Auth = client_auth c, or_Body = []\<rparr>"
  from send_ok [OF assms(1) resp(1)]
  have "service_transport sr v profiling chances base ?req (n, st) = (Inr resp, ns)" by simp
  from service_ok [OF this] obtain w st' where w: "serve sr v profiling (chances n) (incoming base ?req) st = (Done w, st')"
    "ns = (Suc n, st')" "rs_StatusCode resp = status w" "rs_Body resp = Inr (rw_body w)" by blast
  have "rq_Path (incoming base ?req) = ''/jobs/'' @ i" by simp
  with w(1) route_job(1) [of i "''GET''"] job_id_path [OF assms(2)] assms(2)
  have "handleGetJob sr (chances n) ((incoming base ?req)\<lparr>rq_id := i\<rparr>) new_writer st = (Done w, st')"
    by (simp add: serve_def Let_def)
  moreover have "Decode_Job cd (rw_body w) = Inr jb"
    using resp(3) w(4) by (simp add: decode_response_def split: sum.splits)
  ultimately show ?thesis
    using w(2,3) resp(2) by (intro exI [of _ w] exI [of _ st'] exI [of _ "(incoming base ?req)\<lparr>rq_id := i\<rparr>"]) simp
qed

lemma Decode_Encode_Job:
  assumes "job_ok cd jb" "Encode_Job cd jb = Inr body"
  shows "Decode_Job cd body = Inr (job_sorted jb)"
  using Unmarshal_Marshal_Job [OF assms(1)] assms(2) by (auto simp: Encode_Job_def)

lemma Decode_Job_empty: "Decode_Job cd [] \<noteq> Inr jb"
  by (auto simp: Decode_Job_def json_decode_def skip_ws_def parse_value.simps)

section \<open>Properties\<close>

text \<open>
  C2: end to end, a job the client created is the job the service started for the configuration the
  client sent (maps listed by key): the configuration was valid, the job is running and its record is in
  the store; and when the client then asks for the job by its identifier, whatever it gets without an
  error is that very job.
\<close>

theorem client_job_roundtrip:
  assumes "bitcask_db bc ct" "bcrypt_lib bcr" "sr_store sr = bitcaskStore bc" "sr_bcrypt sr = bcr"
    and "job_provider (sr_jobs sr) (sr_lib sr) (registry sr)"
    and "connected lib c base (service_transport sr v profiling chances base)"
    and "config_ok (sr_codec sr) cfg" "Encode_JobConfig (sr_codec sr) cfg = Inr body" "length body \<le> 1048576"
    and "\<And>jb u. js_CreateJob (sr_jobs sr) (config_sorted cfg) True (sv_world st) = (Done (Inr jb), u) \<Longrightarrow>
      job_ok (sr_codec sr) jb \<and> job_id (job_ID jb)"
    and "Client_CreateJob lib (sr_codec sr) c cfg (n, st) = (Done (Inr jb), (n1, st1))"
  shows "JobConfig_IsValid (sr_lib sr) (config_sorted cfg) (registry sr) = Done None \<and>
    (\<exists>jb0. js_CreateJob (sr_jobs sr) (config_sorted cfg) True (sv_world st) = (Done (Inr jb0), sv_world st1) \<and>
      jb = job_sorted jb0) \<and>
    job_StopAt jb = 0 \<and> stored (sr_codec sr) (ct (sv_db st1)) (job_ID jb) = Some jb \<and>
    (\<forall>jb' ns. Client_GetJob lib (sr_codec sr) c (job_ID jb) (n1, st1) = (Done (Inr jb'), ns) \<longrightarrow> jb' = jb)"
proof -
  from CreateJob_run [OF assms(6,8,11)] obtain w' r where run: "handleCreateJob sr (chances n) r new_writer st = (Done w', st1)"
    "rq_Body r = body" "status w' = 200" "Decode_Job (sr_codec sr) (rw_body w') = Inr jb" by auto
  have dec: "Decode_JobConfig (sr_codec sr) 1048576 (rq_Body r) = Inr (config_sorted cfg)"
    using Decode_Encode_JobConfig [OF assms(7), of 1048576] assms(8,9) run(2) by auto
  from handleCreateJob_result [OF assms(1-5) run(1)] run(3) dec obtain jb0 js where
    jb0: "js_CreateJob (sr_jobs sr) (config_sorted cfg) True (sv_world st) = (Done (Inr jb0), sv_world st1)"
      "job_StopAt jb0 = 0" "Marshal_Job (sr_codec sr) jb0 = Inr js" "rw_body w' = js @ [CHR 0x0A]"
      "ct (sv_db st1) (''job_'' @ job_ID jb0) = Some js" by auto
  have ok: "job_ok (sr_codec sr) jb0" "job_id (job_ID jb0)" using assms(10) jb0(1) by blast+
  have jb: "jb = job_sorted jb0"
    using Decode_Encode_Job [OF ok(1)] jb0(3,4) run(4) by (simp add: Encode_Job_def)
  have st: "stored (sr_codec sr) (ct (sv_db st1)) (job_ID jb) = Some jb"
    using Unmarshal_Marshal_Job [OF ok(1)] jb0(3,5) by (auto simp: stored_def jb jobKeyPrefix_def)
  have "jb' = jb" if get: "Client_GetJob lib (sr_codec sr) c (job_ID jb) (n1, st1) = (Done (Inr jb'), ns)" for jb' ns
  proof -
    from GetJob_run [OF assms(6) _ get] ok(2) obtain w2 st2 r2 where
      run2: "handleGetJob sr (chances n1) r2 new_writer st1 = (Done w2, st2)" "rq_id r2 = job_ID jb" "status w2 = 200"
        "Decode_Job (sr_codec sr) (rw_body w2) = Inr jb'" by (auto simp: jb)
    from handleGetJob_result [OF assms(1-4) run2(1,3)] obtain jb2 where
      jb2: "stored (sr_codec sr) (ct (sv_db st2)) (job_ID jb) = Some jb2"
        "case Encode_Job (sr_codec sr) jb2 of Inl e \<Rightarrow> rw_body w2 = [] | Inr body \<Rightarrow> rw_body w2 = body"
        "\<forall>k v. ct (sv_db st1) k = Some v \<longrightarrow> ct (sv_db st2) k = Some v" unfolding run2(2) by blast
    from jb2(3) st have "stored (sr_codec sr) (ct (sv_db st2)) (job_ID jb) = Some jb"
      by (auto simp: stored_def split: option.splits)
    with jb2(1) have "jb2 = jb" by simp
    with jb2(2) run2(4) have "Encode_Job (sr_codec sr) jb = Inr (rw_body w2)"
      by (auto simp: Decode_Job_empty split: sum.splits)
    from Decode_Encode_Job [OF _ this] ok(1) run2(4) show "jb' = jb" by (simp add: jb job_ok_sorted)
  qed
  moreover have "JobConfig_IsValid (sr_lib sr) (config_sorted cfg) (registry sr) = Done None"
    using job_provider.create_valid [OF assms(5) jb0(1)] by simp
  ultimately show ?thesis using jb0(1,2) jb st by auto
qed

text \<open>The administrator's client of a service in memory.\<close>

abbreviation sample_base :: string where
  "sample_base \<equiv> ''http://localhost:4545''"

definition sample_version :: VersionInfo where
  "sample_version = getVersionInfo ''2024-01-01'' ''v0.9.0'' ''abcdef'' ''go1.21''"

definition sample_transport :: "(nat \<times> (string \<rightharpoonup> string, sim) svc) transport" where
  "sample_transport = service_transport plain_server sample_version (\<lambda>p r. new_writer) (\<lambda>n. sample_chance) sample_base"

definition sample_http :: "(unit, nat \<times> (string \<rightharpoonup> string, sim) svc) http_lib" where
  "sample_http =
     \<lparr>hl_Parse = (\<lambda>u. Inr \<lparr>url_Scheme = ''http'', url_Host = ''localhost:4545'', url_Rest = []\<rparr>),
      hl_NewRequest = (\<lambda>m u. None), hl_Client = (\<lambda>t. sample_transport), hl_Dialer = (\<lambda>t k d. ())\<rparr>"

definition admin_client :: "(unit, nat \<times> (string \<rightharpoonup> string, sim) svc) Client" where
  "admin_client =
     \<lparr>cl_cfg = Some \<lparr>httpURL = sample_base, cc_ClientID = ''admin'', cc_AuthKey = ''secret'', cc_URL = sample_base\<rparr>,
      cl_httpClient = Some sample_transport, cl_dialFn = None, cl_authToken = []\<rparr>"

lemma admin_client_new:
  "NewClient sample_http \<lparr>httpURL = [], cc_ClientID = ''admin'', cc_AuthKey = ''secret'', cc_URL = sample_base\<rparr> [] =
    Inr admin_client"
  by (simp add: NewClient_def ClientConfig_Parse_def sample_http_def zero_Client_def admin_client_def)

lemma admin_connected: "connected sample_http admin_client sample_base sample_transport"
  by (simp add: connected_def sample_http_def admin_client_def)

lemma admin_auth:
  assumes "Header_Get r ''Authorization'' = SetBasicAuth ''admin'' ''secret''"
  shows "\<exists>a. authHandler plain_server ch r st = (([], 200, None), st\<lparr>sv_audit := a\<rparr>)"
  using assms
  by (simp add: authHandler_def SetBasicAuth_not_bearer basicAuthHandler_def BasicAuth_user sample_security_def httpAudit_def)
    (rule exI, rule refl)

lemma plain_lib [simp]: "sr_lib plain_server = triple_lib test_env" "registry plain_server = registry (sample_server False)"
  by (simp_all add: plain_server_def)

lemma admin_creates:
  assumes "Header_Get r ''Authorization'' = SetBasicAuth ''admin'' ''secret''" "rq_Body r = sample_config_body"
  obtains st' where "\<And>ch. \<exists>w'. handleCreateJob plain_server ch r new_writer (plain_svc Map.empty sample_sim) = (Done w', st' ch) \<and>
    status w' = 200 \<and> Encode_Job whole_codec first_job = Inr (rw_body w')"
proof -
  obtain js where js: "\<And>m. SaveJob (bitcaskStore plain_bitcask) whole_codec m first_job = (None, m(jobKeyPrefix @ job_ID first_job \<mapsto> js))"
    by (rule plain_SaveJob [OF sample_Job_ok]) (rule that, assumption)
  obtain body where enc: "Encode_Job whole_codec first_job = Inr body"
    using Unmarshal_Marshal_Job [OF sample_Job_ok] by (auto simp: Encode_Job_def)
  have "\<exists>st'. \<exists>w'. handleCreateJob plain_server ch r new_writer (plain_svc Map.empty sample_sim) = (Done w', st') \<and>
    status w' = 200 \<and> Encode_Job whole_codec first_job = Inr (rw_body w')" for ch
  proof -
    obtain a where "authHandler plain_server ch r (plain_svc Map.empty sample_sim) =
        (([], 200, None), (plain_svc Map.empty sample_sim)\<lparr>sv_audit := a\<rparr>)"
      using admin_auth [OF assms(1)] by blast
    then show ?thesis
      by (simp add: handleCreateJob_def with_auth_def create_decoded_def assms(2) sample_config_decodes
          sample_config_valid create_valid_def docker_jobs_def sample_CreateJob save_created_def js enc
          finish_eq newHTTPData_def status_Write rw_body_Write)
  qed
  with that show thesis by metis
qed

lemma sample_config_encoded:
  "config_ok whole_codec sample_JobConfig" "Encode_JobConfig whole_codec sample_JobConfig = Inr sample_config_body"
  "length sample_config_body \<le> 1000" "config_sorted sample_JobConfig = sample_JobConfig"
proof -
  show ok: "config_ok whole_codec sample_JobConfig" by code_simp
  show "length sample_config_body \<le> 1000" by code_simp
  show "config_sorted sample_JobConfig = sample_JobConfig"
    by (simp add: config_sorted_def sample_JobConfig_def data_sorted_def)
  show "Encode_JobConfig whole_codec sample_JobConfig = Inr sample_config_body"
    using Decode_Encode_JobConfig [OF ok, of 0] by (auto simp: sample_config_body_def)
qed

lemma admin_CreateJob:
  "\<exists>jb ns. Client_CreateJob sample_http whole_codec admin_client sample_JobConfig (0, plain_svc Map.empty sample_sim) =
    (Done (Inr jb), ns)"
proof -
  let ?req = "\<lparr>or_Method = ''POST'', or_URL = sample_base @ ''/jobs'', or_Auth = SetBasicAuth ''admin'' ''secret'',
    or_Body = sample_config_body\<rparr>"
  let ?r = "incoming sample_base ?req"
  have "SetBasicAuth ''admin'' ''secret'' \<noteq> []" by (simp add: SetBasicAuth_def basicPrefix_def)
  then have "Header_Get ?r ''Authorization'' = SetBasicAuth ''admin'' ''secret''" by (simp add: incoming_def Header_Get_def)
  from admin_creates [OF this] obtain st' where
    "\<And>ch. \<exists>w'. handleCreateJob plain_server ch ?r new_writer (plain_svc Map.empty sample_sim) = (Done w', st' ch) \<and>
      status w' = 200 \<and> Encode_Job whole_codec first_job = Inr (rw_body w')" by auto
  then obtain w' where w': "handleCreateJob plain_server sample_chance ?r new_writer (plain_svc Map.empty sample_sim) =
      (Done w', st' sample_chance)" "status w' = 200" "Encode_Job whole_codec first_job = Inr (rw_body w')" by blast
  have "rq_Path ?r = ''/jobs''" by (rule incoming_simps) simp
  then have "serve plain_server sample_version (\<lambda>p r. new_writer) sample_chance ?r (plain_svc Map.empty sample_sim) =
      (Done w', st' sample_chance)"
    using w'(1) by (simp add: serve_def Let_def)
  then have "sample_transport ?req (0, plain_svc Map.empty sample_sim) =
    (Inr \<lparr>rs_StatusCode = 200, rs_Status = int_dec 200, rs_Body = Inr (rw_body w')\<rparr>, (1, st' sample_chance))"
    by (simp add: sample_transport_def service_transport_def w'(2))
  moreover have "client_auth admin_client = SetBasicAuth ''admin'' ''secret''" by (simp add: client_auth_def admin_client_def)
  ultimately have "send_request sample_http admin_client ''POST'' ''/jobs'' True (Inr sample_config_body)
      (0, plain_svc Map.empty sample_sim) =
    (Done (Inr \<lparr>rs_StatusCode = 200, rs_Status = int_dec 200, rs_Body = Inr (rw_body w')\<rparr>), (1, st' sample_chance))"
    unfolding send_connected [OF admin_connected] by (simp add: wrapping_ok call_run)
  then show ?thesis
    using Decode_Encode_Job [OF sample_Job_ok w'(3)]
    by (simp add: Client_CreateJob_def sample_config_encoded(2) go_eval decode_response_def)
qed

theorem client_job_roundtrip_witness:
  "\<exists>jb n1 st1. Client_CreateJob sample_http whole_codec admin_client sample_JobConfig (0, plain_svc Map.empty sample_sim) =
      (Done (Inr jb), (n1, st1)) \<and> jb = job_sorted first_job \<and> stored whole_codec (sv_db st1) (job_ID jb) = Some jb"
proof -
  obtain jb n1 st1 where run: "Client_CreateJob sample_http whole_codec admin_client sample_JobConfig
      (0, plain_svc Map.empty sample_sim) = (Done (Inr jb), (n1, st1))"
    using admin_CreateJob by auto
  have create: "js_CreateJob (sr_jobs plain_server) sample_JobConfig True (sv_world (plain_svc Map.empty sample_sim)) =
      (Done (Inr first_job), after_create)"
    by (simp add: docker_jobs_def sample_CreateJob)
  have "job_id ''aaaaaaaaaaaa''" by (simp add: job_id_def is_lower_def)
  moreover have "connected sample_http admin_client sample_base
      (service_transport plain_server sample_version (\<lambda>p r. new_writer) (\<lambda>n. sample_chance) sample_base)"
    using admin_connected by (simp add: sample_transport_def)
  moreover have "job_provider (sr_jobs plain_server) (sr_lib plain_server) (registry plain_server)"
    using sample_provider [of False] by simp
  moreover have "sr_bcrypt plain_server = mark_bcrypt" by (simp add: plain_server_def)
  ultimately have "(\<exists>jb0. js_CreateJob (sr_jobs plain_server) sample_JobConfig True (sv_world (plain_svc Map.empty sample_sim)) =
        (Done (Inr jb0), sv_world st1) \<and> jb = job_sorted jb0) \<and> stored whole_codec (sv_db st1) (job_ID jb) = Some jb"
    using client_job_roundtrip [OF plain_bitcask_db mark_bcrypt_lib _ _ _ _ _ _ _ _ run [folded plain_server_simps(2)],
        where base = sample_base and v = sample_version and profiling = "\<lambda>p r. new_writer" and
          chances = "\<lambda>n. sample_chance" and body = sample_config_body]
      sample_config_encoded create sample_Job_ok
    by clarsimp
  with run create show ?thesis by auto
qed



lemma version_names_differ [simp]:
  "\<not> EqualFold ''buildVersion'' ''buildDate''" "\<not> EqualFold ''buildHash'' ''buildDate''"
  "\<not> EqualFold ''buildHash'' ''buildVersion''" "\<not> EqualFold ''goVersion'' ''buildDate''"
  "\<not> EqualFold ''goVersion'' ''buildVersion''" "\<not> EqualFold ''goVersion'' ''buildHash''"
  "valid_utf8 ''buildDate''" "valid_utf8 ''buildVersion''" "valid_utf8 ''buildHash''" "valid_utf8 ''goVersion''"
  by code_simp+

definition version_ok :: "VersionInfo \<Rightarrow> bool" where
  "version_ok v \<longleftrightarrow> valid_utf8 (vi_BuildDate v) \<and> valid_utf8 (vi_BuildVersion v) \<and> valid_utf8 (vi_BuildHash v) \<and>
     valid_utf8 (vi_GoVersion v)"

lemma Decode_version:
  assumes "version_ok v"
  shows "Decode_VersionInfo cd (json_text (version_json v) @ [CHR 0x0A]) = Inr v"
proof -
  have "json_numbers (version_json v)" by (simp add: version_json_def)
  moreover have "json_utf8 (version_json v) = version_json v"
    using assms by (simp add: version_json_def version_ok_def to_utf8_valid)
  ultimately have "json_decode (json_text (version_json v) @ [CHR 0x0A]) = Some (version_json v)"
    using json_parse_text(2) [of "version_json v"] by simp
  then show ?thesis
    by (simp add: Decode_VersionInfo_def decode_struct_def version_json_def version_field_def set_string_def
        empty_VersionInfo_def del: json_text.simps)
qed

text \<open>
  The client is told the version of the service, unchanged, and asking for it needs no credentials
  and changes nothing.
\<close>

theorem client_version_roundtrip:
  assumes "connected lib c base (service_transport sr v profiling chances base)" "version_ok v"
  shows "Client_GetVersionInfo lib cd c (n, st) = (Done (Inr v), (Suc n, st))"
proof -
  let ?req = "\<lparr>or_Method = ''GET'', or_URL = base @ ''/version'', or_Auth = [], or_Body = []\<rparr>"
  let ?w = "getVersion v (incoming base ?req) new_writer"
  have "rq_Path (incoming base ?req) = ''/version''" by simp
  then have serve: "serve sr v profiling (chances n) (incoming base ?req) st = (Done ?w, st)"
    by (simp add: serve_def Let_def)
  have w: "status ?w = 200" "rw_body ?w = json_text (version_json v) @ [CHR 0x0A]"
    by (simp_all add: getVersion_def writer_defs Let_def del: json_text.simps)
  have "send_request lib c ''GET'' ''/version'' False (Inr []) (n, st) =
      (Done (Inr \<lparr>rs_StatusCode = 200, rs_Status = int_dec 200, rs_Body = Inr (rw_body ?w)\<rparr>), (Suc n, st))"
    unfolding send_connected [OF assms(1)] using serve w(1)
    by (simp add: wrapping_ok call_run service_transport_def)
  with Decode_version [OF assms(2), of cd] w(2) show ?thesis
    by (simp add: Client_GetVersionInfo_def go_eval decode_response_def del: json_text.simps)
qed

theorem client_version_roundtrip_witness:
  "Client_GetVersionInfo sample_http whole_codec admin_client (0, plain_svc Map.empty sample_sim) =
    (Done (Inr sample_version), (1, plain_svc Map.empty sample_sim))"
proof -
  have "version_ok sample_version" by code_simp
  from client_version_roundtrip [OF admin_connected [unfolded sample_transport_def] this] show ?thesis by simp
qed

end
