(* ===== verification/Client_Login.thy ===== *)
theory Client_Login
  imports Client_Server
begin

text \<open>
  Logging in with the client of \<^verbatim>\<open>public/client.go\<close> against the handlers of \<^verbatim>\<open>service/auth.go\<close>, up to the
  requests the token is good for.
\<close>

section \<open>What a login runs\<close>

lemma ascii_utf8: "(\<forall>c \<in> set s. byte c < 128) \<Longrightarrow> valid_utf8 s"
  by (induction s) (simp_all add: valid_utf8.simps utf8_size.simps)

lemma token_utf8: "rand_ok rd \<Longrightarrow> newRandomToken rd = Done (Inr t) \<Longrightarrow> valid_utf8 t"
proof (rule ascii_utf8)
  assume "rand_ok rd" "newRandomToken rd = Done (Inr t)"
  then have "set t \<subseteq> set b64_alphabet" by (simp add: newRandomToken_ok)
  moreover have "\<forall>c \<in> set b64_alphabet. byte c < 128" by code_simp
  ultimately show "\<forall>c \<in> set t. byte c < 128" by blast
qed

lemma bearer_utf8 [simp]:
  "valid_utf8 ''bearerToken''" "valid_utf8 ''code''" "valid_utf8 ''clientID''" "valid_utf8 ''authKey''" "valid_utf8 ''200''"
  by code_simp+

lemma loginClient_run:
  assumes "loginClient sr ch r new_writer st = (Done w, st')" "rq_Method r = ''POST''"
    and "Decode_strings (sr_codec sr) (rq_Body r) = (None, Some m)" "status w = 200"
  shows "\<exists>t. Login (sr_store sr) (sr_bcrypt sr) (ch_rand ch) (ch_order ch) (sv_db st) (sv_cache st) (ch_now ch)
      (get_string (Some m) ''clientID'') (get_string (Some m) ''authKey'') = (Done (Inr t), sv_cache st') \<and>
    sv_db st' = sv_db st \<and> rw_body w = Encode_strings [(''bearerToken'', t), (''code'', ''200'')]"
proof -
  obtain x c where login: "Login (sr_store sr) (sr_bcrypt sr) (ch_rand ch) (ch_order ch) (sv_db st) (sv_cache st) (ch_now ch)
      (get_string (Some m) ''clientID'') (get_string (Some m) ''authKey'') = (x, c)" by fastforce
  have code: "int_dec 200 = ''200''" by code_simp
  show ?thesis
  proof (cases x)
    case (Panic p)
    with assms login show ?thesis by (simp add: loginClient_def panicking_def)
  next
    case (Done y)
    show ?thesis
    proof (cases y)
      case (Inl err)
      have "err_text err \<noteq> []"
        using login Done Inl
        by (auto simp: Login_def split: option.splits outcome.splits sum.splits prod.splits)
      with assms login Done Inl show ?thesis
        by (auto simp: loginClient_def finish_eq audit_response_error newHTTPData_def)
    next
      case (Inr t)
      with assms login Done show ?thesis
        by (auto simp: loginClient_def finish_eq newHTTPData_def audit_response_def writer_defs Let_def Encode_strings_not_Nil code)
    qed
  qed
qed

lemma Client_Login_run:
  assumes "connected lib c base (service_transport sr v profiling chances base)"
    and "Client_Login lib cd c clientID authKey (n, st) = (Done (Inr c'), ns)"
  shows "\<exists>w st' r respData. loginClient sr (chances n) r new_writer st = (Done w, st') \<and> ns = (Suc n, st') \<and>
    rq_Method r = ''POST'' \<and> rq_Body r = Encode_strings [(''clientID'', clientID), (''authKey'', authKey)] \<and>
    status w = 200 \<and> strings_body cd (rw_body w) = Inr respData \<and>
    c' = c\<lparr>cl_authToken := get_string respData ''bearerToken''\<rparr>"
proof -
  let ?body = "Encode_strings [(''clientID'', clientID), (''authKey'', authKey)]"
  from assms(2) obtain resp ns1 where
    sent: "send_request lib c ''POST'' ''/login'' False (Inr ?body) (n, st) = (Done (Inr resp), ns1)"
    and rest: "(case decode_response (strings_body cd) resp of
        Inl err \<Rightarrow> fail err
      | Inr respData \<Rightarrow>
          if rs_StatusCode resp = 200 then ret (c\<lparr>cl_authToken := get_string respData ''bearerToken''\<rparr>)
          else if rs_StatusCode resp = 401 then fail (Sentinel ErrUnauthorized)
          else fail (request_failed (get_string respData ''error'') resp)) ns1 = (Done (Inr c'), ns)"
    unfolding Client_Login_def andThen_ok by blast
  from rest obtain respData where dec: "decode_response (strings_body cd) resp = Inr respData"
    by (cases "decode_response (strings_body cd) resp") simp_all
  with rest have code: "rs_StatusCode resp = 200" "c' = c\<lparr>cl_authToken := get_string respData ''bearerToken''\<rparr>" "ns1 = ns"
    by (simp_all split: if_splits)
  note resp = sent [unfolded code(3)] dec code(1,2)
  let ?req = "\<lparr>or_Method = ''POST'', or_URL = base @ ''/login'', or_Auth = [], or_Body = ?body\<rparr>"
  from send_ok [OF assms(1) resp(1)]
  have "service_transport sr v profiling chances base ?req (n, st) = (Inr resp, ns)" by simp
  from service_ok [OF this] obtain w st' where w: "serve sr v profiling (chances n) (incoming base ?req) st = (Done w, st')"
    "ns = (Suc n, st')" "rs_StatusCode resp = status w" "rs_Body resp = Inr (rw_body w)" by blast
  have "rq_Path (incoming base ?req) = ''/login''" by simp
  with w(1) have "loginClient sr (chances n) (incoming base ?req) new_writer st = (Done w, st')"
    by (simp add: serve_def Let_def)
  moreover have "strings_body cd (rw_body w) = Inr respData"
    using resp(2) w(4) by (simp add: decode_response_def split: sum.splits)
  ultimately show ?thesis
    using w(2,3) resp(3,4)
    by (intro exI [of _ w] exI [of _ st'] exI [of _ "incoming base ?req"] exI [of _ respData]) simp
qed

section \<open>Properties\<close>

text \<open>
  C15: end to end, a client that logged in without an error gave the key of its name, and the token it now
  holds is the one the service made: until the session expires, a request with this token as its bearer
  has the credentials of exactly that name; nothing is written to the database.
\<close>

theorem client_login_session:
  assumes "connected lib c base (service_transport sr v profiling chances base)"
    and "valid_utf8 clientID" "valid_utf8 authKey" "rand_ok (ch_rand (chances n))"
    and "cache_reach ccfg (sv_cache st)" "range_order (ch_order (chances n)) (sessionMap (sv_cache st))"
    and "Client_Login lib (sr_codec sr) c clientID authKey (n, st) = (Done (Inr c'), (n1, st1))"
    and "Header_Get r ''Authorization'' = ''Bearer '' @ Client_AuthToken c'"
    and "later \<le> ch_now (chances n) + mul64 (ExpirationMinutes (sc_cfg (sv_cache st))) time_Minute"
  shows "Authenticate (sr_store sr) (sr_bcrypt sr) (sv_db st) clientID authKey = None \<and>
    (credentials sr later r (sv_cache st1) (sv_db st1) cid \<longleftrightarrow> cid = clientID) \<and> sv_db st1 = sv_db st"
proof -
  let ?m = "[(''clientID'', clientID), (''authKey'', authKey)]"
  from Client_Login_run [OF assms(1,7)] obtain w q respData where
    run: "loginClient sr (chances n) q new_writer st = (Done w, st1)" "rq_Method q = ''POST''"
      "rq_Body q = Encode_strings ?m" "status w = 200" "strings_body (sr_codec sr) (rw_body w) = Inr respData"
      "c' = c\<lparr>cl_authToken := get_string respData ''bearerToken''\<rparr>" by auto
  obtain m where m: "Decode_strings (sr_codec sr) (Encode_strings ?m) = (None, Some m)" "\<forall>k. map_of m k = map_of ?m k"
    using Decode_Encode_strings [of ?m "sr_codec sr"] assms(2,3) by auto
  have args: "get_string (Some m) ''clientID'' = clientID" "get_string (Some m) ''authKey'' = authKey"
    by (simp_all add: get_string_def m(2))
  from loginClient_run [OF run(1,2) _ run(4), of m] m(1) run(3) args obtain t where
    t: "Login (sr_store sr) (sr_bcrypt sr) (ch_rand (chances n)) (ch_order (chances n)) (sv_db st) (sv_cache st)
        (ch_now (chances n)) clientID authKey = (Done (Inr t), sv_cache st1)"
      "sv_db st1 = sv_db st" "rw_body w = Encode_strings [(''bearerToken'', t), (''code'', ''200'')]" by auto
  from Login_ok [OF t(1)] have L: "Authenticate (sr_store sr) (sr_bcrypt sr) (sv_db st) clientID authKey = None"
    "newRandomToken (ch_rand (chances n)) = Done (Inr t)"
    "SessionCache_Put (ch_order (chances n)) (sv_cache st) (ch_now (chances n)) clientID t = (None, sv_cache st1)" by auto
  note P = Put_ok [OF cache_reach_inv [OF assms(5)] assms(6) L(3)]
  from Decode_Encode_strings [of "[(''bearerToken'', t), (''code'', ''200'')]" "sr_codec sr"] token_utf8 [OF assms(4) L(2)]
  have "get_string respData ''bearerToken'' = t"
    using run(5) by (auto simp: t(3) strings_body_def get_string_def)
  then have "Header_Get r ''Authorization'' = bearerPrefix @ t"
    using assms(8) run(6) by (simp add: Client_AuthToken_def bearerPrefix_def)
  with P assms(9) have "credentials sr later r (sv_cache st1) (sv_db st1) cid \<longleftrightarrow> cid = clientID"
    by (auto simp: credentials_def HasPrefix_iff bearerPrefix_def)
  with L(1) t(2) show ?thesis by blast
qed

text \<open>The client of \<^verbatim>\<open>alice\<close>, who is registered.\<close>

definition alice_transport :: "(nat \<times> (memdb, sim) svc) transport" where
  "alice_transport = service_transport (sample_server False) sample_version (\<lambda>p r. new_writer) (\<lambda>n. sample_chance) sample_base"

definition alice_http :: "(unit, nat \<times> (memdb, sim) svc) http_lib" where
  "alice_http =
     \<lparr>hl_Parse = (\<lambda>u. Inr \<lparr>url_Scheme = ''http'', url_Host = ''localhost:4545'', url_Rest = []\<rparr>),
      hl_NewRequest = (\<lambda>m u. None), hl_Client = (\<lambda>t. alice_transport), hl_Dialer = (\<lambda>t k d. ())\<rparr>"

definition alice_client :: "(unit, nat \<times> (memdb, sim) svc) Client" where
  "alice_client =
     \<lparr>cl_cfg = Some \<lparr>httpURL = sample_base, cc_ClientID = ''alice'', cc_AuthKey = sample_key, cc_URL = sample_base\<rparr>,
      cl_httpClient = Some alice_transport, cl_dialFn = None, cl_authToken = []\<rparr>"

lemma alice_connected: "connected alice_http alice_client sample_base alice_transport"
  by (simp add: connected_def alice_http_def alice_client_def)

lemma alice_utf8: "valid_utf8 ''alice''" "valid_utf8 sample_key" "valid_utf8 zero_token"
  unfolding sample_key_def zero_token_def by code_simp+

lemma alice_logs_in:
  "\<exists>c' ns. Client_Login alice_http whole_codec alice_client ''alice'' sample_key (0, sample_svc registered_memdb) =
    (Done (Inr c'), ns)"
proof -
  let ?m = "[(''clientID'', ''alice''), (''authKey'', sample_key)]"
  let ?t = "[(''bearerToken'', zero_token), (''code'', ''200'')]"
  let ?req = "\<lparr>or_Method = ''POST'', or_URL = sample_base @ ''/login'', or_Auth = [], or_Body = Encode_strings ?m\<rparr>"
  obtain m where m: "Decode_strings whole_codec (Encode_strings ?m) = (None, Some m)" "\<forall>k. map_of m k = map_of ?m k"
    using Decode_Encode_strings [of ?m whole_codec] alice_utf8 by auto
  have args: "get_string (Some m) ''clientID'' = ''alice''" "get_string (Some m) ''authKey'' = sample_key"
    by (simp_all add: get_string_def m(2))
  obtain u where u: "Decode_strings whole_codec (Encode_strings ?t) = (None, Some u)"
    using Decode_Encode_strings [of ?t whole_codec] alice_utf8 by auto
  have code: "int_dec 200 = ''200''" by code_simp
  have "\<exists>w st'. loginClient (sample_server False) sample_chance (incoming sample_base ?req) new_writer (sample_svc registered_memdb) =
      (Done w, st') \<and> status w = 200 \<and> rw_body w = Encode_strings ?t"
    using m(1) args
    by (simp add: loginClient_def sample_Login finish_eq newHTTPData_def audit_response_def writer_defs Let_def
        Encode_strings_not_Nil code)
  then obtain w st' where w: "loginClient (sample_server False) sample_chance (incoming sample_base ?req) new_writer
      (sample_svc registered_memdb) = (Done w, st')" "status w = 200" "rw_body w = Encode_strings ?t" by blast
  have "rq_Path (incoming sample_base ?req) = ''/login''" by (rule incoming_simps) simp
  then have "serve (sample_server False) sample_version (\<lambda>p r. new_writer) sample_chance (incoming sample_base ?req)
      (sample_svc registered_memdb) = (Done w, st')"
    using w(1) by (simp add: serve_def Let_def)
  then have "send_request alice_http alice_client ''POST'' ''/login'' False (Inr (Encode_strings ?m)) (0, sample_svc registered_memdb) =
    (Done (Inr \<lparr>rs_StatusCode = 200, rs_Status = int_dec 200, rs_Body = Inr (Encode_strings ?t)\<rparr>), (1, st'))"
    unfolding send_connected [OF alice_connected] using w(2,3)
    by (simp add: wrapping_ok call_run alice_transport_def service_transport_def)
  then show ?thesis
    using u by (simp add: Client_Login_def go_eval decode_response_def strings_body_def)
qed

theorem client_login_session_witness:
  "\<exists>c' st1. Client_Login alice_http whole_codec alice_client ''alice'' sample_key (0, sample_svc registered_memdb) =
      (Done (Inr c'), (1, st1)) \<and>
    (\<forall>r. Header_Get r ''Authorization'' = ''Bearer '' @ Client_AuthToken c' \<longrightarrow>
      credentials (sample_server False) 8 r (sv_cache st1) (sv_db st1) ''alice'')"
proof -
  obtain c' n1 st1 where run: "Client_Login alice_http whole_codec alice_client ''alice'' sample_key
      (0, sample_svc registered_memdb) = (Done (Inr c'), (n1, st1))"
    using alice_logs_in by auto
  note con = alice_connected [unfolded alice_transport_def]
  from Client_Login_run [OF con run] have n1: "n1 = 1" by auto
  have "credentials (sample_server False) 8 r (sv_cache st1) (sv_db st1) ''alice'' \<longleftrightarrow> ''alice'' = ''alice''"
    if r: "Header_Get r ''Authorization'' = ''Bearer '' @ Client_AuthToken c'" for r
    by (rule client_login_session [OF con alice_utf8(1,2) _ _ _ _ r, THEN conjunct2, THEN conjunct1])
      (use run zero_read_ok sample_cache_reach sample_cache_order in
        \<open>auto simp: sample_cache_def mul64_def int64_range_def\<close>)
  with run n1 show ?thesis by blast
qed

end
