(* ===== verification/Logger.thy ===== *)
theory Logger
  imports Config Json_Text
begin

text \<open>
  The targets that \<^verbatim>\<open>logger/logger.go\<close> configures. The package \<^verbatim>\<open>mlog\<close> is a parameter: its levels, from the
  most to the least severe, a new logger, and what \<^verbatim>\<open>ConfigureTargets\<close> makes of it. Formats and options
  are the JSON texts the code passes on.
\<close>

section \<open>Targets\<close>

record TargetCfg =
  tc_Type :: string
  tc_Levels :: "string list"
  tc_Options :: string
  tc_Format :: string
  tc_FormatOptions :: string
  tc_MaxQueueSize :: int

record 'l mlog =
  ml_StdAll :: "string list"
  ml_NewLogger :: "'l res"
  ml_ConfigureTargets :: "'l \<Rightarrow> (string \<times> TargetCfg) list \<Rightarrow> 'l res"

text \<open>The levels up to the one that is named, which may be written in any case.\<close>

fun getLevels :: "string list \<Rightarrow> string \<Rightarrow> string list" where
  "getLevels [] level = []"
| "getLevels (l # ls) level = (if l = ToLower level then [l] else l # getLevels ls level)"

text \<open>\<open>in_quotes\<close> is a text between quotes, as the literals of the code have it, nothing is escaped.\<close>

definition in_quotes :: "string \<Rightarrow> string" where
  "in_quotes s = quote_char # s @ [quote_char]"

definition json_format_options :: string where
  "json_format_options = ''{'' @ in_quotes ''enable_caller'' @ '': true}''"

definition plain_format_options :: "bool \<Rightarrow> string" where
  "plain_format_options color =
     ''{'' @ in_quotes ''delim'' @ '': '' @ in_quotes '' '' @ '', '' @ in_quotes ''min_level_len'' @ '': 5, '' @
     in_quotes ''min_msg_len'' @ '': 45, '' @ in_quotes ''enable_color'' @ '': '' @ (if color then ''true'' else ''false'') @
     '', '' @ in_quotes ''enable_caller'' @ '': true}''"

definition console_options :: string where
  "console_options = ''{'' @ in_quotes ''out'' @ '': '' @ in_quotes ''stdout'' @ ''}''"

definition file_options :: "string \<Rightarrow> string" where
  "file_options location =
     ''{'' @ in_quotes ''filename'' @ '': '' @ in_quotes location @ '', '' @ in_quotes ''max_size'' @ '': 100, '' @
     in_quotes ''max_age'' @ '': 0, '' @ in_quotes ''max_backups'' @ '': 0, '' @ in_quotes ''compress'' @ '': true}''"

definition console_target :: "string list \<Rightarrow> LoggerConfig \<Rightarrow> TargetCfg" where
  "console_target levels c =
     \<lparr>tc_Type = ''console'', tc_Levels = getLevels levels (log_ConsoleLevel c), tc_Options = console_options,
      tc_Format = (if log_ConsoleJSON c then ''json'' else ''plain''),
      tc_FormatOptions = (if log_ConsoleJSON c then json_format_options else plain_format_options (log_EnableColor c)),
      tc_MaxQueueSize = 1000\<rparr>"

definition file_target :: "string list \<Rightarrow> LoggerConfig \<Rightarrow> TargetCfg" where
  "file_target levels c =
     \<lparr>tc_Type = ''file'', tc_Levels = getLevels levels (log_FileLevel c), tc_Options = file_options (log_FileLocation c),
      tc_Format = (if log_FileJSON c then ''json'' else ''plain''),
      tc_FormatOptions = (if log_FileJSON c then json_format_options else plain_format_options False),
      tc_MaxQueueSize = 1000\<rparr>"

definition logger_targets :: "string list \<Rightarrow> LoggerConfig \<Rightarrow> (string \<times> TargetCfg) list" where
  "logger_targets levels c =
     (if log_EnableConsole c then [(''_defConsole'', console_target levels c)] else []) @
     (if log_EnableFile c then [(''_defFile'', file_target levels c)] else [])"

definition logger_New :: "'l mlog \<Rightarrow> LoggerConfig \<Rightarrow> 'l res" where
  "logger_New ml c =
     (case LoggerConfig_IsValid (ml_StdAll ml) c of
        Some err \<Rightarrow> Inl err
      | None \<Rightarrow> (case ml_NewLogger ml of
          Inl err \<Rightarrow> Inl err
        | Inr l \<Rightarrow> ml_ConfigureTargets ml l (logger_targets (ml_StdAll ml) c)))"

section \<open>The options are JSON\<close>

lemma getLevels_eq:
  "getLevels ls level = takeWhile (\<lambda>l. l \<noteq> ToLower level) ls @ (if ToLower level \<in> set ls then [ToLower level] else [])"
  by (induction ls) auto

text \<open>A location that reads the same between the quotes of a JSON string.\<close>

definition plain_location :: "string \<Rightarrow> bool" where
  "plain_location s \<longleftrightarrow> (\<forall>c \<in> set s. 32 \<le> byte c \<and> byte c < 128 \<and> c \<noteq> quote_char \<and> c \<noteq> backslash)"

lemma parse_plain:
  "plain_location s \<Longrightarrow> parse_string (s @ quote_char # r) = Some (s, r)"
  by (induction s) (simp_all add: parse_string.simps plain_location_def prepend_def utf8_size_ascii)

lemma expect_here [simp]: "\<not> is_space c \<Longrightarrow> expect c (c # r) = Some r" "\<not> is_space c \<Longrightarrow> expect c (CHR '' '' # c # r) = Some r"
  by (simp_all add: expect_def skip_ws_def is_space_def)

lemma parse_member:
  assumes "plain_location k" "parse_value n r = Some (v, CHR '','' # r4)" "parse_members n r4 = Some (ms, t)"
  shows "parse_members (Suc n) (in_quotes k @ CHR '':'' # r) = Some ((k, v) # ms, t)"
    "parse_members (Suc n) (CHR '' '' # in_quotes k @ CHR '':'' # r) = Some ((k, v) # ms, t)"
  using assms by (simp_all add: in_quotes_def parse_plain is_space_def)

lemma parse_last_member:
  assumes "plain_location k" "parse_value n r = Some (v, CHR ''}'' # r4)"
  shows "parse_members (Suc n) (in_quotes k @ CHR '':'' # r) = Some ([(k, v)], r4)"
    "parse_members (Suc n) (CHR '' '' # in_quotes k @ CHR '':'' # r) = Some ([(k, v)], r4)"
  using assms by (simp_all add: in_quotes_def parse_plain is_space_def expect_def skip_ws_def)

lemma quoted_plain: "plain_location s \<Longrightarrow> parse_value (Suc n) (CHR '' '' # in_quotes s @ r) = Some (JStr s, r)"
  by (simp add: parse_value.simps skip_ws_def is_space_def in_quotes_def parse_plain)

lemma parse_numbers:
  "parse_value (Suc n) ('' 100'' @ CHR '','' # r) = Some (JNum ''100'', CHR '','' # r)"
  "parse_value (Suc n) ('' 0'' @ CHR '','' # r) = Some (JNum ''0'', CHR '','' # r)"
  "parse_value (Suc n) ('' true'' @ CHR ''}'' # r) = Some (JBool True, CHR ''}'' # r)"
  by (simp_all add: parse_value.simps skip_ws_def is_space_def scan_number_def scan_sign_def scan_int_def scan_frac_def
      scan_exp_def is_digit_def HasPrefix_iff)

text \<open>The members of the options of a file, for enough fuel.\<close>

lemma file_members:
  assumes "plain_location location"
  shows "parse_members (Suc (Suc (Suc (Suc (Suc (Suc n)))))) (tl (file_options location)) =
    Some ([(''filename'', JStr location), (''max_size'', JNum ''100''), (''max_age'', JNum ''0''),
      (''max_backups'', JNum ''0''), (''compress'', JBool True)], [])"
proof -
  have keys: "plain_location ''filename''" "plain_location ''max_size''" "plain_location ''max_age''"
    "plain_location ''max_backups''" "plain_location ''compress''"
    by (simp_all add: plain_location_def)
  have c: "parse_members (Suc (Suc n)) (CHR '' '' # in_quotes ''compress'' @ CHR '':'' # '' true}'') =
    Some ([(''compress'', JBool True)], [])"
    using parse_last_member(2) [OF keys(5), of "Suc n" "'' true}''" "JBool True" "[]"] parse_numbers(3) [of n "[]"] by simp
  have b: "parse_members (Suc (Suc (Suc n))) (CHR '' '' # in_quotes ''max_backups'' @ CHR '':'' # '' 0,'' @
      CHR '' '' # in_quotes ''compress'' @ CHR '':'' # '' true}'') =
    Some ([(''max_backups'', JNum ''0''), (''compress'', JBool True)], [])"
    by (rule parse_member(2) [OF keys(4) _ c]) (use parse_numbers(2) in simp)
  have a: "parse_members (Suc (Suc (Suc (Suc n)))) (CHR '' '' # in_quotes ''max_age'' @ CHR '':'' # '' 0,'' @
      CHR '' '' # in_quotes ''max_backups'' @ CHR '':'' # '' 0,'' @
      CHR '' '' # in_quotes ''compress'' @ CHR '':'' # '' true}'') =
    Some ([(''max_age'', JNum ''0''), (''max_backups'', JNum ''0''), (''compress'', JBool True)], [])"
    by (rule parse_member(2) [OF keys(3) _ b]) (use parse_numbers(2) in simp)
  have s: "parse_members (Suc (Suc (Suc (Suc (Suc n))))) (CHR '' '' # in_quotes ''max_size'' @ CHR '':'' # '' 100,'' @
      CHR '' '' # in_quotes ''max_age'' @ CHR '':'' # '' 0,'' @
      CHR '' '' # in_quotes ''max_backups'' @ CHR '':'' # '' 0,'' @
      CHR '' '' # in_quotes ''compress'' @ CHR '':'' # '' true}'') =
    Some ([(''max_size'', JNum ''100''), (''max_age'', JNum ''0''), (''max_backups'', JNum ''0''), (''compress'', JBool True)], [])"
    by (rule parse_member(2) [OF keys(2) _ a]) (use parse_numbers(1) in simp)
  show ?thesis
    unfolding file_options_def
    using parse_member(1) [OF keys(1) quoted_plain [OF assms] s] by simp
qed

lemma file_options_json:
  assumes "plain_location location"
  shows "json_parse (file_options location) =
    Some (JObj [(''filename'', JStr location), (''max_size'', JNum ''100''), (''max_age'', JNum ''0''),
      (''max_backups'', JNum ''0''), (''compress'', JBool True)])"
proof -
  have "6 \<le> length (file_options location)" by (simp add: file_options_def)
  then have "length (file_options location) = 6 + (length (file_options location) - 6)" by simp
  then obtain n where n: "length (file_options location) = Suc (Suc (Suc (Suc (Suc (Suc n)))))"
    using that [of "length (file_options location) - 6"] by simp
  have "\<exists>r. file_options location = CHR ''{'' # quote_char # r" by (simp add: file_options_def in_quotes_def)
  then show ?thesis
    using file_members [OF assms, of n] by (auto simp: json_parse_def n parse_value.simps skip_ws_def is_space_def)
qed

lemma getLevels_named:
  assumes "ToLower level \<in> set levels"
  shows "\<exists>before after. levels = before @ ToLower level # after \<and> ToLower level \<notin> set before \<and>
    getLevels levels level = before @ [ToLower level]"
proof -
  from split_list_first [OF assms] obtain before after where
    split: "levels = before @ ToLower level # after" "ToLower level \<notin> set before" by blast
  then have "takeWhile (\<lambda>l. l \<noteq> ToLower level) levels = before" by (auto simp: takeWhile_append)
  with split show ?thesis by (auto simp: getLevels_eq)
qed

section \<open>Properties\<close>

text \<open>
  C38: a logger that was made has a target for the console and for the file exactly if they are enabled;
  each logs the levels from the most severe down to the configured one, in whatever case that is written;
  and the options of the file are a JSON object naming the configured location, as long as the location
  needs no escaping.
\<close>

theorem logger_New_correct:
  assumes "logger_New ml c = Inr l"
  shows "\<exists>l0 targets. ml_NewLogger ml = Inr l0 \<and> ml_ConfigureTargets ml l0 targets = Inr l \<and> targets \<noteq> [] \<and>
    (case map_of targets ''_defConsole'' of
       None \<Rightarrow> \<not> log_EnableConsole c
     | Some t \<Rightarrow> log_EnableConsole c \<and> (\<exists>before after. ml_StdAll ml = before @ ToLower (log_ConsoleLevel c) # after \<and>
         tc_Levels t = before @ [ToLower (log_ConsoleLevel c)])) \<and>
    (case map_of targets ''_defFile'' of
       None \<Rightarrow> \<not> log_EnableFile c
     | Some t \<Rightarrow> log_EnableFile c \<and> (\<exists>before after. ml_StdAll ml = before @ ToLower (log_FileLevel c) # after \<and>
         tc_Levels t = before @ [ToLower (log_FileLevel c)]) \<and>
         (plain_location (log_FileLocation c) \<longrightarrow> json_parse (tc_Options t) =
           Some (JObj [(''filename'', JStr (log_FileLocation c)), (''max_size'', JNum ''100''), (''max_age'', JNum ''0''),
             (''max_backups'', JNum ''0''), (''compress'', JBool True)])))"
proof -
  from assms obtain l0 where l0: "LoggerConfig_IsValid (ml_StdAll ml) c = None" "ml_NewLogger ml = Inr l0"
    "ml_ConfigureTargets ml l0 (logger_targets (ml_StdAll ml) c) = Inr l"
    by (auto simp: logger_New_def split: option.splits sum.splits)
  have valid: "log_EnableConsole c \<or> log_EnableFile c"
    "log_EnableConsole c \<Longrightarrow> ToLower (log_ConsoleLevel c) \<in> set (ml_StdAll ml)"
    "log_EnableFile c \<Longrightarrow> ToLower (log_FileLevel c) \<in> set (ml_StdAll ml)"
    using l0(1) by (auto simp: LoggerConfig_valid)
  show ?thesis
    using l0(2,3) valid getLevels_named [OF valid(2)] getLevels_named [OF valid(3)] file_options_json [of "log_FileLocation c"]
    by (intro exI [of _ l0] exI [of _ "logger_targets (ml_StdAll ml) c"])
      (auto simp: logger_targets_def console_target_def file_target_def)
qed

text \<open>Levels, and a package that keeps the targets.\<close>

definition std_levels :: "string list" where
  "std_levels = [''panic'', ''fatal'', ''error'', ''warn'', ''info'', ''debug'', ''trace'']"

definition keeping_mlog :: "(string \<times> TargetCfg) list mlog" where
  "keeping_mlog = \<lparr>ml_StdAll = std_levels, ml_NewLogger = Inr [], ml_ConfigureTargets = (\<lambda>l ts. Inr ts)\<rparr>"

definition sample_logging :: LoggerConfig where
  "sample_logging =
     \<lparr>log_EnableConsole = False, log_ConsoleJSON = False, log_ConsoleLevel = ''INFO'', log_EnableFile = True,
      log_FileJSON = True, log_FileLevel = ''DEBUG'', log_FileLocation = ''offloader.log'', log_EnableColor = False\<rparr>"

theorem logger_New_correct_witness:
  "\<exists>l. logger_New keeping_mlog sample_logging = Inr l \<and> l \<noteq> []"
proof -
  have "LoggerConfig_IsValid std_levels sample_logging = None" by code_simp
  then have "\<exists>l. logger_New keeping_mlog sample_logging = Inr l" by (simp add: logger_New_def keeping_mlog_def)
  then obtain l where l: "logger_New keeping_mlog sample_logging = Inr l" by blast
  from logger_New_correct [OF l] l show ?thesis by (auto simp: keeping_mlog_def)
qed

text \<open>
  The location is not escaped: with a backslash, as in a path of Windows, the options need not be JSON at
  all, and with a quote the location can set other options.
\<close>

theorem file_options_unescaped:
  "json_parse (file_options [CHR ''C'', CHR '':'', backslash, CHR ''l'', CHR ''o'', CHR ''g'']) = None"
  "json_parse (file_options (''a'' @ [quote_char] @ '', '' @ in_quotes ''max_size'' @ '': 1, '' @ [quote_char] @ ''x'' @
     [quote_char] @ '': '' @ [quote_char] @ ''b'')) \<noteq> None"
  by code_simp+

end
