(* ===== verification/Service_Run.thy ===== *)
theory Service_Run
  imports Logger Jobs_Api
begin

text \<open>
  The parts put together: the HTTP server of \<^verbatim>\<open>service/api\<close>, \<^verbatim>\<open>New\<close>, \<^verbatim>\<open>Start\<close> and \<^verbatim>\<open>Stop\<close> of
  \<^verbatim>\<open>service/service.go\<close>, and \<^verbatim>\<open>main\<close> of \<^verbatim>\<open>cmd/offloader/main.go\<close>. Listening, serving and shutting down
  connections are parameters.
\<close>

section \<open>The HTTP server\<close>

record http_server =
  hs_Addr :: string
  hs_ReadTimeout :: duration
  hs_WriteTimeout :: duration
  hs_IdleTimeout :: duration
  hs_MinVersion :: string
  hs_PreferServerCipherSuites :: bool
  hs_CurvePreferences :: "string list"

record ('h, 'l) Server =
  as_cfg :: HTTPConfig
  as_srv :: http_server
  as_listener :: "'l option"
  as_mux :: "(string \<times> 'h) list"

definition NewServer :: "HTTPConfig \<Rightarrow> ('h, 'l) Server res" where
  "NewServer cfg =
     (case HTTPConfig_IsValid cfg of
        Some err \<Rightarrow> Inl err
      | None \<Rightarrow> Inr
          \<lparr>as_cfg = cfg,
           as_srv = \<lparr>hs_Addr = http_ListenAddress cfg, hs_ReadTimeout = 30 * time_Second, hs_WriteTimeout = 60 * time_Second,
             hs_IdleTimeout = 30 * time_Second, hs_MinVersion = ''VersionTLS12'', hs_PreferServerCipherSuites = True,
             hs_CurvePreferences = [''CurveP256'']\<rparr>,
           as_listener = None, as_mux = []\<rparr>)"

text \<open>\<^verbatim>\<open>ServeMux.Handle\<close> panics for an empty pattern and for one that is taken.\<close>

definition RegisterHandler :: "string \<Rightarrow> 'h \<Rightarrow> ('h, 'l) Server \<Rightarrow> ('h, 'l) Server outcome" where
  "RegisterHandler path handler s =
     (if path = [] then Panic ''http: invalid pattern''
      else if path \<in> fst ` set (as_mux s) then Panic (''http: multiple registrations for '' @ path)
      else Done (s\<lparr>as_mux := as_mux s @ [(path, handler)]\<rparr>))"

definition RegisterHandleFunc :: "string \<Rightarrow> 'h \<Rightarrow> ('h, 'l) Server \<Rightarrow> ('h, 'l) Server outcome" where
  "RegisterHandleFunc path hf s = RegisterHandler path hf s"

text \<open>
  \<open>net_Serve\<close> is what the goroutine that serves has returned when a second is over: \<open>None\<close> if it is still
  serving, otherwise its error.
\<close>

datatype serving = ServePlain | ServeTLS string string

record ('n, 'l) net_lib =
  net_Listen :: "string \<Rightarrow> 'n \<Rightarrow> 'l res \<times> 'n"
  net_Addr :: "'l \<Rightarrow> string"
  net_Serve :: "serving \<Rightarrow> 'l \<Rightarrow> 'n \<Rightarrow> goerr option option \<times> 'n"
  net_Shutdown :: "duration \<Rightarrow> 'n \<Rightarrow> goerr option \<times> 'n"

abbreviation http_ErrServerClosed :: goerr where
  "http_ErrServerClosed \<equiv> Foreign ''http.ErrServerClosed'' ''http: Server closed''"

definition serving_mode :: "HTTPConfig \<Rightarrow> serving" where
  "serving_mode cfg =
     (if tls_Enable (http_TLS cfg) \<and> tls_CertFile (http_TLS cfg) \<noteq> [] \<and> tls_CertKey (http_TLS cfg) \<noteq> []
      then ServeTLS (tls_CertFile (http_TLS cfg)) (tls_CertKey (http_TLS cfg)) else ServePlain)"

definition Server_Start ::
  "('n, 'l) net_lib \<Rightarrow> ('h, 'l) Server \<Rightarrow> 'n \<Rightarrow> (goerr option \<times> ('h, 'l) Server) \<times> 'n" where
  "Server_Start net s n =
     (case net_Listen net (http_ListenAddress (as_cfg s)) n of
        (Inl err, n1) \<Rightarrow> ((Some (Wrapf ''failed to listen: '' err), s), n1)
      | (Inr l, n1) \<Rightarrow> (case net_Serve net (serving_mode (as_cfg s)) l n1 of
          (r, n2) \<Rightarrow>
            ((case r of
                Some (Some err) \<Rightarrow> if err \<noteq> http_ErrServerClosed then Some err else None
              | _ \<Rightarrow> None,
              s\<lparr>as_listener := Some l\<rparr>), n2)))"

definition Server_Stop :: "('n, 'l) net_lib \<Rightarrow> 'n \<Rightarrow> goerr option \<times> 'n" where
  "Server_Stop net n =
     (case net_Shutdown net (10 * time_Second) n of
        (Some err, n') \<Rightarrow> (Some (Wrapf ''failed to shutdown server: '' err), n')
      | (None, n') \<Rightarrow> (None, n'))"

definition Server_Addr :: "('n, 'l) net_lib \<Rightarrow> ('h, 'l) Server \<Rightarrow> string" where
  "Server_Addr net s = (case as_listener s of None \<Rightarrow> [] | Some l \<Rightarrow> net_Addr net l)"

section \<open>The service\<close>

type_synonym router = "string \<Rightarrow> string \<Rightarrow> route"

record ('d, 'w, 'rr, 'g, 'l) Service =
  s_cfg :: "'rr Config"
  s_log :: 'g
  s_store :: "'d store_ops"
  s_db :: 'd
  s_cache :: SessionCache
  s_apiServer :: "(router, 'l) Server"
  s_jobService :: "('w, 'rr) job_impl"

text \<open>What a service is made with: the packages it opens its parts from.\<close>

record ('d, 'w, 'rr, 'g) parts =
  pt_mlog :: "'g mlog"
  pt_open :: "string \<Rightarrow> nat \<Rightarrow> nat \<Rightarrow> 'd res"
  pt_bitcask :: "'d bitcask"
  pt_env :: environ
  pt_docker :: "'w docker_client"
  pt_k8s :: "('w, 'rr) k8s_client"

text \<open>An error of a part, with its message, ends \<^verbatim>\<open>New\<close>.\<close>

definition or_fail :: "string \<Rightarrow> 'a res \<Rightarrow> ('w, 'a) proc" where
  "or_fail msg r = (case r of Inl err \<Rightarrow> fail (Wrapf msg err) | Inr x \<Rightarrow> ret x)"

definition Service_New ::
  "('d, 'w, 'rr, 'g) parts \<Rightarrow> 'rr Config \<Rightarrow> ('w, ('d, 'w, 'rr, 'g, 'l) Service) proc" where
  "Service_New pt cfg =
     (case Config_IsValid (ml_StdAll (pt_mlog pt)) cfg of
        Some err \<Rightarrow> fail err
      | None \<Rightarrow>
          andThen (or_fail ''failed to init logger: '' (logger_New (pt_mlog pt) (cf_Logger cfg))) (\<lambda>log.
          andThen (or_fail ''failed to create store: ''
            (store_New (pt_open pt) (pt_bitcask pt) (store_DataSource (cf_Store cfg)))) (\<lambda>(store, db).
          andThen (or_fail ''failed to create session cache: ''
            (NewSessionCache (sec_SessionCache (api_Security (cf_API cfg))))) (\<lambda>cache.
          andThen (or_fail ''failed to create auth service: '' (NewService (Some (store, db)) (Some cache))) (\<lambda>_.
          andThen (or_fail ''failed to create api server: '' (NewServer (api_HTTP (cf_API cfg)))) (\<lambda>srv.
          andThen (wrapping ''failed to create job service: ''
            (NewJobService (pt_env pt) (pt_docker pt) (pt_k8s pt) (cf_Jobs cfg))) (\<lambda>jobs.
          andThen (pure (RegisterHandler ''/'' route srv)) (\<lambda>srv'.
          ret \<lparr>s_cfg = cfg, s_log = log, s_store = store, s_db = db, s_cache = cache, s_apiServer = srv',
               s_jobService = jobs\<rparr>))))))))"

definition Service_Start ::
  "('n, 'l) net_lib \<Rightarrow> ('d, 'w, 'rr, 'g, 'l) Service \<Rightarrow> 'n \<Rightarrow> (goerr option \<times> ('d, 'w, 'rr, 'g, 'l) Service) \<times> 'n" where
  "Service_Start net s n =
     (case Server_Start net (s_apiServer s) n of
        ((Some err, srv), n') \<Rightarrow> ((Some (Wrapf ''failed to start api server: '' err), s\<lparr>s_apiServer := srv\<rparr>), n')
      | ((None, srv), n') \<Rightarrow> ((None, s\<lparr>s_apiServer := srv\<rparr>), n'))"

text \<open>
  The state of what \<^verbatim>\<open>Stop\<close> shuts down; \<open>close_log\<close> is \<^verbatim>\<open>mlog.Logger.Shutdown\<close>. \<open>None\<close>: the job service never
  returns from its shutdown.
\<close>

record ('d, 'w, 'n, 'g) running =
  rn_jobs :: 'w
  rn_net :: 'n
  rn_db :: 'd
  rn_log :: 'g

definition Service_Stop ::
  "'w job_service \<Rightarrow> ('n, 'l) net_lib \<Rightarrow> 'd store_ops \<Rightarrow> ('g \<Rightarrow> goerr option \<times> 'g) \<Rightarrow> ('d, 'w, 'n, 'g) running \<Rightarrow>
   (goerr option) option \<times> ('d, 'w, 'n, 'g) running" where
  "Service_Stop J net S close_log st =
     (case js_Shutdown J (rn_jobs st) of
        (None, u) \<Rightarrow> (None, st\<lparr>rn_jobs := u\<rparr>)
      | (Some (Some err), u) \<Rightarrow> (Some (Some (Wrapf ''failed to shutdown job service: '' err)), st\<lparr>rn_jobs := u\<rparr>)
      | (Some None, u) \<Rightarrow> (case Server_Stop net (rn_net st) of
          (Some err, n) \<Rightarrow> (Some (Some (Wrapf ''failed to stop api server: '' err)), st\<lparr>rn_jobs := u, rn_net := n\<rparr>)
        | (None, n) \<Rightarrow> (case st_Close S (rn_db st) of
            (Some err, d) \<Rightarrow>
              (Some (Some (Wrapf ''failed to close store: '' err)), st\<lparr>rn_jobs := u, rn_net := n, rn_db := d\<rparr>)
          | (None, d) \<Rightarrow> (case close_log (rn_log st) of
              (Some err, g) \<Rightarrow>
                (Some (Some (Wrapf ''failed to shutdown logger: '' err)),
                 \<lparr>rn_jobs = u, rn_net = n, rn_db = d, rn_log = g\<rparr>)
            | (None, g) \<Rightarrow> (Some None, \<lparr>rn_jobs = u, rn_net = n, rn_db = d, rn_log = g\<rparr>)))))"

section \<open>The command\<close>

text \<open>
  How \<^verbatim>\<open>main\<close> ends: \<^verbatim>\<open>log.Fatalf\<close> with a message, a panic, never, or by returning. \<open>loaded\<close> is the result of
  \<^verbatim>\<open>loadConfig\<close>, \<open>served\<close> what becomes of the state until the signal arrives.
\<close>

datatype exit = Fatalf string | Panicked string | Hung | Returned

definition offloader_main ::
  "('d, 'w, 'rr, 'g) parts \<Rightarrow> ('n, 'l) net_lib \<Rightarrow> (('w, 'rr) job_impl \<Rightarrow> 'w job_service) \<Rightarrow> ('g \<Rightarrow> goerr option \<times> 'g) \<Rightarrow>
   (('d, 'w, 'n, 'g) running \<Rightarrow> ('d, 'w, 'n, 'g) running) \<Rightarrow> 'rr Config \<times> goerr option \<Rightarrow> 'w \<Rightarrow> 'n \<Rightarrow> exit" where
  "offloader_main pt net jobs close_log served loaded w n =
     (case loaded of
        (cfg, Some err) \<Rightarrow> Fatalf (''calls-offloader: failed to load config: '' @ err_text err)
      | (cfg, None) \<Rightarrow> (case Config_IsValid (ml_StdAll (pt_mlog pt)) cfg of
          Some err \<Rightarrow> Fatalf (''calls-offloader: failed to validate config: '' @ err_text err)
        | None \<Rightarrow> (case Service_New pt cfg w of
            (Panic p, w1) \<Rightarrow> Panicked p
          | (Done (Inl err), w1) \<Rightarrow> Fatalf (''calls-offloader: failed to create service: '' @ err_text err)
          | (Done (Inr s), w1) \<Rightarrow> (case Service_Start net s n of
              ((Some err, s'), n1) \<Rightarrow> Fatalf (''calls-offloader: failed to start service: '' @ err_text err)
            | ((None, s'), n1) \<Rightarrow>
                (case Service_Stop (jobs (s_jobService s')) net (s_store s') close_log
                    (served \<lparr>rn_jobs = w1, rn_net = n1, rn_db = s_db s', rn_log = s_log s'\<rparr>) of
                   (None, st) \<Rightarrow> Hung
                 | (Some (Some err), st) \<Rightarrow> Fatalf (''calls-offloader: failed to stop service: '' @ err_text err)
                 | (Some None, st) \<Rightarrow> Returned)))))"

section \<open>What the parts guarantee together\<close>

lemma NewJobService_registry:
  assumes "NewJobService env dc kc cfg w = (Done (Inr impl), w')"
  shows "impl_registry impl = jobs_ImageRegistry cfg"
  using assms
  by (auto simp: NewJobService_def Docker_NewJobService_def K8s_NewJobService_def impl_registry_def go_run
      split: if_splits option.splits)

lemma NewJobService_no_panic: "NewJobService env dc kc cfg w \<noteq> (Panic p, w')"
  by (auto simp: NewJobService_def Docker_NewJobService_def K8s_NewJobService_def go_run Let_def
      split: if_splits option.splits)

lemma or_fail_ok [go_run]: "or_fail msg r w = (Done (Inr x), w') \<longleftrightarrow> r = Inr x \<and> w' = w"
  by (auto simp: or_fail_def split: sum.splits)

lemma or_fail_panic [go_run, simp]: "or_fail msg r w \<noteq> (Panic p, w')"
  by (auto simp: or_fail_def split: sum.splits)

lemma pure_ok: "pure r w = (Done (Inr x), w') \<longleftrightarrow> r = Done x \<and> w' = w"
  by (auto simp: pure_def split: outcome.splits)

lemma NewServer_ok:
  assumes "NewServer cfg = Inr s"
  shows "as_cfg s = cfg \<and> as_mux s = [] \<and> as_listener s = None \<and> HTTPConfig_IsValid cfg = None"
  using assms by (auto simp: NewServer_def split: option.splits)

lemma serving_valid:
  assumes "HTTPConfig_IsValid cfg = None"
  shows "serving_mode cfg = (if tls_Enable (http_TLS cfg)
    then ServeTLS (tls_CertFile (http_TLS cfg)) (tls_CertKey (http_TLS cfg)) else ServePlain)"
  using assms by (auto simp: HTTPConfig_IsValid_def TLSConfig_valid serving_mode_def split: if_splits option.splits)

section \<open>Properties\<close>

text \<open>
  C19: a service that was made has a valid configuration and the parts the handlers count on: a store over
  the database that was opened, an empty session cache, a job service that keeps the contract of job
  services for the configured registry, and a server whose one handler is the router; the server will
  use TLS exactly if the configuration enables it, never plain text instead.
\<close>

theorem Service_New_correct:
  assumes "bitcask_db (pt_bitcask pt) ct" "Service_New pt cfg w = (Done (Inr s), w')"
  shows "Config_IsValid (ml_StdAll (pt_mlog pt)) cfg = None \<and> s_cfg s = cfg \<and>
    pt_open pt (store_DataSource (cf_Store cfg)) 448 384 = Inr (s_db s) \<and> kv_store (s_store s) ct \<and>
    cache_reach (sec_SessionCache (api_Security (cf_API cfg))) (s_cache s) \<and> sessionMap (s_cache s) = Map.empty \<and>
    (\<forall>h kh order pending. job_provider (jobs_of h kh order pending (s_jobService s)) (h_job h)
      (jobs_ImageRegistry (cf_Jobs cfg))) \<and>
    as_mux (s_apiServer s) = [(''/'', route)] \<and>
    serving_mode (as_cfg (s_apiServer s)) = (let tls = http_TLS (api_HTTP (cf_API cfg))
      in if tls_Enable tls then ServeTLS (tls_CertFile tls) (tls_CertKey tls) else ServePlain)"
proof -
  have valid: "Config_IsValid (ml_StdAll (pt_mlog pt)) cfg = None"
    using assms(2) by (auto simp: Service_New_def split: option.splits)
  with assms(2) obtain log store db cache srv jobs srv' where
    P: "store_New (pt_open pt) (pt_bitcask pt) (store_DataSource (cf_Store cfg)) = Inr (store, db)"
      "NewSessionCache (sec_SessionCache (api_Security (cf_API cfg))) = Inr cache"
      "NewServer (api_HTTP (cf_API cfg)) = Inr srv" "RegisterHandler ''/'' route srv = Done srv'"
      "\<exists>w1 w2. NewJobService (pt_env pt) (pt_docker pt) (pt_k8s pt) (cf_Jobs cfg) w1 = (Done (Inr jobs), w2)"
      "s = \<lparr>s_cfg = cfg, s_log = log, s_store = store, s_db = db, s_cache = cache, s_apiServer = srv',
        s_jobService = jobs\<rparr>"
    unfolding Service_New_def by (auto simp only: option.case andThen_ok or_fail_ok wrapping_ok pure_ok ret_run split: prod.splits) blast
  have "pt_open pt (store_DataSource (cf_Store cfg)) 448 384 = Inr db" "store = bitcaskStore (pt_bitcask pt)"
    using P(1) by (auto simp: store_New_def newBitcaskStore_def split: sum.splits)
  moreover have "kv_store (bitcaskStore (pt_bitcask pt)) ct"
    by (rule bitcask_db.bitcaskStore_kv_store [OF assms(1)])
  moreover have "cache_reach (sec_SessionCache (api_Security (cf_API cfg))) cache" "sessionMap cache = Map.empty"
    using P(2) cache_reach.new [OF P(2)] by (auto simp: NewSessionCache_def split: option.splits)
  moreover have "job_provider (jobs_of h kh order pending jobs) (h_job h) (jobs_ImageRegistry (cf_Jobs cfg))" for h kh order pending
    using jobs_of_provider [of h kh order pending jobs] NewJobService_registry P(5) by metis
  moreover have "as_cfg srv' = api_HTTP (cf_API cfg)" "as_mux srv' = [(''/'', route)]"
    "HTTPConfig_IsValid (api_HTTP (cf_API cfg)) = None"
    using NewServer_ok [OF P(3)] P(4) by (auto simp: RegisterHandler_def)
  ultimately show ?thesis
    using valid P(6) serving_valid by (auto simp: Let_def)
qed

text \<open>The default configuration, over the engine of the Docker properties and a database in memory.\<close>

definition sample_parts :: "(sim, unit) k8s_client \<Rightarrow> (memdb, sim, unit, (string \<times> TargetCfg) list) parts" where
  "sample_parts kc =
     \<lparr>pt_mlog = keeping_mlog, pt_open = (\<lambda>path dm fm. Inr empty_memdb), pt_bitcask = mem_bitcask, pt_env = test_env,
      pt_docker = sim_client, pt_k8s = kc\<rparr>"

lemma sample_Service_New:
  "\<exists>s w'. (Service_New (sample_parts kc) (SetDefaults zero_Config) sample_sim ::
      (((memdb, sim, unit, (string \<times> TargetCfg) list, nat) Service) res) outcome \<times> sim) = (Done (Inr s), w')"
proof -
  let ?cfg = "SetDefaults zero_Config :: unit Config"
  have valid: "Config_IsValid std_levels ?cfg = None"
    by (rule default_Config_valid) (simp add: std_levels_def)
  then have "LoggerConfig_IsValid std_levels (cf_Logger ?cfg) = None" "JobsConfig_IsValid (cf_Jobs ?cfg) = None"
    "APIConfig_IsValid (cf_API ?cfg) = None"
    by (auto simp: Config_IsValid_def split: option.splits)
  moreover from this(3) have "HTTPConfig_IsValid (api_HTTP (cf_API ?cfg)) = None"
    by (auto simp: APIConfig_IsValid_def split: option.splits)
  moreover have "NewSessionCache (sec_SessionCache (api_Security (cf_API ?cfg))) =
      Inr \<lparr>sc_cfg = \<lparr>ExpirationMinutes = 1440\<rparr>, sessionMap = Map.empty\<rparr>"
    by (simp add: SetDefaults_def API_SetDefaults_def NewSessionCache_def SessionCacheConfig_IsValid_def)
  moreover obtain js w' where "NewJobService test_env sim_client kc (cf_Jobs ?cfg) sample_sim = (Done (Inr js), w')"
    using sample_NewJobService [of kc] by (auto simp: sample_JobsConfig_def)
  ultimately show ?thesis
    using valid
    by (simp add: Service_New_def sample_parts_def keeping_mlog_def logger_New_def or_fail_def andThen_def ret_def
        store_New_def newBitcaskStore_def NewService_def NewServer_def wrapping_def pure_def RegisterHandler_def)
qed

theorem Service_New_correct_witness:
  "\<forall>kc. \<exists>s :: (memdb, sim, unit, (string \<times> TargetCfg) list, nat) Service. \<exists>w'.
    Service_New (sample_parts kc) (SetDefaults zero_Config) sample_sim = (Done (Inr s), w') \<and>
    serving_mode (as_cfg (s_apiServer s)) = ServePlain"
proof
  fix kc
  obtain s :: "(memdb, sim, unit, (string \<times> TargetCfg) list, nat) Service" and w' where
    s: "Service_New (sample_parts kc) (SetDefaults zero_Config) sample_sim = (Done (Inr s), w')"
    using sample_Service_New by blast
  have "bitcask_db (pt_bitcask (sample_parts kc)) md_map" by (simp add: sample_parts_def mem_bitcask_db)
  from Service_New_correct [OF this s] s
  show "\<exists>s :: (memdb, sim, unit, (string \<times> TargetCfg) list, nat) Service. \<exists>w'.
    Service_New (sample_parts kc) (SetDefaults zero_Config) sample_sim = (Done (Inr s), w') \<and>
    serving_mode (as_cfg (s_apiServer s)) = ServePlain"
    by (auto simp: SetDefaults_def API_SetDefaults_def zero_Config_def Let_def)
qed


text \<open>The command ends normally only if everything went well: nothing is served with an invalid configuration.\<close>

lemma main_returns:
  fixes net :: "('n, 'l) net_lib" and pt :: "('d, 'w, 'rr, 'g) parts"
  assumes "offloader_main pt net jobs close_log served (cfg, e) w n = Returned"
  shows "e = None \<and> Config_IsValid (ml_StdAll (pt_mlog pt)) cfg = None \<and>
    (\<exists>(s :: ('d, 'w, 'rr, 'g, 'l) Service) w1 l n1. Service_New pt cfg w = (Done (Inr s), w1) \<and>
      net_Listen net (http_ListenAddress (as_cfg (s_apiServer s))) n = (Inr l, n1))"
proof (cases e)
  case None
  show ?thesis
  proof (cases "Config_IsValid (ml_StdAll (pt_mlog pt)) cfg")
    case valid: None
    show ?thesis
    proof (cases "Service_New pt cfg w :: (('d, 'w, 'rr, 'g, 'l) Service res) outcome \<times> 'w")
      case (Pair r w1)
      consider (panic) p where "r = Panic p" | (error) err where "r = Done (Inl err)" | (made) s where "r = Done (Inr s)"
        by (metis outcome.exhaust sum.exhaust_sel)
      then show ?thesis
      proof cases
        case (made s)
        obtain x n1 where "net_Listen net (http_ListenAddress (as_cfg (s_apiServer s))) n = (x, n1)" by fastforce
        with assms None valid Pair made show ?thesis
          by (cases x) (auto simp: offloader_main_def Service_Start_def Server_Start_def)
      qed (use assms None valid Pair in \<open>simp_all add: offloader_main_def\<close>)
    qed
  qed (use assms None in \<open>simp add: offloader_main_def\<close>)
qed (use assms in \<open>simp add: offloader_main_def\<close>)

lemma retentionJob_stops: "fst (retentionJob h s (pending @ [StopCh]) w)"
proof (induction pending arbitrary: w)
  case (Cons ev evs)
  then show ?case by (cases ev) simp_all
qed simp

lemma Docker_Shutdown_returns: "fst (Docker_Shutdown h s started pending w) \<noteq> None"
  using retentionJob_stops [of h s pending w] by (auto simp: Docker_Shutdown_def split: prod.splits)


end
